(* ===== verification/Go_Prelude.thy ===== *)
theory Go_Prelude
  imports Main "HOL-Library.AList" "HOL-Library.Multiset"
begin

text \<open>
  What every component theory shares: the outcome of a Go call, the state-passing combinators
  the operations are written with, Go's string functions as far as the client uses them, and
  the generic lemmas on association lists.

  A Go function that may touch the world has the type \<open>('w, 'a) go\<close>: it takes the world and
  gives an outcome and the new world. The outcome is a value, a panic (a nil dereference, an
  index out of range, a failed type assertion, a closed channel closed again) or \<open>Hang\<close>, a
  goroutine that waits for an input which never comes. A Go \<open>error\<close> is the text that its
  \<open>Error()\<close> method returns; a Go result \<open>(T, error)\<close> is \<open>error + T\<close>, and a lone \<open>error\<close>
  result is \<open>error option\<close>, with \<open>None\<close> for nil.
\<close>

section \<open>Outcomes and the state-passing combinators\<close>

type_synonym error = string

datatype 'a outcome = Ret 'a | Panic string | Hang

type_synonym ('w, 'a) go = "'w \<Rightarrow> 'a outcome \<times> 'w"

named_theorems go_monad
named_theorems go_returns
named_theorems go_string

definition ret :: "'a \<Rightarrow> ('w, 'a) go" where
  "ret a = (\<lambda>w. (Ret a, w))"

definition panic :: "string \<Rightarrow> ('w, 'a) go" where
  "panic msg = (\<lambda>w. (Panic msg, w))"

definition hang :: "('w, 'a) go" where
  "hang = (\<lambda>w. (Hang, w))"

text \<open>\<open>m ;; f\<close> of the literature: run \<open>m\<close>, give its value to \<open>f\<close>; a panic or a hang ends it.\<close>

definition bindg :: "('w, 'a) go \<Rightarrow> ('a \<Rightarrow> ('w, 'b) go) \<Rightarrow> ('w, 'b) go" where
  "bindg m f = (\<lambda>w. case m w of
      (Ret a, w') \<Rightarrow> f a w'
    | (Panic msg, w') \<Rightarrow> (Panic msg, w')
    | (Hang, w') \<Rightarrow> (Hang, w'))"

text \<open>Read a value, run a pure update, call a function of the world that always returns.\<close>

definition getg :: "('w \<Rightarrow> 'a) \<Rightarrow> ('w, 'a) go" where
  "getg g = (\<lambda>w. (Ret (g w), w))"

definition putg :: "('w \<Rightarrow> 'w) \<Rightarrow> ('w, unit) go" where
  "putg u = (\<lambda>w. (Ret (), u w))"

definition callg :: "('w \<Rightarrow> 'a \<times> 'w) \<Rightarrow> ('w, 'a) go" where
  "callg f = (\<lambda>w. case f w of (a, w') \<Rightarrow> (Ret a, w'))"

text \<open>
  Go's \<open>defer d()\<close> around a body: \<open>d\<close> runs when the body has returned or panicked, and sees the
  value the body returns; it does not run while the body hangs.
\<close>

definition deferg :: "('a \<Rightarrow> 'w \<Rightarrow> 'w) \<Rightarrow> ('w \<Rightarrow> 'w) \<Rightarrow> ('w, 'a) go \<Rightarrow> ('w, 'a) go" where
  "deferg d dp m = (\<lambda>w. case m w of
      (Ret a, w') \<Rightarrow> (Ret a, d a w')
    | (Panic msg, w') \<Rightarrow> (Panic msg, dp w')
    | (Hang, w') \<Rightarrow> (Hang, w'))"

text \<open>A range loop over a slice whose body may end the function early (\<open>Some\<close> result).\<close>

fun foreachg :: "'i list \<Rightarrow> ('i \<Rightarrow> ('w, 'r option) go) \<Rightarrow> ('w, 'r option) go" where
  "foreachg [] body = ret None"
| "foreachg (x # xs) body =
     bindg (body x) (\<lambda>r. case r of None \<Rightarrow> foreachg xs body | Some v \<Rightarrow> ret (Some v))"

lemma bindg_ret [simp]: "bindg (ret a) f = f a"
  by (simp add: bindg_def ret_def)

lemma bindg_assoc [simp]: "bindg (bindg m f) g = bindg m (\<lambda>a. bindg (f a) g)"
  by (auto simp: bindg_def split: outcome.splits prod.splits)

lemma bindg_panic [simp]: "bindg (panic s) f = panic s"
  by (simp add: bindg_def panic_def)

lemma bindg_hang [simp]: "bindg hang f = hang"
  by (simp add: bindg_def hang_def)

lemma ret_apply [go_monad]: "ret a w = (Ret a, w)"
  by (simp add: ret_def)

lemma panic_apply [go_monad]: "panic s w = (Panic s, w)"
  by (simp add: panic_def)

lemma hang_apply [go_monad]: "hang w = (Hang, w)"
  by (simp add: hang_def)

lemma bindg_get [go_monad]: "bindg (getg g) f w = f (g w) w"
  by (simp add: bindg_def getg_def)

lemma bindg_put [go_monad]: "bindg (putg u) f w = f () (u w)"
  by (simp add: bindg_def putg_def)

lemma bindg_call [go_monad]: "bindg (callg h) f w = f (fst (h w)) (snd (h w))"
  by (simp add: bindg_def callg_def split: prod.splits)

lemma getg_apply [go_monad]: "getg g w = (Ret (g w), w)"
  by (simp add: getg_def)

lemma putg_apply [go_monad]: "putg u w = (Ret (), u w)"
  by (simp add: putg_def)

lemma callg_apply [go_monad]: "callg h w = (Ret (fst (h w)), snd (h w))"
  by (simp add: callg_def split: prod.splits)

text \<open>The only way a sequence returns: its first part returned, and then its second.\<close>

lemma bindg_Ret:
  "bindg m f w = (Ret b, w'') \<longleftrightarrow>
     (\<exists>a w'. m w = (Ret a, w') \<and> f a w' = (Ret b, w''))"
  by (auto simp: bindg_def split: outcome.splits prod.splits)

text \<open>A test that a call has returned, for runs on concrete worlds.\<close>

lemma returned: "(case fst x of Ret _ \<Rightarrow> True | _ \<Rightarrow> False) \<Longrightarrow> \<exists>a w. x = (Ret a, w)"
  by (cases x; cases "fst x") auto

text \<open>How each construct returns: with these an equation about a return opens into its steps.\<close>

lemma case_sum_Ret [go_returns]:
  "case_sum f g x s = (Ret b, s') \<longleftrightarrow>
     (\<exists>e. x = Inl e \<and> f e s = (Ret b, s')) \<or> (\<exists>a. x = Inr a \<and> g a s = (Ret b, s'))"
  by (cases x) auto

lemma case_option_Ret [go_returns]:
  "case_option f g x s = (Ret b, s') \<longleftrightarrow>
     x = None \<and> f s = (Ret b, s') \<or> (\<exists>a. x = Some a \<and> g a s = (Ret b, s'))"
  by (cases x) auto

lemma case_prod_Ret [go_returns]:
  "case_prod f x s = (Ret b, s') \<longleftrightarrow> (\<exists>u v. x = (u, v) \<and> f u v s = (Ret b, s'))"
  by (cases x) auto

lemma if_Ret [go_returns]:
  "(if c then f else g) s = (Ret b, s') \<longleftrightarrow>
     c \<and> f s = (Ret b, s') \<or> \<not> c \<and> g s = (Ret b, s')"
  by auto

lemma base_Ret [go_returns]:
  "ret a s = (Ret b, s') \<longleftrightarrow> a = b \<and> s = s'"
  "panic e s = (Ret b, s') \<longleftrightarrow> False"
  "hang s = (Ret b, s') \<longleftrightarrow> False"
  by (simp_all add: ret_apply panic_apply hang_apply)

lemma bind_Ret [go_returns]:
  "bindg (getg h) f s = (Ret b, s') \<longleftrightarrow> f (h s) s = (Ret b, s')"
  "bindg (putg u) f1 s = (Ret b, s') \<longleftrightarrow> f1 () (u s) = (Ret b, s')"
  "bindg (callg k) f2 s = (Ret b, s') \<longleftrightarrow> f2 (fst (k s)) (snd (k s)) = (Ret b, s')"
  by (simp_all add: go_monad)

lemma deferg_Ret [go_returns]:
  "deferg d dp m s = (Ret b, s') \<longleftrightarrow> (\<exists>v. m s = (Ret b, v) \<and> s' = d b v)"
  by (auto simp: deferg_def split: prod.splits outcome.splits)

lemma bindg_step: "m w = (Ret a, w') \<Longrightarrow> bindg m f w = f a w'"
  by (simp add: bindg_def)

lemma bindg_step_Panic: "m w = (Panic s, w') \<Longrightarrow> bindg m f w = (Panic s, w')"
  by (simp add: bindg_def)

lemma foreachg_append:
  "foreachg (xs @ ys) body =
     bindg (foreachg xs body) (\<lambda>r. case r of None \<Rightarrow> foreachg ys body | Some v \<Rightarrow> ret (Some v))"
proof (induction xs)
  case Nil
  show ?case by simp
next
  case (Cons x xs)
  have "\<And>r. (case r of None \<Rightarrow> foreachg (xs @ ys) body | Some v \<Rightarrow> ret (Some v)) =
      bindg (case r of None \<Rightarrow> foreachg xs body | Some v \<Rightarrow> ret (Some v))
        (\<lambda>r. case r of None \<Rightarrow> foreachg ys body | Some v \<Rightarrow> ret (Some v))"
    using Cons.IH by (simp split: option.split)
  then have "(\<lambda>r. case r of None \<Rightarrow> foreachg (xs @ ys) body | Some v \<Rightarrow> ret (Some v)) =
      (\<lambda>r. bindg (case r of None \<Rightarrow> foreachg xs body | Some v \<Rightarrow> ret (Some v))
        (\<lambda>r. case r of None \<Rightarrow> foreachg ys body | Some v \<Rightarrow> ret (Some v)))"
    by (rule ext)
  then show ?case by simp
qed

text \<open>An invariant of the world that the body keeps is kept by the loop, however it ends.\<close>

lemma foreachg_inv:
  assumes "\<And>x w. x \<in> set xs \<Longrightarrow> I w \<Longrightarrow> I (snd (body x w))" and "I w"
  shows "I (snd (foreachg xs body w))"
  using assms
proof (induction xs arbitrary: w)
  case Nil
  then show ?case by (simp add: ret_apply)
next
  case (Cons x xs)
  then have step: "I (snd (body x w))" by simp
  have rest: "\<And>w. I w \<Longrightarrow> I (snd (foreachg xs body w))"
    using Cons by simp
  show ?case
  proof (cases "body x w")
    case (Pair r w')
    then show ?thesis
      using step rest [of w'] by (auto simp: bindg_def ret_def split: outcome.splits option.splits)
  qed
qed

section \<open>Invariants of a call\<close>

text \<open>
  \<open>keeps I m\<close>: the call \<open>m\<close> keeps \<open>I\<close>, whether it returns, panics or hangs. The rules of the
  collection \<open>go_keeps\<close> follow the structure of a program text.
\<close>

named_theorems go_keeps

definition keeps :: "('w \<Rightarrow> bool) \<Rightarrow> ('w, 'a) go \<Rightarrow> bool" where
  "keeps I m = (\<forall>w. I w \<longrightarrow> I (snd (m w)))"

lemma keepsD: "keeps I m \<Longrightarrow> I w \<Longrightarrow> m w = (r, w') \<Longrightarrow> I w'"
  by (metis keeps_def snd_conv)

lemma keeps_ret [go_keeps]: "keeps I (ret a)"
  and keeps_panic [go_keeps]: "keeps I (panic s)"
  and keeps_hang [go_keeps]: "keeps I hang"
  and keeps_get [go_keeps]: "keeps I (getg g)"
  by (simp_all add: keeps_def ret_def panic_def hang_def getg_def)

lemma keeps_put [go_keeps]: "(\<And>w. I w \<Longrightarrow> I (u w)) \<Longrightarrow> keeps I (putg u)"
  by (simp add: keeps_def putg_def)

lemma keeps_call [go_keeps]: "(\<And>w. I w \<Longrightarrow> I (snd (f w))) \<Longrightarrow> keeps I (callg f)"
  by (simp add: keeps_def callg_def case_prod_beta)

lemma keeps_bind [go_keeps]:
  assumes "keeps I m" "\<And>a. keeps I (f a)"
  shows "keeps I (bindg m f)"
  unfolding keeps_def
proof (intro allI impI)
  fix w assume "I w"
  obtain r w' where m: "m w = (r, w')" by (cases "m w")
  have "I w'" by (rule keepsD [OF assms(1) \<open>I w\<close> m])
  then show "I (snd (bindg m f w))"
    using assms(2) by (cases r) (auto simp: bindg_def m keeps_def)
qed

lemma keeps_defer [go_keeps]:
  assumes "keeps I m" "\<And>a w. I w \<Longrightarrow> I (d a w)" "\<And>w. I w \<Longrightarrow> I (dp w)"
  shows "keeps I (deferg d dp m)"
  unfolding keeps_def
proof (intro allI impI)
  fix w assume "I w"
  obtain r w' where m: "m w = (r, w')" by (cases "m w")
  have "I w'" by (rule keepsD [OF assms(1) \<open>I w\<close> m])
  then show "I (snd (deferg d dp m w))"
    using assms(2,3) by (cases r) (auto simp: deferg_def m)
qed

lemma keeps_if [go_keeps]:
  "(b \<Longrightarrow> keeps I m) \<Longrightarrow> (\<not> b \<Longrightarrow> keeps I m') \<Longrightarrow> keeps I (if b then m else m')"
  by simp

lemma keeps_option [go_keeps]:
  "(x = None \<Longrightarrow> keeps I m) \<Longrightarrow> (\<And>a. x = Some a \<Longrightarrow> keeps I (f a)) \<Longrightarrow>
     keeps I (case x of None \<Rightarrow> m | Some a \<Rightarrow> f a)"
  by (cases x) auto

lemma keeps_sum [go_keeps]:
  "(\<And>a. x = Inl a \<Longrightarrow> keeps I (f a)) \<Longrightarrow> (\<And>b. x = Inr b \<Longrightarrow> keeps I (g b)) \<Longrightarrow>
     keeps I (case x of Inl a \<Rightarrow> f a | Inr b \<Rightarrow> g b)"
  by (cases x) auto

lemma keeps_prod [go_keeps]:
  "(\<And>a b. x = (a, b) \<Longrightarrow> keeps I (f a b)) \<Longrightarrow> keeps I (case x of (a, b) \<Rightarrow> f a b)"
  by (cases x) auto

lemma keeps_conj: "keeps I m \<Longrightarrow> keeps J m \<Longrightarrow> keeps (\<lambda>w. I w \<and> J w) m"
  by (simp add: keeps_def)

section \<open>A part of the state\<close>

text \<open>An operation on the second part of a pair of states.\<close>

definition on_snd :: "('w, 'a) go \<Rightarrow> ('s \<times> 'w, 'a) go" where
  "on_snd m = (\<lambda>(s, w). case m w of (r, w') \<Rightarrow> (r, (s, w')))"

lemma on_snd_bind [go_monad]:
  "bindg (on_snd (callg h)) f (s, w) = f (fst (h w)) (s, snd (h w))"
  by (simp add: bindg_def on_snd_def callg_def split: prod.splits)

lemma on_snd_put [go_monad]: "on_snd (putg u) (s, w) = (Ret (), (s, u w))"
  by (simp add: on_snd_def putg_def)

lemma on_snd_Ret: "m w = (Ret a, w') \<Longrightarrow> bindg (on_snd m) f (s, w) = f a (s, w')"
  and on_snd_Panic: "m w = (Panic e, w') \<Longrightarrow> bindg (on_snd m) f (s, w) = (Panic e, (s, w'))"
  by (simp_all add: bindg_def on_snd_def)

lemma on_snd_bind_apply:
  "bindg (on_snd m) f (s, w) = (case m w of (Ret a, w') \<Rightarrow> f a (s, w')
     | (Panic p, w') \<Rightarrow> (Panic p, (s, w')) | (Hang, w') \<Rightarrow> (Hang, (s, w')))"
  by (simp add: bindg_def on_snd_def split: prod.split outcome.split)

lemma keeps_on_snd: "(\<And>t s s'. I (t, s) \<Longrightarrow> I (t, s')) \<Longrightarrow> keeps I (on_snd m)"
  by (auto simp: keeps_def on_snd_def split: prod.split)

section \<open>Strings\<close>

text \<open>
  A Go string is its bytes, one \<open>char\<close> each. \<open>strings.ToLower\<close> and \<open>strings.TrimSpace\<close> are
  written for the ASCII letters and blanks.
\<close>

definition HasPrefix :: "string \<Rightarrow> string \<Rightarrow> bool" where
  "HasPrefix s p = (take (length p) s = p)"

definition TrimPrefix :: "string \<Rightarrow> string \<Rightarrow> string" where
  "TrimPrefix s p = (if HasPrefix s p then drop (length p) s else s)"

fun Contains :: "string \<Rightarrow> string \<Rightarrow> bool" where
  "Contains [] sub = (sub = [])"
| "Contains (c # s) sub = (HasPrefix (c # s) sub \<or> Contains s sub)"

definition TrimLeft :: "string \<Rightarrow> string \<Rightarrow> string" where
  "TrimLeft s cutset = dropWhile (\<lambda>c. c \<in> set cutset) s"

definition TrimRight :: "string \<Rightarrow> string \<Rightarrow> string" where
  "TrimRight s cutset = rev (dropWhile (\<lambda>c. c \<in> set cutset) (rev s))"

definition is_blank :: "char \<Rightarrow> bool" where
  "is_blank c = (c = CHR '' '' \<or> (9 \<le> (of_char c :: nat) \<and> (of_char c :: nat) \<le> 13))"

definition TrimSpace :: "string \<Rightarrow> string" where
  "TrimSpace s = rev (dropWhile is_blank (rev (dropWhile is_blank s)))"

definition to_lower_char :: "char \<Rightarrow> char" where
  "to_lower_char c = (if 65 \<le> (of_char c :: nat) \<and> (of_char c :: nat) \<le> 90
     then char_of (of_char c + (32::nat)) else c)"

definition ToLower :: "string \<Rightarrow> string" where
  "ToLower s = map to_lower_char s"

text \<open>\<open>strings.Split(s, string(sep))[0]\<close>: the part before the first separator, never absent.\<close>

definition Split_head :: "char \<Rightarrow> string \<Rightarrow> string" where
  "Split_head sep s = takeWhile (\<lambda>c. c \<noteq> sep) s"

lemma HasPrefix_append [simp]: "HasPrefix (p @ s) p"
  by (simp add: HasPrefix_def)

lemma HasPrefix_iff: "HasPrefix s p \<longleftrightarrow> (\<exists>t. s = p @ t)"
  by (metis HasPrefix_def append_eq_conv_conj append_take_drop_id)

lemma TrimPrefix_append [simp]: "TrimPrefix (p @ s) p = s"
  by (simp add: TrimPrefix_def)

lemma Contains_iff: "Contains s sub \<longleftrightarrow> (\<exists>a b. s = a @ sub @ b)"
proof (induction s)
  case Nil
  show ?case by auto
next
  case (Cons c s)
  show ?case
    by (auto simp: Cons.IH HasPrefix_iff append_eq_Cons_conv Cons_eq_append_conv)
qed

section \<open>Association lists as Go maps\<close>

text \<open>
  A Go map is an association list with at most one entry for a key: \<open>map_of m k\<close> reads,
  \<open>AList.update k v m\<close> stores, \<open>AList.delete k m\<close> deletes. The order of a range over a Go map
  is not specified; where the source ranges over one, the model takes the order as an argument
  \<open>ord\<close>, a function that permutes the entries, and the theorems hold for each such function.
\<close>

definition map_order :: "('a list \<Rightarrow> 'a list) \<Rightarrow> bool" where
  "map_order ord = (\<forall>xs. mset (ord xs) = mset xs)"

lemma map_order_set: "map_order ord \<Longrightarrow> set (ord xs) = set xs"
  by (metis map_order_def set_mset_mset)

lemma map_order_distinct: "map_order ord \<Longrightarrow> distinct xs \<Longrightarrow> distinct (ord xs)"
  by (metis map_order_def distinct_count_atmost_1 set_mset_mset)

section \<open>Searching a list\<close>

text \<open>The last element that satisfies a predicate: the one whose update wins in a loop.\<close>

fun last_match :: "('a \<Rightarrow> bool) \<Rightarrow> 'a list \<Rightarrow> 'a option" where
  "last_match P [] = None"
| "last_match P (x # xs) =
     (case last_match P xs of Some y \<Rightarrow> Some y | None \<Rightarrow> if P x then Some x else None)"

lemma last_match_None: "last_match P xs = None \<longleftrightarrow> (\<forall>x \<in> set xs. \<not> P x)"
  by (induction xs) (auto split: option.splits)

lemma last_match_Some: "last_match P xs = Some x \<Longrightarrow> x \<in> set xs \<and> P x"
  by (induction xs) (auto split: option.splits if_splits)

lemma map_order_id: "map_order (\<lambda>xs. xs)"
  by (simp add: map_order_def)

lemma map_order_rev: "map_order rev"
  by (simp add: map_order_def)

end
