(* ===== verification/Go_Strconv.thy ===== *)
theory Go_Strconv
  imports Go_Prelude "HOL-Library.Word"
begin

text \<open>
  The parts of Go's standard library whose exact results the client's own behaviour depends on:
  \<open>strconv.FormatInt\<close> and \<open>strconv.ParseInt\<close> in base 10 for 64-bit values (the key and config
  timestamps travel as decimal strings), and \<open>fmt.Errorf\<close> called with a format string and no
  operands, which is how the node API turns a server's message into an error.

  The interface \<open>timestamp_codec\<close> is what the claims reader and the user API rely on; it is
  interpreted on the two conversions below.
\<close>

type_synonym int64 = "64 word"
type_synonym uint64 = "64 word"
type_synonym int32 = "32 word"

section \<open>Decimal digits\<close>

definition digit_char :: "nat \<Rightarrow> char" where
  "digit_char d = char_of (48 + d)"

definition is_digit :: "char \<Rightarrow> bool" where
  "is_digit c = (48 \<le> (of_char c :: nat) \<and> (of_char c :: nat) \<le> 57)"

definition digit_val :: "char \<Rightarrow> nat" where
  "digit_val c = of_char c - 48"

fun nat_digits :: "nat \<Rightarrow> string" where
  "nat_digits n = (if n < 10 then [digit_char n]
     else nat_digits (n div 10) @ [digit_char (n mod 10)])"

declare nat_digits.simps [simp del]

lemma of_char_digit [simp]: "d < 10 \<Longrightarrow> (of_char (digit_char d) :: nat) = 48 + d"
  by (simp add: digit_char_def)

lemma is_digit_digit_char [simp]: "d < 10 \<Longrightarrow> is_digit (digit_char d)"
  by (simp add: is_digit_def)

lemma digit_val_digit_char [simp]: "d < 10 \<Longrightarrow> digit_val (digit_char d) = d"
  by (simp add: digit_val_def)

lemma nat_digits_nonempty [simp]: "nat_digits n \<noteq> []"
  by (subst nat_digits.simps) simp

lemma nat_digits_all_digits: "c \<in> set (nat_digits n) \<Longrightarrow> is_digit c"
proof (induction n rule: nat_digits.induct)
  case (1 n)
  then show ?case
    by (subst (asm) nat_digits.simps) (auto split: if_splits)
qed

section \<open>FormatInt and ParseInt\<close>

definition FormatInt :: "int64 \<Rightarrow> string" where
  "FormatInt i = (if sint i < 0 then CHR ''-'' # nat_digits (nat (- sint i))
     else nat_digits (nat (sint i)))"

datatype num_error = ErrSyntax | ErrRange

text \<open>
  The loop of \<open>ParseUint\<close> for base 10 and 64 bits: a character that is no digit is a syntax
  error, a value that would pass \<open>2 ^ 64 - 1\<close> a range error, whichever comes first.
\<close>

fun ParseUint_loop :: "nat \<Rightarrow> string \<Rightarrow> num_error + nat" where
  "ParseUint_loop n [] = Inr n"
| "ParseUint_loop n (c # s) =
     (if \<not> is_digit c then Inl ErrSyntax
      else if (2 ^ 64 - 1) div 10 + 1 \<le> n then Inl ErrRange
      else if 2 ^ 64 \<le> n * 10 + digit_val c then Inl ErrRange
      else ParseUint_loop (n * 10 + digit_val c) s)"

definition ParseUint :: "string \<Rightarrow> num_error + nat" where
  "ParseUint s = (if s = [] then Inl ErrSyntax else ParseUint_loop 0 s)"

definition ParseInt :: "string \<Rightarrow> num_error + int64" where
  "ParseInt s0 =
     (if s0 = [] then Inl ErrSyntax
      else let neg = (hd s0 = CHR ''-'');
               s = (if hd s0 = CHR ''+'' \<or> neg then tl s0 else s0)
        in case ParseUint s of
          Inl e \<Rightarrow> Inl e
        | Inr un \<Rightarrow>
            if \<not> neg \<and> 2 ^ 63 \<le> un then Inl ErrRange
            else if neg \<and> 2 ^ 63 < un then Inl ErrRange
            else Inr (if neg then - of_nat un else of_nat un))"

text \<open>The decimal value of a string of digits, the specification of the parser's loop.\<close>

definition dec_value :: "nat \<Rightarrow> string \<Rightarrow> nat" where
  "dec_value n s = foldl (\<lambda>a c. a * 10 + digit_val c) n s"

lemma dec_value_Nil [simp]: "dec_value n [] = n"
  by (simp add: dec_value_def)

lemma dec_value_Cons [simp]: "dec_value n (c # s) = dec_value (n * 10 + digit_val c) s"
  by (simp add: dec_value_def)

lemma dec_value_append: "dec_value n (s @ t) = dec_value (dec_value n s) t"
  by (simp add: dec_value_def)

lemma dec_value_ge: "n \<le> dec_value n s"
proof (induction s arbitrary: n)
  case Nil
  show ?case by simp
next
  case (Cons c s)
  have "n \<le> n * 10 + digit_val c" by simp
  also have "\<dots> \<le> dec_value (n * 10 + digit_val c) s" by (rule Cons.IH)
  finally show ?case by simp
qed

lemma dec_value_nat_digits: "dec_value 0 (nat_digits n) = n"
proof (induction n rule: nat_digits.induct)
  case (1 n)
  show ?case
  proof (cases "n < 10")
    case True
    then show ?thesis by (subst nat_digits.simps) simp
  next
    case False
    with "1.IH" have "dec_value 0 (nat_digits (n div 10)) = n div 10" by simp
    with False show ?thesis
      by (subst nat_digits.simps) (simp add: dec_value_append)
  qed
qed

lemma ParseUint_loop_value:
  "\<lbrakk>\<forall>c \<in> set s. is_digit c; dec_value n s < 2 ^ 64\<rbrakk> \<Longrightarrow> ParseUint_loop n s = Inr (dec_value n s)"
proof (induction s arbitrary: n)
  case Nil
  show ?case by simp
next
  case (Cons c s)
  have "n * 10 + digit_val c < 2 ^ 64"
    using dec_value_ge [of "n * 10 + digit_val c" s] Cons.prems(2) by simp
  moreover from this have "n < (2 ^ 64 - 1) div 10 + 1" by simp
  ultimately show ?case using Cons by simp
qed

lemma ParseUint_loop_Inr:
  "ParseUint_loop n s = Inr m \<Longrightarrow> m = dec_value n s \<and> (\<forall>c \<in> set s. is_digit c)"
  by (induction s arbitrary: n) (auto split: if_splits)

lemma ParseUint_nat_digits: "n < 2 ^ 64 \<Longrightarrow> ParseUint (nat_digits n) = Inr n"
  using ParseUint_loop_value [of "nat_digits n" 0]
  by (simp add: ParseUint_def dec_value_nat_digits nat_digits_all_digits)

lemma digit_not_sign: "is_digit c \<Longrightarrow> c \<noteq> CHR ''-'' \<and> c \<noteq> CHR ''+''"
  by (auto simp: is_digit_def)

lemma hd_nat_digits_not_sign:
  "hd (nat_digits n) \<noteq> CHR ''-'' \<and> hd (nat_digits n) \<noteq> CHR ''+''"
  by (rule digit_not_sign) (simp add: nat_digits_all_digits [of _ n])

lemma sint64_range: "- (2 ^ 63) \<le> sint (i :: int64) \<and> sint i < 2 ^ 63"
  using sint_greater_eq [of i] sint_less [of i] by simp

lemma sint_of_int64:
  assumes "- (2 ^ 63) \<le> i" and "i < 2 ^ 63"
  shows "sint (word_of_int i :: int64) = i"
proof -
  have "signed_take_bit 63 i = i" using assms by (intro signed_take_bit_int_eq_self)
  then show ?thesis by (simp only: signed_of_int) simp
qed

lemma ParseInt_FormatInt: "ParseInt (FormatInt i) = Inr i"
proof (cases "sint i < 0")
  case True
  let ?n = "nat (- sint i)"
  have le: "?n \<le> 2 ^ 63" using sint64_range [of i] by (simp add: nat_le_iff)
  then have "ParseUint (nat_digits ?n) = Inr ?n" by (simp add: ParseUint_nat_digits)
  moreover have "- of_nat ?n = i" using True by (simp add: of_nat_nat)
  ultimately show ?thesis using True le
    by (simp add: ParseInt_def FormatInt_def Let_def)
next
  case False
  let ?n = "nat (sint i)"
  have lt: "?n < 2 ^ 63" using sint64_range [of i] False by (simp add: nat_less_iff)
  then have "ParseUint (nat_digits ?n) = Inr ?n" by (simp add: ParseUint_nat_digits)
  moreover have "of_nat ?n = i" using False by (simp add: of_nat_nat)
  ultimately show ?thesis using False lt hd_nat_digits_not_sign [of ?n]
    by (simp add: ParseInt_def FormatInt_def Let_def)
qed

text \<open>A parsed value is the decimal value of the digits, with no wrap-around.\<close>

lemma ParseInt_value:
  assumes "ParseInt s = Inr i"
  shows "sint i = (if hd s = CHR ''-'' then - int (dec_value 0 (tl s))
    else int (dec_value 0 (if hd s = CHR ''+'' then tl s else s)))"
proof -
  have bits: "sint (of_nat n :: int64) = int n" if "n < 2 ^ 63" for n
    using that by (simp add: signed_of_nat signed_take_bit_int_eq_self)
  have nbits: "sint (- of_nat n :: int64) = - int n" if "n \<le> 2 ^ 63" for n
  proof -
    have eq: "(- of_nat n :: int64) = of_int (- int n)" by simp
    have "signed_take_bit 63 (- int n) = - int n"
      using that by (intro signed_take_bit_int_eq_self) auto
    then show ?thesis by (simp only: eq signed_of_int) simp
  qed
  show ?thesis
    using assms bits nbits
    by (auto simp: ParseInt_def ParseUint_def Let_def
        split: if_splits sum.splits dest!: ParseUint_loop_Inr)
qed

text \<open>
  Which texts are read: an optional sign and at least one digit, of a number that fits. All others
  give an error.
\<close>

definition sign_free :: "string \<Rightarrow> string" where
  "sign_free s = (if s \<noteq> [] \<and> (hd s = CHR ''+'' \<or> hd s = CHR ''-'') then tl s else s)"

definition text_value :: "string \<Rightarrow> int" where
  "text_value s = (if s \<noteq> [] \<and> hd s = CHR ''-'' then - int (dec_value 0 (sign_free s))
     else int (dec_value 0 (sign_free s)))"

definition int64_text :: "string \<Rightarrow> bool" where
  "int64_text s = (sign_free s \<noteq> [] \<and> (\<forall>c \<in> set (sign_free s). is_digit c) \<and>
     - (2 ^ 63) \<le> text_value s \<and> text_value s < 2 ^ 63)"

lemma ParseUint_cases:
  "(\<exists>e. ParseUint s = Inl e) \<or> ParseUint s = Inr (dec_value 0 s) \<and> s \<noteq> [] \<and> (\<forall>c \<in> set s. is_digit c)"
  using ParseUint_loop_Inr [of 0 s] by (cases "ParseUint_loop 0 s") (auto simp: ParseUint_def)

lemma ParseUint_text:
  "s \<noteq> [] \<Longrightarrow> \<forall>c \<in> set s. is_digit c \<Longrightarrow> dec_value 0 s < 2 ^ 64 \<Longrightarrow> ParseUint s = Inr (dec_value 0 s)"
  by (simp add: ParseUint_def ParseUint_loop_value)

lemma ParseInt_text:
  "if int64_text s then ParseInt s = Inr (word_of_int (text_value s)) else \<exists>e. ParseInt s = Inl e"
proof (cases "int64_text s")
  case True
  then have "s \<noteq> []" by (auto simp: int64_text_def sign_free_def)
  moreover have "ParseUint (sign_free s) = Inr (dec_value 0 (sign_free s))"
    using True by (intro ParseUint_text) (auto simp: int64_text_def text_value_def split: if_splits)
  ultimately show ?thesis
    using True by (auto simp: ParseInt_def Let_def int64_text_def text_value_def sign_free_def split: if_splits)
next
  case False
  show ?thesis
  proof (cases "s = []")
    case False
    then show ?thesis
      using \<open>\<not> int64_text s\<close> ParseUint_cases [of "sign_free s"]
      by (auto simp: ParseInt_def Let_def int64_text_def text_value_def sign_free_def split: if_splits)
  qed (use False in \<open>simp add: ParseInt_def\<close>)
qed

section \<open>The interface of the timestamp conversions\<close>

text \<open>
  What a client of the two conversions may rely on: reading back what was written gives the
  value, so writing is injective, and a value that cannot be read was never written.
\<close>

locale timestamp_codec =
  fixes fmt :: "int64 \<Rightarrow> string"
    and parse :: "string \<Rightarrow> num_error + int64"
  assumes parse_fmt: "parse (fmt i) = Inr i"
begin

lemma fmt_inject: "fmt i = fmt j \<longleftrightarrow> i = j"
  by (metis parse_fmt sum.inject(2))

lemma unreadable_not_written: "parse s = Inl e \<Longrightarrow> s \<noteq> fmt i"
  using parse_fmt by fastforce

end

interpretation decimal: timestamp_codec FormatInt ParseInt
  by unfold_locales (rule ParseInt_FormatInt)

end
