(* ===== verification/Go_Fmt.thy ===== *)
theory Go_Fmt
  imports Go_Prelude
begin

text \<open>
  \<open>fmt.Errorf(format)\<close> with no operands, as the node API calls it on the message of an error
  response. The model follows the directive loop of Go's \<open>doPrintf\<close> with an empty operand list:
  flags, an argument index, a width, a precision and a verb are read, and what is printed for
  the directive is a complaint, since there is nothing to print. Verbs of more than one byte
  are read as their first byte.
\<close>

section \<open>The scanner's pieces\<close>

definition is_flag :: "char \<Rightarrow> bool" where
  "is_flag c = (c \<in> set ''#0+- '')"

definition fmt_digit :: "char \<Rightarrow> bool" where
  "fmt_digit c = (48 \<le> (of_char c :: nat) \<and> (of_char c :: nat) \<le> 57)"

text \<open>\<open>parsenum\<close>: is there a number, and what is left; a number beyond 1e6 eats the rest.\<close>

fun parsenum_loop :: "nat \<Rightarrow> bool \<Rightarrow> string \<Rightarrow> bool \<times> string" where
  "parsenum_loop num isnum [] = (isnum, [])"
| "parsenum_loop num isnum (c # s) =
     (if fmt_digit c then
        (if 1000000 < num then (False, [])
         else parsenum_loop (num * 10 + (of_char c - 48)) True s)
      else (isnum, c # s))"

definition parsenum :: "string \<Rightarrow> bool \<times> string" where
  "parsenum s = parsenum_loop 0 False s"

text \<open>
  \<open>argNumber\<close> at a string: was an index \<open>[n]\<close> read, is it still a good one, what is left. With
  no operands every index is bad.
\<close>

definition argNumber :: "string \<Rightarrow> bool \<times> bool \<times> string" where
  "argNumber s =
     (if s = [] \<or> hd s \<noteq> CHR ''['' then (False, True, s)
      else if length s < 3 then (False, False, tl s)
      else let inner = takeWhile (\<lambda>c. c \<noteq> CHR '']'') (tl s);
               rest = dropWhile (\<lambda>c. c \<noteq> CHR '']'') (tl s)
        in if rest = [] then (False, False, tl s)
           else (case parsenum inner of (ok, left) \<Rightarrow> (ok \<and> left = [], False, tl rest)))"

text \<open>
  The width and the precision: what is printed for a star without an operand, was the last item
  an index, is the operand number still good, what is left.
\<close>

definition read_width :: "bool \<Rightarrow> bool \<Rightarrow> string \<Rightarrow> string \<times> bool \<times> bool \<times> string" where
  "read_width after good s =
     (if s \<noteq> [] \<and> hd s = CHR ''*'' then (''%!(BADWIDTH)'', False, good, tl s)
      else ([], after, good \<and> \<not> (after \<and> fst (parsenum s)), snd (parsenum s)))"

definition read_precision :: "bool \<Rightarrow> bool \<Rightarrow> string \<Rightarrow> string \<times> bool \<times> bool \<times> string" where
  "read_precision after good s =
     (if s \<noteq> [] \<and> hd s = CHR ''.'' then
        (case argNumber (tl s) of (after', good', r) \<Rightarrow>
           let g = good \<and> \<not> after \<and> good'
           in if r \<noteq> [] \<and> hd r = CHR ''*'' then (''%!(BADPREC)'', False, g, tl r)
              else ([], after', g, snd (parsenum r)))
      else ([], after, good, s))"

definition read_late_index :: "bool \<Rightarrow> bool \<Rightarrow> string \<Rightarrow> bool \<times> string" where
  "read_late_index after good s =
     (if after then (good, s)
      else case argNumber s of (_, good', r) \<Rightarrow> (good \<and> good', r))"

definition report_verb :: "bool \<Rightarrow> string \<Rightarrow> string \<times> string" where
  "report_verb good s =
     (if s = [] then (''%!(NOVERB)'', [])
      else if hd s = CHR ''%'' then (''%'', tl s)
      else if \<not> good then (''%!'' @ [hd s] @ ''(BADINDEX)'', tl s)
      else (''%!'' @ [hd s] @ ''(MISSING)'', tl s))"

text \<open>One directive after its percent sign: what it prints and the rest of the format.\<close>

definition directive :: "string \<Rightarrow> string \<times> string" where
  "directive s0 =
     (case argNumber (dropWhile is_flag s0) of (after1, good1, s1) \<Rightarrow>
      case read_width after1 good1 s1 of (out_w, after2, good2, s2) \<Rightarrow>
      case read_precision after2 good2 s2 of (out_p, after3, good3, s3) \<Rightarrow>
      case read_late_index after3 good3 s3 of (good4, s4) \<Rightarrow>
      case report_verb good4 s4 of (out_v, s5) \<Rightarrow> (out_w @ out_p @ out_v, s5))"

text \<open>The rest of the format is never longer: the directive loop ends.\<close>

lemma parsenum_loop_length: "length (snd (parsenum_loop n b s)) \<le> length s"
  by (induction s arbitrary: n b) (auto simp: le_Suc_eq)

lemma parsenum_length: "length (snd (parsenum s)) \<le> length s"
  by (simp add: parsenum_def parsenum_loop_length)

lemma argNumber_length: "length (snd (snd (argNumber s))) \<le> length s"
proof -
  have "length (tl (dropWhile P (tl s))) \<le> length s" for P :: "char \<Rightarrow> bool"
    using length_dropWhile_le [of P "tl s"] by simp
  then show ?thesis by (auto simp: argNumber_def Let_def split: prod.splits)
qed

lemma read_width_length: "length (snd (snd (snd (read_width a g s)))) \<le> length s"
  by (simp add: read_width_def parsenum_length)

lemma read_precision_length: "length (snd (snd (snd (read_precision a g s)))) \<le> length s"
proof -
  obtain a' g' r where r: "argNumber (tl s) = (a', g', r)" by (cases "argNumber (tl s)")
  have "length r \<le> length s" using argNumber_length [of "tl s"] r by simp
  moreover from this have "length (snd (parsenum r)) \<le> length s"
    using parsenum_length [of r] by simp
  ultimately show ?thesis by (auto simp: read_precision_def r Let_def)
qed

lemma read_late_index_length: "length (snd (read_late_index a g s)) \<le> length s"
  using argNumber_length [of s] by (auto simp: read_late_index_def split: prod.split)

lemma report_verb_length: "length (snd (report_verb g s)) \<le> length s"
  by (simp add: report_verb_def)

lemma directive_length: "length (snd (directive s)) \<le> length s"
proof -
  obtain a1 g1 s1 where 1: "argNumber (dropWhile is_flag s) = (a1, g1, s1)"
    by (cases "argNumber (dropWhile is_flag s)")
  obtain w a2 g2 s2 where 2: "read_width a1 g1 s1 = (w, a2, g2, s2)"
    by (cases "read_width a1 g1 s1")
  obtain p a3 g3 s3 where 3: "read_precision a2 g2 s2 = (p, a3, g3, s3)"
    by (cases "read_precision a2 g2 s2")
  obtain g4 s4 where 4: "read_late_index a3 g3 s3 = (g4, s4)"
    by (cases "read_late_index a3 g3 s3")
  have "length s1 \<le> length s"
    using argNumber_length [of "dropWhile is_flag s"] 1 length_dropWhile_le [of is_flag s] by simp
  moreover have "length s2 \<le> length s1" using read_width_length [of a1 g1 s1] 2 by simp
  moreover have "length s3 \<le> length s2" using read_precision_length [of a2 g2 s2] 3 by simp
  moreover have "length s4 \<le> length s3" using read_late_index_length [of a3 g3 s3] 4 by simp
  moreover have "length (snd (report_verb g4 s4)) \<le> length s4" by (rule report_verb_length)
  ultimately have "length (snd (report_verb g4 s4)) \<le> length s" by linarith
  then show ?thesis by (auto simp: directive_def 1 2 3 4 split: prod.split)
qed

lemmas directive_defs = directive_def argNumber_def read_width_def read_precision_def
  read_late_index_def report_verb_def parsenum_def is_flag_def fmt_digit_def

section \<open>Errorf without operands\<close>

function Errorf :: "string \<Rightarrow> error" where
  "Errorf [] = []"
| "Errorf (c # s) =
     (if c = CHR ''%'' then fst (directive s) @ Errorf (snd (directive s))
      else c # Errorf s)"
  by pat_completeness auto
termination
  by (relation "measure length") (auto simp: directive_length le_imp_less_Suc)

text \<open>A message without a percent sign is kept as it is.\<close>

lemma Errorf_plain: "CHR ''%'' \<notin> set s \<Longrightarrow> Errorf s = s"
  by (induction s) auto

lemma Errorf_plain_append: "CHR ''%'' \<notin> set s \<Longrightarrow> Errorf (s @ t) = s @ Errorf t"
  by (induction s) auto

text \<open>A percent sign is not: the text after it is read as a directive.\<close>

lemma Errorf_percent_end: "Errorf ''quota at 100%'' = ''quota at 100%!(NOVERB)''"
  by (simp add: directive_defs Let_def)

lemma Errorf_percent_word: "Errorf ''50% used'' = ''50%!u(MISSING)sed''"
  by (simp add: directive_defs Let_def)

end
