(* ===== verification/Graphql.thy ===== *)
theory Graphql
  imports Go_Strconv
begin

text \<open>
  Package \<open>api\<close>: the service configuration, the GraphQL client with the token it was built with,
  and the requests the cloud API packages hand to it. The GraphQL library itself, which renders a
  request, sends it and decodes the response, is not part of the repository: it is the argument of
  type \<open>gql_exec\<close> of every operation that calls it.
\<close>

section \<open>Service configuration\<close>

record ServiceConfig =
  sc_Region :: string
  sc_UserPoolID :: string
  sc_CliendID :: string
  sc_ClientSecret :: string
  sc_AuthURL :: string
  sc_TokenURL :: string
  sc_ApiURL :: string

section \<open>The client and its transport\<close>

text \<open>
  A value of Go's \<open>interface{}\<close>, as far as a type assertion to \<open>string\<close> looks at it; the nil
  interface and a value of another type both fail the assertion, which panics.
\<close>

datatype iface = NilIface | StringIface string | OtherIface

fun assert_string :: "iface \<Rightarrow> ('w, string) go" where
  "assert_string (StringIface s) = ret s"
| "assert_string NilIface = panic ''interface conversion: interface {} is nil, not string''"
| "assert_string OtherIface = panic ''interface conversion: interface {} is not string''"

text \<open>
  The transport settings the client relies on, in milliseconds; \<open>0\<close> stands for Go's "no limit".
  The shared default transport is the argument of the constructors.
\<close>

record transport =
  tr_DisableKeepAlives :: bool
  tr_MaxIdleConnsPerHost :: int
  tr_TLSHandshakeTimeout :: int
  tr_DialTimeout :: int

record graphql_client =
  gc_url :: string
  gc_idToken :: string
  gc_transport :: transport
  gc_Timeout :: int

text \<open>
  \<open>GetToken().Extra(k)\<close> is an argument: no token (a nil pointer, whose use panics) or the values
  of the token's extra fields.
\<close>

type_synonym 'w token_source = "'w \<Rightarrow> (string \<Rightarrow> iface) option"

definition id_token :: "'w token_source \<Rightarrow> ('w, string) go" where
  "id_token GetToken = bindg (getg GetToken) (\<lambda>tok. case tok of
      None \<Rightarrow> panic ''invalid memory address or nil pointer dereference''
    | Some extra \<Rightarrow> assert_string (extra ''id_token''))"

definition NewGraphQLClient ::
  "transport \<Rightarrow> 'w token_source \<Rightarrow> string \<Rightarrow> string \<Rightarrow> ('w, graphql_client) go" where
  "NewGraphQLClient DefaultTransport GetToken apiUrl subUrl =
     bindg (id_token GetToken) (\<lambda>tok.
       ret \<lparr>gc_url = apiUrl, gc_idToken = tok, gc_transport = DefaultTransport, gc_Timeout = 0\<rparr>)"

definition NewGraphQLClientNoPool ::
  "transport \<Rightarrow> 'w token_source \<Rightarrow> string \<Rightarrow> string \<Rightarrow> ('w, graphql_client) go" where
  "NewGraphQLClientNoPool DefaultTransport GetToken apiUrl subUrl =
     (let tr = DefaultTransport\<lparr>tr_DisableKeepAlives := True, tr_MaxIdleConnsPerHost := - 1,
                 tr_TLSHandshakeTimeout := 1000, tr_DialTimeout := 1000\<rparr>
      in bindg (id_token GetToken) (\<lambda>tok.
           ret \<lparr>gc_url = apiUrl, gc_idToken = tok, gc_transport = tr, gc_Timeout = 5000\<rparr>))"

text \<open>
  HTTP headers: the values of a key in the order they were added. All keys here are in canonical
  form already. \<open>RoundTrip\<close> adds the client's headers to the request and passes it to the inner
  transport, given as an argument.
\<close>

type_synonym headers = "(string \<times> string list) list"

definition header_Add :: "string \<Rightarrow> string \<Rightarrow> headers \<Rightarrow> headers" where
  "header_Add k v h =
     AList.update k ((case map_of h k of None \<Rightarrow> [] | Some vs \<Rightarrow> vs) @ [v]) h"

definition RoundTrip ::
  "(headers \<Rightarrow> 'w \<Rightarrow> 'resp \<times> 'w) \<Rightarrow> graphql_client \<Rightarrow> headers \<Rightarrow> 'w \<Rightarrow> 'resp \<times> 'w" where
  "RoundTrip inner c h =
     inner (header_Add ''Authorization'' (gc_idToken c)
       (header_Add ''Accept'' ''*/*''
         (header_Add ''Content-Type'' ''application/json''
           (header_Add ''Connection'' ''keep-alive'' h))))"

lemma map_of_header_Add:
  "map_of (header_Add k v h) k' =
     (if k' = k then Some ((case map_of h k of None \<Rightarrow> [] | Some vs \<Rightarrow> vs) @ [v]) else map_of h k')"
  by (simp add: header_Add_def update_conv')

section \<open>Requests\<close>

text \<open>
  The variables of a request: GraphQL scalars of the client library (\<open>graphql.Int\<close> is a signed
  32-bit integer), or an input value \<open>'p\<close> that the source takes from elsewhere.
\<close>

datatype 'p gql_value = GString string | GID string | GBoolean bool | GInt int32 | GInput 'p

datatype gql_kind = Query | Mutation

record 'p gql_request =
  gq_kind :: gql_kind
  gq_tag :: string
  gq_vars :: "(string \<times> 'p gql_value) list"

type_synonym request = "unit gql_request"

type_synonym ('x, 'p, 'r) gql_exec =
  "graphql_client \<Rightarrow> 'p gql_request \<Rightarrow> 'x \<Rightarrow> (error + 'r) \<times> 'x"

section \<open>Facts about the client\<close>

lemma assert_string_Ret: "assert_string i w = (Ret s, w') \<longleftrightarrow> i = StringIface s \<and> w' = w"
  by (cases i) (auto simp: go_monad)

lemma id_token_Ret:
  "id_token src w = (Ret t, w') \<longleftrightarrow>
     w' = w \<and> (\<exists>extra. src w = Some extra \<and> extra ''id_token'' = StringIface t)"
proof (cases "src w")
  case None
  then show ?thesis by (simp add: id_token_def go_monad)
next
  case (Some extra)
  then show ?thesis
    by (cases "extra ''id_token''") (auto simp: id_token_def go_monad)
qed

lemma id_token_Some:
  "src w = Some extra \<Longrightarrow> extra ''id_token'' = StringIface t \<Longrightarrow> id_token src w = (Ret t, w)"
  by (simp add: id_token_def go_monad)

lemma id_token_not_Hang: "fst (id_token src w) \<noteq> Hang"
  by (cases "src w"; cases "the (src w) ''id_token''") (auto simp: id_token_def go_monad)

lemma snd_id_token [simp]: "snd (id_token src w) = w"
  by (cases "src w"; cases "the (src w) ''id_token''") (auto simp: id_token_def go_monad)

lemma NewGraphQLClient_Ret:
  "NewGraphQLClient tr src url sub w = (Ret c, w') \<Longrightarrow>
     w' = w \<and> gc_url c = url \<and> gc_transport c = tr \<and>
     (\<exists>extra. src w = Some extra \<and> extra ''id_token'' = StringIface (gc_idToken c))"
  by (auto simp: NewGraphQLClient_def bindg_Ret id_token_Ret ret_apply)

lemma NewGraphQLClient_Some:
  "src w = Some extra \<Longrightarrow> extra ''id_token'' = StringIface t \<Longrightarrow>
     NewGraphQLClient tr src url sub w =
       (Ret \<lparr>gc_url = url, gc_idToken = t, gc_transport = tr, gc_Timeout = 0\<rparr>, w)"
  by (simp add: NewGraphQLClient_def bindg_step [OF id_token_Some] ret_apply)

end
