(* ===== verification/Userspace.thy ===== *)
theory Userspace
  imports Go_Strconv
begin

text \<open>
  The world the client's operations act on: the user and device structures that the configuration
  objects and the client share by pointer, the user interface of package \<open>ui\<close>, and everything
  outside the repository (configuration store, cloud service, file system), which is the type
  parameter \<open>'x\<close>.

  The configuration objects themselves are not part of the repository: \<open>DeviceContext\<close> lists the
  methods of a device context that the client calls, as functions on the world.
  \<open>device_context_ok\<close> states what the client relies on, and \<open>mem_context\<close> is an in-memory device
  context that meets it, used where a concrete one is needed.
\<close>

section \<open>Users and devices\<close>

text \<open>The fields of the two structures that the client reads or writes.\<close>

record User =
  u_UserID :: string
  u_Name :: string
  u_FirstName :: string
  u_MiddleName :: string
  u_FamilyName :: string
  u_Active :: bool
  u_RSAPublicKey :: string
  u_RSAPrivateKey :: string
  u_Certificate :: string
  u_KeyTimestamp :: int64

record Device =
  d_DeviceID :: string
  d_Name :: string
  d_Type :: string
  d_RSAPublicKey :: string
  d_RSAPrivateKey :: string
  d_DeviceUsers :: "User list"

text \<open>\<open>&userspace.User{...}\<close>: the fields not named are zero.\<close>

definition zero_User :: User where
  "zero_User = \<lparr>u_UserID = [], u_Name = [], u_FirstName = [], u_MiddleName = [],
     u_FamilyName = [], u_Active = False, u_RSAPublicKey = [], u_RSAPrivateKey = [],
     u_Certificate = [], u_KeyTimestamp = 0\<rparr>"

definition zero_Device :: Device where
  "zero_Device = \<lparr>d_DeviceID = [], d_Name = [], d_Type = [], d_RSAPublicKey = [],
     d_RSAPrivateKey = [], d_DeviceUsers = []\<rparr>"

section \<open>The user interface\<close>

text \<open>
  One event for each method of \<open>ui.UI\<close>, \<open>ui.Message\<close> and \<open>ui.ProgressMessage\<close>, in their order. The
  repository declares the interfaces and does not implement them; the client calls most of the methods.
\<close>

datatype ui_event =
    NewUIMessage string
  | NewUIMessageWithCancel string
  | ShowErrorMessage string
  | ShowInfoMessage string string
  | ShowNoteMessage string string
  | ShowNoticeMessage string string
  | WriteMessage string
  | WriteCommentMessage string
  | WriteInfoMessage string
  | WriteNoteMessage string
  | WriteNoticeMessage string
  | WriteErrorMessage string
  | WriteDangerMessage string
  | WriteFatalMessage string
  | WriteText string
  | ShowMessageWithInput string
  | ShowMessageWithSecureInput
  | ShowMessageWithSecureVerifiedInput
  | ShowMessageWithYesNoInput
  | ShowMessageWithFileInput
  | DismissMessage
  | ShowMessageWithProgressIndicator string string string int64
  | ProgressStart
  | ProgressUpdate string int64
  | ProgressDone

text \<open>
  The user's answers come from two queues. \<open>ui_sync\<close> says whether the implementation of the
  interface calls a handler before the \<open>Show\<close> method returns or from another goroutine: the
  interface leaves both open.
\<close>

record 'x world =
  ext :: 'x
  users :: "nat \<Rightarrow> User"
  devices :: "nat \<Rightarrow> Device"
  ui_log :: "ui_event list"
  ui_sync :: bool
  yesno_answers :: "bool list"
  text_answers :: "string option list"

definition log_ui :: "ui_event list \<Rightarrow> 'x world \<Rightarrow> 'x world" where
  "log_ui es w = w\<lparr>ui_log := ui_log w @ es\<rparr>"

definition show_ui :: "ui_event \<Rightarrow> ('x world, unit) go" where
  "show_ui e = putg (log_ui [e])"

text \<open>
  A question whose handler sends the answer on a channel that the asking goroutine then reads.
  With an unbuffered channel a handler called before the \<open>Show\<close> method returns blocks for ever,
  since nobody reads the channel yet. A user who never answers leaves the reader waiting.
\<close>

definition ask_yesno :: "nat \<Rightarrow> ('x world, bool) go" where
  "ask_yesno capacity = bindg (show_ui ShowMessageWithYesNoInput) (\<lambda>_ w.
     if capacity = 0 \<and> ui_sync w then (Hang, w)
     else case yesno_answers w of
       [] \<Rightarrow> (Hang, w)
     | a # as \<Rightarrow> (Ret a, w\<lparr>yesno_answers := as\<rparr>))"

definition ask_text :: "ui_event \<Rightarrow> ('x world, string option) go" where
  "ask_text e = bindg (show_ui e) (\<lambda>_ w. case text_answers w of
       [] \<Rightarrow> (Hang, w)
     | a # as \<Rightarrow> (Ret a, w\<lparr>text_answers := as\<rparr>))"

text \<open>A world with no structures, no events and no answers, around an outside.\<close>

definition quiet_world :: "'x \<Rightarrow> 'x world" where
  "quiet_world x = \<lparr>ext = x, users = (\<lambda>_. zero_User), devices = (\<lambda>_. zero_Device), ui_log = [],
     ui_sync = False, yesno_answers = [], text_answers = []\<rparr>"

lemma ext_log_ui [simp]: "ext (log_ui es w) = ext w"
  and users_log_ui [simp]: "users (log_ui es w) = users w"
  and devices_log_ui [simp]: "devices (log_ui es w) = devices w"
  and ui_log_log_ui [simp]: "ui_log (log_ui es w) = ui_log w @ es"
  and yesno_log_ui [simp]: "yesno_answers (log_ui es w) = yesno_answers w"
  and text_log_ui [simp]: "text_answers (log_ui es w) = text_answers w"
  and ui_sync_log_ui [simp]: "ui_sync (log_ui es w) = ui_sync w"
  by (simp_all add: log_ui_def)

lemma show_ui_bind [go_monad]: "bindg (show_ui e) f w = f () (log_ui [e] w)"
  by (simp add: show_ui_def go_monad)

lemma show_ui_apply [go_monad]: "show_ui e w = (Ret (), log_ui [e] w)"
  by (simp add: show_ui_def go_monad)

section \<open>Shared structures\<close>

definition set_user :: "nat \<Rightarrow> User \<Rightarrow> 'x world \<Rightarrow> 'x world" where
  "set_user p u w = w\<lparr>users := (users w)(p := u)\<rparr>"

definition set_device :: "nat \<Rightarrow> Device \<Rightarrow> 'x world \<Rightarrow> 'x world" where
  "set_device p d w = w\<lparr>devices := (devices w)(p := d)\<rparr>"

text \<open>A call that reads and changes nothing but the outside.\<close>

definition lift_ext :: "('x \<Rightarrow> 'a \<times> 'x) \<Rightarrow> 'x world \<Rightarrow> 'a \<times> 'x world" where
  "lift_ext f w = (case f (ext w) of (a, x) \<Rightarrow> (a, w\<lparr>ext := x\<rparr>))"

lemma lift_ext_fst: "fst (lift_ext f w) = fst (f (ext w))"
  and lift_ext_snd: "snd (lift_ext f w) = w\<lparr>ext := snd (f (ext w))\<rparr>"
  by (simp_all add: lift_ext_def split: prod.splits)

section \<open>The device context\<close>

text \<open>
  The methods of \<open>config.DeviceContext\<close> that the client calls; a pointer is an address, and an
  address option where the method may return nil. \<open>ResetGuestUsers\<close> returns the map from user
  name to guest that the context held.
\<close>

record 'x DeviceContext =
  dc_GetDevice :: "'x world \<Rightarrow> nat option"
  dc_GetDeviceID :: "'x world \<Rightarrow> string \<times> bool"
  dc_GetDeviceIDKey :: "'x world \<Rightarrow> string"
  dc_GetDeviceName :: "'x world \<Rightarrow> string \<times> bool"
  dc_GetOwner :: "'x world \<Rightarrow> nat option"
  dc_GetOwnerUserID :: "'x world \<Rightarrow> string \<times> bool"
  dc_GetOwnerUserName :: "'x world \<Rightarrow> string \<times> bool"
  dc_GetLoggedInUserID :: "'x world \<Rightarrow> string"
  dc_GetLoggedInUserName :: "'x world \<Rightarrow> string"
  dc_GetManagedDevices :: "'x world \<Rightarrow> nat list"
  dc_DeleteManageDevice :: "string \<Rightarrow> 'x world \<Rightarrow> 'x world"
  dc_GetGuestUser :: "string \<Rightarrow> 'x world \<Rightarrow> nat option \<times> bool"
  dc_ResetGuestUsers :: "'x world \<Rightarrow> (string \<times> nat) list \<times> 'x world"
  dc_AddGuestUser :: "nat \<Rightarrow> 'x world \<Rightarrow> 'x world"
  dc_NewGuestUser :: "string \<Rightarrow> string \<Rightarrow> 'x world \<Rightarrow> (error + nat) \<times> 'x world"
  dc_NewOwnerUser :: "string \<Rightarrow> string \<Rightarrow> 'x world \<Rightarrow> (error + nat) \<times> 'x world"
  dc_NewDevice :: "'x world \<Rightarrow> (error + nat) \<times> 'x world"
  dc_SetDeviceID :: "string \<Rightarrow> string \<Rightarrow> string \<Rightarrow> 'x world \<Rightarrow> 'x world"
  dc_SetLoggedInUser :: "string \<Rightarrow> string \<Rightarrow> 'x world \<Rightarrow> 'x world"

text \<open>
  What the client relies on: the guest registry answers for the guests that were added since its
  last reset, under their names; registering a guest or deleting a managed device changes neither
  the user and device structures nor what the other one holds; the registry does not depend on
  the fields the client itself writes in those structures.
\<close>

definition guest_lookup :: "'x DeviceContext \<Rightarrow> 'x world \<Rightarrow> string \<Rightarrow> nat option" where
  "guest_lookup dc w n = (case dc_GetGuestUser dc n w of (p, exists) \<Rightarrow> if exists then p else None)"

definition device_context_ok :: "'x DeviceContext \<Rightarrow> bool" where
  "device_context_ok dc =
    ((\<forall>w. users (snd (dc_ResetGuestUsers dc w)) = users w) \<and>
     (\<forall>w. devices (snd (dc_ResetGuestUsers dc w)) = devices w) \<and>
     (\<forall>w n. guest_lookup dc (snd (dc_ResetGuestUsers dc w)) n = None) \<and>
     (\<forall>w n. map_of (fst (dc_ResetGuestUsers dc w)) n = guest_lookup dc w n) \<and>
     (\<forall>w p. users (dc_AddGuestUser dc p w) = users w) \<and>
     (\<forall>w p. devices (dc_AddGuestUser dc p w) = devices w) \<and>
     (\<forall>w p n. guest_lookup dc (dc_AddGuestUser dc p w) n =
        (if n = u_Name (users w p) then Some p else guest_lookup dc w n)) \<and>
     (\<forall>w i. users (dc_DeleteManageDevice dc i w) = users w) \<and>
     (\<forall>w i. devices (dc_DeleteManageDevice dc i w) = devices w) \<and>
     (\<forall>w i n. guest_lookup dc (dc_DeleteManageDevice dc i w) n = guest_lookup dc w n) \<and>
     (\<forall>w p u n. u_Name u = u_Name (users w p) \<longrightarrow>
        guest_lookup dc (set_user p u w) n = guest_lookup dc w n) \<and>
     (\<forall>w p d n. guest_lookup dc (set_device p d w) n = guest_lookup dc w n))"

text \<open>Each registered guest bears the name it is registered under.\<close>

definition guests_named :: "'x DeviceContext \<Rightarrow> 'x world \<Rightarrow> bool" where
  "guests_named dc w = (\<forall>n p. guest_lookup dc w n = Some p \<longrightarrow> u_Name (users w p) = n)"

section \<open>An in-memory device context\<close>

record mem_ctx =
  m_device :: "nat option"
  m_device_id_key :: string
  m_owner :: "nat option"
  m_logged_in :: "string \<times> string"
  m_managed :: "nat list"
  m_guests :: "(string \<times> nat) list"
  m_next :: nat

definition map_ext :: "('x \<Rightarrow> 'x) \<Rightarrow> 'x world \<Rightarrow> 'x world" where
  "map_ext f w = w\<lparr>ext := f (ext w)\<rparr>"

definition mem_new_user ::
  "string \<Rightarrow> string \<Rightarrow> (nat \<Rightarrow> 'm mem_ctx_scheme \<Rightarrow> 'm mem_ctx_scheme) \<Rightarrow>
     'm mem_ctx_scheme world \<Rightarrow> (error + nat) \<times> 'm mem_ctx_scheme world" where
  "mem_new_user i n place w =
     (let p = m_next (ext w)
      in (Inr p, map_ext (\<lambda>x. place p (x\<lparr>m_next := Suc p\<rparr>))
            (set_user p (zero_User\<lparr>u_UserID := i, u_Name := n\<rparr>) w)))"

definition mem_context :: "'m mem_ctx_scheme DeviceContext" where
  "mem_context = \<lparr>
     dc_GetDevice = (\<lambda>w. m_device (ext w)),
     dc_GetDeviceID = (\<lambda>w. case m_device (ext w) of None \<Rightarrow> ([], False)
        | Some p \<Rightarrow> (d_DeviceID (devices w p), True)),
     dc_GetDeviceIDKey = (\<lambda>w. m_device_id_key (ext w)),
     dc_GetDeviceName = (\<lambda>w. case m_device (ext w) of None \<Rightarrow> ([], False)
        | Some p \<Rightarrow> (d_Name (devices w p), True)),
     dc_GetOwner = (\<lambda>w. m_owner (ext w)),
     dc_GetOwnerUserID = (\<lambda>w. case m_owner (ext w) of None \<Rightarrow> ([], False)
        | Some p \<Rightarrow> (u_UserID (users w p), True)),
     dc_GetOwnerUserName = (\<lambda>w. case m_owner (ext w) of None \<Rightarrow> ([], False)
        | Some p \<Rightarrow> (u_Name (users w p), True)),
     dc_GetLoggedInUserID = (\<lambda>w. fst (m_logged_in (ext w))),
     dc_GetLoggedInUserName = (\<lambda>w. snd (m_logged_in (ext w))),
     dc_GetManagedDevices = (\<lambda>w. m_managed (ext w)),
     dc_DeleteManageDevice = (\<lambda>i w. map_ext (\<lambda>x. x\<lparr>m_managed :=
        filter (\<lambda>p. d_DeviceID (devices w p) \<noteq> i) (m_managed x)\<rparr>) w),
     dc_GetGuestUser = (\<lambda>n w. case map_of (m_guests (ext w)) n of None \<Rightarrow> (None, False)
        | Some p \<Rightarrow> (Some p, True)),
     dc_ResetGuestUsers = (\<lambda>w. (m_guests (ext w), map_ext (\<lambda>x. x\<lparr>m_guests := []\<rparr>) w)),
     dc_AddGuestUser = (\<lambda>p w. map_ext (\<lambda>x. x\<lparr>m_guests :=
        AList.update (u_Name (users w p)) p (m_guests x)\<rparr>) w),
     dc_NewGuestUser = (\<lambda>i n. mem_new_user i n
        (\<lambda>p x. x\<lparr>m_guests := AList.update n p (m_guests x)\<rparr>)),
     dc_NewOwnerUser = (\<lambda>i n. mem_new_user i n (\<lambda>p x. x\<lparr>m_owner := Some p\<rparr>)),
     dc_NewDevice = (\<lambda>w. let p = m_next (ext w)
        in (Inr p, map_ext (\<lambda>x. x\<lparr>m_device := Some p, m_next := Suc p\<rparr>)
              (set_device p zero_Device w))),
     dc_SetDeviceID = (\<lambda>k i n w. case m_device (ext w) of None \<Rightarrow> w
        | Some p \<Rightarrow> map_ext (\<lambda>x. x\<lparr>m_device_id_key := k\<rparr>)
            (set_device p ((devices w p)\<lparr>d_DeviceID := i, d_Name := n\<rparr>) w)),
     dc_SetLoggedInUser = (\<lambda>i n. map_ext (\<lambda>x. x\<lparr>m_logged_in := (i, n)\<rparr>)) \<rparr>"

lemma map_ext_simps [simp]:
  "ext (map_ext f w) = f (ext w)" "users (map_ext f w) = users w"
  "devices (map_ext f w) = devices w" "ui_log (map_ext f w) = ui_log w"
  by (simp_all add: map_ext_def)

lemma set_user_simps [simp]:
  "ext (set_user p u w) = ext w" "users (set_user p u w) = (users w)(p := u)"
  "devices (set_user p u w) = devices w" "ui_log (set_user p u w) = ui_log w"
  by (simp_all add: set_user_def)

lemma set_device_simps [simp]:
  "ext (set_device p d w) = ext w" "users (set_device p d w) = users w"
  "devices (set_device p d w) = (devices w)(p := d)" "ui_log (set_device p d w) = ui_log w"
  by (simp_all add: set_device_def)

lemma mem_guest_lookup: "guest_lookup mem_context w n = map_of (m_guests (ext w)) n"
  by (simp add: guest_lookup_def mem_context_def split: option.split)

lemma mem_context_ok: "device_context_ok (mem_context :: 'm mem_ctx_scheme DeviceContext)"
  unfolding device_context_ok_def mem_guest_lookup
  by (simp add: mem_context_def update_conv')

end
