(* ===== verification/Device_API.thy ===== *)
theory Device_API
  imports Graphql Userspace
begin

text \<open>
  \<open>mycscloud/device.go\<close>: the device API of the cloud service. The state is the device context
  with the user and device structures it shares with the client; \<open>UpdateDeviceContext\<close> brings it
  up to date with what the service answers for the device, the other operations send one mutation
  each. The service is the argument \<open>svc\<close>; a \<open>DeviceAPI\<close> is its GraphQL client.
\<close>

section \<open>Calls to the service\<close>

definition exec_gql ::
  "('x, 'p, 'r) gql_exec \<Rightarrow> graphql_client \<Rightarrow> 'p gql_request \<Rightarrow> ('x world, error + 'r) go" where
  "exec_gql svc api rq = callg (lift_ext (svc api rq))"

lemma exec_gql_bind [go_monad]:
  "bindg (exec_gql svc api rq) f w =
     f (fst (svc api rq (ext w))) (w\<lparr>ext := snd (svc api rq (ext w))\<rparr>)"
  by (simp add: exec_gql_def go_monad lift_ext_fst lift_ext_snd)

section \<open>Responses\<close>

record user_info =
  ui_UserID :: string
  ui_UserName :: string
  ui_FirstName :: string
  ui_MiddleName :: string
  ui_FamilyName :: string

record device_user =
  du_User :: user_info
  du_IsOwner :: bool
  du_Status :: string

record managed_device =
  md_DeviceID :: string
  md_Users :: "user_info list"

record auth_device =
  ad_AccessType :: string
  ad_DeviceID :: string
  ad_DeviceName :: string
  ad_DeviceType :: string
  ad_ManagedDevices :: "managed_device list"
  ad_Users :: "device_user list"

section \<open>UpdateDeviceContext\<close>

definition authDevice_request :: "string \<Rightarrow> request" where
  "authDevice_request deviceIDKey = \<lparr>gq_kind = Query,
     gq_tag = ''authDevice(idKey: $idKey)'',
     gq_vars = [(''idKey'', GString deviceIDKey)]\<rparr>"

definition guest_of :: "user_info \<Rightarrow> User" where
  "guest_of u = zero_User\<lparr>u_UserID := ui_UserID u, u_Name := ui_UserName u,
     u_FirstName := ui_FirstName u, u_MiddleName := ui_MiddleName u,
     u_FamilyName := ui_FamilyName u\<rparr>"

text \<open>\<open>managedDevicesInContext\<close>: the managed devices of the context by device ID.\<close>

definition managed_index :: "'x DeviceContext \<Rightarrow> 'x world \<Rightarrow> (string \<times> nat) list" where
  "managed_index dc w =
     foldl (\<lambda>m p. AList.update (d_DeviceID (devices w p)) p m) [] (dc_GetManagedDevices dc w)"

definition append_users :: "string \<Rightarrow> user_info list \<Rightarrow> User list \<Rightarrow> User list" where
  "append_users ownerUserID us acc =
     foldl (\<lambda>a u. if ui_UserID u \<noteq> ownerUserID then a @ [guest_of u] else a) acc us"

text \<open>
  The loop over the managed devices of the response: a device the context knows gets the users
  appended and leaves the map.
\<close>

fun merge_managed ::
  "string \<Rightarrow> managed_device list \<Rightarrow> (string \<times> nat) list \<Rightarrow> 'x world \<Rightarrow>
     (string \<times> nat) list \<times> 'x world" where
  "merge_managed ownerUserID [] m w = (m, w)"
| "merge_managed ownerUserID (d # ds) m w =
     (case map_of m (md_DeviceID d) of
        None \<Rightarrow> merge_managed ownerUserID ds m w
      | Some md \<Rightarrow> merge_managed ownerUserID ds (AList.delete (md_DeviceID d) m)
          (set_device md ((devices w md)\<lparr>d_DeviceUsers :=
             append_users ownerUserID (md_Users d) (d_DeviceUsers (devices w md))\<rparr>) w))"

text \<open>What is left in the map is deleted from the context, in the order of a map range.\<close>

definition update_managed ::
  "'x DeviceContext \<Rightarrow> (string list \<Rightarrow> string list) \<Rightarrow> string \<Rightarrow> managed_device list \<Rightarrow>
     'x world \<Rightarrow> 'x world" where
  "update_managed dc ord ownerUserID ds w =
     (case merge_managed ownerUserID ds (managed_index dc w) w of
        (m, w') \<Rightarrow> foldl (\<lambda>v i. dc_DeleteManageDevice dc i v) w' (ord (map fst m)))"

definition refresh_guest :: "device_user \<Rightarrow> User \<Rightarrow> User" where
  "refresh_guest du g = g\<lparr>u_FirstName := ui_FirstName (du_User du),
     u_MiddleName := ui_MiddleName (du_User du),
     u_FamilyName := ui_FamilyName (du_User du),
     u_Active := (du_Status du = ''active'')\<rparr>"

text \<open>One device user of the response, checked against the owner or the former guests.\<close>

definition update_device_user ::
  "'x DeviceContext \<Rightarrow> string \<Rightarrow> (string \<times> nat) list \<Rightarrow> device_user \<Rightarrow>
     ('x world, error option) go" where
  "update_device_user dc ownerUserID guestUsers du =
     (if du_IsOwner du then
        (if ownerUserID \<noteq> ui_UserID (du_User du) then ret (Some ''invalid device context'')
         else ret None)
      else case map_of guestUsers (ui_UserName (du_User du)) of
          None \<Rightarrow> ret None
        | Some p \<Rightarrow> bindg (getg (\<lambda>w. users w p)) (\<lambda>guestUser.
            if u_UserID guestUser = ui_UserID (du_User du) then
              bindg (putg (set_user p (refresh_guest du guestUser))) (\<lambda>_.
              bindg (putg (dc_AddGuestUser dc p)) (\<lambda>_. ret None))
            else ret None))"

definition update_admin ::
  "'x DeviceContext \<Rightarrow> (string list \<Rightarrow> string list) \<Rightarrow> string \<Rightarrow> string \<Rightarrow> auth_device \<Rightarrow>
     ('x world, error option) go" where
  "update_admin dc ord deviceID ownerUserID q =
     bindg (getg (dc_GetLoggedInUserID dc)) (\<lambda>loggedIn.
     if loggedIn \<noteq> ownerUserID then ret (Some ''invalid device context'')
     else if ad_DeviceID q \<noteq> deviceID then ret (Some ''invalid device context'')
     else
     bindg (getg (dc_GetDevice dc)) (\<lambda>device.
     bindg (callg (dc_ResetGuestUsers dc)) (\<lambda>guestUsers.
     bindg (putg (update_managed dc ord ownerUserID (ad_ManagedDevices q))) (\<lambda>_.
     case device of
       None \<Rightarrow> panic ''invalid memory address or nil pointer dereference''
     | Some p \<Rightarrow>
         bindg (putg (\<lambda>w. set_device p ((devices w p)\<lparr>d_Name := ad_DeviceName q,
                            d_Type := ad_DeviceType q\<rparr>) w)) (\<lambda>_.
         foreachg (ad_Users q) (update_device_user dc ownerUserID guestUsers))))))"

definition update_guest ::
  "'x DeviceContext \<Rightarrow> auth_device \<Rightarrow> ('x world, error option) go" where
  "update_guest dc q =
     (if ad_AccessType q = ''unauthorized'' then ret (Some ''unauthorized'')
      else
      bindg (getg (dc_GetLoggedInUserName dc)) (\<lambda>userName.
      bindg (getg (dc_GetGuestUser dc userName)) (\<lambda>(guestUser, exists).
      if \<not> exists then ret (Some ''invalid device context'')
      else case guestUser of
          None \<Rightarrow> panic ''invalid memory address or nil pointer dereference''
        | Some p \<Rightarrow>
            bindg (putg (\<lambda>w. set_user p ((users w p)\<lparr>u_Active :=
                     (ad_AccessType q = ''guest'')\<rparr>) w)) (\<lambda>_.
            if ad_AccessType q \<noteq> ''guest'' then ret (Some ''unauthorized(pending)'')
            else ret None))))"

definition UpdateDeviceContext ::
  "('x, unit, auth_device) gql_exec \<Rightarrow> (string list \<Rightarrow> string list) \<Rightarrow> graphql_client \<Rightarrow>
     'x DeviceContext \<Rightarrow> ('x world, error option) go" where
  "UpdateDeviceContext svc ord api dc =
     bindg (getg (dc_GetDeviceID dc)) (\<lambda>(deviceID, exists).
     if \<not> exists then ret (Some ''device context has not been initialized with a device'')
     else
     bindg (getg (dc_GetOwnerUserID dc)) (\<lambda>(ownerUserID, exists).
     if \<not> exists then ret (Some ''device context has not been initialized with an owner'')
     else
     bindg (getg (dc_GetDeviceIDKey dc)) (\<lambda>deviceIDKey.
     bindg (exec_gql svc api (authDevice_request deviceIDKey)) (\<lambda>response.
     case response of
       Inl err \<Rightarrow> ret (Some err)
     | Inr q \<Rightarrow>
         if ad_AccessType q = ''admin'' then update_admin dc ord deviceID ownerUserID q
         else update_guest dc q))))"

section \<open>The mutations\<close>

record add_device =
  adv_IdKey :: string
  adv_DeviceID :: string

definition addDevice_request ::
  "string \<Rightarrow> string \<Rightarrow> string \<Rightarrow> string \<Rightarrow> string \<Rightarrow> string \<Rightarrow> request" where
  "addDevice_request deviceName deviceType clientVersion deviceCertRequest devicePublicKey managedBy =
     \<lparr>gq_kind = Mutation,
      gq_tag = ''addDevice(deviceName: $deviceName, deviceInfo: { deviceType: $deviceType, clientVersion: $clientVersion, managedBy: $managedBy }, deviceKey: {publicKey: $devicePublicKey, certificateRequest: $deviceCertRequest})'',
      gq_vars = [(''deviceName'', GString deviceName), (''deviceType'', GString deviceType),
        (''clientVersion'', GString clientVersion),
        (''deviceCertRequest'', GString deviceCertRequest),
        (''devicePublicKey'', GString devicePublicKey), (''managedBy'', GString managedBy)]\<rparr>"

definition RegisterDevice ::
  "('x, unit, add_device) gql_exec \<Rightarrow> graphql_client \<Rightarrow> string \<Rightarrow> string \<Rightarrow> string \<Rightarrow> string \<Rightarrow>
     string \<Rightarrow> string \<Rightarrow> ('x world, error + string \<times> string) go" where
  "RegisterDevice svc api deviceName deviceType clientVersion deviceCertRequest devicePublicKey
     managedBy =
     bindg (exec_gql svc api (addDevice_request deviceName deviceType clientVersion
              deviceCertRequest devicePublicKey managedBy)) (\<lambda>response.
     case response of
       Inl err \<Rightarrow> ret (Inl err)
     | Inr m \<Rightarrow> ret (Inr (adv_IdKey m, adv_DeviceID m)))"

definition deleteDevice_request :: "string \<Rightarrow> request" where
  "deleteDevice_request deviceID = \<lparr>gq_kind = Mutation,
     gq_tag = ''deleteDevice(deviceID: $deviceID)'',
     gq_vars = [(''deviceID'', GID deviceID)]\<rparr>"

definition UnRegisterDevice ::
  "('x, unit, string list) gql_exec \<Rightarrow> graphql_client \<Rightarrow> string \<Rightarrow>
     ('x world, error + string list) go" where
  "UnRegisterDevice svc api deviceID =
     bindg (exec_gql svc api (deleteDevice_request deviceID)) (\<lambda>response.
     case response of
       Inl err \<Rightarrow> ret (Inl err)
     | Inr userIDs \<Rightarrow> ret (Inr (foldl (\<lambda>acc userID. acc @ [userID]) [] userIDs)))"

definition addDeviceUser_request :: "string \<Rightarrow> string \<Rightarrow> request" where
  "addDeviceUser_request deviceID userID = \<lparr>gq_kind = Mutation,
     gq_tag = ''addDeviceUser(deviceID: $deviceID, userID: $userID)'',
     gq_vars = [(''deviceID'', GID deviceID), (''userID'', GID userID)]\<rparr>"

definition AddDeviceUser ::
  "('x, unit, string \<times> string) gql_exec \<Rightarrow> graphql_client \<Rightarrow> string \<Rightarrow> string \<Rightarrow>
     ('x world, error + string \<times> string) go" where
  "AddDeviceUser svc api deviceID userID =
     bindg (exec_gql svc api (addDeviceUser_request deviceID userID)) (\<lambda>response.
     case response of Inl err \<Rightarrow> ret (Inl err) | Inr (d, u) \<Rightarrow> ret (Inr (d, u)))"

definition deleteDeviceUser_request :: "string \<Rightarrow> string \<Rightarrow> request" where
  "deleteDeviceUser_request deviceID userID = \<lparr>gq_kind = Mutation,
     gq_tag = ''deleteDeviceUser(deviceID: $deviceID, userID: $userID)'',
     gq_vars = [(''deviceID'', GID deviceID), (''userID'', GID userID)]\<rparr>"

definition RemoveDeviceUser ::
  "('x, unit, string \<times> string) gql_exec \<Rightarrow> graphql_client \<Rightarrow> string \<Rightarrow> string \<Rightarrow>
     ('x world, error + string \<times> string) go" where
  "RemoveDeviceUser svc api deviceID userID =
     bindg (exec_gql svc api (deleteDeviceUser_request deviceID userID)) (\<lambda>response.
     case response of Inl err \<Rightarrow> ret (Inl err) | Inr (d, u) \<Rightarrow> ret (Inr (d, u)))"

text \<open>\<open>graphql.Int(t)\<close> converts a 64-bit Go \<open>int\<close> to 32 bits: the high half is dropped.\<close>

definition graphql_Int :: "int64 \<Rightarrow> int32" where
  "graphql_Int t = ucast t"

definition setDeviceUserSpaceConfig_request ::
  "string \<Rightarrow> string \<Rightarrow> string \<Rightarrow> string \<Rightarrow> string \<Rightarrow> int64 \<Rightarrow> int64 \<Rightarrow> request" where
  "setDeviceUserSpaceConfig_request userID deviceID spaceID wgConfigName wgConfig
     wgExpirationTimeout wgInactivityTimeout = \<lparr>gq_kind = Mutation,
     gq_tag = ''setDeviceUserSpaceConfig(userID: $userID, deviceID: $deviceID, spaceID: $spaceID, config: { viewed: $viewed, wgConfigName: $wgConfigName, wgConfig: $wgConfig, wgExpirationTimeout: $wgExpirationTimeout, wgInactivityTimeout: $wgInactivityTimeout})'',
     gq_vars = [(''userID'', GID userID), (''deviceID'', GID deviceID), (''spaceID'', GID spaceID),
       (''viewed'', GBoolean False), (''wgConfigName'', GString wgConfigName),
       (''wgConfig'', GString wgConfig),
       (''wgExpirationTimeout'', GInt (graphql_Int wgExpirationTimeout)),
       (''wgInactivityTimeout'', GInt (graphql_Int wgInactivityTimeout))]\<rparr>"

definition SetDeviceWireguardConfig ::
  "('x, unit, string) gql_exec \<Rightarrow> graphql_client \<Rightarrow> string \<Rightarrow> string \<Rightarrow> string \<Rightarrow> string \<Rightarrow>
     string \<Rightarrow> int64 \<Rightarrow> int64 \<Rightarrow> ('x world, error option) go" where
  "SetDeviceWireguardConfig svc api userID deviceID spaceID wgConfigName wgConfig
     wgExpirationTimeout wgInactivityTimeout =
     bindg (exec_gql svc api (setDeviceUserSpaceConfig_request userID deviceID spaceID wgConfigName
              wgConfig wgExpirationTimeout wgInactivityTimeout)) (\<lambda>response.
     case response of Inl err \<Rightarrow> ret (Some err) | Inr _ \<Rightarrow> ret None)"

end
