(* ===== verification/Device_Props.thy ===== *)
theory Device_Props
  imports Device_API
begin

text \<open>
  Facts about \<open>UpdateDeviceContext\<close>: what the two loops do to the managed devices and to the
  guest registry, on which branches the operation returns an error, and what an admin update that
  returns without error has checked.
\<close>

section \<open>Managed devices\<close>

lemma append_users_eq:
  "append_users o' us acc = acc @ map guest_of (filter (\<lambda>u. ui_UserID u \<noteq> o') us)"
  unfolding append_users_def by (induction us arbitrary: acc) auto

lemma index_loop_distinct:
  "distinct (map fst m) \<Longrightarrow> distinct (map fst (foldl (\<lambda>m p. AList.update (f p) p m) m ps))"
  by (induction ps arbitrary: m) (simp_all add: distinct_update)

lemma index_loop_named:
  "\<forall>i p. map_of m i = Some p \<longrightarrow> f p = i \<Longrightarrow>
     \<forall>i p. map_of (foldl (\<lambda>m p. AList.update (f p) p m) m ps) i = Some p \<longrightarrow> f p = i"
proof (induction ps arbitrary: m)
  case Nil
  then show ?case by simp
next
  case (Cons q ps)
  have "\<forall>i p. map_of (AList.update (f q) q m) i = Some p \<longrightarrow> f p = i"
    using Cons.prems by (simp add: update_conv')
  then show ?case unfolding foldl.simps by (rule Cons.IH)
qed

lemma index_loop_keys:
  "fst ` set (foldl (\<lambda>m p. AList.update (f p) p m) m ps) = fst ` set m \<union> f ` set ps"
  by (induction ps arbitrary: m) (auto simp: dom_update)

lemma managed_index_distinct: "distinct (map fst (managed_index dc w))"
  unfolding managed_index_def by (rule index_loop_distinct) simp

lemma managed_index_id:
  "map_of (managed_index dc w) i = Some p \<Longrightarrow> d_DeviceID (devices w p) = i"
  unfolding managed_index_def by (rule index_loop_named [rule_format]) simp_all

lemma managed_index_keys:
  "fst ` set (managed_index dc w) =
     (\<lambda>p. d_DeviceID (devices w p)) ` set (dc_GetManagedDevices dc w)"
  by (simp add: managed_index_def index_loop_keys)

lemma merge_managed_map:
  "distinct (map fst m) \<Longrightarrow>
     fst (merge_managed o' ds m w) = filter (\<lambda>(i, _). i \<notin> md_DeviceID ` set ds) m"
proof (induction ds arbitrary: m w)
  case Nil
  then show ?case by (simp add: case_prod_beta)
next
  case (Cons d ds)
  show ?case
  proof (cases "map_of m (md_DeviceID d)")
    case None
    then have "md_DeviceID d \<notin> fst ` set m" by (simp add: map_of_eq_None_iff)
    then have "filter (\<lambda>(i, _). i \<notin> md_DeviceID ` set ds) m =
        filter (\<lambda>(i, _). i \<notin> md_DeviceID ` set (d # ds)) m"
      by (intro filter_cong) (auto simp: image_iff)
    with None Cons show ?thesis by simp
  next
    case (Some p)
    have "distinct (map fst (AList.delete (md_DeviceID d) m))"
      using Cons.prems by (rule distinct_delete)
    with Some Cons.IH show ?thesis
      by (auto simp: AList.delete_eq intro!: filter_cong)
  qed
qed

text \<open>Only the users of indexed devices change, and only for a device of the response.\<close>

definition with_users :: "string \<Rightarrow> managed_device \<Rightarrow> Device \<Rightarrow> Device" where
  "with_users o' d dev = dev\<lparr>d_DeviceUsers := d_DeviceUsers dev @
     map guest_of (filter (\<lambda>u. ui_UserID u \<noteq> o') (md_Users d))\<rparr>"

lemma merge_managed_world:
  "\<exists>ds'. snd (merge_managed o' ds m w) = w\<lparr>devices := ds'\<rparr>"
proof (induction ds arbitrary: m w)
  case Nil
  have "w = w\<lparr>devices := devices w\<rparr>" by simp
  then show ?case by (metis merge_managed.simps(1) snd_conv)
next
  case (Cons d ds)
  show ?case
  proof (cases "map_of m (md_DeviceID d)")
    case None
    then show ?thesis using Cons.IH by simp
  next
    case (Some p)
    let ?w = "set_device p ((devices w p)\<lparr>d_DeviceUsers :=
      append_users o' (md_Users d) (d_DeviceUsers (devices w p))\<rparr>) w"
    obtain ds' where
      "snd (merge_managed o' ds (AList.delete (md_DeviceID d) m) ?w) = ?w\<lparr>devices := ds'\<rparr>"
      using Cons.IH by blast
    moreover have "?w\<lparr>devices := ds'\<rparr> = w\<lparr>devices := ds'\<rparr>" by (simp add: set_device_def)
    ultimately show ?thesis using Some by auto
  qed
qed

lemma merge_managed_devices:
  assumes "\<And>i j p. map_of m i = Some p \<Longrightarrow> map_of m j = Some p \<Longrightarrow> i = j"
  shows "devices (snd (merge_managed o' ds m w)) p =
     (case find (\<lambda>d. map_of m (md_DeviceID d) = Some p) ds of
        None \<Rightarrow> devices w p | Some d \<Rightarrow> with_users o' d (devices w p))"
  using assms
proof (induction ds arbitrary: m w)
  case Nil
  then show ?case by simp
next
  case (Cons d ds)
  show ?case
  proof (cases "map_of m (md_DeviceID d)")
    case None
    with Cons show ?thesis by simp
  next
    case (Some q)
    let ?m = "AList.delete (md_DeviceID d) m"
    have m': "map_of ?m i = (if i = md_DeviceID d then None else map_of m i)" for i
      by (simp add: delete_conv')
    have inj: "map_of ?m i = Some r \<Longrightarrow> map_of ?m j = Some r \<Longrightarrow> i = j" for i j r
      using Cons.prems by (auto simp: m' split: if_splits)
    note IH = Cons.IH [OF inj]
    show ?thesis
    proof (cases "p = q")
      case True
      then have "find (\<lambda>d'. map_of ?m (md_DeviceID d') = Some p) ds = None"
        using Cons.prems Some by (auto simp: find_None_iff m')
      with True [symmetric] Some show ?thesis by (simp add: IH with_users_def append_users_eq)
    next
      case False
      then have "find (\<lambda>d'. map_of ?m (md_DeviceID d') = Some p) ds =
          find (\<lambda>d'. map_of m (md_DeviceID d') = Some p) ds"
        using Some by (intro find_cong) (auto simp: m')
      with False Some show ?thesis by (simp add: IH cong: option.case_cong)
    qed
  qed
qed

lemma foldl_delete_frame:
  assumes "device_context_ok dc"
  shows "users (foldl (\<lambda>v i. dc_DeleteManageDevice dc i v) w is) = users w \<and>
     devices (foldl (\<lambda>v i. dc_DeleteManageDevice dc i v) w is) = devices w \<and>
     guest_lookup dc (foldl (\<lambda>v i. dc_DeleteManageDevice dc i v) w is) n = guest_lookup dc w n"
  using assms by (induction "is" arbitrary: w) (auto simp: device_context_ok_def)

text \<open>What the managed-device phase does, for every order of the range over the map.\<close>

lemma update_managed_deletes:
  assumes "map_order ord"
  shows "\<exists>is. update_managed dc ord o' ds w =
       foldl (\<lambda>v i. dc_DeleteManageDevice dc i v)
         (snd (merge_managed o' ds (managed_index dc w) w)) is \<and>
     distinct is \<and>
     set is = (\<lambda>p. d_DeviceID (devices w p)) ` set (dc_GetManagedDevices dc w)
                - md_DeviceID ` set ds"
proof -
  define m where "m = fst (merge_managed o' ds (managed_index dc w) w)"
  have m: "m = filter (\<lambda>(i, _). i \<notin> md_DeviceID ` set ds) (managed_index dc w)"
    unfolding m_def by (rule merge_managed_map [OF managed_index_distinct])
  have "distinct (map fst m)"
    unfolding m by (rule distinct_map_filter [OF managed_index_distinct])
  then have dist: "distinct (ord (map fst m))" using assms by (rule map_order_distinct [rotated])
  have "set (map fst m) = fst ` set (managed_index dc w) - md_DeviceID ` set ds"
    by (force simp: m)
  then have "set (ord (map fst m)) =
      (\<lambda>p. d_DeviceID (devices w p)) ` set (dc_GetManagedDevices dc w) - md_DeviceID ` set ds"
    using map_order_set [OF assms] by (simp add: managed_index_keys)
  with dist show ?thesis
    by (auto simp: update_managed_def m_def split: prod.split)
qed

lemma index_inj:
  "map_of (managed_index dc w) i = Some p \<Longrightarrow> map_of (managed_index dc w) j = Some p \<Longrightarrow> i = j"
  by (metis managed_index_id)

lemma update_managed_frame:
  assumes "device_context_ok dc"
  shows "users (update_managed dc ord o' ds w) = users w"
    and "devices (update_managed dc ord o' ds w) p =
      (case find (\<lambda>d. map_of (managed_index dc w) (md_DeviceID d) = Some p) ds of
         None \<Rightarrow> devices w p | Some d \<Rightarrow> with_users o' d (devices w p))"
proof -
  obtain ds' where w': "snd (merge_managed o' ds (managed_index dc w) w) = w\<lparr>devices := ds'\<rparr>"
    using merge_managed_world by blast
  show "users (update_managed dc ord o' ds w) = users w"
    using w' foldl_delete_frame [OF assms]
    by (simp add: update_managed_def case_prod_beta)
  show "devices (update_managed dc ord o' ds w) p =
      (case find (\<lambda>d. map_of (managed_index dc w) (md_DeviceID d) = Some p) ds of
         None \<Rightarrow> devices w p | Some d \<Rightarrow> with_users o' d (devices w p))"
    using foldl_delete_frame [OF assms] merge_managed_devices [OF index_inj]
    by (simp add: update_managed_def case_prod_beta)
qed

lemma update_managed_guests:
  assumes "device_context_ok dc"
  shows "guest_lookup dc (update_managed dc ord o' ds w) n = guest_lookup dc w n"
proof -
  have "guest_lookup dc (snd (merge_managed o' ds m v)) n = guest_lookup dc v n" for m v
    using assms
    by (induction ds arbitrary: m v) (simp_all add: device_context_ok_def split: option.split)
  then show ?thesis
    using foldl_delete_frame [OF assms] by (simp add: update_managed_def case_prod_beta)
qed

section \<open>The guest registry\<close>

text \<open>
  An entry of the response that is accepted for a former guest \<open>p\<close>: not an owner, and name and ID
  are those of \<open>p\<close>.
\<close>

definition accepts ::
  "(string \<Rightarrow> nat option) \<Rightarrow> (nat \<Rightarrow> User) \<Rightarrow> device_user \<Rightarrow> nat \<Rightarrow> bool" where
  "accepts gs us du p = (\<not> du_IsOwner du \<and>
     gs (ui_UserName (du_User du)) = Some p \<and>
     u_UserID (us p) = ui_UserID (du_User du))"

definition bad_owner :: "string \<Rightarrow> device_user \<Rightarrow> bool" where
  "bad_owner o' du = (du_IsOwner du \<and> ui_UserID (du_User du) \<noteq> o')"

lemma refresh_guest_id [simp]: "u_UserID (refresh_guest du g) = u_UserID g"
  and refresh_guest_name [simp]: "u_Name (refresh_guest du g) = u_Name g"
  and refresh_guest_twice [simp]: "refresh_guest du (refresh_guest du' g) = refresh_guest du g"
  by (simp_all add: refresh_guest_def)

definition refreshed ::
  "(string \<Rightarrow> nat option) \<Rightarrow> (nat \<Rightarrow> User) \<Rightarrow> device_user list \<Rightarrow> nat \<Rightarrow> User" where
  "refreshed gs us dus p = (case last_match (\<lambda>du. accepts gs us du p) dus of
     None \<Rightarrow> us p | Some du \<Rightarrow> refresh_guest du (us p))"

definition readmitted ::
  "(string \<Rightarrow> nat option) \<Rightarrow> (nat \<Rightarrow> User) \<Rightarrow> device_user list \<Rightarrow> string \<Rightarrow> bool" where
  "readmitted gs us dus n = (\<exists>du \<in> set dus. ui_UserName (du_User du) = n \<and>
     (\<exists>p. accepts gs us du p))"

lemma update_device_user_ok:
  assumes ctx: "device_context_ok dc"
    and named: "\<And>n p. map_of gs n = Some p \<Longrightarrow> u_Name (users w p) = n"
    and ok: "\<not> bad_owner o' du"
  shows "\<exists>w'. update_device_user dc o' gs du w = (Ret None, w') \<and>
     users w' = refreshed (map_of gs) (users w) [du] \<and> devices w' = devices w \<and>
     (\<forall>n. guest_lookup dc w' n = (if readmitted (map_of gs) (users w) [du] n
        then map_of gs n else guest_lookup dc w n))"
proof (cases "\<exists>p. accepts (map_of gs) (users w) du p")
  case False
  then have "readmitted (map_of gs) (users w) [du] n = False" "refreshed (map_of gs) (users w) [du] = users w" for n
    by (auto simp: readmitted_def refreshed_def fun_eq_iff)
  moreover have "update_device_user dc o' gs du w = (Ret None, w)"
    using False ok
    by (auto simp: update_device_user_def accepts_def bad_owner_def go_monad split: option.split)
  ultimately show ?thesis by simp
next
  case True
  then obtain p where p: "accepts (map_of gs) (users w) du p" by blast
  let ?n = "ui_UserName (du_User du)"
  let ?w1 = "set_user p (refresh_guest du (users w p)) w"
  have run: "update_device_user dc o' gs du w = (Ret None, dc_AddGuestUser dc p ?w1)"
    using p by (simp add: update_device_user_def accepts_def go_monad)
  have only: "accepts (map_of gs) (users w) du q \<longleftrightarrow> q = p" for q
    using p by (auto simp: accepts_def)
  then have us: "refreshed (map_of gs) (users w) [du] = (users w)(p := refresh_guest du (users w p))"
    by (auto simp: refreshed_def fun_eq_iff)
  have re: "readmitted (map_of gs) (users w) [du] n \<longleftrightarrow> n = ?n" for n
    using p by (auto simp: readmitted_def)
  have name: "u_Name (users w p) = ?n" "map_of gs ?n = Some p"
    using p named by (auto simp: accepts_def)
  have "guest_lookup dc (dc_AddGuestUser dc p ?w1) n =
      (if n = ?n then Some p else guest_lookup dc w n)" for n
    using ctx name by (simp add: device_context_ok_def)
  then show ?thesis using run ctx us re name by (simp add: device_context_ok_def)
qed

lemma accepts_refreshed [simp]: "accepts gs (refreshed gs us xs) du p = accepts gs us du p"
  by (simp add: accepts_def refreshed_def split: option.split)

lemma readmitted_refreshed [simp]: "readmitted gs (refreshed gs us xs) dus n = readmitted gs us dus n"
  by (simp add: readmitted_def)

lemma readmitted_Cons:
  "readmitted gs us (du # dus) n \<longleftrightarrow> readmitted gs us [du] n \<or> readmitted gs us dus n"
  by (auto simp: readmitted_def)

lemma refreshed_Cons: "refreshed gs (refreshed gs us [du]) dus = refreshed gs us (du # dus)"
proof
  fix p
  have "last_match (\<lambda>du'. accepts gs (refreshed gs us [du]) du' p) dus =
      last_match (\<lambda>du'. accepts gs us du' p) dus"
    by simp
  then show "refreshed gs (refreshed gs us [du]) dus p = refreshed gs us (du # dus) p"
    unfolding refreshed_def [of gs "refreshed gs us [du]"]
    by (simp add: refreshed_def split: option.split)
qed

lemma refreshed_name: "u_Name (refreshed gs us xs p) = u_Name (us p)"
  by (simp add: refreshed_def split: option.split)

lemma update_device_users_ok:
  assumes ctx: "device_context_ok dc"
    and named: "\<And>n p. map_of gs n = Some p \<Longrightarrow> u_Name (users w p) = n"
    and ok: "\<forall>du \<in> set dus. \<not> bad_owner o' du"
  shows "\<exists>w'. foreachg dus (update_device_user dc o' gs) w = (Ret None, w') \<and>
     users w' = refreshed (map_of gs) (users w) dus \<and> devices w' = devices w \<and>
     (\<forall>n. guest_lookup dc w' n = (if readmitted (map_of gs) (users w) dus n
        then map_of gs n else guest_lookup dc w n))"
  using named ok
proof (induction dus arbitrary: w)
  case Nil
  show ?case by (simp add: ret_apply refreshed_def readmitted_def)
next
  case (Cons du dus)
  have ok1: "\<not> bad_owner o' du" using Cons.prems(2) by simp
  obtain w1 where run1: "update_device_user dc o' gs du w = (Ret None, w1)"
    and us1: "users w1 = refreshed (map_of gs) (users w) [du]" and dev1: "devices w1 = devices w"
    and look1: "\<And>n. guest_lookup dc w1 n = (if readmitted (map_of gs) (users w) [du] n
        then map_of gs n else guest_lookup dc w n)"
    using update_device_user_ok [OF ctx Cons.prems(1) ok1] by blast
  have named1: "\<And>n p. map_of gs n = Some p \<Longrightarrow> u_Name (users w1 p) = n"
    using Cons.prems(1) us1 by (simp add: refreshed_name)
  have ok2: "\<forall>du \<in> set dus. \<not> bad_owner o' du" using Cons.prems(2) by simp
  obtain w2 where run2: "foreachg dus (update_device_user dc o' gs) w1 = (Ret None, w2)"
    and us2: "users w2 = refreshed (map_of gs) (users w1) dus" and dev2: "devices w2 = devices w1"
    and look2: "\<And>n. guest_lookup dc w2 n = (if readmitted (map_of gs) (users w1) dus n
        then map_of gs n else guest_lookup dc w1 n)"
    using Cons.IH [OF named1 ok2] by blast
  have "foreachg (du # dus) (update_device_user dc o' gs) w = (Ret None, w2)"
    using run2 by (simp add: bindg_step [where m = "update_device_user dc o' gs du", OF run1])
  moreover have "users w2 = refreshed (map_of gs) (users w) (du # dus)"
    using us1 us2 by (simp add: refreshed_Cons)
  moreover have "guest_lookup dc w2 n = (if readmitted (map_of gs) (users w) (du # dus) n
      then map_of gs n else guest_lookup dc w n)" for n
    unfolding look2 us1 look1 by (simp add: readmitted_Cons [of _ _ du dus])
  ultimately show ?case using dev1 dev2 by auto
qed

text \<open>The loop stops at the first owner that is not the owner of the context.\<close>

lemma update_device_users_bad:
  assumes ctx: "device_context_ok dc"
    and named: "\<And>n p. map_of gs n = Some p \<Longrightarrow> u_Name (users w p) = n"
    and ok: "\<forall>du \<in> set pre. \<not> bad_owner o' du" and bad: "bad_owner o' du"
  shows "\<exists>w'. foreachg (pre @ du # post) (update_device_user dc o' gs) w =
       (Ret (Some ''invalid device context''), w') \<and>
     users w' = refreshed (map_of gs) (users w) pre \<and> devices w' = devices w \<and>
     (\<forall>n. guest_lookup dc w' n = (if readmitted (map_of gs) (users w) pre n
        then map_of gs n else guest_lookup dc w n))"
proof -
  obtain w' where run: "foreachg pre (update_device_user dc o' gs) w = (Ret None, w')"
    and rest: "users w' = refreshed (map_of gs) (users w) pre \<and> devices w' = devices w \<and>
     (\<forall>n. guest_lookup dc w' n = (if readmitted (map_of gs) (users w) pre n
        then map_of gs n else guest_lookup dc w n))"
    using update_device_users_ok [OF ctx named ok] by blast
  have "update_device_user dc o' gs du = ret (Some ''invalid device context'')"
    using bad by (auto simp: update_device_user_def bad_owner_def)
  then have "foreachg (pre @ du # post) (update_device_user dc o' gs) w =
      (Ret (Some ''invalid device context''), w')"
    by (simp add: foreachg_append ret_apply
        bindg_step [where m = "foreachg pre (update_device_user dc o' gs)", OF run])
  with rest show ?thesis by blast
qed

lemma find_bad_owner:
  "(\<forall>du \<in> set dus. \<not> bad_owner o' du) \<or>
   (\<exists>pre du post. dus = pre @ du # post \<and> (\<forall>d \<in> set pre. \<not> bad_owner o' d) \<and> bad_owner o' du)"
  using split_list_first_prop [of dus "bad_owner o'"] by blast

section \<open>The whole operation\<close>

text \<open>The answer of the service to the one query, and the world after it.\<close>

definition auth_answer ::
  "('x, unit, auth_device) gql_exec \<Rightarrow> graphql_client \<Rightarrow> 'x DeviceContext \<Rightarrow> 'x world \<Rightarrow>
     error + auth_device" where
  "auth_answer svc api dc w = fst (svc api (authDevice_request (dc_GetDeviceIDKey dc w)) (ext w))"

definition auth_world ::
  "('x, unit, auth_device) gql_exec \<Rightarrow> graphql_client \<Rightarrow> 'x DeviceContext \<Rightarrow> 'x world \<Rightarrow>
     'x world" where
  "auth_world svc api dc w =
     w\<lparr>ext := snd (svc api (authDevice_request (dc_GetDeviceIDKey dc w)) (ext w))\<rparr>"

lemma UpdateDeviceContext_answered:
  assumes "snd (dc_GetDeviceID dc w)" and "snd (dc_GetOwnerUserID dc w)"
    and "auth_answer svc api dc w = Inr q"
  shows "UpdateDeviceContext svc ord api dc w =
     (if ad_AccessType q = ''admin''
      then update_admin dc ord (fst (dc_GetDeviceID dc w)) (fst (dc_GetOwnerUserID dc w)) q
      else update_guest dc q) (auth_world svc api dc w)"
  using assms
  by (simp add: UpdateDeviceContext_def go_monad case_prod_beta auth_answer_def auth_world_def)

lemma UpdateDeviceContext_None:
  assumes "fst (UpdateDeviceContext svc ord api dc w) = Ret None"
  shows "snd (dc_GetDeviceID dc w) \<and> snd (dc_GetOwnerUserID dc w)"
  using assms
  by (auto simp: UpdateDeviceContext_def go_monad case_prod_beta split: if_splits)

text \<open>The world when the loop over the device users of the response starts.\<close>

definition before_users ::
  "'x DeviceContext \<Rightarrow> (string list \<Rightarrow> string list) \<Rightarrow> string \<Rightarrow> auth_device \<Rightarrow> nat \<Rightarrow> 'x world \<Rightarrow>
     'x world" where
  "before_users dc ord o' q p w =
     (let w1 = update_managed dc ord o' (ad_ManagedDevices q) (snd (dc_ResetGuestUsers dc w))
      in set_device p ((devices w1 p)\<lparr>d_Name := ad_DeviceName q, d_Type := ad_DeviceType q\<rparr>) w1)"

lemma update_admin_run:
  assumes "dc_GetLoggedInUserID dc w = o'" and "ad_DeviceID q = i" and "dc_GetDevice dc w = Some p"
  shows "update_admin dc ord i o' q w =
     foreachg (ad_Users q) (update_device_user dc o' (fst (dc_ResetGuestUsers dc w)))
       (before_users dc ord o' q p w)"
  using assms by (simp add: update_admin_def go_monad before_users_def Let_def)

lemma update_admin_None:
  assumes "fst (update_admin dc ord i o' q w) = Ret None"
  shows "dc_GetLoggedInUserID dc w = o' \<and> ad_DeviceID q = i \<and> (\<exists>p. dc_GetDevice dc w = Some p)"
  using assms
  by (auto simp: update_admin_def go_monad split: if_splits option.splits)

lemma foreachg_None_all:
  "fst (foreachg xs body w) = Ret None \<Longrightarrow> x \<in> set xs \<Longrightarrow> \<exists>v. fst (body x v) = Ret None"
proof (induction xs arbitrary: w)
  case Nil
  then show ?case by simp
next
  case (Cons y ys)
  from Cons.prems(1) obtain w1 where
    y: "body y w = (Ret None, w1)" and ys: "fst (foreachg ys body w1) = Ret None"
    by (auto simp: bindg_def ret_apply split: outcome.splits option.splits prod.splits)
  show ?case
  proof (cases "x = y")
    case True
    then have "fst (body x w) = Ret None" using y by simp
    then show ?thesis by blast
  next
    case False
    with Cons.prems(2) Cons.IH [OF ys] show ?thesis by simp
  qed
qed

lemma bad_owner_not_None: "bad_owner o' du \<Longrightarrow> fst (update_device_user dc o' gs du v) \<noteq> Ret None"
  by (auto simp: update_device_user_def bad_owner_def ret_apply)

lemma before_users_frame:
  assumes "device_context_ok dc"
  shows "users (before_users dc ord o' q p w) = users w"
    and "guest_lookup dc (before_users dc ord o' q p w) n = None"
    and "map_of (fst (dc_ResetGuestUsers dc w)) = guest_lookup dc w"
proof -
  show "users (before_users dc ord o' q p w) = users w"
    using assms by (simp add: before_users_def Let_def update_managed_frame device_context_ok_def)
  show "guest_lookup dc (before_users dc ord o' q p w) n = None"
    using update_managed_guests [OF assms] assms
    by (simp add: before_users_def Let_def device_context_ok_def)
  show "map_of (fst (dc_ResetGuestUsers dc w)) = guest_lookup dc w"
    using assms by (auto simp: device_context_ok_def fun_eq_iff)
qed

lemma foreachg_all_None:
  "(\<And>x v. x \<in> set xs \<Longrightarrow> fst (body x v) = Ret None) \<Longrightarrow> fst (foreachg xs body w) = Ret None"
proof (induction xs arbitrary: w)
  case Nil
  then show ?case by (simp add: ret_apply)
next
  case (Cons x xs)
  have "fst (body x w) = Ret None" using Cons.prems by simp
  then show ?case using Cons by (cases "body x w") (simp add: bindg_def)
qed

lemma good_owner_None: "\<not> bad_owner o' du \<Longrightarrow> fst (update_device_user dc o' gs du v) = Ret None"
  by (auto simp: update_device_user_def bad_owner_def go_monad split: option.split)

lemma update_admin_None_iff:
  "fst (update_admin dc ord i o' q w) = Ret None \<longleftrightarrow>
     dc_GetLoggedInUserID dc w = o' \<and> ad_DeviceID q = i \<and> dc_GetDevice dc w \<noteq> None \<and>
     (\<forall>du \<in> set (ad_Users q). \<not> bad_owner o' du)"
proof (cases "dc_GetLoggedInUserID dc w = o' \<and> ad_DeviceID q = i \<and> dc_GetDevice dc w \<noteq> None")
  case False
  then show ?thesis using update_admin_None by blast
next
  case True
  then obtain p where p: "dc_GetDevice dc w = Some p" by blast
  let ?body = "update_device_user dc o' (fst (dc_ResetGuestUsers dc w))"
  have run: "update_admin dc ord i o' q w =
      foreachg (ad_Users q) ?body (before_users dc ord o' q p w)"
    using True p by (intro update_admin_run) auto
  have "fst (foreachg (ad_Users q) ?body v) = Ret None \<longleftrightarrow>
      (\<forall>du \<in> set (ad_Users q). \<not> bad_owner o' du)" for v
    using bad_owner_not_None [of o' _ dc "fst (dc_ResetGuestUsers dc w)"] foreachg_None_all
    by (metis foreachg_all_None good_owner_None)
  then show ?thesis using True by (simp add: run)
qed

lemma update_guest_None_iff:
  "fst (update_guest dc q w) = Ret None \<longleftrightarrow>
     ad_AccessType q = ''guest'' \<and>
     (\<exists>p. dc_GetGuestUser dc (dc_GetLoggedInUserName dc w) w = (Some p, True))"
proof (cases "dc_GetGuestUser dc (dc_GetLoggedInUserName dc w) w")
  case (Pair g e)
  then show ?thesis
    by (cases g) (auto simp: update_guest_def go_monad)
qed

text \<open>Whom the answer of the service admits, in terms of the context it is checked against.\<close>

definition device_admits ::
  "('x, unit, auth_device) gql_exec \<Rightarrow> graphql_client \<Rightarrow> 'x DeviceContext \<Rightarrow> 'x world \<Rightarrow> bool" where
  "device_admits svc api dc w \<longleftrightarrow>
     snd (dc_GetDeviceID dc w) \<and> snd (dc_GetOwnerUserID dc w) \<and>
     (\<exists>q. auth_answer svc api dc w = Inr q \<and>
        (ad_AccessType q = ''admin'' \<and>
           dc_GetLoggedInUserID dc (auth_world svc api dc w) = fst (dc_GetOwnerUserID dc w) \<and>
           ad_DeviceID q = fst (dc_GetDeviceID dc w) \<and>
           dc_GetDevice dc (auth_world svc api dc w) \<noteq> None \<and>
           (\<forall>du \<in> set (ad_Users q). \<not> bad_owner (fst (dc_GetOwnerUserID dc w)) du)
         \<or> ad_AccessType q = ''guest'' \<and>
           (\<exists>p. dc_GetGuestUser dc (dc_GetLoggedInUserName dc (auth_world svc api dc w))
                  (auth_world svc api dc w) = (Some p, True))))"

lemma UpdateDeviceContext_admitted:
  "fst (UpdateDeviceContext svc ord api dc w) = Ret None \<longleftrightarrow> device_admits svc api dc w"
proof (cases "snd (dc_GetDeviceID dc w) \<and> snd (dc_GetOwnerUserID dc w)")
  case False
  then show ?thesis using UpdateDeviceContext_None unfolding device_admits_def by blast
next
  case True
  show ?thesis
  proof (cases "auth_answer svc api dc w")
    case (Inl e)
    then show ?thesis using True
      by (simp add: UpdateDeviceContext_def go_monad case_prod_beta auth_answer_def device_admits_def)
  next
    case (Inr q)
    have "''admin'' \<noteq> ''guest''" by simp
    with Inr True show ?thesis
      by (simp add: UpdateDeviceContext_answered update_admin_None_iff update_guest_None_iff
          device_admits_def)
  qed
qed

text \<open>
  Property C1. Who is let in: the update returns no error exactly when the context has a device and
  an owner, the service answered, and either it answered "admin", the logged in user is the owner,
  the answer is about the device of the context and names no other owner, or it answered "guest"
  and the logged in user is a guest of the context.
\<close>

theorem UpdateDeviceContext_admits_iff:
  "fst (UpdateDeviceContext svc ord api dc w) = Ret None \<longleftrightarrow>
     snd (dc_GetDeviceID dc w) \<and> snd (dc_GetOwnerUserID dc w) \<and>
     (\<exists>q. auth_answer svc api dc w = Inr q \<and>
        (ad_AccessType q = ''admin'' \<and>
           dc_GetLoggedInUserID dc (auth_world svc api dc w) = fst (dc_GetOwnerUserID dc w) \<and>
           ad_DeviceID q = fst (dc_GetDeviceID dc w) \<and>
           dc_GetDevice dc (auth_world svc api dc w) \<noteq> None \<and>
           (\<forall>du \<in> set (ad_Users q). \<not> bad_owner (fst (dc_GetOwnerUserID dc w)) du)
         \<or> ad_AccessType q = ''guest'' \<and>
           (\<exists>p. dc_GetGuestUser dc (dc_GetLoggedInUserName dc (auth_world svc api dc w))
                  (auth_world svc api dc w) = (Some p, True))))"
  by (simp only: UpdateDeviceContext_admitted device_admits_def)

text \<open>The structure of a device after the update, the device \<open>p\<close> of the context being one of them.\<close>

definition updated_device ::
  "'x DeviceContext \<Rightarrow> string \<Rightarrow> auth_device \<Rightarrow> nat \<Rightarrow> 'x world \<Rightarrow> nat \<Rightarrow> Device" where
  "updated_device dc o' q p w r =
     (let v = snd (dc_ResetGuestUsers dc w);
          d = (case find (\<lambda>d. map_of (managed_index dc v) (md_DeviceID d) = Some r) (ad_ManagedDevices q) of
                 None \<Rightarrow> devices w r | Some d \<Rightarrow> with_users o' d (devices w r))
      in if r = p then d\<lparr>d_Name := ad_DeviceName q, d_Type := ad_DeviceType q\<rparr> else d)"

lemma before_users_devices:
  assumes "device_context_ok dc"
  shows "devices (before_users dc ord o' q p w) = updated_device dc o' q p w"
proof
  fix r
  have "devices (snd (dc_ResetGuestUsers dc w)) = devices w"
    using assms by (simp add: device_context_ok_def)
  then show "devices (before_users dc ord o' q p w) r = updated_device dc o' q p w r"
    using update_managed_frame(2) [OF assms]
    by (simp add: before_users_def updated_device_def Let_def cong: option.case_cong)
qed

text \<open>
  Property C3. After an admin update without error the guests of the context are exactly the former
  guests that the service lists (by name and ID), and each of them carries the names and the
  active flag of its last entry in the list; no other user structure has changed. The device of
  the context has the name and the type of the answer, a managed device that is listed has the
  users of its first entry appended, the owner left out, and no other device structure has changed.
\<close>

theorem admin_update_guests:
  assumes "fst (UpdateDeviceContext svc ord api dc w) = Ret None"
    and "auth_answer svc api dc w = Inr q" and "ad_AccessType q = ''admin''"
    and "device_context_ok dc" and "guests_named dc (auth_world svc api dc w)"
  defines "w1 \<equiv> auth_world svc api dc w" and "w' \<equiv> snd (UpdateDeviceContext svc ord api dc w)"
  shows "guest_lookup dc w' n =
      (if readmitted (guest_lookup dc w1) (users w1) (ad_Users q) n
       then guest_lookup dc w1 n else None) \<and>
     users w' = refreshed (guest_lookup dc w1) (users w1) (ad_Users q) \<and>
     (\<exists>p. dc_GetDevice dc w1 = Some p \<and>
        devices w' = updated_device dc (fst (dc_GetOwnerUserID dc w)) q p w1)"
proof -
  let ?o = "fst (dc_GetOwnerUserID dc w)"
  have init: "snd (dc_GetDeviceID dc w)" "snd (dc_GetOwnerUserID dc w)"
    using UpdateDeviceContext_None assms(1) by blast+
  have run: "UpdateDeviceContext svc ord api dc w =
      update_admin dc ord (fst (dc_GetDeviceID dc w)) ?o q w1"
    using UpdateDeviceContext_answered [OF init assms(2)] assms(3) by (simp add: w1_def)
  then have adm: "dc_GetLoggedInUserID dc w1 = ?o" "ad_DeviceID q = fst (dc_GetDeviceID dc w)"
    and ok: "\<forall>du \<in> set (ad_Users q). \<not> bad_owner ?o du"
    using assms(1) update_admin_None_iff by metis+
  obtain p where p: "dc_GetDevice dc w1 = Some p"
    using run assms(1) update_admin_None by metis
  let ?v = "before_users dc ord ?o q p w1"
  note frame = before_users_frame [OF assms(4)]
  have named: "u_Name (users ?v r) = m"
    if "map_of (fst (dc_ResetGuestUsers dc w1)) m = Some r" for m r
    using that assms(5) by (simp add: frame guests_named_def w1_def)
  show ?thesis
    using update_device_users_ok [where gs = "fst (dc_ResetGuestUsers dc w1)" and w = ?v,
        OF assms(4) named ok] update_admin_run [OF adm p] run p before_users_devices [OF assms(4)]
    by (auto simp: w'_def frame)
qed

text \<open>
  Property C4. The managed devices of the context after the update, whatever the order of the map
  range: exactly those the service does not list are deleted, each once, and a listed one has the
  users of its first entry, the owner left out, appended to the users it had.
\<close>

theorem managed_devices_synced:
  assumes "device_context_ok dc" and "map_order ord"
  shows "(\<exists>is. distinct is \<and>
      set is = (\<lambda>p. d_DeviceID (devices w p)) ` set (dc_GetManagedDevices dc w)
                 - md_DeviceID ` set ds \<and>
      update_managed dc ord o' ds w =
        foldl (\<lambda>v i. dc_DeleteManageDevice dc i v)
          (w\<lparr>devices := devices (update_managed dc ord o' ds w)\<rparr>) is) \<and>
     devices (update_managed dc ord o' ds w) p =
       (case find (\<lambda>d. map_of (managed_index dc w) (md_DeviceID d) = Some p) ds of
          None \<Rightarrow> devices w p
        | Some d \<Rightarrow> (devices w p)\<lparr>d_DeviceUsers := d_DeviceUsers (devices w p) @
            map guest_of (filter (\<lambda>u. ui_UserID u \<noteq> o') (md_Users d))\<rparr>)"
proof -
  let ?m = "snd (merge_managed o' ds (managed_index dc w) w)"
  obtain dv where dv: "?m = w\<lparr>devices := dv\<rparr>" using merge_managed_world by blast
  obtain "is" where del: "update_managed dc ord o' ds w =
        foldl (\<lambda>v i. dc_DeleteManageDevice dc i v) ?m is" "distinct is"
      "set is = (\<lambda>p. d_DeviceID (devices w p)) ` set (dc_GetManagedDevices dc w)
                 - md_DeviceID ` set ds"
    using update_managed_deletes [OF assms(2)] by blast
  have "devices (update_managed dc ord o' ds w) = devices ?m"
    using del(1) foldl_delete_frame [OF assms(1)] by simp
  then have "?m = w\<lparr>devices := devices (update_managed dc ord o' ds w)\<rparr>" using dv by simp
  with del show ?thesis
    using update_managed_frame(2) [OF assms(1), of ord o' ds w p]
    unfolding with_users_def by (intro conjI exI [of _ "is"]) simp_all
qed

text \<open>
  Property C28. An answer that names another owner is refused only when the loop reaches that entry:
  by then the guests of the context have been dropped, and only those listed before the entry are
  back, so a refused update leaves the guest list changed.
\<close>

theorem owner_mismatch_drops_guests:
  assumes "snd (dc_GetDeviceID dc w)" and "snd (dc_GetOwnerUserID dc w)"
    and "auth_answer svc api dc w = Inr q" and "ad_AccessType q = ''admin''"
  defines "w1 \<equiv> auth_world svc api dc w" and "o' \<equiv> fst (dc_GetOwnerUserID dc w)"
  assumes "dc_GetLoggedInUserID dc w1 = o'" and "ad_DeviceID q = fst (dc_GetDeviceID dc w)"
    and "dc_GetDevice dc w1 = Some p"
    and "device_context_ok dc" and "guests_named dc w1"
    and "ad_Users q = pre @ du # post" and "\<forall>d \<in> set pre. \<not> bad_owner o' d" and "bad_owner o' du"
  shows "fst (UpdateDeviceContext svc ord api dc w) = Ret (Some ''invalid device context'') \<and>
     guest_lookup dc (snd (UpdateDeviceContext svc ord api dc w)) n =
       (if readmitted (guest_lookup dc w1) (users w1) pre n then guest_lookup dc w1 n else None)"
proof -
  let ?v = "before_users dc ord o' q p w1"
  note frame = before_users_frame [OF assms(10)]
  have run: "UpdateDeviceContext svc ord api dc w =
      foreachg (pre @ du # post) (update_device_user dc o' (fst (dc_ResetGuestUsers dc w1))) ?v"
    using UpdateDeviceContext_answered [OF assms(1-3)] assms(4)
      update_admin_run [OF assms(7) assms(8) assms(9)] assms(12)
    by (simp add: w1_def o'_def)
  have named: "u_Name (users ?v r) = m"
    if "map_of (fst (dc_ResetGuestUsers dc w1)) m = Some r" for m r
    using that assms(11) by (simp add: frame guests_named_def)
  show ?thesis
    using update_device_users_bad [where gs = "fst (dc_ResetGuestUsers dc w1)" and w = ?v
        and post = post, OF assms(10) named assms(13,14)] run
    by (auto simp: frame)
qed

section \<open>The scenario of the device test\<close>

text \<open>
  The context of \<open>mycscloud/device_test.go\<close>: device "1234" owned by user "0000", managed devices
  "0987" and "5678", guests "1111", "2222" and "3333"; and the answer of its mock service.
\<close>

definition test_user :: "string \<Rightarrow> string \<Rightarrow> bool \<Rightarrow> User" where
  "test_user i n a = zero_User\<lparr>u_UserID := i, u_Name := n, u_Active := a\<rparr>"

definition test_world :: "mem_ctx world" where
  "test_world = \<lparr>
     ext = \<lparr>m_device = Some 0, m_device_id_key = ''zyxw'', m_owner = Some 0,
       m_logged_in = (''0000'', ''owner''), m_managed = [1, 2],
       m_guests = [(''guest1'', 1), (''guest2'', 2), (''guest3'', 3)], m_next = 4\<rparr>,
     users = (\<lambda>_. zero_User)(0 := test_user ''0000'' ''owner'' True,
       1 := test_user ''1111'' ''guest1'' True, 2 := test_user ''2222'' ''guest2'' False,
       3 := test_user ''3333'' ''guest3'' False),
     devices = (\<lambda>_. zero_Device)(0 := zero_Device\<lparr>d_DeviceID := ''1234''\<rparr>,
       1 := zero_Device\<lparr>d_DeviceID := ''0987''\<rparr>, 2 := zero_Device\<lparr>d_DeviceID := ''5678''\<rparr>),
     ui_log = [], ui_sync = False, yesno_answers = [], text_answers = []\<rparr>"

definition test_entry :: "string \<Rightarrow> string \<Rightarrow> bool \<Rightarrow> string \<Rightarrow> device_user" where
  "test_entry i n own st = \<lparr>du_User = \<lparr>ui_UserID = i, ui_UserName = n, ui_FirstName = [],
     ui_MiddleName = [], ui_FamilyName = []\<rparr>, du_IsOwner = own, du_Status = st\<rparr>"

definition test_answer :: auth_device where
  "test_answer = \<lparr>ad_AccessType = ''admin'', ad_DeviceID = ''1234'',
     ad_DeviceName = ''New Test Device (updated)'', ad_DeviceType = ''MacBook'',
     ad_ManagedDevices = [\<lparr>md_DeviceID = ''5678'', md_Users = []\<rparr>],
     ad_Users = [test_entry ''3333'' ''guest3'' False ''pending'',
       test_entry ''2222'' ''guest2'' False ''active'',
       test_entry ''0000'' ''owner'' True ''active'']\<rparr>"

definition test_service :: "auth_device \<Rightarrow> ('x, unit, auth_device) gql_exec" where
  "test_service q api rq x = (Inr q, x)"

definition test_client :: graphql_client where
  "test_client = \<lparr>gc_url = ''http://localhost'', gc_idToken = ''mock authorization token'',
     gc_transport = \<lparr>tr_DisableKeepAlives = False, tr_MaxIdleConnsPerHost = 0,
       tr_TLSHandshakeTimeout = 0, tr_DialTimeout = 0\<rparr>, gc_Timeout = 0\<rparr>"

lemmas test_defs = test_world_def test_user_def test_entry_def test_answer_def test_service_def
  zero_User_def zero_Device_def

abbreviation test_run :: "auth_device \<Rightarrow> error option outcome \<times> mem_ctx world" where
  "test_run q \<equiv> UpdateDeviceContext (test_service q) rev test_client mem_context test_world"

lemma test_auth: "auth_answer (test_service q) c dc w = Inr q"
  "auth_world (test_service q) c dc w = w"
  by (simp_all add: auth_answer_def auth_world_def test_service_def)

lemma test_guests_named: "guests_named mem_context test_world"
  by (auto simp: guests_named_def mem_guest_lookup test_defs split: if_splits)

lemma test_run_admitted: "fst (test_run test_answer) = Ret None"
proof -
  have "test_run test_answer =
      update_admin mem_context rev ''1234'' ''0000'' test_answer test_world"
    using UpdateDeviceContext_answered [of mem_context test_world "test_service test_answer"
        test_client test_answer rev]
    by (simp add: test_auth) (simp add: mem_context_def test_defs)
  then show ?thesis
    by (simp add: update_admin_None_iff) (simp add: mem_context_def test_defs bad_owner_def)
qed

theorem UpdateDeviceContext_admits_iff_witness:
  "fst (test_run test_answer) = Ret None \<and>
   fst (test_run (test_answer\<lparr>ad_DeviceID := ''9999''\<rparr>)) \<noteq> Ret None"
  unfolding UpdateDeviceContext_admits_iff test_auth
  by (simp add: mem_context_def test_defs bad_owner_def)

theorem admin_update_guests_witness:
  "guest_lookup mem_context (snd (test_run test_answer)) ''guest1'' = None \<and>
   guest_lookup mem_context (snd (test_run test_answer)) ''guest2'' = Some 2 \<and>
   u_Active (users (snd (test_run test_answer)) 2) \<and>
   \<not> u_Active (users (snd (test_run test_answer)) 3) \<and>
   d_Name (devices (snd (test_run test_answer)) 0) = ''New Test Device (updated)''"
proof -
  note at = admin_update_guests [where svc = "test_service test_answer" and ord = rev
      and api = test_client and dc = mem_context and w = test_world and q = test_answer]
  have admin: "ad_AccessType test_answer = ''admin''" by (simp add: test_answer_def)
  note both = at [unfolded test_auth, OF test_run_admitted refl admin mem_context_ok
      test_guests_named]
  note look = both [THEN conjunct1] and us = both [THEN conjunct2, THEN conjunct1]
  have "dc_GetDevice mem_context test_world = Some 0" by (simp add: mem_context_def test_defs)
  then have "d_Name (devices (snd (test_run test_answer)) 0) = ''New Test Device (updated)''"
    using both by (auto simp: updated_device_def Let_def test_answer_def)
  then show ?thesis
    unfolding look us
    by (simp add: mem_guest_lookup test_defs readmitted_def accepts_def refreshed_def
        refresh_guest_def)
qed

theorem managed_devices_synced_witness:
  "d_DeviceUsers (devices (update_managed mem_context rev ''0000''
      [\<lparr>md_DeviceID = ''5678'', md_Users = [du_User (test_entry ''0000'' ''owner'' True []),
         du_User (test_entry ''4444'' ''kid'' False [])]\<rparr>] test_world) 2) =
     [test_user ''4444'' ''kid'' False]"
proof -
  have idx: "managed_index mem_context test_world = [(''0987'', 1), (''5678'', 2)]"
    by (simp add: managed_index_def mem_context_def test_defs)
  have old: "devices test_world 2 = zero_Device\<lparr>d_DeviceID := ''5678''\<rparr>"
    by (simp add: test_world_def)
  show ?thesis
    using managed_devices_synced [where dc = mem_context and ord = rev and w = test_world and p = 2
        and o' = "''0000''"
        and ds = "[\<lparr>md_DeviceID = ''5678'', md_Users = [du_User (test_entry ''0000'' ''owner'' True []),
           du_User (test_entry ''4444'' ''kid'' False [])]\<rparr>]", OF mem_context_ok map_order_rev]
    by (simp add: idx old) (simp add: test_defs guest_of_def)
qed

definition forged_answer :: auth_device where
  "forged_answer = test_answer\<lparr>ad_Users := [test_entry ''3333'' ''guest3'' False ''active''] @
     test_entry ''9999'' ''mallory'' True ''active'' #
     [test_entry ''2222'' ''guest2'' False ''active'']\<rparr>"

theorem owner_mismatch_drops_guests_witness:
  "fst (test_run forged_answer) = Ret (Some ''invalid device context'') \<and>
   guest_lookup mem_context test_world ''guest2'' = Some 2 \<and>
   guest_lookup mem_context (snd (test_run forged_answer)) ''guest2'' = None"
proof -
  note at = owner_mismatch_drops_guests [where svc = "test_service forged_answer" and ord = rev
      and api = test_client and dc = mem_context and w = test_world and q = forged_answer
      and p = 0 and pre = "[test_entry ''3333'' ''guest3'' False ''active'']"
      and du = "test_entry ''9999'' ''mallory'' True ''active''"
      and post = "[test_entry ''2222'' ''guest2'' False ''active'']" and n = "''guest2''"]
  have "fst (test_run forged_answer) = Ret (Some ''invalid device context'') \<and>
    guest_lookup mem_context (snd (test_run forged_answer)) ''guest2'' =
      (if readmitted (guest_lookup mem_context test_world) (users test_world)
            [test_entry ''3333'' ''guest3'' False ''active''] ''guest2''
       then guest_lookup mem_context test_world ''guest2'' else None)"
    by (rule at [unfolded test_auth])
      (simp_all add: mem_context_ok test_guests_named,
       simp_all add: mem_context_def test_defs forged_answer_def bad_owner_def)
  moreover have "guest_lookup mem_context test_world ''guest2'' = Some 2"
    by (simp add: mem_guest_lookup test_world_def)
  ultimately show ?thesis by (simp add: readmitted_def test_entry_def)
qed

end
