(* ===== verification/Go_Url.thy ===== *)
theory Go_Url
  imports Go_Prelude
begin

text \<open>
  \<open>url.Parse\<close> of Go 1.20's standard library, as far as the client uses it: whether the text
  parses, and the \<open>Host\<close> field of the result (host and port). \<open>url_Host s = None\<close> when
  \<open>url.Parse(s)\<close> gives a nil URL. The facts at the end say what it is for the endpoints of
  space nodes, \<open>https://name\<close> and \<open>https://name:port\<close>.
\<close>

section \<open>Characters\<close>

definition is_lower_upper :: "char \<Rightarrow> bool" where
  "is_lower_upper c = (let n = (of_char c :: nat) in (97 \<le> n \<and> n \<le> 122) \<or> (65 \<le> n \<and> n \<le> 90))"

definition is_digit_char :: "char \<Rightarrow> bool" where
  "is_digit_char c = (let n = (of_char c :: nat) in 48 \<le> n \<and> n \<le> 57)"

definition ishex :: "char \<Rightarrow> bool" where
  "ishex c = (let n = (of_char c :: nat) in
     (48 \<le> n \<and> n \<le> 57) \<or> (97 \<le> n \<and> n \<le> 102) \<or> (65 \<le> n \<and> n \<le> 70))"

definition unhex :: "char \<Rightarrow> nat" where
  "unhex c = (let n = (of_char c :: nat) in
     if n \<le> 57 then n - 48 else if 97 \<le> n then n - 97 + 10 else n - 65 + 10)"

text \<open>\<open>shouldEscape\<close> for a host or a zone.\<close>

definition host_escape :: "char \<Rightarrow> bool" where
  "host_escape c = (\<not> (is_lower_upper c \<or> is_digit_char c \<or>
     c \<in> set (CHR 0x27 # CHR 0x22 # ''!$&()*+,;=:[]<>-_.~'')))"

section \<open>Unescaping\<close>

datatype escape_mode = HostMode | ZoneMode | OtherMode

fun unescape :: "escape_mode \<Rightarrow> string \<Rightarrow> string option" where
  "unescape m [] = Some []"
| "unescape m (c # s) =
     (if c = CHR ''%'' then
        (case s of
           a # b # r \<Rightarrow>
             if \<not> ishex a \<or> \<not> ishex b then None
             else if m = HostMode \<and> unhex a < 8 \<and> \<not> (a = CHR ''2'' \<and> b = CHR ''5'') then None
             else let v = char_of (16 * unhex a + unhex b) in
               if m = ZoneMode \<and> \<not> (a = CHR ''2'' \<and> b = CHR ''5'') \<and> v \<noteq> CHR '' '' \<and> host_escape v
               then None
               else (case unescape m r of None \<Rightarrow> None | Some t \<Rightarrow> Some (v # t))
         | _ \<Rightarrow> None)
      else if m \<noteq> OtherMode \<and> (of_char c :: nat) < 128 \<and> host_escape c then None
      else (case unescape m s of None \<Rightarrow> None | Some t \<Rightarrow> Some (c # t)))"

section \<open>Splitting\<close>

text \<open>The parts before and after the first or the last occurrence of a separator.\<close>

definition cut :: "char \<Rightarrow> string \<Rightarrow> string \<times> string" where
  "cut sep s = (takeWhile (\<lambda>c. c \<noteq> sep) s, drop 1 (dropWhile (\<lambda>c. c \<noteq> sep) s))"

definition cut_last :: "char \<Rightarrow> string \<Rightarrow> (string \<times> string) option" where
  "cut_last sep s = (if sep \<in> set s
     then Some (rev (drop 1 (dropWhile (\<lambda>c. c \<noteq> sep) (rev s))),
                rev (takeWhile (\<lambda>c. c \<noteq> sep) (rev s)))
     else None)"

text \<open>\<open>s[:i]\<close> and \<open>s[i:]\<close> for \<open>i = strings.Index(s, sub)\<close>.\<close>

fun cut_at :: "string \<Rightarrow> string \<Rightarrow> (string \<times> string) option" where
  "cut_at sub [] = (if sub = [] then Some ([], []) else None)"
| "cut_at sub (c # s) = (if HasPrefix (c # s) sub then Some ([], c # s)
     else case cut_at sub s of None \<Rightarrow> None | Some (a, b) \<Rightarrow> Some (c # a, b))"

section \<open>The authority\<close>

definition validOptionalPort :: "string \<Rightarrow> bool" where
  "validOptionalPort p = (case p of [] \<Rightarrow> True
     | c # ds \<Rightarrow> c = CHR '':'' \<and> list_all is_digit_char ds)"

definition parseHost :: "string \<Rightarrow> string option" where
  "parseHost host =
     (if HasPrefix host ''['' then
        (case cut_last (CHR '']'') host of
           None \<Rightarrow> None
         | Some (pre, colonPort) \<Rightarrow>
             if \<not> validOptionalPort colonPort then None
             else case cut_at ''%25'' pre of
                 None \<Rightarrow> unescape HostMode host
               | Some (a, zone) \<Rightarrow>
                   (case (unescape HostMode a, unescape ZoneMode zone,
                          unescape HostMode (CHR '']'' # colonPort)) of
                      (Some h1, Some h2, Some h3) \<Rightarrow> Some (h1 @ h2 @ h3)
                    | _ \<Rightarrow> None))
      else case cut_last (CHR '':'') host of
          Some (_, port) \<Rightarrow>
            if validOptionalPort (CHR '':'' # port) then unescape HostMode host else None
        | None \<Rightarrow> unescape HostMode host)"

definition validUserinfo :: "string \<Rightarrow> bool" where
  "validUserinfo s = list_all (\<lambda>c. is_lower_upper c \<or> is_digit_char c \<or>
     c \<in> set (CHR 0x27 # ''-._:~!$&()*+,;=%@'')) s"

definition parseAuthority :: "string \<Rightarrow> string option" where
  "parseAuthority authority =
     (case cut_last (CHR ''@'') authority of
        None \<Rightarrow> parseHost authority
      | Some (userinfo, h) \<Rightarrow>
          (case parseHost h of
             None \<Rightarrow> None
           | Some host \<Rightarrow>
               if \<not> validUserinfo userinfo then None
               else if CHR '':'' \<in> set userinfo
                 then (case (unescape OtherMode (fst (cut (CHR '':'') userinfo)),
                             unescape OtherMode (snd (cut (CHR '':'') userinfo))) of
                         (Some _, Some _) \<Rightarrow> Some host
                       | _ \<Rightarrow> None)
                 else (case unescape OtherMode userinfo of None \<Rightarrow> None | Some _ \<Rightarrow> Some host)))"

section \<open>Parse\<close>

text \<open>
  \<open>getScheme\<close>: \<open>None\<close> for a text that starts with a colon, otherwise the scheme (empty when there
  is none) and the rest.
\<close>

fun getScheme_loop :: "string \<Rightarrow> string \<Rightarrow> string \<Rightarrow> (string \<times> string) option" where
  "getScheme_loop raw pre [] = Some ([], raw)"
| "getScheme_loop raw pre (c # s) =
     (if is_lower_upper c then getScheme_loop raw (pre @ [c]) s
      else if is_digit_char c \<or> c \<in> set ''+-.'' then
        (if pre = [] then Some ([], raw) else getScheme_loop raw (pre @ [c]) s)
      else if c = CHR '':'' then (if pre = [] then None else Some (pre, s))
      else Some ([], raw))"

definition getScheme :: "string \<Rightarrow> (string \<times> string) option" where
  "getScheme raw = getScheme_loop raw [] raw"

definition containsCTL :: "string \<Rightarrow> bool" where
  "containsCTL s = list_ex (\<lambda>c. (of_char c :: nat) < 32 \<or> (of_char c :: nat) = 127) s"

definition with_path :: "string \<Rightarrow> string \<Rightarrow> string option" where
  "with_path path host =
     (case unescape OtherMode path of None \<Rightarrow> None | Some _ \<Rightarrow> Some host)"

definition parse_url :: "string \<Rightarrow> string option" where
  "parse_url raw =
     (if containsCTL raw then None
      else if raw = ''*'' then Some []
      else case getScheme raw of
          None \<Rightarrow> None
        | Some (scheme, rest0) \<Rightarrow>
            let rest = fst (cut (CHR ''?'') rest0) in
            if \<not> HasPrefix rest ''/'' \<and> scheme \<noteq> [] then Some []
            else if \<not> HasPrefix rest ''/'' \<and> CHR '':'' \<in> set (fst (cut (CHR ''/'') rest)) then None
            else if (scheme \<noteq> [] \<or> \<not> HasPrefix rest ''///'') \<and> HasPrefix rest ''//'' then
              (case parseAuthority (takeWhile (\<lambda>c. c \<noteq> CHR ''/'') (drop 2 rest)) of
                 None \<Rightarrow> None
               | Some host \<Rightarrow> with_path (dropWhile (\<lambda>c. c \<noteq> CHR ''/'') (drop 2 rest)) host)
            else with_path rest [])"

definition url_Host :: "string \<Rightarrow> string option" where
  "url_Host s = (case cut (CHR ''#'') s of (u, frag) \<Rightarrow>
     (case parse_url u of
        None \<Rightarrow> None
      | Some host \<Rightarrow>
          if frag = [] then Some host
          else case unescape OtherMode frag of None \<Rightarrow> None | Some _ \<Rightarrow> Some host))"

section \<open>Endpoints of space nodes\<close>

text \<open>The characters of a DNS name or an IPv4 address.\<close>

definition is_name :: "string \<Rightarrow> bool" where
  "is_name s = list_all (\<lambda>c. is_lower_upper c \<or> is_digit_char c \<or> c \<in> set ''-.'') s"

definition is_port :: "string \<Rightarrow> bool" where
  "is_port s = list_all is_digit_char s"

lemma is_name_no:
  assumes "is_name s" "\<not> is_lower_upper c" "\<not> is_digit_char c" "c \<notin> set ''-.''"
  shows "c \<notin> set s"
  using assms by (auto simp: is_name_def list_all_iff)

lemma is_port_no: "is_port s \<Longrightarrow> \<not> is_digit_char c \<Longrightarrow> c \<notin> set s"
  by (auto simp: is_port_def list_all_iff)

lemma unescape_plain:
  "list_all (\<lambda>c. c \<noteq> CHR ''%'' \<and> \<not> host_escape c) s \<Longrightarrow> unescape m s = Some s"
  by (induction s) auto

lemma percent_no [simp]: "\<not> is_lower_upper (CHR ''%'')" "\<not> is_digit_char (CHR ''%'')"
  by (simp_all add: is_lower_upper_def is_digit_char_def)

lemma name_plain: "is_name s \<Longrightarrow> list_all (\<lambda>c. c \<noteq> CHR ''%'' \<and> \<not> host_escape c) s"
  unfolding is_name_def by (erule list.pred_mono_strong) (auto simp: host_escape_def)

lemma port_plain: "is_port s \<Longrightarrow> list_all (\<lambda>c. c \<noteq> CHR ''%'' \<and> \<not> host_escape c) s"
  unfolding is_port_def by (erule list.pred_mono_strong) (auto simp: host_escape_def)

lemma cut_last_append: "sep \<notin> set t \<Longrightarrow> cut_last sep (s @ sep # t) = Some (s, t)"
  by (simp add: cut_last_def takeWhile_append dropWhile_append)

lemma no_sep_while:
  assumes "sep \<notin> set s"
  shows "takeWhile (\<lambda>c. c \<noteq> sep) s = s" "dropWhile (\<lambda>c. c \<noteq> sep) s = []"
  using assms by (induction s) auto

lemma cut_none: "sep \<notin> set s \<Longrightarrow> cut sep s = (s, [])"
  by (simp add: cut_def no_sep_while)

lemma cut_last_none: "sep \<notin> set s \<Longrightarrow> cut_last sep s = None"
  by (simp add: cut_last_def)

lemma parseHost_name: "is_name h \<Longrightarrow> parseHost h = Some h"
proof -
  assume h: "is_name h"
  have br: "\<not> HasPrefix h ''[''"
    using is_name_no [OF h, of "CHR ''[''"]
    by (cases h) (auto simp: HasPrefix_def is_lower_upper_def is_digit_char_def)
  have col: "CHR '':'' \<notin> set h"
    by (rule is_name_no [OF h]) (simp_all add: is_lower_upper_def is_digit_char_def)
  show ?thesis
    by (simp add: parseHost_def br cut_last_none [OF col] unescape_plain [OF name_plain [OF h]])
qed

lemma parseHost_name_port:
  assumes h: "is_name h" and p: "is_port p"
  shows "parseHost (h @ CHR '':'' # p) = Some (h @ CHR '':'' # p)"
proof -
  have br: "\<not> HasPrefix (h @ CHR '':'' # p) ''[''"
    using is_name_no [OF h, of "CHR ''[''"]
    by (cases h) (auto simp: HasPrefix_def is_lower_upper_def is_digit_char_def)
  have col: "CHR '':'' \<notin> set p"
    by (rule is_port_no [OF p]) (simp add: is_digit_char_def)
  have port: "validOptionalPort (CHR '':'' # p)"
    using p by (simp add: validOptionalPort_def is_port_def)
  have plain: "unescape HostMode (h @ CHR '':'' # p) = Some (h @ CHR '':'' # p)"
    by (rule unescape_plain) (use name_plain [OF h] port_plain [OF p] in
      \<open>simp add: host_escape_def\<close>)
  show ?thesis
    by (simp add: parseHost_def br cut_last_append [OF col] port plain)
qed

text \<open>For text without the characters that end or split an authority, \<open>Host\<close> is all of it.\<close>

lemma url_Host_https:
  assumes "parseHost a = Some a" "CHR ''/'' \<notin> set a" "CHR ''?'' \<notin> set a" "CHR ''#'' \<notin> set a"
    "CHR ''@'' \<notin> set a" "\<not> containsCTL a"
  shows "url_Host (''https://'' @ a) = Some a"
proof -
  have tw: "takeWhile (\<lambda>c. c \<noteq> CHR ''/'') a = a" "dropWhile (\<lambda>c. c \<noteq> CHR ''/'') a = []"
    using no_sep_while [OF assms(2)] by simp_all
  have frag: "cut (CHR ''#'') (''https://'' @ a) = (''https://'' @ a, [])"
    by (rule cut_none) (simp add: assms(4))
  have query: "cut (CHR ''?'') (CHR ''/'' # CHR ''/'' # a) = (CHR ''/'' # CHR ''/'' # a, [])"
    by (rule cut_none) (simp add: assms(3))
  have sch: "getScheme (''https://'' @ a) = Some (''https'', ''//'' @ a)"
    by (simp add: getScheme_def is_lower_upper_def is_digit_char_def)
  have auth: "parseAuthority a = Some a"
    by (simp add: parseAuthority_def cut_last_none [OF assms(5)] assms(1))
  have "parse_url (''https://'' @ a) = Some a"
    using assms(6) sch query
    by (simp add: parse_url_def containsCTL_def HasPrefix_def tw auth with_path_def)
  then show ?thesis using frag by (simp add: url_Host_def)
qed

lemma name_ctl: "is_name h \<Longrightarrow> \<not> containsCTL h"
  by (auto simp: is_name_def containsCTL_def list_all_iff list_ex_iff is_lower_upper_def
      is_digit_char_def)

lemma port_ctl: "is_port h \<Longrightarrow> \<not> containsCTL h"
  by (auto simp: is_port_def containsCTL_def list_all_iff list_ex_iff is_digit_char_def)

lemma url_Host_name: "is_name h \<Longrightarrow> url_Host (''https://'' @ h) = Some h"
  by (rule url_Host_https)
    (simp_all add: parseHost_name name_ctl is_name_no is_lower_upper_def is_digit_char_def)

lemma url_Host_name_port:
  assumes h: "is_name h" and p: "is_port p"
  shows "url_Host (''https://'' @ h @ CHR '':'' # p) = Some (h @ CHR '':'' # p)"
  by (rule url_Host_https)
    (use h p name_ctl [OF h] port_ctl [OF p] in
      \<open>simp_all add: parseHost_name_port is_name_no is_port_no is_lower_upper_def is_digit_char_def
        containsCTL_def\<close>)

lemma name_no_colon: "is_name h \<Longrightarrow> CHR '':'' \<notin> set h"
  by (rule is_name_no) (simp_all add: is_lower_upper_def is_digit_char_def)

lemma Split_head_port: "is_name h \<Longrightarrow> Split_head (CHR '':'') (h @ CHR '':'' # p) = h"
  using no_sep_while [OF name_no_colon, of h] by (simp add: Split_head_def takeWhile_tail)

lemma Split_head_name: "is_name h \<Longrightarrow> Split_head (CHR '':'') h = h"
  using no_sep_while [OF name_no_colon, of h] by (simp add: Split_head_def)

end
