(* ===== verification/Node_API.thy ===== *)
theory Node_API
  imports Go_Fmt Graphql Userspace
begin

text \<open>
  Package \<open>mycsnode\<close>: the client of a space node's REST API. A client wraps one of package
  \<open>mycloudspace-common\<close>, which authenticates with the node and sends the requests; that package
  and the REST library are not part of the repository and are arguments: \<open>mycsnode_ops\<close> for the
  wrapped client, \<open>rest_exec\<close> for one exchange. What is modelled is the request each operation
  builds (method, path, headers, body) and what it makes of the reply.
\<close>

section \<open>Space nodes\<close>

text \<open>
  The two implementations of the interface \<open>userspace.SpaceNode\<close>: a target deployed from this
  machine, and a space shared by the cloud service (the fields \<open>GetSpaces\<close> fills). \<open>tg_hidden\<close>
  stands for the fields of a target that the client never names. The interface's methods belong
  to the package \<open>cloud-builder\<close>; \<open>node_ops\<close> lists those the client calls.
\<close>

record 'h Target =
  tg_RSAPublicKey :: string
  tg_CookbookName :: string
  tg_RecipeName :: string
  tg_RecipeIaas :: string
  tg_NodeKey :: string
  tg_NodeID :: string
  tg_hidden :: 'h

record Space =
  s_SpaceID :: string
  s_SpaceName :: string
  s_PublicKey :: string
  s_Cookbook :: string
  s_Recipe :: string
  s_IaaS :: string
  s_Region :: string
  s_Version :: string
  s_Status :: string
  s_LastSeen :: uint64
  s_IsOwned :: bool
  s_IsAdmin :: bool
  s_IsEgressNode :: bool
  s_AccessStatus :: string
  s_IPAddress :: string
  s_FQDN :: string
  s_Port :: int64
  s_VpnType :: string
  s_LocalCARoot :: string

datatype 'h SpaceNode = LocalTarget "'h Target" | SharedSpace Space

record ('h, 'x) node_ops =
  no_Key :: "'h SpaceNode \<Rightarrow> string"
  no_GetSpaceID :: "'h SpaceNode \<Rightarrow> string"
  no_GetSpaceName :: "'h SpaceNode \<Rightarrow> string"
  no_GetEndpoint :: "'h SpaceNode \<Rightarrow> error + string"
  no_GetApiCARoot :: "'h SpaceNode \<Rightarrow> string"
  no_CanUseAsEgressNode :: "'h SpaceNode \<Rightarrow> bool"
  no_CreateDeviceConnectKeyPair :: "'h SpaceNode \<Rightarrow> 'x world \<Rightarrow> (error + string \<times> string) \<times> 'x world"
  no_IsAdmin :: "'h SpaceNode \<Rightarrow> 'x world \<Rightarrow> bool"

section \<open>The client\<close>

text \<open>
  \<open>ac_ref\<close> is the embedded pointer to the wrapped client, \<open>ac_Node\<close> its node. A wrapped client is
  built for a device name, user ID, device ID key, device private key, node and authentication
  path.
\<close>

record 'h ApiClient =
  ac_ref :: nat
  ac_Node :: "'h SpaceNode"

record ('h, 'x) mycsnode_ops =
  mo_NewApiClient :: "string \<Rightarrow> string \<Rightarrow> string \<Rightarrow> string \<Rightarrow> 'h SpaceNode \<Rightarrow> string \<Rightarrow>
    'x world \<Rightarrow> (error + nat) \<times> 'x world"
  mo_Start :: "nat \<Rightarrow> 'x world \<Rightarrow> error option \<times> 'x world"
  mo_Stop :: "nat \<Rightarrow> 'x world \<Rightarrow> 'x world"
  mo_WaitForAuth :: "nat \<Rightarrow> 'x world \<Rightarrow> bool \<times> 'x world"
  mo_AuthIDKey :: "nat \<Rightarrow> 'x world \<Rightarrow> string"

definition NewApiClient ::
  "('h, 'x) mycsnode_ops \<Rightarrow> 'x DeviceContext \<Rightarrow> 'h SpaceNode \<Rightarrow>
     ('x world, error + 'h ApiClient) go" where
  "NewApiClient mo dc node =
     bindg (getg (dc_GetDevice dc)) (\<lambda>device.
     case device of
       None \<Rightarrow> panic ''invalid memory address or nil pointer dereference''
     | Some d \<Rightarrow>
         bindg (getg (\<lambda>w. (devices w d, dc_GetLoggedInUserID dc w, dc_GetDeviceIDKey dc w)))
           (\<lambda>(dev, userID, idKey).
         bindg (callg (mo_NewApiClient mo (d_Name dev) userID idKey (d_RSAPrivateKey dev) node
                  ''/mycs/device/auth'')) (\<lambda>r.
         case r of
           Inl err \<Rightarrow> ret (Inl err)
         | Inr ref \<Rightarrow> ret (Inr \<lparr>ac_ref = ref, ac_Node = node\<rparr>))))"

definition GetSpaceNode :: "'h ApiClient \<Rightarrow> 'h SpaceNode" where
  "GetSpaceNode a = ac_Node a"

section \<open>Requests and replies\<close>

datatype rest_method = DoGet | DoPost | DoPut | DoDelete

text \<open>
  A request body is a struct: its fields under their JSON names, in order. \<open>omitempty\<close> fields
  with a zero value are left out by \<open>encoding/json\<close>. The body of the mesh key request is a struct
  of another package, with the one field \<open>ExpiresIn\<close>.
\<close>

datatype json_value = JString string | JBool bool

datatype rest_body =
    NoBody
  | JsonBody "(string \<times> json_value) list"
  | CreateMeshAuthKeyReq int64

fun json_empty :: "json_value \<Rightarrow> bool" where
  "json_empty (JString s) = (s = [])"
| "json_empty (JBool b) = (\<not> b)"

definition field :: "string \<Rightarrow> json_value \<Rightarrow> (string \<times> json_value) list" where
  "field k v = [(k, v)]"

definition field_omitempty :: "string \<Rightarrow> json_value \<Rightarrow> (string \<times> json_value) list" where
  "field_omitempty k v = (if json_empty v then [] else [(k, v)])"

record rest_request =
  rq_Method :: rest_method
  rq_Path :: string
  rq_Headers :: "(string \<times> string) list"
  rq_Body :: rest_body

text \<open>
  A reply: the error of the exchange, the response body decoded into the value the operation
  passed, whether \<open>response.Error\<close> is set and the message decoded into the error response.
\<close>

record 'b rest_reply =
  rr_err :: "error option"
  rr_Body :: 'b
  rr_Error :: bool
  rr_ErrorMessage :: string

type_synonym ('x, 'b) rest_exec =
  "nat \<Rightarrow> rest_request \<Rightarrow> 'b \<Rightarrow> 'x world \<Rightarrow> 'b rest_reply \<times> 'x world"

definition rest_failure :: "'b rest_reply \<Rightarrow> error \<Rightarrow> error" where
  "rest_failure r err =
     (if rr_Error r \<and> rr_ErrorMessage r \<noteq> [] then Errorf (rr_ErrorMessage r) else err)"

text \<open>
  The exchange the operations share: the request with the client's key in its \<open>X-Auth-Key\<close> header,
  sent for a response body that starts as \<open>body0\<close>.
\<close>

definition exchange ::
  "('h, 'x) mycsnode_ops \<Rightarrow> ('x, 'b) rest_exec \<Rightarrow> 'h ApiClient \<Rightarrow> rest_method \<Rightarrow> string \<Rightarrow>
     rest_body \<Rightarrow> 'b \<Rightarrow> ('x world, error + 'b) go" where
  "exchange mo rest a meth path body body0 =
     bindg (getg (mo_AuthIDKey mo (ac_ref a))) (\<lambda>key.
     bindg (callg (rest (ac_ref a) \<lparr>rq_Method = meth, rq_Path = path,
              rq_Headers = [(''X-Auth-Key'', key)], rq_Body = body\<rparr> body0)) (\<lambda>r.
     case rr_err r of
       Some err \<Rightarrow> ret (Inl (rest_failure r err))
     | None \<Rightarrow> ret (Inr (rr_Body r))))"

section \<open>Users and devices of a space\<close>

text \<open>\<open>userspace.SpaceUser\<close> and \<open>userspace.Device\<close> as decoded by the REST library: \<open>'u\<close>, \<open>'d\<close>.\<close>

definition user_path :: "string \<Rightarrow> string" where
  "user_path userID = ''/mycs/user/'' @ userID"

definition device_path :: "string \<Rightarrow> string \<Rightarrow> string" where
  "device_path userID deviceID = ''/mycs/user/'' @ userID @ ''/device/'' @ deviceID"

definition GetSpaceUsers ::
  "('h, 'x) mycsnode_ops \<Rightarrow> ('x, 'u list) rest_exec \<Rightarrow> 'h ApiClient \<Rightarrow>
     ('x world, error + 'u list) go" where
  "GetSpaceUsers mo rest a = exchange mo rest a DoGet ''/mycs/users'' NoBody []"

definition GetSpaceUser ::
  "('h, 'x) mycsnode_ops \<Rightarrow> ('x, 'u) rest_exec \<Rightarrow> 'u \<Rightarrow> 'h ApiClient \<Rightarrow> string \<Rightarrow>
     ('x world, error + 'u) go" where
  "GetSpaceUser mo rest zero_user a userID =
     exchange mo rest a DoGet (user_path userID) NoBody zero_user"

definition UpdateSpaceUser ::
  "('h, 'x) mycsnode_ops \<Rightarrow> ('x, 'u) rest_exec \<Rightarrow> 'u \<Rightarrow> 'h ApiClient \<Rightarrow> string \<Rightarrow> bool \<Rightarrow> bool \<Rightarrow>
     ('x world, error + 'u) go" where
  "UpdateSpaceUser mo rest zero_user a userID enableAdmin enableSiteBlocking =
     exchange mo rest a DoPut (user_path userID)
       (JsonBody (field ''isSpaceAdmin'' (JBool enableAdmin) @
                  field ''enableSiteBlocking'' (JBool enableSiteBlocking))) zero_user"

definition GetUserDevice ::
  "('h, 'x) mycsnode_ops \<Rightarrow> ('x, 'd) rest_exec \<Rightarrow> 'd \<Rightarrow> 'h ApiClient \<Rightarrow> string \<Rightarrow> string \<Rightarrow>
     ('x world, error + 'd) go" where
  "GetUserDevice mo rest zero_device a userID deviceID =
     exchange mo rest a DoGet (device_path userID deviceID) NoBody zero_device"

definition EnableUserDevice ::
  "('h, 'x) mycsnode_ops \<Rightarrow> ('x, 'd) rest_exec \<Rightarrow> 'd \<Rightarrow> 'h ApiClient \<Rightarrow> string \<Rightarrow> string \<Rightarrow> bool \<Rightarrow>
     ('x world, error + 'd) go" where
  "EnableUserDevice mo rest zero_device a userID deviceID enabled =
     exchange mo rest a DoPut (device_path userID deviceID)
       (JsonBody (field_omitempty ''enabled'' (JBool enabled))) zero_device"

section \<open>Connecting\<close>

text \<open>
  \<open>vpn.ServiceConfig\<close>: the fields the client sets and, in \<open>vc_more\<close>, those of the reply. The REST
  library decodes the reply over the values already set.
\<close>

record 'c vpn_ServiceConfig =
  vc_PrivateKey :: string
  vc_PublicKey :: string
  vc_IsAdminUser :: bool
  vc_more :: 'c

definition connect_body :: "string \<Rightarrow> bool \<Rightarrow> bool \<Rightarrow> string \<Rightarrow> string \<Rightarrow> rest_body" where
  "connect_body publicKey useSpaceDNS useSpaceAsEgress managedDeviceID managedUserID =
     JsonBody (field_omitempty ''deviceConnectKey'' (JString publicKey) @
       field ''useSpaceDNS'' (JBool useSpaceDNS) @
       field ''useSpaceAsEgress'' (JBool useSpaceAsEgress) @
       field_omitempty ''managedDeviceID'' (JString managedDeviceID) @
       field_omitempty ''managedDeviceUserID'' (JString managedUserID))"

definition CreateConnectConfig ::
  "('h, 'x) node_ops \<Rightarrow> ('h, 'x) mycsnode_ops \<Rightarrow> ('x, 'c vpn_ServiceConfig) rest_exec \<Rightarrow> 'c \<Rightarrow>
     'h ApiClient \<Rightarrow> bool \<Rightarrow> bool \<Rightarrow> string \<Rightarrow> string \<Rightarrow>
     ('x world, error + 'c vpn_ServiceConfig) go" where
  "CreateConnectConfig no mo rest zero a useSpaceDNS useSpaceAsEgress managedDeviceID managedUserID =
     bindg (callg (no_CreateDeviceConnectKeyPair no (ac_Node a))) (\<lambda>keys.
     case keys of
       Inl err \<Rightarrow> ret (Inl err)
     | Inr (privateKey, publicKey) \<Rightarrow>
         bindg (getg (no_IsAdmin no (ac_Node a))) (\<lambda>isAdmin.
         exchange mo rest a DoPost ''/mycs/connect''
           (connect_body publicKey useSpaceDNS useSpaceAsEgress managedDeviceID managedUserID)
           \<lparr>vc_PrivateKey = privateKey, vc_PublicKey = publicKey, vc_IsAdminUser = isAdmin,
             vc_more = zero\<rparr>))"

definition DeleteConnectConfig ::
  "('h, 'x) mycsnode_ops \<Rightarrow> ('x, unit) rest_exec \<Rightarrow> 'h ApiClient \<Rightarrow>
     ('x world, error option) go" where
  "DeleteConnectConfig mo rest a =
     bindg (exchange mo rest a DoDelete ''/mycs/connect'' NoBody ()) (\<lambda>r.
     case r of Inl err \<Rightarrow> ret (Some err) | Inr _ \<Rightarrow> ret None)"

definition Connect_vpn ::
  "('h, 'x) node_ops \<Rightarrow> ('h, 'x) mycsnode_ops \<Rightarrow> ('x, 'c vpn_ServiceConfig) rest_exec \<Rightarrow> 'c \<Rightarrow>
     'h ApiClient \<Rightarrow> ('x world, error + 'c vpn_ServiceConfig) go" where
  "Connect_vpn no mo rest zero a = CreateConnectConfig no mo rest zero a True True [] []"

definition Disconnect_vpn ::
  "('h, 'x) mycsnode_ops \<Rightarrow> ('x, unit) rest_exec \<Rightarrow> 'h ApiClient \<Rightarrow>
     ('x world, error option) go" where
  "Disconnect_vpn mo rest a = DeleteConnectConfig mo rest a"

definition CreateMeshAuthKey ::
  "('h, 'x) mycsnode_ops \<Rightarrow> ('x, 'm) rest_exec \<Rightarrow> 'm \<Rightarrow> 'h ApiClient \<Rightarrow> int64 \<Rightarrow>
     ('x world, error + 'm) go" where
  "CreateMeshAuthKey mo rest zero a expiresIn =
     exchange mo rest a DoPost ''/mycs/device/meshAuthKey'' (CreateMeshAuthKeyReq expiresIn) zero"

end
