(* ===== verification/Node_Props.thy ===== *)
theory Node_Props
  imports Node_API
begin

text \<open>
  What the node API promises: how a failed exchange is reported, that the paths of different users
  and devices differ, and that the JSON bodies carry the values they were built from.
\<close>

section \<open>Exchanges\<close>

text \<open>The reply to the request of an exchange, and the world after it.\<close>

definition rest_reply_of ::
  "('h, 'x) mycsnode_ops \<Rightarrow> ('x, 'b) rest_exec \<Rightarrow> 'h ApiClient \<Rightarrow> rest_method \<Rightarrow> string \<Rightarrow>
     rest_body \<Rightarrow> 'b \<Rightarrow> 'x world \<Rightarrow> 'b rest_reply \<times> 'x world" where
  "rest_reply_of mo rest a meth path body init w =
     rest (ac_ref a) \<lparr>rq_Method = meth, rq_Path = path,
       rq_Headers = [(''X-Auth-Key'', mo_AuthIDKey mo (ac_ref a) w)], rq_Body = body\<rparr> init w"

lemma exchange_apply:
  "exchange mo rest a meth path body init w =
     (case rest_reply_of mo rest a meth path body init w of (r, w') \<Rightarrow>
        (Ret (case rr_err r of None \<Rightarrow> Inr (rr_Body r) | Some err \<Rightarrow> Inl (rest_failure r err)), w'))"
  by (simp add: exchange_def go_monad rest_reply_of_def split: prod.split option.split)

lemma exchange_returns: "\<exists>v. fst (exchange mo rest a meth path body init w) = Ret v"
  by (simp add: exchange_apply split: prod.split)

lemma exchange_bind:
  "bindg (exchange mo rest a meth path body init) f w =
     (case rest_reply_of mo rest a meth path body init w of (r, w') \<Rightarrow>
        f (case rr_err r of None \<Rightarrow> Inr (rr_Body r) | Some err \<Rightarrow> Inl (rest_failure r err)) w')"
  by (simp add: bindg_def exchange_apply split: prod.split)

lemma rest_failure_plain:
  "rr_Error r \<Longrightarrow> rr_ErrorMessage r = m \<Longrightarrow> m \<noteq> [] \<Longrightarrow> CHR ''%'' \<notin> set m \<Longrightarrow> rest_failure r err = m"
  by (simp add: rest_failure_def Errorf_plain)

lemma rest_failure_percent:
  "rr_Error r \<Longrightarrow> rr_ErrorMessage r = m @ ''%'' \<Longrightarrow> CHR ''%'' \<notin> set m \<Longrightarrow>
     rest_failure r err = m @ ''%!(NOVERB)''"
  by (simp add: rest_failure_def Errorf_plain_append directive_defs Let_def)

section \<open>Bodies as a server reads them\<close>

text \<open>A decoder with zero values for the fields that are missing.\<close>

definition read_bool :: "rest_body \<Rightarrow> string \<Rightarrow> bool" where
  "read_bool b k = (case b of
     JsonBody fs \<Rightarrow> (case map_of fs k of Some (JBool v) \<Rightarrow> v | _ \<Rightarrow> False)
   | _ \<Rightarrow> False)"

definition read_string :: "rest_body \<Rightarrow> string \<Rightarrow> string" where
  "read_string b k = (case b of
     JsonBody fs \<Rightarrow> (case map_of fs k of Some (JString v) \<Rightarrow> v | _ \<Rightarrow> [])
   | _ \<Rightarrow> [])"

lemmas body_defs = read_bool_def read_string_def connect_body_def field_def field_omitempty_def

section \<open>Properties\<close>

text \<open>
  Property C40. When an exchange fails and the node's error response carries a message, the
  operation returns that message in place of the HTTP error. The message is passed to
  \<open>fmt.Errorf\<close> as a format: one without a percent sign comes back verbatim, but one that ends in
  a percent sign comes back with Go's complaint about a missing verb appended.
\<close>
theorem node_error_message:
  assumes "rr_err (fst (rest_reply_of mo rest a meth path body init w)) = Some err"
    and "rr_Error (fst (rest_reply_of mo rest a meth path body init w))"
    and "rr_ErrorMessage (fst (rest_reply_of mo rest a meth path body init w)) =
      (if percent then m @ ''%'' else m)"
    and "CHR ''%'' \<notin> set m" and "m \<noteq> []"
  shows "fst (exchange mo rest a meth path body init w) =
      Ret (Inl (if percent then m @ ''%!(NOVERB)'' else m))"
  using assms
  by (cases percent)
    (simp_all add: exchange_apply rest_failure_plain rest_failure_percent case_prod_beta)

text \<open>
  For user IDs without a slash the paths identify what they name: two user paths are
  equal only for the same user, two device paths only for the same user and device, and no user
  path is a device path or the path of the user list. A slash in the user ID, which is not
  escaped, turns the path of a user into the path of a device.
\<close>
lemma node_paths_injective:
  assumes "CHR ''/'' \<notin> set u" and "CHR ''/'' \<notin> set u'"
  shows "(user_path u = user_path u' \<longleftrightarrow> u = u') \<and>
    (device_path u d = device_path u' d' \<longleftrightarrow> u = u' \<and> d = d') \<and>
    user_path u \<noteq> device_path u' d' \<and> user_path u \<noteq> ''/mycs/users'' \<and>
    user_path (u @ ''/device/'' @ d) = device_path u d"
proof (intro conjI)
  have split: "u @ CHR ''/'' # s = u' @ CHR ''/'' # s' \<longleftrightarrow> u = u' \<and> s = s'" for s s'
    using assms by (auto simp: append_eq_append_conv2 append_eq_Cons_conv Cons_eq_append_conv)
  show "user_path u = user_path u' \<longleftrightarrow> u = u'" by (simp add: user_path_def)
  show "device_path u d = device_path u' d' \<longleftrightarrow> u = u' \<and> d = d'"
    using split [of "''device/'' @ d" "''device/'' @ d'"] by (simp add: device_path_def)
  show "user_path u \<noteq> device_path u' d'"
    using assms(1) by (auto simp: user_path_def device_path_def)
  show "user_path u \<noteq> ''/mycs/users''" by (simp add: user_path_def)
  show "user_path (u @ ''/device/'' @ d) = device_path u d"
    by (simp add: user_path_def device_path_def)
qed

text \<open>
  A server that fills missing fields with zero values reads back exactly the values a connect
  request was built from, although empty ones are left out: the device key, both flags and the
  managed device and user.
\<close>
lemma request_bodies_decode:
  "read_string (connect_body key dns egress dev user) ''deviceConnectKey'' = key \<and>
   read_bool (connect_body key dns egress dev user) ''useSpaceDNS'' = dns \<and>
   read_bool (connect_body key dns egress dev user) ''useSpaceAsEgress'' = egress \<and>
   read_string (connect_body key dns egress dev user) ''managedDeviceID'' = dev \<and>
   read_string (connect_body key dns egress dev user) ''managedDeviceUserID'' = user"
  by (simp add: body_defs)

section \<open>Witnesses\<close>

definition failing_rest :: "string \<Rightarrow> ('x, 'b) rest_exec" where
  "failing_rest m ref rq b w =
     (\<lparr>rr_err = Some ''400 Bad Request'', rr_Body = b, rr_Error = True, rr_ErrorMessage = m\<rparr>, w)"

definition test_mycsnode :: "('h, 'x) mycsnode_ops" where
  "test_mycsnode = \<lparr>mo_NewApiClient = (\<lambda>_ _ _ _ _ _ w. (Inr 0, w)), mo_Start = (\<lambda>_ w. (None, w)),
     mo_Stop = (\<lambda>_ w. w), mo_WaitForAuth = (\<lambda>_ w. (True, w)), mo_AuthIDKey = (\<lambda>_ _. ''key'')\<rparr>"

definition test_Space :: "string \<Rightarrow> string \<Rightarrow> Space" where
  "test_Space i n = \<lparr>s_SpaceID = i, s_SpaceName = n, s_PublicKey = [], s_Cookbook = ''spacenode'',
     s_Recipe = ''sandbox'', s_IaaS = ''aws'', s_Region = ''us-east-1'', s_Version = [],
     s_Status = ''running'', s_LastSeen = 0, s_IsOwned = False, s_IsAdmin = False,
     s_IsEgressNode = True, s_AccessStatus = ''active'', s_IPAddress = [], s_FQDN = [],
     s_Port = 443, s_VpnType = ''ipsec'', s_LocalCARoot = []\<rparr>"

definition test_ApiClient :: "unit ApiClient" where
  "test_ApiClient = \<lparr>ac_ref = 0, ac_Node = SharedSpace (test_Space ''s1'' ''space one'')\<rparr>"

abbreviation test_failure :: "string \<Rightarrow> (error + nat) outcome" where
  "test_failure m \<equiv> fst (exchange test_mycsnode (failing_rest m) test_ApiClient DoGet
     ''/mycs/users'' NoBody 0 (quiet_world ()))"

theorem node_error_message_witness:
  "test_failure ''a request error'' = Ret (Inl ''a request error'') \<and>
   test_failure ''quota at 100%'' = Ret (Inl ''quota at 100%!(NOVERB)'')"
proof -
  note at = node_error_message [where mo = test_mycsnode and a = test_ApiClient and meth = DoGet
      and path = "''/mycs/users''" and body = NoBody and init = "0 :: nat"
      and w = "quiet_world ()" and err = "''400 Bad Request''"]
  show ?thesis
    using at [where rest = "failing_rest ''a request error''" and percent = False
        and m = "''a request error''"]
      at [where rest = "failing_rest ''quota at 100%''" and percent = True
        and m = "''quota at 100''"]
    by (simp add: rest_reply_of_def failing_rest_def)
qed

end
