(* ===== verification/Space_API.thy ===== *)
theory Space_API
  imports Complex_Main Device_API Node_API
begin

text \<open>
  \<open>mycscloud/space.go\<close>: the space API of the cloud service. \<open>AddSpace\<close> registers a target as a
  space and stores the identity it was given in the target, \<open>DeleteSpace\<close> removes it, and
  \<open>GetSpaces\<close> lists the spaces the logged in user has access to.
\<close>

section \<open>Targets\<close>

text \<open>
  The methods of a target that are not methods of a space node; they belong to the package
  \<open>cloud-builder\<close>. \<open>Provider.Region()\<close> is a pointer, which may be nil.
\<close>

record 'h target_ops =
  to_IsBastion :: "'h Target \<Rightarrow> bool"
  to_Error :: "'h Target \<Rightarrow> error option"
  to_DeploymentName :: "'h Target \<Rightarrow> string"
  to_Region :: "'h Target \<Rightarrow> string option"

section \<open>The mutations\<close>

definition addSpace_request :: "'h target_ops \<Rightarrow> 'h Target \<Rightarrow> string \<Rightarrow> bool \<Rightarrow> request" where
  "addSpace_request to tgt region isEgressNode = \<lparr>gq_kind = Mutation,
     gq_tag = ''addSpace(spaceName: $spaceName, spaceKey: {publicKey: $spacePublicKey}, cookbook: $cookbook, recipe: $recipe, iaas: $iaas, region: $region, isEgressNode: $isEgressNode)'',
     gq_vars = [(''spaceName'', GString (to_DeploymentName to tgt)),
       (''spacePublicKey'', GString (tg_RSAPublicKey tgt)),
       (''cookbook'', GString (tg_CookbookName tgt)),
       (''recipe'', GString (tg_RecipeName tgt)),
       (''iaas'', GString (tg_RecipeIaas tgt)),
       (''region'', GString region),
       (''isEgressNode'', GBoolean isEgressNode)]\<rparr>"

record add_space =
  adsp_IdKey :: string
  adsp_SpaceID :: string

text \<open>The target is updated in place; here its new value is part of the result.\<close>

definition AddSpace ::
  "('x, unit, add_space) gql_exec \<Rightarrow> 'h target_ops \<Rightarrow> graphql_client \<Rightarrow> 'h Target \<Rightarrow> bool \<Rightarrow>
     ('x world, error option \<times> 'h Target) go" where
  "AddSpace svc to api tgt isEgressNode =
     (case to_Region to tgt of
        None \<Rightarrow> panic ''invalid memory address or nil pointer dereference''
      | Some region \<Rightarrow>
          bindg (exec_gql svc api (addSpace_request to tgt region isEgressNode)) (\<lambda>response.
          case response of
            Inl err \<Rightarrow> ret (Some err, tgt)
          | Inr m \<Rightarrow> ret (None, tgt\<lparr>tg_NodeKey := adsp_IdKey m, tg_NodeID := adsp_SpaceID m\<rparr>)))"

definition deleteSpace_request :: "'h Target \<Rightarrow> request" where
  "deleteSpace_request tgt = \<lparr>gq_kind = Mutation,
     gq_tag = ''deleteSpace(spaceID: $spaceID)'',
     gq_vars = [(''spaceID'', GID (tg_NodeID tgt))]\<rparr>"

definition DeleteSpace ::
  "('x, unit, string list) gql_exec \<Rightarrow> graphql_client \<Rightarrow> 'h Target \<Rightarrow>
     ('x world, error + string list) go" where
  "DeleteSpace svc api tgt =
     bindg (exec_gql svc api (deleteSpace_request tgt)) (\<lambda>response.
     case response of
       Inl err \<Rightarrow> ret (Inl err)
     | Inr userIDs \<Rightarrow> ret (Inr (foldl (\<lambda>acc userID. acc @ [userID]) [] userIDs)))"

section \<open>GetSpaces\<close>

text \<open>
  \<open>LastSeen\<close> is a finite floating point number, here the rational it stands for, since all the
  code does is convert it to \<open>uint64\<close>: the fraction is dropped. What Go makes of a number that
  does not fit depends on the machine and is the argument \<open>conv\<close>.
\<close>

definition truncate_rat :: "rat \<Rightarrow> int" where
  "truncate_rat f = (if 0 \<le> f then \<lfloor>f\<rfloor> else - \<lfloor>- f\<rfloor>)"

definition float_to_uint64 :: "(rat \<Rightarrow> uint64) \<Rightarrow> rat \<Rightarrow> uint64" where
  "float_to_uint64 conv f =
     (if 0 \<le> truncate_rat f \<and> truncate_rat f < 2 ^ 64 then word_of_int (truncate_rat f) else conv f)"

record space_user =
  su_SpaceID :: string
  su_SpaceName :: string
  su_PublicKey :: string
  su_Cookbook :: string
  su_Recipe :: string
  su_Iaas :: string
  su_Region :: string
  su_Version :: string
  su_SpaceIsEgressNode :: bool
  su_IpAddress :: string
  su_Fqdn :: string
  su_Port :: int32
  su_VpnType :: string
  su_LocalCARoot :: string
  su_SpaceStatus :: string
  su_LastSeen :: rat
  su_IsOwner :: bool
  su_IsAdmin :: bool
  su_CanUseForEgress :: bool
  su_Status :: string

definition getSpaces_request :: request where
  "getSpaces_request = \<lparr>gq_kind = Query, gq_tag = ''getUser'', gq_vars = []\<rparr>"

definition space_of :: "(rat \<Rightarrow> uint64) \<Rightarrow> space_user \<Rightarrow> Space" where
  "space_of conv u = \<lparr>
     s_SpaceID = su_SpaceID u,
     s_SpaceName = su_SpaceName u,
     s_PublicKey = su_PublicKey u,
     s_Cookbook = su_Cookbook u,
     s_Recipe = su_Recipe u,
     s_IaaS = su_Iaas u,
     s_Region = su_Region u,
     s_Version = su_Version u,
     s_Status = su_SpaceStatus u,
     s_LastSeen = float_to_uint64 conv (su_LastSeen u),
     s_IsOwned = su_IsOwner u,
     s_IsAdmin = su_IsAdmin u,
     s_IsEgressNode = (su_SpaceIsEgressNode u \<and> su_CanUseForEgress u),
     s_AccessStatus = su_Status u,
     s_IPAddress = su_IpAddress u,
     s_FQDN = su_Fqdn u,
     s_Port = scast (su_Port u),
     s_VpnType = su_VpnType u,
     s_LocalCARoot = su_LocalCARoot u\<rparr>"

definition GetSpaces ::
  "(rat \<Rightarrow> uint64) \<Rightarrow> ('x, unit, space_user list) gql_exec \<Rightarrow> graphql_client \<Rightarrow>
     ('x world, error + Space list) go" where
  "GetSpaces conv svc api =
     bindg (exec_gql svc api getSpaces_request) (\<lambda>response.
     case response of
       Inl err \<Rightarrow> ret (Inl err)
     | Inr us \<Rightarrow> ret (Inr (foldl (\<lambda>spaces u.
         if su_Status u \<noteq> ''inactive'' then spaces @ [space_of conv u] else spaces) [] us)))"

section \<open>Facts\<close>

lemma foldl_snoc_filter:
  "foldl (\<lambda>acc x. if P x then acc @ [f x] else acc) acc xs = acc @ map f (filter P xs)"
  by (induction xs arbitrary: acc) auto

lemma foldl_snoc: "foldl (\<lambda>acc x. acc @ [x]) acc xs = acc @ xs"
  by (induction xs arbitrary: acc) auto

lemma GetSpaces_apply:
  "GetSpaces conv svc api w =
     (Ret (case fst (svc api getSpaces_request (ext w)) of
        Inl err \<Rightarrow> Inl err
      | Inr us \<Rightarrow> Inr (map (space_of conv) (filter (\<lambda>u. su_Status u \<noteq> ''inactive'') us))),
      w\<lparr>ext := snd (svc api getSpaces_request (ext w))\<rparr>)"
  by (simp add: GetSpaces_def go_monad foldl_snoc_filter split: sum.split)

lemma truncate_rat_bounds:
  "0 \<le> f \<Longrightarrow> of_int (truncate_rat f) \<le> f \<and> f < of_int (truncate_rat f) + 1"
  by (simp add: truncate_rat_def) linarith

lemma float_to_uint64_bounds:
  assumes "0 \<le> f" "f < 2 ^ 64"
  shows "uint (float_to_uint64 conv f) = \<lfloor>f\<rfloor>"
proof -
  have lt: "\<lfloor>f\<rfloor> < 2 ^ 64" using assms(2) by (simp add: floor_less_iff)
  have ge: "0 \<le> \<lfloor>f\<rfloor>" using assms(1) by simp
  have "uint (word_of_int \<lfloor>f\<rfloor> :: uint64) = \<lfloor>f\<rfloor> mod 2 ^ 64"
    by (simp add: uint_word_of_int)
  also have "\<dots> = \<lfloor>f\<rfloor>" using lt ge by (simp add: mod_pos_pos_trivial)
  finally show ?thesis using assms(1) lt ge by (simp add: float_to_uint64_def truncate_rat_def)
qed

section \<open>Properties\<close>

text \<open>
  Property C35. \<open>GetSpaces\<close> returns one space for each access of the user that is not inactive, in
  the order of the answer: with the identity and the port of the answer, usable for egress only
  if the space is an egress node and the user may use it as one, and last seen at the whole
  number below the time of the answer.
\<close>
theorem GetSpaces_active_spaces:
  assumes "fst (svc api getSpaces_request (ext w)) = Inr us"
    and "\<forall>u \<in> set us. 0 \<le> su_LastSeen u \<and> su_LastSeen u < 2 ^ 64"
  shows "\<exists>ss. fst (GetSpaces conv svc api w) = Ret (Inr ss) \<and>
    list_all2 (\<lambda>s u. s_SpaceID s = su_SpaceID u \<and> sint (s_Port s) = sint (su_Port u) \<and>
        s_IsEgressNode s = (su_SpaceIsEgressNode u \<and> su_CanUseForEgress u) \<and>
        uint (s_LastSeen s) = \<lfloor>su_LastSeen u\<rfloor> \<and> s_AccessStatus s = su_Status u)
      ss (filter (\<lambda>u. su_Status u \<noteq> ''inactive'') us)"
proof -
  have "sint (scast (p :: int32) :: int64) = sint p" for p by (rule sint_up_scast) (simp add: is_up)
  then show ?thesis
    using assms(2)
    by (simp add: GetSpaces_apply assms(1) list_all2_map1 list_all2_same space_of_def
        float_to_uint64_bounds)
qed

text \<open>
  \<open>AddSpace\<close> stores the new identity in the target exactly when the service accepted
  the space; an error leaves the target as it was. A later \<open>DeleteSpace\<close> of the target names the
  space ID that was stored.
\<close>
lemma AddSpace_identity:
  assumes "to_Region to tgt = Some region"
    and "svc api (addSpace_request to tgt region egress) (ext w) = (r, x)"
  shows "\<exists>e tgt'. fst (AddSpace svc to api tgt egress w) = Ret (e, tgt') \<and>
    (case r of
       Inl err \<Rightarrow> e = Some err \<and> tgt' = tgt
     | Inr m \<Rightarrow> e = None \<and> tg_NodeKey tgt' = adsp_IdKey m \<and>
         deleteSpace_request tgt' = \<lparr>gq_kind = Mutation,
           gq_tag = ''deleteSpace(spaceID: $spaceID)'',
           gq_vars = [(''spaceID'', GID (adsp_SpaceID m))]\<rparr>)"
  using assms
  by (auto simp: AddSpace_def go_monad deleteSpace_request_def split: sum.split)

section \<open>Witnesses\<close>

definition test_space_user :: "string \<Rightarrow> string \<Rightarrow> bool \<Rightarrow> rat \<Rightarrow> space_user" where
  "test_space_user i st egress seen = \<lparr>su_SpaceID = i, su_SpaceName = ''space'' @ i,
     su_PublicKey = [], su_Cookbook = ''spacenode'', su_Recipe = ''sandbox'', su_Iaas = ''aws'',
     su_Region = ''us-east-1'', su_Version = [], su_SpaceIsEgressNode = True, su_IpAddress = [],
     su_Fqdn = [], su_Port = 443, su_VpnType = ''ipsec'', su_LocalCARoot = [],
     su_SpaceStatus = ''running'', su_LastSeen = seen, su_IsOwner = False, su_IsAdmin = False,
     su_CanUseForEgress = egress, su_Status = st\<rparr>"

definition answering :: "'r \<Rightarrow> ('x, 'p, 'r) gql_exec" where
  "answering r api rq x = (Inr r, x)"

definition test_gql :: graphql_client where
  "test_gql = \<lparr>gc_url = ''http://localhost'', gc_idToken = ''token'',
     gc_transport = \<lparr>tr_DisableKeepAlives = False, tr_MaxIdleConnsPerHost = 0,
       tr_TLSHandshakeTimeout = 0, tr_DialTimeout = 0\<rparr>, gc_Timeout = 0\<rparr>"

theorem GetSpaces_active_spaces_witness:
  "\<exists>s. fst (GetSpaces (\<lambda>_. 0) (answering [test_space_user ''1'' ''inactive'' True 5,
         test_space_user ''2'' ''active'' False (7/2)]) test_gql (quiet_world ())) = Ret (Inr [s]) \<and>
     s_SpaceID s = ''2'' \<and> \<not> s_IsEgressNode s \<and> uint (s_LastSeen s) = 3"
proof -
  have "\<lfloor>7 / 2 :: rat\<rfloor> = 3" by (simp add: floor_eq_iff)
  then show ?thesis
    using GetSpaces_active_spaces [where conv = "\<lambda>_. 0" and api = test_gql and w = "quiet_world ()"
        and svc = "answering [test_space_user ''1'' ''inactive'' True 5,
          test_space_user ''2'' ''active'' False (7/2)]"]
    by (auto simp: answering_def test_space_user_def list_all2_Cons2)
qed

definition test_Target :: "string \<Rightarrow> unit Target" where
  "test_Target i = \<lparr>tg_RSAPublicKey = ''pub'', tg_CookbookName = ''spacenode'',
     tg_RecipeName = ''sandbox'', tg_RecipeIaas = ''aws'', tg_NodeKey = [], tg_NodeID = i,
     tg_hidden = ()\<rparr>"

definition test_target_ops :: "unit target_ops" where
  "test_target_ops = \<lparr>to_IsBastion = (\<lambda>_. True), to_Error = (\<lambda>_. None),
     to_DeploymentName = (\<lambda>_. ''test''), to_Region = (\<lambda>_. Some ''us-east-1'')\<rparr>"

end
