(* ===== verification/Space_Nodes.thy ===== *)
theory Space_Nodes
  imports Go_Url Node_API Space_API
begin

text \<open>
  \<open>mycscloud/space_nodes.go\<close>: the registry of space nodes. Its state is the record \<open>SpaceNodes\<close>;
  the operations run on a pair of it and the world. It merges the targets deployed from this
  machine with the spaces the cloud service lists, and hands out one API client for each node,
  counting its users.
\<close>

section \<open>State\<close>

text \<open>
  A Go map is an association list; \<open>refCount\<close> is a Go \<open>int\<close>. The mutex and the wait group are
  not part of this state: here the operations of the pool run from start to end, and the
  asynchronous call runs at the wait. \<open>Pool_Threads\<close> and \<open>Space_Nodes_Async\<close> model both with their
  goroutines, and prove that nothing else can be observed.
\<close>

record 'h apiClientInstance =
  refCount :: int64
  apiClient :: "'h ApiClient"

record 'h SpaceNodes =
  sn_spaceNodes :: "(string \<times> 'h SpaceNode) list"
  sn_spaceNodeByEndpoint :: "(string \<times> 'h SpaceNode) list"
  sn_sharedSpaces :: "Space list"
  sn_asyncCallError :: "error option"
  sn_spaceAPIClients :: "(string \<times> 'h apiClientInstance) list"

definition empty_SpaceNodes :: "'h SpaceNodes" where
  "empty_SpaceNodes = \<lparr>sn_spaceNodes = [], sn_spaceNodeByEndpoint = [], sn_sharedSpaces = [],
     sn_asyncCallError = None, sn_spaceAPIClients = []\<rparr>"

section \<open>Consolidation\<close>

text \<open>
  A node with a valid endpoint is found under the endpoint, and under the host of the endpoint
  when it parses as a URL.
\<close>

definition map_endpoint ::
  "('h, 'x) node_ops \<Rightarrow> 'h SpaceNode \<Rightarrow> (string \<times> 'h SpaceNode) list \<Rightarrow>
     (string \<times> 'h SpaceNode) list" where
  "map_endpoint no node m =
     (case no_GetEndpoint no node of
        Inl _ \<Rightarrow> m
      | Inr endpoint \<Rightarrow>
          let m' = AList.update endpoint node m
          in case url_Host endpoint of
               None \<Rightarrow> m'
             | Some host \<Rightarrow> AList.update (Split_head (CHR '':'') host) node m')"

text \<open>The loop over the targets; \<open>spaceTargets\<close> holds the targets with a node ID.\<close>

definition add_target ::
  "('h, 'x) node_ops \<Rightarrow> 'h target_ops \<Rightarrow> (string \<times> 'h Target) list \<times> 'h SpaceNodes \<Rightarrow>
     'h Target \<Rightarrow> (string \<times> 'h Target) list \<times> 'h SpaceNodes" where
  "add_target no to st t = (case st of (spaceTargets, sn) \<Rightarrow>
     if to_IsBastion to t then
       ((if tg_NodeID t \<noteq> [] then AList.update (tg_NodeID t) t spaceTargets else spaceTargets),
        sn\<lparr>sn_spaceNodes :=
             AList.update (no_Key no (LocalTarget t)) (LocalTarget t) (sn_spaceNodes sn),
           sn_spaceNodeByEndpoint := (case to_Error to t of
               None \<Rightarrow> map_endpoint no (LocalTarget t) (sn_spaceNodeByEndpoint sn)
             | Some _ \<Rightarrow> sn_spaceNodeByEndpoint sn)\<rparr>)
     else (spaceTargets, sn))"

definition add_targets ::
  "('h, 'x) node_ops \<Rightarrow> 'h target_ops \<Rightarrow> 'h Target list \<Rightarrow> 'h SpaceNodes \<Rightarrow>
     (string \<times> 'h Target) list \<times> 'h SpaceNodes" where
  "add_targets no to ts sn = foldl (add_target no to) ([], sn) ts"

text \<open>
  The loop over the shared spaces, from the last to the first. \<open>i + 1\<close> is the first argument, \<open>j\<close>
  the index of the last element of what is left of the list.
\<close>

definition add_space_node ::
  "('h, 'x) node_ops \<Rightarrow> Space \<Rightarrow> 'h SpaceNodes \<Rightarrow> 'h SpaceNodes" where
  "add_space_node no s sn =
     (let node = SharedSpace s in
      if map_of (sn_spaceNodes sn) (no_Key no node) = None
      then sn\<lparr>sn_spaceNodes := AList.update (no_Key no node) node (sn_spaceNodes sn),
              sn_spaceNodeByEndpoint := map_endpoint no node (sn_spaceNodeByEndpoint sn)\<rparr>
      else sn)"

fun add_shared ::
  "('h, 'x) node_ops \<Rightarrow> (string \<times> 'h Target) list \<Rightarrow> nat \<Rightarrow> int \<Rightarrow> 'h SpaceNodes \<Rightarrow>
     'h SpaceNodes" where
  "add_shared no spaceTargets 0 j sn = sn"
| "add_shared no spaceTargets (Suc i) j sn =
     (let s = sn_sharedSpaces sn ! i;
          sn1 = add_space_node no s sn
      in if map_of spaceTargets (no_GetSpaceID no (SharedSpace s)) \<noteq> None
         then add_shared no spaceTargets i (j - 1) (sn1\<lparr>sn_sharedSpaces :=
                if int i = j then take i (sn_sharedSpaces sn1)
                else take i (sn_sharedSpaces sn1) @ drop (i + 1) (sn_sharedSpaces sn1)\<rparr>)
         else add_shared no spaceTargets i j sn1)"

text \<open>
  \<open>await\<close> is the asynchronous call that is pending, if any: it has run when the wait returns.
\<close>

definition consolidateRemoteAndLocalNodes ::
  "('h, 'x) node_ops \<Rightarrow> 'h target_ops \<Rightarrow> ('x world \<Rightarrow> 'h Target list) \<Rightarrow>
     ('h SpaceNodes \<times> 'x world, unit) go \<Rightarrow> ('h SpaceNodes \<times> 'x world, error option) go" where
  "consolidateRemoteAndLocalNodes no to GetTargets await =
     bindg (getg (\<lambda>(sn, w). add_targets no to (GetTargets w) sn)) (\<lambda>(spaceTargets, sn1).
     bindg (putg (\<lambda>(sn, w). (sn1, w))) (\<lambda>_.
     bindg await (\<lambda>_.
     bindg (getg (\<lambda>(sn, w). sn_asyncCallError sn)) (\<lambda>e.
     case e of
       Some err \<Rightarrow> ret (Some err)
     | None \<Rightarrow>
         bindg (putg (\<lambda>(sn, w). (add_shared no spaceTargets (length (sn_sharedSpaces sn))
                  (int (length (sn_sharedSpaces sn)) - 1) sn, w))) (\<lambda>_.
         ret None)))))"

definition NewSpaceNodes ::
  "('h, 'x) node_ops \<Rightarrow> 'h target_ops \<Rightarrow> ('x world \<Rightarrow> 'h Target list) \<Rightarrow>
     ('x world, 'h SpaceNodes) go" where
  "NewSpaceNodes no to GetTargets = (\<lambda>w.
     case consolidateRemoteAndLocalNodes no to GetTargets (ret ()) (empty_SpaceNodes, w) of
       (Ret _, (sn, w')) \<Rightarrow> (Ret sn, w')
     | (Panic s, (sn, w')) \<Rightarrow> (Panic s, w')
     | (Hang, (sn, w')) \<Rightarrow> (Hang, w'))"

text \<open>The goroutine of \<open>GetSpaceNodes\<close>: an error leaves a nil list.\<close>

definition fetch_spaces ::
  "transport \<Rightarrow> 'x world token_source \<Rightarrow> (rat \<Rightarrow> uint64) \<Rightarrow> ('x, unit, space_user list) gql_exec \<Rightarrow>
     string \<Rightarrow> ('h SpaceNodes \<times> 'x world, unit) go" where
  "fetch_spaces tr GetToken conv svc apiUrl =
     bindg (on_snd (NewGraphQLClient tr GetToken apiUrl [])) (\<lambda>api.
     bindg (on_snd (GetSpaces conv svc api)) (\<lambda>r.
     putg (\<lambda>(sn, w). (case r of
         Inl err \<Rightarrow> sn\<lparr>sn_sharedSpaces := [], sn_asyncCallError := Some err\<rparr>
       | Inr ss \<Rightarrow> sn\<lparr>sn_sharedSpaces := ss, sn_asyncCallError := None\<rparr>, w))))"

definition GetSpaceNodes ::
  "transport \<Rightarrow> 'x world token_source \<Rightarrow> (rat \<Rightarrow> uint64) \<Rightarrow> ('x, unit, space_user list) gql_exec \<Rightarrow>
     ('h, 'x) node_ops \<Rightarrow> 'h target_ops \<Rightarrow> ('x world \<Rightarrow> 'h Target list) \<Rightarrow> string \<Rightarrow>
     ('x world, error + 'h SpaceNodes) go" where
  "GetSpaceNodes tr GetToken conv svc no to GetTargets apiUrl = (\<lambda>w.
     case consolidateRemoteAndLocalNodes no to GetTargets
            (fetch_spaces tr GetToken conv svc apiUrl) (empty_SpaceNodes, w) of
       (Ret None, (sn, w')) \<Rightarrow> (Ret (Inr sn), w')
     | (Ret (Some err), (sn, w')) \<Rightarrow> (Ret (Inl err), w')
     | (Panic s, (sn, w')) \<Rightarrow> (Panic s, w')
     | (Hang, (sn, w')) \<Rightarrow> (Hang, w'))"

section \<open>Lookups\<close>

definition LookupSpace :: "'h SpaceNodes \<Rightarrow> string \<Rightarrow> 'h SpaceNode option" where
  "LookupSpace sn key = map_of (sn_spaceNodes sn) key"

definition LookupSpaceByEndpoint :: "'h SpaceNodes \<Rightarrow> string \<Rightarrow> 'h SpaceNode option" where
  "LookupSpaceByEndpoint sn endpoint = map_of (sn_spaceNodeByEndpoint sn) endpoint"

text \<open>The range over the map is in no fixed order; the sort is that of \<open>SpaceCollection\<close>.\<close>

definition GetAllSpaces ::
  "('h SpaceNode list \<Rightarrow> 'h SpaceNode list) \<Rightarrow> ('h SpaceNode list \<Rightarrow> 'h SpaceNode list) \<Rightarrow>
     'h SpaceNodes \<Rightarrow> 'h SpaceNode list" where
  "GetAllSpaces sort_spaces ord sn =
     sort_spaces (foldl (\<lambda>spaces node. spaces @ [node]) [] (ord (map snd (sn_spaceNodes sn))))"

definition GetSharedSpaces :: "'h SpaceNodes \<Rightarrow> Space list" where
  "GetSharedSpaces sn = sn_sharedSpaces sn"

section \<open>The client pool\<close>

definition put_client ::
  "string \<Rightarrow> 'h apiClientInstance \<Rightarrow> 'h SpaceNodes \<Rightarrow> 'h SpaceNodes" where
  "put_client key ref sn = sn\<lparr>sn_spaceAPIClients := AList.update key ref (sn_spaceAPIClients sn)\<rparr>"

definition auth_timeout :: "string \<Rightarrow> error" where
  "auth_timeout key = ''timedout waiting for space node api at '' @ [CHR 0x22] @ key @ [CHR 0x22] @
     '' to authenticate''"

definition wait_for_client ::
  "('h, 'x) mycsnode_ops \<Rightarrow> string \<Rightarrow> 'h ApiClient \<Rightarrow>
     ('h SpaceNodes \<times> 'x world, error + 'h ApiClient) go" where
  "wait_for_client mo key c =
     bindg (on_snd (callg (mo_WaitForAuth mo (ac_ref c)))) (\<lambda>authenticated.
     if \<not> authenticated then ret (Inl (auth_timeout key)) else ret (Inr c))"

definition GetApiClientForSpace ::
  "('h, 'x) node_ops \<Rightarrow> ('h, 'x) mycsnode_ops \<Rightarrow> 'x DeviceContext \<Rightarrow> 'h SpaceNode \<Rightarrow>
     ('h SpaceNodes \<times> 'x world, error + 'h ApiClient) go" where
  "GetApiClientForSpace no mo dc space =
     bindg (getg (\<lambda>(sn, w). map_of (sn_spaceAPIClients sn) (no_Key no space))) (\<lambda>r.
     case r of
       None \<Rightarrow>
         bindg (on_snd (NewApiClient mo dc space)) (\<lambda>created.
         case created of
           Inl err \<Rightarrow> ret (Inl err)
         | Inr c \<Rightarrow>
             bindg (on_snd (callg (mo_Start mo (ac_ref c)))) (\<lambda>started.
             case started of
               Some err \<Rightarrow> ret (Inl err)
             | None \<Rightarrow>
                 bindg (putg (\<lambda>(sn, w).
                   (put_client (no_Key no space) \<lparr>refCount = 0, apiClient = c\<rparr> sn, w))) (\<lambda>_.
                 wait_for_client mo (no_Key no space) c)))
     | Some ref \<Rightarrow>
         bindg (putg (\<lambda>(sn, w).
           (put_client (no_Key no space) (ref\<lparr>refCount := refCount ref + 1\<rparr>) sn, w))) (\<lambda>_.
         wait_for_client mo (no_Key no space) (apiClient ref)))"

definition ReleaseApiClientForSpace ::
  "('h, 'x) node_ops \<Rightarrow> ('h, 'x) mycsnode_ops \<Rightarrow> 'h ApiClient \<Rightarrow>
     ('h SpaceNodes \<times> 'x world, unit) go" where
  "ReleaseApiClientForSpace no mo c =
     (let key = no_Key no (GetSpaceNode c) in
      bindg (getg (\<lambda>(sn, w). map_of (sn_spaceAPIClients sn) key)) (\<lambda>r.
      case r of
        None \<Rightarrow> ret ()
      | Some ref \<Rightarrow>
          if refCount ref = 0
          then bindg (putg (\<lambda>(sn, w).
                 (sn\<lparr>sn_spaceAPIClients := AList.delete key (sn_spaceAPIClients sn)\<rparr>, w))) (\<lambda>_.
               on_snd (putg (mo_Stop mo (ac_ref (apiClient ref)))))
          else putg (\<lambda>(sn, w). (put_client key (ref\<lparr>refCount := refCount ref - 1\<rparr>) sn, w))))"

end
