(* ===== verification/Space_Nodes_Props.thy ===== *)
theory Space_Nodes_Props
  imports Space_Nodes
begin

text \<open>
  What the registry of space nodes holds after the targets and the listed spaces were merged:
  the loop that shortens the shared list while it runs is a filter, a key names the local target
  before the listed space, and an endpoint names the last node registered under it.
\<close>

section \<open>The loop over the shared spaces\<close>

lemma add_space_node_shared:
  "add_space_node no s (sn\<lparr>sn_sharedSpaces := xs\<rparr>) = (add_space_node no s sn)\<lparr>sn_sharedSpaces := xs\<rparr>"
  by (simp add: add_space_node_def Let_def)

lemma add_space_node_sharedSpaces [simp]:
  "sn_sharedSpaces (add_space_node no s sn) = sn_sharedSpaces sn"
  by (simp add: add_space_node_def Let_def)

lemma fold_add_space_node_shared:
  "fold (add_space_node no) xs (sn\<lparr>sn_sharedSpaces := ys\<rparr>) =
     (fold (add_space_node no) xs sn)\<lparr>sn_sharedSpaces := ys\<rparr>"
  by (induction xs arbitrary: sn) (simp_all add: add_space_node_shared)

definition unowned ::
  "('h, 'x) node_ops \<Rightarrow> (string \<times> 'h Target) list \<Rightarrow> Space \<Rightarrow> bool" where
  "unowned no spaceTargets s = (map_of spaceTargets (no_GetSpaceID no (SharedSpace s)) = None)"

lemma add_shared_eq:
  assumes "i \<le> length (sn_sharedSpaces sn)" "j = int (length (sn_sharedSpaces sn)) - 1"
  shows "add_shared no tg i j sn =
    (fold (add_space_node no) (rev (take i (sn_sharedSpaces sn))) sn)\<lparr>sn_sharedSpaces :=
       filter (unowned no tg) (take i (sn_sharedSpaces sn)) @ drop i (sn_sharedSpaces sn)\<rparr>"
  using assms
proof (induction i arbitrary: j sn)
  case 0
  then show ?case by simp
next
  case (Suc i)
  define ss where "ss = sn_sharedSpaces sn"
  have i: "i < length ss" and j: "j = int (length ss) - 1" using Suc.prems by (simp_all add: ss_def)
  define sn1 where "sn1 = add_space_node no (ss ! i) sn"
  have ss1: "sn_sharedSpaces sn1 = ss" by (simp add: sn1_def ss_def)
  have take_Suc: "take (Suc i) ss = take i ss @ [ss ! i]"
    and drop: "drop i ss = ss ! i # drop (Suc i) ss"
    using i by (simp_all add: take_Suc_conv_app_nth Cons_nth_drop_Suc)
  have cut: "(if int i = j then take i ss else take i ss @ drop (i + 1) ss) =
      take i ss @ drop (Suc i) ss"
    using i j by auto
  show ?case
  proof (cases "unowned no tg (ss ! i)")
    case True
    then have "add_shared no tg (Suc i) j sn = add_shared no tg i j sn1"
      by (simp add: unowned_def sn1_def ss_def Let_def)
    then show ?thesis
      using Suc.IH [of sn1 j] i j True
      by (simp add: ss1 flip: ss_def) (simp add: sn1_def take_Suc drop)
  next
    case False
    define sn2 where "sn2 = sn1\<lparr>sn_sharedSpaces := take i ss @ drop (Suc i) ss\<rparr>"
    have ss2: "sn_sharedSpaces sn2 = take i ss @ drop (Suc i) ss" by (simp add: sn2_def)
    have "add_shared no tg (Suc i) j sn = add_shared no tg i (j - 1) sn2"
      using False unfolding sn2_def
      by (simp only: add_shared.simps Let_def flip: ss_def)
        (simp only: unowned_def not_False_eq_True if_True simp_thms flip: sn1_def,
         simp only: ss1 cut)
    moreover have "add_shared no tg i (j - 1) sn2 =
        (fold (add_space_node no) (rev (take i ss)) sn2)\<lparr>sn_sharedSpaces :=
          filter (unowned no tg) (take i ss) @ drop (Suc i) ss\<rparr>"
      using Suc.IH [of sn2 "j - 1"] i j by (simp add: ss2)
    ultimately show ?thesis
      using False
      by (simp add: sn2_def fold_add_space_node_shared take_Suc flip: ss_def) (simp add: sn1_def)
  qed
qed

section \<open>Keys\<close>

lemma find_rev: "find P (rev xs) = last_match P xs"
proof (induction xs)
  case Nil
  show ?case by simp
next
  case (Cons x xs)
  have "find P (ys @ [x]) = (case find P ys of Some y \<Rightarrow> Some y | None \<Rightarrow> if P x then Some x else None)"
    for ys by (induction ys) auto
  then show ?case by (simp add: Cons.IH)
qed

lemma fold_add_space_node_key:
  "map_of (sn_spaceNodes (fold (add_space_node no) xs sn)) k =
     (case map_of (sn_spaceNodes sn) k of Some n \<Rightarrow> Some n
      | None \<Rightarrow> map_option SharedSpace (find (\<lambda>s. no_Key no (SharedSpace s) = k) xs))"
  by (induction xs arbitrary: sn)
    (auto simp: add_space_node_def Let_def update_conv' split: option.splits)

lemma add_targets_snoc:
  "add_targets no to (ts @ [t]) sn = add_target no to (add_targets no to ts sn) t"
  by (simp add: add_targets_def)

lemma last_match_snoc:
  "last_match P (xs @ [x]) = (if P x then Some x else last_match P xs)"
  by (induction xs) (auto split: option.splits)

lemma add_targets_key:
  "map_of (sn_spaceNodes (snd (add_targets no to ts sn))) k =
     (case last_match (\<lambda>t. to_IsBastion to t \<and> no_Key no (LocalTarget t) = k) ts of
        Some t \<Rightarrow> Some (LocalTarget t) | None \<Rightarrow> map_of (sn_spaceNodes sn) k)"
  by (induction ts rule: rev_induct)
    (auto simp: add_targets_snoc last_match_snoc add_target_def update_conv' case_prod_beta
      add_targets_def split: option.splits)

lemma add_targets_ids:
  "map_of (fst (add_targets no to ts sn)) i = None \<longleftrightarrow>
     (\<forall>t \<in> set ts. to_IsBastion to t \<and> tg_NodeID t \<noteq> [] \<longrightarrow> tg_NodeID t \<noteq> i)"
  by (induction ts rule: rev_induct)
    (auto simp: add_targets_snoc add_target_def update_conv' case_prod_beta add_targets_def
      split: option.splits)

lemma add_targets_frame:
  "sn_sharedSpaces (snd (add_targets no to ts sn)) = sn_sharedSpaces sn"
  "sn_asyncCallError (snd (add_targets no to ts sn)) = sn_asyncCallError sn"
  by (induction ts rule: rev_induct)
    (auto simp: add_targets_snoc add_target_def case_prod_beta add_targets_def)

section \<open>Endpoints\<close>

text \<open>A node is reached under its endpoint and under the host of its endpoint.\<close>

definition reaches :: "('h, 'x) node_ops \<Rightarrow> string \<Rightarrow> 'h SpaceNode \<Rightarrow> bool" where
  "reaches no e n = (case no_GetEndpoint no n of
     Inl _ \<Rightarrow> False
   | Inr endpoint \<Rightarrow> e = endpoint \<or>
       (case url_Host endpoint of None \<Rightarrow> False | Some host \<Rightarrow> e = Split_head (CHR '':'') host))"

lemma map_endpoint_lookup:
  "map_of (map_endpoint no n m) e = (if reaches no e n then Some n else map_of m e)"
  by (auto simp: map_endpoint_def reaches_def Let_def update_conv' split: sum.splits option.splits)

text \<open>
  The interface between the registry and those who look up the host of a connection: a node that
  is registered is found under each name that reaches it until another one is registered there.
\<close>

locale host_registry =
  fixes register :: "'n \<Rightarrow> 'r \<Rightarrow> 'r"
    and lookup :: "'r \<Rightarrow> string \<Rightarrow> 'n option"
    and reached_by :: "string \<Rightarrow> 'n \<Rightarrow> bool"
  assumes lookup_register: "lookup (register n r) e = (if reached_by e n then Some n else lookup r e)"
begin

lemma lookup_fold:
  "lookup (fold register ns r) e =
     (case last_match (reached_by e) ns of Some n \<Rightarrow> Some n | None \<Rightarrow> lookup r e)"
proof (induction ns arbitrary: r)
  case (Cons n ns)
  show ?case by (simp add: Cons.IH lookup_register split: option.split)
qed simp

text \<open>A node is found under a name only if the name reaches it.\<close>

definition sound :: "'r \<Rightarrow> bool" where
  "sound r = (\<forall>e n. lookup r e = Some n \<longrightarrow> reached_by e n)"

lemma sound_register: "sound r \<Longrightarrow> sound (register n r)"
  by (simp add: sound_def lookup_register)

lemma sound_fold: "sound r \<Longrightarrow> sound (fold register ns r)"
  by (induction ns arbitrary: r) (simp_all add: sound_register)

lemma lookup_latest:
  "reached_by e n \<Longrightarrow> \<forall>m \<in> set later. \<not> reached_by e m \<Longrightarrow>
     lookup (fold register (earlier @ n # later) r) e = Some n"
  by (simp add: lookup_fold [of later] lookup_register last_match_None [THEN iffD2])

end

interpretation hosts: host_registry "map_endpoint no" map_of "reaches no"
  by unfold_locales (rule map_endpoint_lookup)

lemma reaches_host:
  "is_name h \<Longrightarrow> is_port p \<Longrightarrow> no_GetEndpoint no n = Inr (''https://'' @ h @ CHR '':'' # p) \<Longrightarrow> reaches no h n"
  by (simp add: reaches_def url_Host_name_port Split_head_port del: append.simps append_Cons)

definition healthy :: "'h target_ops \<Rightarrow> 'h Target \<Rightarrow> bool" where
  "healthy to t = (to_IsBastion to t \<and> to_Error to t = None)"

lemma add_targets_endpoint:
  "map_of (sn_spaceNodeByEndpoint (snd (add_targets no to ts sn))) e =
     (case last_match (reaches no e) (map LocalTarget (filter (healthy to) ts)) of
        Some n \<Rightarrow> Some n | None \<Rightarrow> map_of (sn_spaceNodeByEndpoint sn) e)"
  by (induction ts rule: rev_induct)
    (auto simp: add_targets_snoc last_match_snoc add_target_def case_prod_beta healthy_def
      map_endpoint_lookup add_targets_def split: option.splits)

text \<open>The listed spaces that are registered, in the order the loop meets them.\<close>

fun registered :: "('h, 'x) node_ops \<Rightarrow> string set \<Rightarrow> Space list \<Rightarrow> Space list" where
  "registered no known [] = []"
| "registered no known (s # ss) =
     (if no_Key no (SharedSpace s) \<in> known then registered no known ss
      else s # registered no (insert (no_Key no (SharedSpace s)) known) ss)"

lemma last_match_Cons:
  "last_match P (x # xs) =
     (case last_match P xs of Some y \<Rightarrow> Some y | None \<Rightarrow> if P x then Some x else None)"
  by simp

lemma fold_add_space_node_endpoint:
  "map_of (sn_spaceNodeByEndpoint (fold (add_space_node no) xs sn)) e =
     (case last_match (reaches no e) (map SharedSpace (registered no (dom (map_of (sn_spaceNodes sn))) xs)) of
        Some n \<Rightarrow> Some n | None \<Rightarrow> map_of (sn_spaceNodeByEndpoint sn) e)"
proof (induction xs arbitrary: sn)
  case Nil
  show ?case by simp
next
  case (Cons s xs)
  show ?case
  proof (cases "map_of (sn_spaceNodes sn) (no_Key no (SharedSpace s))")
    case None
    have dom: "dom (map_of (sn_spaceNodes (add_space_node no s sn))) =
        insert (no_Key no (SharedSpace s)) (dom (map_of (sn_spaceNodes sn)))"
      using None by (auto simp: add_space_node_def Let_def update_conv' domIff split: if_splits)
    have ep: "sn_spaceNodeByEndpoint (add_space_node no s sn) =
        map_endpoint no (SharedSpace s) (sn_spaceNodeByEndpoint sn)"
      by (simp add: add_space_node_def Let_def None)
    show ?thesis
      using None by (simp add: Cons.IH dom ep map_endpoint_lookup domIff split: option.split)
  next
    case (Some n)
    then have "add_space_node no s sn = sn" by (simp add: add_space_node_def Let_def)
    then show ?thesis using Some by (simp add: Cons.IH domIff)
  qed
qed

section \<open>The registry after the merge\<close>

text \<open>The listing of the cloud service: the client is built and \<open>GetSpaces\<close> is called.\<close>

definition listing ::
  "transport \<Rightarrow> 'x world token_source \<Rightarrow> (rat \<Rightarrow> uint64) \<Rightarrow> ('x, unit, space_user list) gql_exec \<Rightarrow>
     string \<Rightarrow> ('x world, error + Space list) go" where
  "listing tr GetToken conv svc apiUrl =
     bindg (NewGraphQLClient tr GetToken apiUrl []) (GetSpaces conv svc)"

definition merged ::
  "('h, 'x) node_ops \<Rightarrow> 'h target_ops \<Rightarrow> 'h Target list \<Rightarrow> Space list \<Rightarrow> 'h SpaceNodes" where
  "merged no to ts ss =
     (case add_targets no to ts empty_SpaceNodes of (tg, sn) \<Rightarrow>
        add_shared no tg (length ss) (int (length ss) - 1)
          (sn\<lparr>sn_sharedSpaces := ss, sn_asyncCallError := None\<rparr>))"

lemma fetch_spaces_apply:
  "fetch_spaces tr GetToken conv svc apiUrl (sn, w) =
     (case listing tr GetToken conv svc apiUrl w of
        (Ret r, w') \<Rightarrow> (Ret (), (case r of
           Inl err \<Rightarrow> sn\<lparr>sn_sharedSpaces := [], sn_asyncCallError := Some err\<rparr>
         | Inr ss \<Rightarrow> sn\<lparr>sn_sharedSpaces := ss, sn_asyncCallError := None\<rparr>, w'))
      | (Panic e, w') \<Rightarrow> (Panic e, (sn, w'))
      | (Hang, w') \<Rightarrow> (Hang, (sn, w')))"
  by (simp add: fetch_spaces_def listing_def bindg_def on_snd_def GetSpaces_apply putg_def
      split: outcome.splits prod.splits)

lemma GetSpaceNodes_apply:
  "fst (GetSpaceNodes tr GetToken conv svc no to GetTargets apiUrl w) =
     (case fst (listing tr GetToken conv svc apiUrl w) of
        Ret (Inr ss) \<Rightarrow> Ret (Inr (merged no to (GetTargets w) ss))
      | Ret (Inl err) \<Rightarrow> Ret (Inl err)
      | Panic e \<Rightarrow> Panic e
      | Hang \<Rightarrow> Hang)"
proof -
  obtain tg sn where t: "add_targets no to (GetTargets w) empty_SpaceNodes = (tg, sn)"
    by (cases "add_targets no to (GetTargets w) empty_SpaceNodes")
  obtain r w' where l: "listing tr GetToken conv svc apiUrl w = (r, w')"
    by (cases "listing tr GetToken conv svc apiUrl w")
  have start: "consolidateRemoteAndLocalNodes no to GetTargets await (empty_SpaceNodes, w) =
      bindg await (\<lambda>_. bindg (getg (\<lambda>(sn, w). sn_asyncCallError sn)) (\<lambda>e.
        case e of
          Some err \<Rightarrow> ret (Some err)
        | None \<Rightarrow> bindg (putg (\<lambda>(sn, w). (add_shared no tg (length (sn_sharedSpaces sn))
              (int (length (sn_sharedSpaces sn)) - 1) sn, w))) (\<lambda>_. ret None))) (sn, w)" for await
    by (simp add: consolidateRemoteAndLocalNodes_def bindg_get bindg_put t)
  show ?thesis
    by (auto simp: GetSpaceNodes_def start bindg_def fetch_spaces_apply l getg_def putg_def
        ret_def merged_def t split: outcome.split sum.split)
qed

lemma listing_not_Hang: "fst (listing tr GetToken conv svc apiUrl w) \<noteq> Hang"
  using id_token_not_Hang [of GetToken w]
  by (auto simp: listing_def NewGraphQLClient_def bindg_def ret_def GetSpaces_apply
      split: outcome.splits prod.splits)

lemma NewSpaceNodes_apply:
  "fst (NewSpaceNodes no to GetTargets w) = Ret (merged no to (GetTargets w) [])"
proof -
  obtain tg sn where t: "add_targets no to (GetTargets w) empty_SpaceNodes = (tg, sn)"
    by (cases "add_targets no to (GetTargets w) empty_SpaceNodes")
  have "sn_sharedSpaces sn = []" "sn_asyncCallError sn = None"
    using add_targets_frame [of no to "GetTargets w" empty_SpaceNodes] t
    by (simp_all add: empty_SpaceNodes_def)
  then show ?thesis
    by (simp add: NewSpaceNodes_def consolidateRemoteAndLocalNodes_def bindg_get bindg_put t
        ret_apply merged_def)
qed

lemma merged_eq:
  "merged no to ts ss =
     (fold (add_space_node no) (rev ss) ((snd (add_targets no to ts empty_SpaceNodes))
        \<lparr>sn_asyncCallError := None\<rparr>))
     \<lparr>sn_sharedSpaces := filter (unowned no (fst (add_targets no to ts empty_SpaceNodes))) ss\<rparr>"
proof -
  obtain tg sn where t: "add_targets no to ts empty_SpaceNodes = (tg, sn)"
    by (cases "add_targets no to ts empty_SpaceNodes")
  have swap: "sn\<lparr>sn_sharedSpaces := ss, sn_asyncCallError := None\<rparr> =
      (sn\<lparr>sn_asyncCallError := None\<rparr>)\<lparr>sn_sharedSpaces := ss\<rparr>" by simp
  show ?thesis
    by (simp add: merged_def t add_shared_eq swap fold_add_space_node_shared
        del: SpaceNodes.update_convs)
qed

text \<open>The nodes that claim an endpoint, in the order in which they are registered.\<close>

definition endpoint_nodes ::
  "('h, 'x) node_ops \<Rightarrow> 'h target_ops \<Rightarrow> 'h Target list \<Rightarrow> Space list \<Rightarrow> 'h SpaceNode list" where
  "endpoint_nodes no to ts ss =
     map LocalTarget (filter (healthy to) ts) @
     map SharedSpace (registered no
       {no_Key no (LocalTarget t) | t. t \<in> set ts \<and> to_IsBastion to t} (rev ss))"

lemma last_match_append:
  "last_match P (xs @ ys) = (case last_match P ys of Some y \<Rightarrow> Some y | None \<Rightarrow> last_match P xs)"
  by (induction xs) (auto split: option.splits)

lemma add_targets_dom:
  "dom (map_of (sn_spaceNodes (snd (add_targets no to ts empty_SpaceNodes)))) =
     {no_Key no (LocalTarget t) | t. t \<in> set ts \<and> to_IsBastion to t}"
proof -
  have "(\<exists>n. map_of (sn_spaceNodes (snd (add_targets no to ts empty_SpaceNodes))) k = Some n) \<longleftrightarrow>
      (\<exists>t. k = no_Key no (LocalTarget t) \<and> t \<in> set ts \<and> to_IsBastion to t)" for k
    by (auto simp: add_targets_key empty_SpaceNodes_def split: option.splits
        dest: last_match_Some simp: last_match_None)
  then show ?thesis by (auto simp: dom_def)
qed

lemma merged_key:
  "LookupSpace (merged no to ts ss) k =
     (case last_match (\<lambda>t. to_IsBastion to t \<and> no_Key no (LocalTarget t) = k) ts of
        Some t \<Rightarrow> Some (LocalTarget t)
      | None \<Rightarrow> map_option SharedSpace (last_match (\<lambda>s. no_Key no (SharedSpace s) = k) ss))"
  by (simp add: LookupSpace_def merged_eq fold_add_space_node_key add_targets_key find_rev
      empty_SpaceNodes_def split: option.split)

lemma merged_endpoint:
  "LookupSpaceByEndpoint (merged no to ts ss) e = last_match (reaches no e) (endpoint_nodes no to ts ss)"
proof -
  have "map_of (sn_spaceNodeByEndpoint (snd (add_targets no to ts empty_SpaceNodes))) e =
      last_match (reaches no e) (map LocalTarget (filter (healthy to) ts))"
    by (simp add: add_targets_endpoint) (simp add: empty_SpaceNodes_def split: option.split)
  then show ?thesis
    by (simp add: LookupSpaceByEndpoint_def merged_eq fold_add_space_node_endpoint
        endpoint_nodes_def last_match_append add_targets_dom split: option.split)
qed

text \<open>
  Seen through \<open>map_of\<close>, the merge registers the nodes that claim an endpoint one after the other,
  so the interface \<open>host_registry\<close> tells what the registry finds.
\<close>

lemma merged_registry:
  "LookupSpaceByEndpoint (merged no to ts ss) e =
     map_of (fold (map_endpoint no) (endpoint_nodes no to ts ss) []) e"
  by (simp add: merged_endpoint hosts.lookup_fold split: option.split)

lemma merged_shared:
  "GetSharedSpaces (merged no to ts ss) =
     filter (\<lambda>s. \<not> (\<exists>t \<in> set ts. to_IsBastion to t \<and> tg_NodeID t \<noteq> [] \<and>
        tg_NodeID t = no_GetSpaceID no (SharedSpace s))) ss"
proof -
  have "unowned no (fst (add_targets no to ts empty_SpaceNodes)) s =
      (\<not> (\<exists>t \<in> set ts. to_IsBastion to t \<and> tg_NodeID t \<noteq> [] \<and>
        tg_NodeID t = no_GetSpaceID no (SharedSpace s)))" for s
    unfolding unowned_def add_targets_ids by blast
  then have "unowned no (fst (add_targets no to ts empty_SpaceNodes)) =
      (\<lambda>s. \<not> (\<exists>t \<in> set ts. to_IsBastion to t \<and> tg_NodeID t \<noteq> [] \<and>
        tg_NodeID t = no_GetSpaceID no (SharedSpace s)))" by (rule ext)
  then show ?thesis by (simp add: GetSharedSpaces_def merged_eq)
qed

lemma add_targets_distinct:
  "distinct (map fst (sn_spaceNodes sn)) \<Longrightarrow>
     distinct (map fst (sn_spaceNodes (snd (add_targets no to ts sn))))"
  by (induction ts rule: rev_induct)
    (auto simp: add_targets_snoc add_target_def case_prod_beta add_targets_def distinct_update)

lemma add_space_nodes_distinct:
  "distinct (map fst (sn_spaceNodes sn)) \<Longrightarrow>
     distinct (map fst (sn_spaceNodes (fold (add_space_node no) ss sn)))"
  by (induction ss arbitrary: sn) (auto simp: add_space_node_def Let_def distinct_update)

lemma merged_distinct: "distinct (map fst (sn_spaceNodes (merged no to ts ss)))"
  by (simp add: merged_eq add_space_nodes_distinct add_targets_distinct empty_SpaceNodes_def)

section \<open>Properties\<close>

text \<open>
  Property C14. The registry is built if and only if the cloud service lists the spaces: its error
  is returned as it is and a panic of the client ends the call. Once listed, the shared spaces
  are the listed ones without those whose space ID is the node ID of a local bastion target, in
  the order of the listing, although the code deletes them from the list it is walking over.
\<close>
theorem GetSpaceNodes_shared_spaces:
  "(case fst (GetSpaceNodes tr GetToken conv svc no to GetTargets apiUrl w) of
      Ret (Inr sn) \<Rightarrow> (\<exists>ss. fst (listing tr GetToken conv svc apiUrl w) = Ret (Inr ss) \<and>
        GetSharedSpaces sn = filter (\<lambda>s. \<not> (\<exists>t. t \<in> set (GetTargets w) \<and> to_IsBastion to t \<and>
            tg_NodeID t \<noteq> [] \<and> tg_NodeID t = no_GetSpaceID no (SharedSpace s))) ss)
    | Ret (Inl err) \<Rightarrow> fst (listing tr GetToken conv svc apiUrl w) = Ret (Inl err)
    | Panic e \<Rightarrow> fst (listing tr GetToken conv svc apiUrl w) = Panic e
    | Hang \<Rightarrow> False)"
  using listing_not_Hang [of tr GetToken conv svc apiUrl w]
  unfolding GetSpaceNodes_apply
  by (auto simp: merged_shared Bex_def split: outcome.split sum.split)

text \<open>
  Property C15. What a registry built from a listing finds. A key names the last local bastion target
  with that key; only if there is none, it names the last listed space with that key. An endpoint,
  or the host of one, names a node if and only if a local bastion target without an error or a
  registered listed space claims it, and then the node it names is the one that was registered
  last: a listed space rather than a target.
\<close>
theorem GetSpaceNodes_lookup:
  assumes "fst (listing tr GetToken conv svc apiUrl w) = Ret (Inr ss)"
  shows "\<exists>sn. fst (GetSpaceNodes tr GetToken conv svc no to GetTargets apiUrl w) = Ret (Inr sn) \<and>
    (\<forall>k. LookupSpace sn k =
      (case last_match (\<lambda>t. to_IsBastion to t \<and> no_Key no (LocalTarget t) = k) (GetTargets w) of
         Some t \<Rightarrow> Some (LocalTarget t)
       | None \<Rightarrow> map_option SharedSpace (last_match (\<lambda>s. no_Key no (SharedSpace s) = k) ss))) \<and>
    (\<forall>e. LookupSpaceByEndpoint sn e =
      last_match (reaches no e) (endpoint_nodes no to (GetTargets w) ss))"
  by (simp add: GetSpaceNodes_apply assms merged_key merged_endpoint)

text \<open>
  \<open>GetAllSpaces\<close> returns each node of a registry built from a listing exactly once,
  whatever the order of the map range and for each sort that only permutes: its result holds one
  node for each known key.
\<close>
lemma GetAllSpaces_permutation:
  assumes "fst (listing tr GetToken conv svc apiUrl w) = Ret (Inr ss)"
    and "map_order ord" and "map_order sort_spaces"
  shows "\<exists>sn. fst (GetSpaceNodes tr GetToken conv svc no to GetTargets apiUrl w) = Ret (Inr sn) \<and>
    mset (GetAllSpaces sort_spaces ord sn) =
      image_mset (\<lambda>k. the (LookupSpace sn k)) (mset_set (dom (LookupSpace sn)))"
proof -
  define sn where "sn = merged no to (GetTargets w) ss"
  have dist: "distinct (map fst (sn_spaceNodes sn))"
    unfolding sn_def by (rule merged_distinct)
  have "LookupSpace sn = map_of (sn_spaceNodes sn)" by (simp add: LookupSpace_def fun_eq_iff)
  then have dom: "dom (LookupSpace sn) = set (map fst (sn_spaceNodes sn))"
    by (simp add: dom_map_of_conv_image_fst)
  have "mset (GetAllSpaces sort_spaces ord sn) = mset (map snd (sn_spaceNodes sn))"
    using assms(2,3) by (simp add: GetAllSpaces_def foldl_snoc map_order_def)
  also have "map snd (sn_spaceNodes sn) =
      map (\<lambda>k. the (LookupSpace sn k)) (map fst (sn_spaceNodes sn))"
    using dist by (auto simp: LookupSpace_def)
  also have "mset \<dots> = image_mset (\<lambda>k. the (LookupSpace sn k)) (mset (map fst (sn_spaceNodes sn)))"
    by (rule mset_map)
  also have "mset (map fst (sn_spaceNodes sn)) = mset_set (set (map fst (sn_spaceNodes sn)))"
    using dist by (rule mset_set_set [symmetric])
  finally show ?thesis by (simp add: dom GetSpaceNodes_apply assms(1) flip: sn_def)
qed

section \<open>Witnesses\<close>

text \<open>
  One target, deployed as the space \<open>s1\<close>, and two listed spaces, of which the first is that same
  space under another key.
\<close>

definition test_node_ops :: "(unit, 'x) node_ops" where
  "test_node_ops = \<lparr>
     no_Key = (\<lambda>n. case n of LocalTarget t \<Rightarrow> ''target/'' @ tg_NodeID t
        | SharedSpace s \<Rightarrow> ''space/'' @ s_SpaceID s),
     no_GetSpaceID = (\<lambda>n. case n of LocalTarget t \<Rightarrow> tg_NodeID t | SharedSpace s \<Rightarrow> s_SpaceID s),
     no_GetSpaceName = (\<lambda>n. case n of LocalTarget t \<Rightarrow> ''target'' | SharedSpace s \<Rightarrow> s_SpaceName s),
     no_GetEndpoint = (\<lambda>n. Inr (''https://'' @ (case n of LocalTarget t \<Rightarrow> tg_NodeID t
        | SharedSpace s \<Rightarrow> s_SpaceID s))),
     no_GetApiCARoot = (\<lambda>_. []),
     no_CanUseAsEgressNode = (\<lambda>_. True),
     no_CreateDeviceConnectKeyPair = (\<lambda>_ w. (Inr (''priv'', ''pub''), w)),
     no_IsAdmin = (\<lambda>_ _. False)\<rparr>"

definition test_token :: "'w token_source" where
  "test_token w = Some (\<lambda>_. StringIface ''token'')"

definition test_spaces :: "space_user list \<Rightarrow> ('x, unit, space_user list) gql_exec" where
  "test_spaces us = answering us"

definition test_transport :: transport where
  "test_transport = gc_transport test_gql"

abbreviation test_nodes ::
  "space_user list \<Rightarrow> unit Target list \<Rightarrow> (error + unit SpaceNodes) outcome" where
  "test_nodes us ts \<equiv> fst (GetSpaceNodes test_transport test_token (\<lambda>_. 0) (test_spaces us)
     test_node_ops test_target_ops (\<lambda>_. ts) [] (quiet_world ()))"

lemma test_listing:
  "fst (listing test_transport test_token (\<lambda>_. 0) (test_spaces us) [] w) =
     Ret (Inr (map (space_of (\<lambda>_. 0)) (filter (\<lambda>u. su_Status u \<noteq> ''inactive'') us)))"
proof -
  have "NewGraphQLClient test_transport test_token [] [] w =
      (Ret \<lparr>gc_url = [], gc_idToken = ''token'', gc_transport = test_transport, gc_Timeout = 0\<rparr>, w)"
    by (rule NewGraphQLClient_Some) (simp_all add: test_token_def)
  then show ?thesis
    unfolding listing_def
    by (simp add: bindg_step GetSpaces_apply test_spaces_def answering_def)
qed

abbreviation s1_user :: space_user where
  "s1_user \<equiv> test_space_user ''s1'' ''active'' True 5"

abbreviation s2_user :: space_user where
  "s2_user \<equiv> test_space_user ''s2'' ''active'' True 5"

theorem GetSpaceNodes_lookup_witness:
  "\<exists>sn. test_nodes [s1_user, s2_user] [test_Target ''s1''] = Ret (Inr sn) \<and>
     LookupSpace sn ''target/s1'' = Some (LocalTarget (test_Target ''s1'')) \<and>
     LookupSpace sn ''space/s2'' = Some (SharedSpace (space_of (\<lambda>_. 0) s2_user)) \<and>
     LookupSpaceByEndpoint sn ''https://s2'' = Some (SharedSpace (space_of (\<lambda>_. 0) s2_user))"
proof -
  have names: "is_name ''s1''" "is_name ''s2''"
    by (simp_all add: is_name_def is_lower_upper_def is_digit_char_def)
  have hosts: "url_Host ''https://s1'' = Some ''s1''" "url_Host ''https://s2'' = Some ''s2''"
    using url_Host_name [OF names(1)] url_Host_name [OF names(2)] by simp_all
  show ?thesis
    using GetSpaceNodes_lookup [where no = test_node_ops and to = test_target_ops
      and GetTargets = "\<lambda>_. [test_Target ''s1'']", OF test_listing [of "[s1_user, s2_user]" "quiet_world ()"]]
    by (auto simp: test_space_user_def test_node_ops_def test_target_ops_def test_Target_def
        space_of_def endpoint_nodes_def healthy_def reaches_def hosts Split_head_def)
qed

end
