(* ===== verification/Client_Pool.thy ===== *)
theory Client_Pool
  imports Space_Nodes_Props Node_Props
begin

text \<open>
  The pool of API clients of \<open>mycscloud/space_nodes.go\<close> as its users see it. The interface is the
  locale \<open>ref_pool\<close>: clients are handed out and returned, and the pool shows, for each key in use,
  the one client it shares and how many users hold it. The interpretation \<open>pool\<close> shows that
  \<open>GetApiClientForSpace\<close> and \<open>ReleaseApiClientForSpace\<close> implement it. \<open>pool_run\<close> are the sequences
  of calls; the properties at the end are about them.
\<close>

section \<open>The interface\<close>

text \<open>The abstract pool: the client of each key in use and the number of its holders.\<close>

type_synonym 'c pool_view = "string \<Rightarrow> ('c \<times> nat) option"

definition pool_count :: "'c pool_view \<Rightarrow> string \<Rightarrow> nat" where
  "pool_count A k = (case A k of None \<Rightarrow> 0 | Some (_, m) \<Rightarrow> m)"

definition pool_take :: "string \<Rightarrow> 'c \<Rightarrow> 'c pool_view \<Rightarrow> 'c pool_view" where
  "pool_take k c A = A(k \<mapsto> (c, Suc (pool_count A k)))"

definition pool_drop :: "string \<Rightarrow> 'c pool_view \<Rightarrow> 'c pool_view" where
  "pool_drop k A = (case A k of
     None \<Rightarrow> A
   | Some (c, m) \<Rightarrow> if m \<le> 1 then A(k := None) else A(k \<mapsto> (c, m - 1)))"

definition shares :: "'c pool_view \<Rightarrow> string \<Rightarrow> 'c \<Rightarrow> bool" where
  "shares A k c = (case A k of None \<Rightarrow> True | Some (d, _) \<Rightarrow> d = c)"

definition view_ok :: "('c \<Rightarrow> string) \<Rightarrow> 'c pool_view \<Rightarrow> bool" where
  "view_ok ckey A = (\<forall>k c m. A k = Some (c, m) \<longrightarrow> 0 < m \<and> ckey c = k)"

lemma pool_count_take [simp]:
  "pool_count (pool_take k c A) k' = (if k' = k then Suc (pool_count A k) else pool_count A k')"
  by (simp add: pool_take_def pool_count_def)

lemma pool_count_drop [simp]:
  "pool_count (pool_drop k A) k' = (if k' = k then pool_count A k - 1 else pool_count A k')"
  by (simp add: pool_drop_def pool_count_def split: option.split)

lemma pool_drop_take:
  assumes "view_ok ckey A" "shares A k c"
  shows "pool_drop k (pool_take k c A) = A"
proof (cases "A k")
  case None
  then show ?thesis by (auto simp: pool_drop_def pool_take_def pool_count_def)
next
  case (Some p)
  then obtain m where "A k = Some (c, m)" "0 < m"
    using assms by (cases p) (auto simp: shares_def view_ok_def)
  then show ?thesis by (auto simp: pool_drop_def pool_take_def pool_count_def)
qed

lemma pool_drop_client:
  "pool_drop k A k' = Some (c, m) \<Longrightarrow> \<exists>m'. A k' = Some (c, m')"
  by (auto simp: pool_drop_def split: option.splits if_splits)

lemma pool_take_client:
  "shares A k c \<Longrightarrow> A k' = Some (d, m) \<Longrightarrow> \<exists>m'. pool_take k c A k' = Some (d, m')"
  by (auto simp: pool_take_def shares_def)

locale ref_pool =
  fixes acquire :: "'n \<Rightarrow> ('s, error + 'c) go"
    and release :: "'c \<Rightarrow> ('s, unit) go"
    and view :: "'s \<Rightarrow> 'c pool_view"
    and nkey :: "'n \<Rightarrow> string"
    and ckey :: "'c \<Rightarrow> string"
    and good :: "'s \<Rightarrow> bool"
    and limit :: nat
  assumes good_view: "good s \<Longrightarrow> view_ok ckey (view s)"
    and acquire_client: "good s \<Longrightarrow> pool_count (view s) (nkey n) < limit \<Longrightarrow>
      acquire n s = (Ret (Inr c), s') \<Longrightarrow>
      good s' \<and> ckey c = nkey n \<and> shares (view s) (nkey n) c \<and>
      view s' = pool_take (nkey n) c (view s)"
    and acquire_error: "good s \<Longrightarrow> pool_count (view s) (nkey n) < limit \<Longrightarrow>
      acquire n s = (Ret (Inl e), s') \<Longrightarrow>
      good s' \<and> (view s' = view s \<or>
        (\<exists>c. shares (view s) (nkey n) c \<and> view s' = pool_take (nkey n) c (view s)))"
    and release_client: "good s \<Longrightarrow> release c s = (r, s') \<Longrightarrow>
      r = Ret () \<and> good s' \<and> view s' = pool_drop (ckey c) (view s)"
begin

text \<open>A client that is returned leaves the pool as it was found.\<close>

lemma acquire_release:
  assumes "good s" "pool_count (view s) (nkey n) < limit" "acquire n s = (Ret (Inr c), s')"
  shows "\<exists>s''. release c s' = (Ret (), s'') \<and> good s'' \<and> view s'' = view s"
proof -
  note got = acquire_client [OF assms]
  obtain r s'' where rel: "release c s' = (r, s'')" by (cases "release c s'")
  have ret: "r = Ret ()" "good s''" "view s'' = pool_drop (ckey c) (view s')"
    using release_client [OF _ rel] got by blast+
  have "ckey c = nkey n" "view s' = pool_take (nkey n) c (view s)" "shares (view s) (nkey n) c"
    using got by blast+
  then have "view s'' = view s"
    using ret(3) pool_drop_take [OF good_view [OF assms(1)], of "nkey n" c] by (simp only:)
  then show ?thesis using rel ret by (intro exI [of _ s'']) (simp only: simp_thms)
qed

text \<open>Holders of one key share one client, whoever else acquires or returns in between.\<close>

lemma acquire_shared:
  assumes "good s" "pool_count (view s) (nkey n) < limit" "acquire n s = (Ret (Inr c), s')"
    and "view s (nkey n) = Some (d, m)"
  shows "c = d"
proof -
  have "shares (view s) (nkey n) c" using acquire_client [OF assms(1-3)] by blast
  then show ?thesis using assms(4) by (simp add: shares_def)
qed

lemma acquire_error_count:
  assumes "good s" "pool_count (view s) (nkey n) < limit" "acquire n s = (Ret (Inl e), s')"
  shows "pool_count (view s') k = pool_count (view s) k \<or>
    k = nkey n \<and> pool_count (view s') k = Suc (pool_count (view s) k)"
  using acquire_error [OF assms] by (auto split: if_splits)

end

section \<open>The pool of the registry\<close>

definition pool_view :: "'h SpaceNodes \<Rightarrow> 'h ApiClient pool_view" where
  "pool_view sn k = map_option (\<lambda>ref. (apiClient ref, unat (refCount ref) + 1))
     (map_of (sn_spaceAPIClients sn) k)"

definition client_key :: "('h, 'x) node_ops \<Rightarrow> 'h ApiClient \<Rightarrow> string" where
  "client_key no c = no_Key no (ac_Node c)"

definition pool_ok :: "('h, 'x) node_ops \<Rightarrow> 'h SpaceNodes \<Rightarrow> bool" where
  "pool_ok no sn = view_ok (client_key no) (pool_view sn)"

lemma NewApiClient_node:
  "NewApiClient mo dc node w = (Ret (Inr c), w') \<Longrightarrow> ac_Node c = node"
  by (auto simp: NewApiClient_def bindg_Ret getg_def callg_def ret_def panic_def
      split: option.splits prod.splits sum.splits)

lemma wait_for_client_apply:
  "wait_for_client mo k c (sn, w) =
     (Ret (if fst (mo_WaitForAuth mo (ac_ref c) w) then Inr c
        else Inl (auth_timeout k)), (sn, snd (mo_WaitForAuth mo (ac_ref c) w)))"
  by (simp add: wait_for_client_def go_monad)

lemma unat_refCount_inc:
  "unat (n :: int64) + 1 < 2 ^ 64 \<Longrightarrow> unat (n + 1) = unat n + 1"
  by (simp add: unat_word_ariths)

lemma pool_view_put:
  "pool_view (put_client k ref sn) = (pool_view sn)(k \<mapsto> (apiClient ref, unat (refCount ref) + 1))"
  by (rule ext) (simp add: pool_view_def put_client_def update_conv')

lemma pool_view_held:
  "map_of (sn_spaceAPIClients sn) k = Some ref \<Longrightarrow>
     pool_view sn k = Some (apiClient ref, unat (refCount ref) + 1)"
  and pool_view_free: "map_of (sn_spaceAPIClients sn) k = None \<Longrightarrow> pool_view sn k = None"
  by (simp_all add: pool_view_def)

text \<open>A client in use is shared and only waited for; a free one is created, started and stored.\<close>

lemma GetApiClient_held:
  assumes "map_of (sn_spaceAPIClients sn) (no_Key no n) = Some ref"
  shows "GetApiClientForSpace no mo dc n (sn, w) =
    wait_for_client mo (no_Key no n) (apiClient ref)
      (put_client (no_Key no n) (ref\<lparr>refCount := refCount ref + 1\<rparr>) sn, w)"
  by (simp add: GetApiClientForSpace_def go_monad assms)

lemma GetApiClient_free:
  assumes "map_of (sn_spaceAPIClients sn) (no_Key no n) = None"
    and "GetApiClientForSpace no mo dc n (sn, w) = (Ret r, (sn', w'))"
  shows "(\<exists>e. r = Inl e) \<and> sn' = sn \<or>
    (\<exists>c w1. NewApiClient mo dc n w = (Ret (Inr c), w1) \<and>
       wait_for_client mo (no_Key no n) c
         (put_client (no_Key no n) \<lparr>refCount = 0, apiClient = c\<rparr> sn, snd (mo_Start mo (ac_ref c) w1)) =
       (Ret r, (sn', w')))"
proof -
  have run: "bindg (on_snd (NewApiClient mo dc n)) (\<lambda>created.
         case created of
           Inl err \<Rightarrow> ret (Inl err)
         | Inr c \<Rightarrow>
             bindg (on_snd (callg (mo_Start mo (ac_ref c)))) (\<lambda>started.
             case started of
               Some err \<Rightarrow> ret (Inl err)
             | None \<Rightarrow>
                 bindg (putg (\<lambda>(sn, w).
                   (put_client (no_Key no n) \<lparr>refCount = 0, apiClient = c\<rparr> sn, w))) (\<lambda>_.
                 wait_for_client mo (no_Key no n) c))) (sn, w) = (Ret r, (sn', w'))"
    using assms by (simp add: GetApiClientForSpace_def go_monad)
  then obtain cr sn1 w1 where "on_snd (NewApiClient mo dc n) (sn, w) = (Ret cr, (sn1, w1))"
    by (auto simp: bindg_Ret)
  then have new: "NewApiClient mo dc n w = (Ret cr, w1)" and "sn1 = sn"
    by (auto simp: on_snd_def split: prod.splits)
  show ?thesis
  proof (cases cr)
    case (Inl e)
    then show ?thesis using run by (auto simp: on_snd_Ret [where m = "NewApiClient mo dc n", OF new] ret_apply)
  next
    case (Inr c)
    show ?thesis
      using run new Inr
      by (cases "fst (mo_Start mo (ac_ref c) w1)")
        (auto simp: on_snd_Ret [where m = "NewApiClient mo dc n", OF new] on_snd_bind ret_apply bindg_put)
  qed
qed

lemma pool_good_view:
  "pool_ok no (fst s) \<Longrightarrow> view_ok (client_key no) (pool_view (fst s))"
  by (simp add: pool_ok_def)

lemma pool_stored:
  assumes ok: "pool_ok no sn" and few: "pool_count (pool_view sn) (no_Key no n) < 2 ^ 64"
    and get: "GetApiClientForSpace no mo dc n (sn, w) = (Ret r, (sn', w'))"
  shows "(\<exists>e. r = Inl e) \<and> sn' = sn \<or>
    (\<exists>c. client_key no c = no_Key no n \<and> shares (pool_view sn) (no_Key no n) c \<and>
       pool_view sn' = pool_take (no_Key no n) c (pool_view sn) \<and> (r = Inr c \<or> (\<exists>e. r = Inl e)))"
proof (cases "map_of (sn_spaceAPIClients sn) (no_Key no n)")
  case None
  have fresh: "pool_view (put_client (no_Key no n) \<lparr>refCount = 0, apiClient = c\<rparr> sn) =
      pool_take (no_Key no n) c (pool_view sn)" "shares (pool_view sn) (no_Key no n) c" for c
    by (simp_all add: pool_view_put pool_take_def pool_count_def shares_def pool_view_free [OF None])
  from GetApiClient_free [OF None get] show ?thesis
  proof (elim disjE exE conjE)
    fix c w1
    assume new: "NewApiClient mo dc n w = (Ret (Inr c), w1)"
      and wait: "wait_for_client mo (no_Key no n) c
         (put_client (no_Key no n) \<lparr>refCount = 0, apiClient = c\<rparr> sn, snd (mo_Start mo (ac_ref c) w1)) =
       (Ret r, (sn', w'))"
    have "client_key no c = no_Key no n" by (simp add: client_key_def NewApiClient_node [OF new])
    then show ?thesis using wait fresh [of c] by (auto simp: wait_for_client_apply split: if_splits)
  qed blast
next
  case (Some ref)
  have key: "client_key no (apiClient ref) = no_Key no n"
    using ok pool_view_held [OF Some] by (auto simp: pool_ok_def view_ok_def)
  have inc: "unat (refCount ref + 1) = unat (refCount ref) + 1"
    using few by (intro unat_refCount_inc) (simp add: pool_count_def pool_view_held [OF Some])
  show ?thesis
    using get key
    by (auto simp: GetApiClient_held [OF Some] wait_for_client_apply pool_view_put pool_take_def
        pool_count_def shares_def pool_view_held [OF Some] inc split: if_splits)
qed

lemma view_ok_take: "view_ok ckey A \<Longrightarrow> ckey c = k \<Longrightarrow> view_ok ckey (pool_take k c A)"
  by (auto simp: view_ok_def pool_take_def)

lemma view_ok_drop: "view_ok ckey A \<Longrightarrow> view_ok ckey (pool_drop k A)"
  by (auto simp: view_ok_def pool_drop_def split: option.splits if_splits)

text \<open>Returning a client: the last holder stops it, any other only counts down.\<close>

lemma Release_apply:
  "ReleaseApiClientForSpace no mo c (sn, w) =
     (Ret (), case map_of (sn_spaceAPIClients sn) (client_key no c) of
        None \<Rightarrow> (sn, w)
      | Some ref \<Rightarrow>
          if refCount ref = 0
          then (sn\<lparr>sn_spaceAPIClients := AList.delete (client_key no c) (sn_spaceAPIClients sn)\<rparr>,
                mo_Stop mo (ac_ref (apiClient ref)) w)
          else (put_client (client_key no c) (ref\<lparr>refCount := refCount ref - 1\<rparr>) sn, w))"
  by (simp add: ReleaseApiClientForSpace_def GetSpaceNode_def client_key_def go_monad Let_def
      on_snd_put split: option.split)

lemma unat_refCount_dec: "(n :: int64) \<noteq> 0 \<Longrightarrow> unat (n - 1) + 1 = unat n"
  using unat_minus_one [of n] unat_gt_0 [of n] by simp

lemma pool_view_delete:
  "pool_view (sn\<lparr>sn_spaceAPIClients := AList.delete k (sn_spaceAPIClients sn)\<rparr>) =
     (pool_view sn)(k := None)"
  by (rule ext) (simp add: pool_view_def delete_conv')

lemma Release_view:
  assumes "ReleaseApiClientForSpace no mo c (sn, w) = (r, (sn', w'))"
  shows "r = Ret () \<and> pool_view sn' = pool_drop (client_key no c) (pool_view sn)"
proof (cases "map_of (sn_spaceAPIClients sn) (client_key no c)")
  case None
  then show ?thesis using assms by (simp add: Release_apply pool_drop_def pool_view_free)
next
  case (Some ref)
  show ?thesis
  proof (cases "refCount ref = 0")
    case True
    then show ?thesis
      using assms Some by (auto simp: Release_apply pool_drop_def pool_view_held pool_view_delete)
  next
    case False
    then show ?thesis
      using assms Some unat_refCount_dec [OF False]
      by (auto simp: Release_apply pool_drop_def pool_view_held pool_view_put unat_eq_0)
  qed
qed

interpretation pool: ref_pool "GetApiClientForSpace no mo dc" "ReleaseApiClientForSpace no mo"
    "\<lambda>s. pool_view (fst s)" "no_Key no" "client_key no" "\<lambda>s. pool_ok no (fst s)" "2 ^ 64"
  for no :: "('h, 'x) node_ops" and mo and dc :: "'x DeviceContext"
proof
  show "view_ok (client_key no) (pool_view (fst s))" if "pool_ok no (fst s)" for s :: "'h SpaceNodes \<times> 'x world"
    using that by (rule pool_good_view)
next
  fix s s' :: "'h SpaceNodes \<times> 'x world" and n c
  assume ok: "pool_ok no (fst s)" and few: "pool_count (pool_view (fst s)) (no_Key no n) < 2 ^ 64"
    and get: "GetApiClientForSpace no mo dc n s = (Ret (Inr c), s')"
  then show "pool_ok no (fst s') \<and> client_key no c = no_Key no n \<and>
      shares (pool_view (fst s)) (no_Key no n) c \<and>
      pool_view (fst s') = pool_take (no_Key no n) c (pool_view (fst s))"
    using pool_stored [of no "fst s" n mo dc "snd s" "Inr c" "fst s'" "snd s'"]
    by (auto simp: pool_ok_def view_ok_take)
next
  fix s s' :: "'h SpaceNodes \<times> 'x world" and n e
  assume ok: "pool_ok no (fst s)" and few: "pool_count (pool_view (fst s)) (no_Key no n) < 2 ^ 64"
    and get: "GetApiClientForSpace no mo dc n s = (Ret (Inl e), s')"
  then show "pool_ok no (fst s') \<and> (pool_view (fst s') = pool_view (fst s) \<or>
      (\<exists>c. shares (pool_view (fst s)) (no_Key no n) c \<and>
        pool_view (fst s') = pool_take (no_Key no n) c (pool_view (fst s))))"
    using pool_stored [of no "fst s" n mo dc "snd s" "Inl e" "fst s'" "snd s'"]
    by (auto simp: pool_ok_def view_ok_take)
next
  fix s s' :: "'h SpaceNodes \<times> 'x world" and c r
  assume ok: "pool_ok no (fst s)" and rel: "ReleaseApiClientForSpace no mo c s = (r, s')"
  then show "r = Ret () \<and> pool_ok no (fst s') \<and>
      pool_view (fst s') = pool_drop (client_key no c) (pool_view (fst s))"
    using Release_view [of no mo c "fst s" "snd s" r "fst s'" "snd s'"]
    by (auto simp: pool_ok_def view_ok_drop)
qed

section \<open>Sequences of calls\<close>

text \<open>
  \<open>pool_run no mo dc s H L\<close>: the state \<open>s\<close> is reached by calls of the two operations, in any order
  and with any changes of the world in between, \<open>H\<close> are the clients handed out and not returned
  since, and \<open>L\<close> are the keys of the failed calls that changed the registry before they failed.
  Only clients that were handed out are returned. The bound says that \<open>refCount\<close> does not wrap.
\<close>

inductive pool_run ::
  "('h, 'x) node_ops \<Rightarrow> ('h, 'x) mycsnode_ops \<Rightarrow> 'x DeviceContext \<Rightarrow> 'h SpaceNodes \<times> 'x world \<Rightarrow>
     'h ApiClient multiset \<Rightarrow> string multiset \<Rightarrow> bool"
  for no mo dc where
  start: "sn_spaceAPIClients sn = [] \<Longrightarrow> pool_run no mo dc (sn, w) {#} {#}"
| elsewhere: "pool_run no mo dc (sn, w) H L \<Longrightarrow> pool_run no mo dc (sn, w') H L"
| got: "pool_run no mo dc s H L \<Longrightarrow> size H + size L < 2 ^ 64 \<Longrightarrow>
    GetApiClientForSpace no mo dc n s = (Ret (Inr c), s') \<Longrightarrow> pool_run no mo dc s' (add_mset c H) L"
| failed: "pool_run no mo dc s H L \<Longrightarrow> size H + size L < 2 ^ 64 \<Longrightarrow>
    GetApiClientForSpace no mo dc n s = (Ret (Inl e), s') \<Longrightarrow>
    pool_run no mo dc s' H (if fst s' = fst s then L else add_mset (no_Key no n) L)"
| returned: "pool_run no mo dc s H L \<Longrightarrow> c \<in># H \<Longrightarrow>
    ReleaseApiClientForSpace no mo c s = (Ret (), s') \<Longrightarrow> pool_run no mo dc s' (H - {#c#}) L"

inductive_cases pool_runE: "pool_run no mo dc s H L"

definition held_for :: "('h, 'x) node_ops \<Rightarrow> 'h ApiClient multiset \<Rightarrow> string \<Rightarrow> nat" where
  "held_for no H k = size (filter_mset (\<lambda>c. client_key no c = k) H)"

definition pool_inv ::
  "('h, 'x) node_ops \<Rightarrow> 'h SpaceNodes \<Rightarrow> 'h ApiClient multiset \<Rightarrow> string multiset \<Rightarrow> bool" where
  "pool_inv no sn H L = (pool_ok no sn \<and>
     (\<forall>k. pool_count (pool_view sn) k = held_for no H k + count L k) \<and>
     (\<forall>c \<in># H. \<exists>m. pool_view sn (client_key no c) = Some (c, m)))"

lemma held_for_add [simp]:
  "held_for no (add_mset c H) k = (if k = client_key no c then Suc (held_for no H k) else held_for no H k)"
  by (simp add: held_for_def)

lemma held_for_remove:
  assumes "c \<in># H"
  shows "held_for no H k =
    (if k = client_key no c then Suc (held_for no (H - {#c#}) k) else held_for no (H - {#c#}) k)"
  using held_for_add [of no c "H - {#c#}" k] assms by simp

lemma held_for_le: "held_for no H k \<le> size H"
  unfolding held_for_def by (simp add: size_filter_mset_lesseq)

lemma held_for_pos: "c \<in># H \<Longrightarrow> 0 < held_for no H (client_key no c)"
  using held_for_remove [of c H no "client_key no c"] by simp

lemma pool_inv_few:
  "pool_inv no sn H L \<Longrightarrow> size H + size L < 2 ^ 64 \<Longrightarrow> pool_count (pool_view sn) k < 2 ^ 64"
  using held_for_le [of no H k] count_le_size [of L k] by (simp add: pool_inv_def)

lemma pool_inv_take:
  assumes inv: "pool_inv no sn H L" and ok: "pool_ok no sn'"
    and view: "pool_view sn' = pool_take k c (pool_view sn)" and sh: "shares (pool_view sn) k c"
  shows "client_key no c = k \<Longrightarrow> pool_inv no sn' (add_mset c H) L"
    and "pool_inv no sn' H (add_mset k L)"
proof -
  have keep: "\<exists>m. pool_view sn' (client_key no d) = Some (d, m)" if "d \<in># H" for d
    using that inv pool_take_client [OF sh] by (fastforce simp: pool_inv_def view)
  have new: "pool_view sn' k = Some (c, Suc (pool_count (pool_view sn) k))"
    by (simp add: view pool_take_def)
  show "pool_inv no sn' (add_mset c H) L" if "client_key no c = k"
    using inv ok keep new that by (auto simp: pool_inv_def view)
  show "pool_inv no sn' H (add_mset k L)"
    using inv ok keep by (auto simp: pool_inv_def view)
qed

lemma pool_inv_drop:
  assumes inv: "pool_inv no sn H L" and ok: "pool_ok no sn'" and c: "c \<in># H"
    and view: "pool_view sn' = pool_drop (client_key no c) (pool_view sn)"
  shows "pool_inv no sn' (H - {#c#}) L"
proof -
  have "\<exists>m. pool_view sn' (client_key no d) = Some (d, m)" if d: "d \<in># H - {#c#}" for d
  proof -
    obtain m where m: "pool_view sn (client_key no d) = Some (d, m)"
      using inv in_diffD [OF d] by (auto simp: pool_inv_def)
    have cnt: "pool_count (pool_view sn) (client_key no d) =
        held_for no H (client_key no d) + count L (client_key no d)"
      using inv by (simp add: pool_inv_def)
    have "client_key no d = client_key no c \<Longrightarrow> 1 < m"
      using cnt m held_for_remove [OF c, of no "client_key no d"] held_for_pos [OF d, of no]
      by (simp add: pool_count_def)
    then show ?thesis using m by (auto simp: view pool_drop_def split: option.split)
  qed
  moreover have "pool_count (pool_view sn') k = held_for no (H - {#c#}) k + count L k" for k
    using inv held_for_remove [OF c, of no k]
    by (cases "k = client_key no c") (simp_all add: pool_inv_def view)
  ultimately show ?thesis using ok by (simp add: pool_inv_def)
qed

lemma pool_run_inv: "pool_run no mo dc s H L \<Longrightarrow> pool_inv no (fst s) H L"
proof (induction rule: pool_run.induct)
  case (start sn w)
  then show ?case
    by (simp add: pool_inv_def pool_ok_def view_ok_def pool_view_def pool_count_def held_for_def)
next
  case (elsewhere sn w H L w')
  then show ?case by simp
next
  case (got s H L n c s')
  have ok: "pool_ok no (fst s)" using got.IH by (simp add: pool_inv_def)
  show ?case
    using pool.acquire_client [OF ok pool_inv_few [OF got.IH got.hyps(2)] got.hyps(3)]
      pool_inv_take(1) [OF got.IH] by blast
next
  case (failed s H L n e s')
  have ok: "pool_ok no (fst s)" using failed.IH by (simp add: pool_inv_def)
  show ?case
  proof (cases "fst s' = fst s")
    case True
    then show ?thesis using failed.IH by simp
  next
    case False
    have "(\<exists>e. Inl e = (Inl e :: error + 'a ApiClient)) \<and> fst s' = fst s \<or>
        (\<exists>c. shares (pool_view (fst s)) (no_Key no n) c \<and> client_key no c = no_Key no n \<and>
          pool_view (fst s') = pool_take (no_Key no n) c (pool_view (fst s)))"
      using pool_stored [where mo = mo and dc = dc and w = "snd s" and r = "Inl e"
          and sn' = "fst s'" and w' = "snd s'",
          OF ok pool_inv_few [where k = "no_Key no n", OF failed.IH failed.hyps(2)]] failed.hyps(3) by auto
    then obtain c where "shares (pool_view (fst s)) (no_Key no n) c"
        "pool_view (fst s') = pool_take (no_Key no n) c (pool_view (fst s))"
      using False by blast
    moreover have "pool_ok no (fst s')"
      using pool.acquire_error [OF ok pool_inv_few [OF failed.IH failed.hyps(2)] failed.hyps(3)]
      by blast
    ultimately show ?thesis using pool_inv_take(2) [OF failed.IH] False by simp
  qed
next
  case (returned s H L c s')
  have ok: "pool_ok no (fst s)" using returned.IH by (simp add: pool_inv_def)
  show ?case
    using pool.release_client [OF ok returned.hyps(3)] pool_inv_drop [OF returned.IH _ returned.hyps(2)]
    by blast
qed

section \<open>Properties\<close>

text \<open>
  Property C10. After any sequence of calls, the holder count of each key is the number of clients
  of that key that were handed out and not returned, plus the calls that failed after they had
  counted; and each client handed out is still the client of its key, so that all holders of a
  key share one client.
\<close>
theorem pool_counts_holders:
  assumes "pool_run no mo dc s H L"
  shows "pool_count (pool_view (fst s)) k = held_for no H k + count L k \<and>
    (\<forall>c \<in># H. \<exists>m. pool_view (fst s) (client_key no c) = Some (c, m))"
  using pool_run_inv [OF assms] by (simp add: pool_inv_def)

text \<open>
  Property C11. Returning a client stops it if and only if it is the last reference to its key:
  then the key leaves the pool and \<open>Stop\<close> is called on that client, otherwise nothing outside the
  registry changes and the key stays.
\<close>
theorem last_release_stops:
  assumes run: "pool_run no mo dc (sn, w) H L" and c: "c \<in># H"
  shows "\<exists>sn'. ReleaseApiClientForSpace no mo c (sn, w) = (Ret (),
    (if held_for no H (client_key no c) + count L (client_key no c) = 1
     then (sn', mo_Stop mo (ac_ref c) w) else (sn', w))) \<and>
    (pool_view sn' (client_key no c) = None \<longleftrightarrow>
      held_for no H (client_key no c) + count L (client_key no c) = 1)"
proof -
  have inv: "pool_inv no sn H L" using pool_run_inv [OF run] by simp
  then obtain m where m: "pool_view sn (client_key no c) = Some (c, m)"
    using c by (auto simp: pool_inv_def)
  then obtain ref where ref: "map_of (sn_spaceAPIClients sn) (client_key no c) = Some ref"
    and cl: "apiClient ref = c" and m_eq: "m = unat (refCount ref) + 1"
    by (auto simp: pool_view_def)
  have "held_for no H (client_key no c) + count L (client_key no c) = m"
  proof -
    have "pool_count (pool_view sn) (client_key no c) =
        held_for no H (client_key no c) + count L (client_key no c)"
      using inv by (simp add: pool_inv_def)
    then show ?thesis using m by (simp add: pool_count_def)
  qed
  then show ?thesis
    using ref cl m_eq
    by (auto simp: Release_apply pool_view_delete pool_view_put unat_eq_0)
qed

text \<open>
  The pool is a functional refinement of the abstract pool for a caller that takes a
  client and returns it: whatever the state of the pool, afterwards it is as it was.
\<close>
lemma get_release_balanced:
  assumes "pool_ok no (fst s)" and "pool_count (pool_view (fst s)) (no_Key no n) < 2 ^ 64"
    and "GetApiClientForSpace no mo dc n s = (Ret (Inr c), s')"
  shows "\<exists>s''. ReleaseApiClientForSpace no mo c s' = (Ret (), s'') \<and>
    pool_view (fst s'') = pool_view (fst s)"
  using pool.acquire_release [OF assms] by blast

text \<open>
  Property C27. A call that times out waiting for a new client to authenticate returns an error
  and no client, but the client it started stays in the pool with one holder: nobody has it to
  return, so returning every client that was handed out never stops it.
\<close>
theorem timeout_leaks_client:
  assumes free: "pool_view sn (no_Key no n) = None"
    and new: "NewApiClient mo dc n w = (Ret (Inr c), w1)"
    and started: "mo_Start mo (ac_ref c) w1 = (None, w2)"
    and late: "mo_WaitForAuth mo (ac_ref c) w2 = (False, w3)"
  shows "\<exists>e sn'. GetApiClientForSpace no mo dc n (sn, w) = (Ret (Inl e), (sn', w3)) \<and>
    pool_view sn' = (pool_view sn)(no_Key no n \<mapsto> (c, 1))"
proof -
  have "map_of (sn_spaceAPIClients sn) (no_Key no n) = None" using free by (simp add: pool_view_def)
  then show ?thesis
    by (simp add: GetApiClientForSpace_def bindg_get on_snd_bind started bindg_put
        wait_for_client_apply late pool_view_put
        on_snd_Ret [where m = "NewApiClient mo dc n", OF new])
qed

section \<open>Witnesses\<close>

text \<open>A device context with a device, and clients whose \<open>Stop\<close> leaves a mark in the world.\<close>

definition pool_world :: "mem_ctx world" where
  "pool_world = quiet_world \<lparr>m_device = Some 0, m_device_id_key = ''key'', m_owner = Some 0,
     m_logged_in = (''0000'', ''owner''), m_managed = [], m_guests = [], m_next = 1\<rparr>"

definition stop_ops :: "bool \<Rightarrow> ('h, 'x) mycsnode_ops" where
  "stop_ops authenticated = test_mycsnode\<lparr>
     mo_Stop := (\<lambda>ref. log_ui [WriteText ''stopped'']),
     mo_WaitForAuth := (\<lambda>_ w. (authenticated, w))\<rparr>"

definition space_1 :: "unit SpaceNode" where
  "space_1 = SharedSpace (test_Space ''s1'' ''space one'')"

definition client_1 :: "unit ApiClient" where
  "client_1 = \<lparr>ac_ref = 0, ac_Node = space_1\<rparr>"

lemma key_1 [simp]: "no_Key test_node_ops space_1 = ''space/s1''"
    "client_key test_node_ops client_1 = ''space/s1''"
  by (simp_all add: test_node_ops_def space_1_def client_1_def client_key_def test_Space_def)

lemma new_1: "NewApiClient (stop_ops b) mem_context space_1 pool_world = (Ret (Inr client_1), pool_world)"
  by (simp add: NewApiClient_def go_monad mem_context_def pool_world_def quiet_world_def
      stop_ops_def test_mycsnode_def client_1_def zero_Device_def)

lemma empty_pool [simp]: "sn_spaceAPIClients empty_SpaceNodes = []"
  by (simp add: empty_SpaceNodes_def)

lemma stop_ops_simps [simp]:
  "mo_Start (stop_ops b) r w = (None, w)" "mo_WaitForAuth (stop_ops b) r w = (b, w)"
  by (simp_all add: stop_ops_def test_mycsnode_def)

definition pool_1 :: "int64 \<Rightarrow> unit SpaceNodes" where
  "pool_1 n = empty_SpaceNodes\<lparr>sn_spaceAPIClients :=
     [(''space/s1'', \<lparr>refCount = n, apiClient = client_1\<rparr>)]\<rparr>"

abbreviation get_1 :: "unit SpaceNodes \<Rightarrow> (error + unit ApiClient) outcome \<times> unit SpaceNodes \<times> mem_ctx world"
  where "get_1 sn \<equiv> GetApiClientForSpace test_node_ops (stop_ops True) mem_context space_1 (sn, pool_world)"

lemma get_free_1: "get_1 empty_SpaceNodes = (Ret (Inr client_1), (pool_1 0, pool_world))"
proof -
  have "bindg (on_snd (NewApiClient (stop_ops True) mem_context space_1)) f
      (s, pool_world) = f (Inr client_1) (s, pool_world)"
    for f :: "_ \<Rightarrow> (unit SpaceNodes \<times> mem_ctx world, error + unit ApiClient) go" and s
    by (rule on_snd_Ret) (rule new_1)
  then show ?thesis
    by (simp add: GetApiClientForSpace_def bindg_get bindg_put on_snd_bind wait_for_client_apply
        pool_1_def put_client_def)
qed

lemma get_held_1: "get_1 (pool_1 n) = (Ret (Inr client_1), (pool_1 (n + 1), pool_world))"
  by (simp add: GetApiClientForSpace_def bindg_get bindg_put wait_for_client_apply)
    (simp add: empty_SpaceNodes_def pool_1_def put_client_def stop_ops_def bindg_put
      wait_for_client_apply)

abbreviation run_1 :: "unit SpaceNodes \<times> mem_ctx world \<Rightarrow> unit ApiClient multiset \<Rightarrow> bool" where
  "run_1 s H \<equiv> pool_run test_node_ops (stop_ops True) mem_context s H {#}"

lemma run_one: "run_1 (pool_1 0, pool_world) {#client_1#}"
  by (rule pool_run.got [OF pool_run.start _ get_free_1])
    (simp_all add: empty_SpaceNodes_def)

lemma run_two: "run_1 (pool_1 1, pool_world) {#client_1, client_1#}"
  using pool_run.got [OF run_one _ get_held_1] by simp

theorem pool_counts_holders_witness:
  "pool_count (pool_view (pool_1 1)) ''space/s1'' = 2"
  using pool_counts_holders [OF run_two, of "''space/s1''"] by (simp add: held_for_def)

theorem last_release_stops_witness:
  "ui_log (snd (snd (ReleaseApiClientForSpace test_node_ops (stop_ops True) client_1
      (pool_1 0, pool_world)))) = [WriteText ''stopped''] \<and>
   ui_log (snd (snd (ReleaseApiClientForSpace test_node_ops (stop_ops True) client_1
      (pool_1 1, pool_world)))) = []"
  using last_release_stops [OF run_one, of client_1] last_release_stops [OF run_two, of client_1]
  by (auto simp: held_for_def) (simp_all add: stop_ops_def pool_world_def quiet_world_def)

theorem timeout_leaks_client_witness:
  "\<exists>e sn'. GetApiClientForSpace test_node_ops (stop_ops False) mem_context space_1
      (empty_SpaceNodes, pool_world) = (Ret (Inl e), (sn', pool_world)) \<and>
    pool_view sn' = (pool_view empty_SpaceNodes)(''space/s1'' \<mapsto> (client_1, 1))"
proof -
  have free: "pool_view (empty_SpaceNodes :: unit SpaceNodes) (no_Key test_node_ops space_1) = None"
    by (simp add: pool_view_def empty_SpaceNodes_def)
  show ?thesis
    using timeout_leaks_client [OF free new_1 [of False], of pool_world pool_world]
    by (simp add: stop_ops_def test_mycsnode_def)
qed

end
