(* ===== verification/Space_Nodes_Async.thy ===== *)
theory Space_Nodes_Async
  imports Space_Nodes_Props
begin

text \<open>
  \<open>GetSpaceNodes\<close> of \<open>mycscloud/space_nodes.go\<close> as it runs: the goroutine that lists the spaces and
  the caller that merges the local targets take steps in any order, and meet at the wait group
  \<open>asyncCall\<close>. The definition \<open>GetSpaceNodes\<close> of \<open>Space_Nodes\<close> runs the goroutine at the wait; the
  properties here say that no order of the steps gives anything else, and that each ends.
\<close>

section \<open>The two threads\<close>

text \<open>
  Where the caller is: before it has read the targets, in the loop over them (with \<open>spaceTargets\<close>
  and the targets that are left; when none is left it waits), or at the end with the error it
  returns. Where the goroutine is: before the listing, at one of the two assignments of its
  result, at the deferred \<open>Done\<close>, past it; a panic in it ends the process.
\<close>

datatype 'h caller =
    Reading
  | Merging "(string \<times> 'h Target) list" "'h Target list"
  | Merged "error option"

datatype lister =
    Listing
  | SetSpaces "error + Space list"
  | SetError "error option"
  | Signalling
  | Ended
  | Died string

record ('h, 'x) merge_state =
  ms_caller :: "'h caller"
  ms_lister :: lister
  ms_asyncCall :: nat
  ms_nodes :: "'h SpaceNodes"
  ms_world :: "'x world"

text \<open>The registry is made, \<open>Add(1)\<close> was called and the goroutine was started.\<close>

definition merge_start :: "'x world \<Rightarrow> ('h, 'x) merge_state" where
  "merge_start w = \<lparr>ms_caller = Reading, ms_lister = Listing, ms_asyncCall = 1,
     ms_nodes = empty_SpaceNodes, ms_world = w\<rparr>"

text \<open>One step of the caller, \<open>None\<close> when it cannot take one: it waits, or has returned.\<close>

definition caller_step ::
  "('h, 'x) node_ops \<Rightarrow> 'h target_ops \<Rightarrow> ('x world \<Rightarrow> 'h Target list) \<Rightarrow>
     ('h, 'x) merge_state \<Rightarrow> ('h, 'x) merge_state option" where
  "caller_step no to GetTargets s =
     (case ms_caller s of
        Reading \<Rightarrow> Some (s\<lparr>ms_caller := Merging [] (GetTargets (ms_world s))\<rparr>)
      | Merging tg (t # ts) \<Rightarrow>
          (case add_target no to (tg, ms_nodes s) t of
             (tg', sn) \<Rightarrow> Some (s\<lparr>ms_caller := Merging tg' ts, ms_nodes := sn\<rparr>))
      | Merging tg [] \<Rightarrow>
          if ms_asyncCall s = 0 then
            (case sn_asyncCallError (ms_nodes s) of
               Some err \<Rightarrow> Some (s\<lparr>ms_caller := Merged (Some err)\<rparr>)
             | None \<Rightarrow>
                 let n = length (sn_sharedSpaces (ms_nodes s))
                 in Some (s\<lparr>ms_caller := Merged None,
                      ms_nodes := add_shared no tg n (int n - 1) (ms_nodes s)\<rparr>))
          else None
      | Merged _ \<Rightarrow> None)"

text \<open>One step of the goroutine; \<open>fetch\<close> builds the client and calls \<open>GetSpaces\<close>.\<close>

definition lister_step ::
  "('x world, error + Space list) go \<Rightarrow> ('h, 'x) merge_state \<Rightarrow> ('h, 'x) merge_state option" where
  "lister_step fetch s =
     (case ms_lister s of
        Listing \<Rightarrow>
          (case fetch (ms_world s) of
             (Ret r, w) \<Rightarrow> Some (s\<lparr>ms_lister := SetSpaces r, ms_world := w\<rparr>)
           | (Panic e, w) \<Rightarrow> Some (s\<lparr>ms_lister := Died e, ms_world := w\<rparr>)
           | (Hang, _) \<Rightarrow> None)
      | SetSpaces r \<Rightarrow> Some (s\<lparr>ms_lister := SetError (case r of Inl err \<Rightarrow> Some err | Inr _ \<Rightarrow> None),
          ms_nodes := (ms_nodes s)\<lparr>sn_sharedSpaces := (case r of Inl _ \<Rightarrow> [] | Inr ss \<Rightarrow> ss)\<rparr>\<rparr>)
      | SetError e \<Rightarrow> Some (s\<lparr>ms_lister := Signalling,
          ms_nodes := (ms_nodes s)\<lparr>sn_asyncCallError := e\<rparr>\<rparr>)
      | Signalling \<Rightarrow> Some (s\<lparr>ms_lister := Ended, ms_asyncCall := ms_asyncCall s - 1\<rparr>)
      | Ended \<Rightarrow> None
      | Died _ \<Rightarrow> None)"

definition alive :: "('h, 'x) merge_state \<Rightarrow> bool" where
  "alive s = (case ms_lister s of Died _ \<Rightarrow> False | _ \<Rightarrow> True)"

inductive merge_step ::
  "('x world, error + Space list) go \<Rightarrow> ('h, 'x) node_ops \<Rightarrow> 'h target_ops \<Rightarrow>
     ('x world \<Rightarrow> 'h Target list) \<Rightarrow> ('h, 'x) merge_state \<Rightarrow> ('h, 'x) merge_state \<Rightarrow> bool"
  for fetch no to GetTargets where
  caller: "alive s \<Longrightarrow> caller_step no to GetTargets s = Some s' \<Longrightarrow>
    merge_step fetch no to GetTargets s s'"
| lister: "lister_step fetch s = Some s' \<Longrightarrow> merge_step fetch no to GetTargets s s'"

inductive_simps merge_step_iff: "merge_step fetch no to GetTargets s s'"

text \<open>\<open>merge_steps fetch no to GetTargets w n s\<close>: \<open>s\<close> is reached in \<open>n\<close> steps of the two.\<close>

inductive merge_steps ::
  "('x world, error + Space list) go \<Rightarrow> ('h, 'x) node_ops \<Rightarrow> 'h target_ops \<Rightarrow>
     ('x world \<Rightarrow> 'h Target list) \<Rightarrow> 'x world \<Rightarrow> nat \<Rightarrow> ('h, 'x) merge_state \<Rightarrow> bool"
  for fetch no to GetTargets w where
  start: "merge_steps fetch no to GetTargets w 0 (merge_start w)"
| step: "merge_steps fetch no to GetTargets w n s \<Longrightarrow> merge_step fetch no to GetTargets s s' \<Longrightarrow>
    merge_steps fetch no to GetTargets w (Suc n) s'"

section \<open>What every order of the steps has in common\<close>

text \<open>
  The caller owns the maps and the goroutine the other two fields until the wait: adding a target
  neither reads nor writes the fields of the goroutine.
\<close>

abbreviation with_answer ::
  "Space list \<Rightarrow> error option \<Rightarrow> 'h SpaceNodes \<Rightarrow> 'h SpaceNodes" where
  "with_answer ss e sn \<equiv> sn\<lparr>sn_sharedSpaces := ss, sn_asyncCallError := e\<rparr>"

lemma add_target_answer:
  "add_target no to (tg, with_answer ss e sn) t =
     (case add_target no to (tg, sn) t of (tg', sn') \<Rightarrow> (tg', with_answer ss e sn'))"
  by (simp add: add_target_def split: option.split)

definition answer_spaces :: "error + Space list \<Rightarrow> Space list" where
  "answer_spaces r = (case r of Inl _ \<Rightarrow> [] | Inr ss \<Rightarrow> ss)"

definition answer_error :: "error + 'a \<Rightarrow> error option" where
  "answer_error r = (case r of Inl err \<Rightarrow> Some err | Inr _ \<Rightarrow> None)"

text \<open>
  The invariant: how far the goroutine is determines its two fields, the counter and the world, and
  how far the caller is determines the maps. \<open>r\<close> is the answer of the listing.
\<close>

fun lister_spaces :: "error + Space list \<Rightarrow> lister \<Rightarrow> Space list" where
  "lister_spaces r Listing = []"
| "lister_spaces r (SetSpaces _) = []"
| "lister_spaces r _ = answer_spaces r"

fun lister_error :: "error + Space list \<Rightarrow> lister \<Rightarrow> error option" where
  "lister_error r Signalling = answer_error r"
| "lister_error r Ended = answer_error r"
| "lister_error r _ = None"

fun lister_ok :: "error + Space list \<Rightarrow> lister \<Rightarrow> nat \<Rightarrow> bool" where
  "lister_ok r Listing n = (n = 1)"
| "lister_ok r (SetSpaces r') n = (r' = r \<and> n = 1)"
| "lister_ok r (SetError e) n = (e = answer_error r \<and> n = 1)"
| "lister_ok r Signalling n = (n = 1)"
| "lister_ok r Ended n = (n = 0)"
| "lister_ok r (Died _) n = False"

definition merge_inv ::
  "('h, 'x) node_ops \<Rightarrow> 'h target_ops \<Rightarrow> 'h Target list \<Rightarrow> error + Space list \<Rightarrow> 'x world \<Rightarrow>
     'x world \<Rightarrow> ('h, 'x) merge_state \<Rightarrow> bool" where
  "merge_inv no to ts r w w' s =
     (ms_world s = (if ms_lister s = Listing then w else w') \<and>
      lister_ok r (ms_lister s) (ms_asyncCall s) \<and>
      (case ms_caller s of
         Reading \<Rightarrow> ms_nodes s =
           with_answer (lister_spaces r (ms_lister s)) (lister_error r (ms_lister s)) empty_SpaceNodes
       | Merging tg rest \<Rightarrow> \<exists>done sn. ts = done @ rest \<and>
           add_targets no to done empty_SpaceNodes = (tg, sn) \<and> ms_nodes s =
           with_answer (lister_spaces r (ms_lister s)) (lister_error r (ms_lister s)) sn
       | Merged e \<Rightarrow> ms_lister s = Ended \<and> e = answer_error r \<and>
           (e = None \<longrightarrow> ms_nodes s = merged no to ts (answer_spaces r))))"

text \<open>What is left to do, for \<open>m\<close> targets.\<close>

fun caller_left :: "nat \<Rightarrow> 'h caller \<Rightarrow> nat" where
  "caller_left m Reading = m + 2"
| "caller_left m (Merging _ rest) = length rest + 1"
| "caller_left m (Merged _) = 0"

fun lister_left :: "lister \<Rightarrow> nat" where
  "lister_left Listing = 4"
| "lister_left (SetSpaces _) = 3"
| "lister_left (SetError _) = 2"
| "lister_left Signalling = 1"
| "lister_left Ended = 0"
| "lister_left (Died _) = 0"

definition steps_left :: "nat \<Rightarrow> ('h, 'x) merge_state \<Rightarrow> nat" where
  "steps_left m s = caller_left m (ms_caller s) + lister_left (ms_lister s)"

lemma merge_inv_start: "merge_inv no to ts r w w' (merge_start w)"
  by (simp add: merge_inv_def merge_start_def empty_SpaceNodes_def)

lemma caller_step_inv:
  assumes inv: "merge_inv no to ts r w w' s" and step: "caller_step no to GetTargets s = Some s'"
    and ts: "GetTargets w = ts" "GetTargets w' = ts"
  shows "merge_inv no to ts r w w' s' \<and> steps_left (length ts) s = Suc (steps_left (length ts) s')"
proof (cases "ms_caller s")
  case Reading
  have "GetTargets (ms_world s) = ts" using inv ts by (simp add: merge_inv_def)
  then show ?thesis
    using inv step Reading
    by (auto simp: caller_step_def merge_inv_def steps_left_def add_targets_def)
next
  case (Merging tg rest)
  obtain pre sn where before: "ts = pre @ rest" "add_targets no to pre empty_SpaceNodes = (tg, sn)"
    and nodes: "ms_nodes s = with_answer (lister_spaces r (ms_lister s)) (lister_error r (ms_lister s)) sn"
    using inv Merging by (auto simp: merge_inv_def)
  show ?thesis
  proof (cases rest)
    case (Cons t rest')
    obtain tg' sn' where t: "add_target no to (tg, sn) t = (tg', sn')" by fastforce
    have s': "s' = s\<lparr>ms_caller := Merging tg' rest', ms_nodes :=
        with_answer (lister_spaces r (ms_lister s)) (lister_error r (ms_lister s)) sn'\<rparr>"
      using step by (simp add: caller_step_def Merging Cons nodes add_target_answer t)
    have "add_targets no to (pre @ [t]) empty_SpaceNodes = (tg', sn')"
      by (simp add: add_targets_snoc before(2) t)
    moreover have "ts = (pre @ [t]) @ rest'" using before(1) Cons by simp
    ultimately have "merge_inv no to ts r w w' s'"
      using inv by (simp add: merge_inv_def s')
    then show ?thesis by (simp add: s' steps_left_def Merging Cons)
  next
    case Nil
    then have wg: "ms_asyncCall s = 0"
      using step by (simp add: caller_step_def Merging split: if_splits)
    then have ended: "ms_lister s = Ended"
      using inv by (cases "ms_lister s") (simp_all add: merge_inv_def)
    show ?thesis
      using inv step before nodes ended wg
      by (cases r) (auto simp: caller_step_def Merging Nil merge_inv_def steps_left_def Let_def
          merged_def answer_error_def answer_spaces_def)
  qed
next
  case (Merged e)
  then show ?thesis using step by (simp add: caller_step_def)
qed

lemma lister_step_inv:
  assumes inv: "merge_inv no to ts r w w' s" and step: "lister_step fetch s = Some s'"
    and fetch: "fetch w = (Ret r, w')"
  shows "merge_inv no to ts r w w' s' \<and> steps_left m s = Suc (steps_left m s')"
proof -
  have "ms_lister s \<noteq> Ended" using step by (auto simp: lister_step_def)
  then show ?thesis
    using assms
    by (cases "ms_lister s"; cases "ms_caller s")
      (auto simp: lister_step_def merge_inv_def steps_left_def answer_error_def answer_spaces_def)
qed

text \<open>A panic of the listing: the caller never gets past the wait.\<close>

definition panic_inv :: "string \<Rightarrow> 'x world \<Rightarrow> ('h, 'x) merge_state \<Rightarrow> bool" where
  "panic_inv e w s =
     ((ms_lister s = Listing \<and> ms_world s = w \<and> ms_asyncCall s = 1 \<or> ms_lister s = Died e) \<and>
      (\<forall>r. ms_caller s \<noteq> Merged r))"

lemma panic_inv_start: "panic_inv e w (merge_start w)"
  by (simp add: panic_inv_def merge_start_def)

lemma panic_step_inv:
  assumes "panic_inv e w s" "merge_step fetch no to GetTargets s s'" "fetch w = (Panic e, w')"
  shows "panic_inv e w s' \<and> steps_left (length (GetTargets w)) s' < steps_left (length (GetTargets w)) s"
  using assms(2)
proof (cases rule: merge_step.cases)
  case caller
  then show ?thesis
    using assms(1)
    by (cases "ms_caller s")
      (auto simp: panic_inv_def caller_step_def alive_def steps_left_def split: list.splits if_splits prod.splits)
next
  case lister
  then show ?thesis
    using assms(1,3) by (auto simp: panic_inv_def lister_step_def steps_left_def)
qed

lemma merge_step_inv:
  assumes "merge_inv no to (GetTargets w) r w w' s" "merge_step fetch no to GetTargets s s'"
    and "fetch w = (Ret r, w')" "GetTargets w' = GetTargets w"
  shows "merge_inv no to (GetTargets w) r w w' s' \<and>
    steps_left (length (GetTargets w)) s' < steps_left (length (GetTargets w)) s"
  using assms(2)
proof (cases rule: merge_step.cases)
  case caller
  then show ?thesis using caller_step_inv [OF assms(1) _ refl assms(4)] by fastforce
next
  case lister
  then show ?thesis using lister_step_inv [where fetch = fetch, OF assms(1) _ assms(3)] by fastforce
qed

lemma merge_steps_inv:
  assumes "merge_steps fetch no to GetTargets w n s" and "fetch w = (Ret r, w')"
    and "GetTargets w' = GetTargets w"
  shows "merge_inv no to (GetTargets w) r w w' s \<and>
    n + steps_left (length (GetTargets w)) s \<le> length (GetTargets w) + 6"
  using assms(1)
proof induction
  case start
  show ?case by (simp add: merge_inv_start) (simp add: merge_start_def steps_left_def)
next
  case (step n s s')
  then show ?case using merge_step_inv [OF _ step.hyps(2) assms(2,3)] by fastforce
qed

lemma panic_steps_inv:
  assumes "merge_steps fetch no to GetTargets w n s" and "fetch w = (Panic e, w')"
  shows "panic_inv e w s \<and> n + steps_left (length (GetTargets w)) s \<le> length (GetTargets w) + 6"
  using assms(1)
proof induction
  case start
  show ?case by (simp add: panic_inv_start) (simp add: merge_start_def steps_left_def)
next
  case (step n s s')
  then show ?case using panic_step_inv [OF _ step.hyps(2) assms(2)] by fastforce
qed

text \<open>Nobody waits for ever: while the caller waits, the goroutine has a step left.\<close>

lemma lister_moves:
  assumes "merge_inv no to ts r w w' s" "fetch w = (Ret r, w')" "ms_lister s \<noteq> Ended"
  shows "\<exists>s'. lister_step fetch s = Some s'"
  using assms by (cases "ms_lister s") (auto simp: lister_step_def merge_inv_def)

lemma caller_moves:
  assumes "ms_asyncCall s = 0" "\<forall>e. ms_caller s \<noteq> Merged e"
  shows "\<exists>s'. caller_step no to GetTargets s = Some s'"
  using assms
  by (cases "ms_caller s") (auto simp: caller_step_def Let_def split: list.split prod.split option.split)

lemma merge_moves:
  assumes inv: "merge_inv no to ts r w w' s" and fetch: "fetch w = (Ret r, w')"
    and running: "\<forall>e. ms_caller s \<noteq> Merged e"
  shows "\<exists>s'. merge_step fetch no to GetTargets s s'"
proof (cases "ms_lister s = Ended")
  case True
  then have "alive s" "ms_asyncCall s = 0" using inv by (simp_all add: alive_def merge_inv_def)
  then show ?thesis using caller_moves [OF _ running] merge_step.caller by metis
next
  case False
  then show ?thesis using lister_moves [where fetch = fetch, OF inv fetch] merge_step.lister by metis
qed

lemma GetSpaceNodes_run:
  assumes "listing tr GetToken conv svc apiUrl w = (Ret r, w')"
  shows "GetSpaceNodes tr GetToken conv svc no to GetTargets apiUrl w =
    (Ret (map_sum id (merged no to (GetTargets w)) r), w')"
proof -
  obtain tg sn where t: "add_targets no to (GetTargets w) empty_SpaceNodes = (tg, sn)"
    by (cases "add_targets no to (GetTargets w) empty_SpaceNodes")
  show ?thesis
    by (auto simp: GetSpaceNodes_def consolidateRemoteAndLocalNodes_def bindg_get bindg_put t
        bindg_def fetch_spaces_apply assms getg_def putg_def ret_def merged_def split: sum.split)
qed

section \<open>Properties\<close>

text \<open>
  Property C12. The order in which the goroutine and the caller run makes no difference: whatever
  the interleaving, when the caller returns it has the result and leaves the world of the
  sequential \<open>GetSpaceNodes\<close>, and a goroutine that panics ends the program in which \<open>GetSpaceNodes\<close>
  panics. The listing must not change the local targets.
\<close>
theorem GetSpaceNodes_any_schedule:
  assumes "merge_steps (listing tr GetToken conv svc apiUrl) no to GetTargets w n s"
    and "GetTargets (snd (listing tr GetToken conv svc apiUrl w)) = GetTargets w"
  shows "case (ms_caller s, ms_lister s) of
      (Merged e, _) \<Rightarrow> GetSpaceNodes tr GetToken conv svc no to GetTargets apiUrl w =
        (Ret (case e of None \<Rightarrow> Inr (ms_nodes s) | Some err \<Rightarrow> Inl err), ms_world s)
    | (_, Died msg) \<Rightarrow> fst (GetSpaceNodes tr GetToken conv svc no to GetTargets apiUrl w) = Panic msg
    | _ \<Rightarrow> True"
proof -
  obtain o' w' where l: "listing tr GetToken conv svc apiUrl w = (o', w')" by fastforce
  show ?thesis
  proof (cases o')
    case (Ret r)
    with l have l: "listing tr GetToken conv svc apiUrl w = (Ret r, w')" by simp
    have "merge_inv no to (GetTargets w) r w w' s"
      using merge_steps_inv [OF assms(1) l] assms(2) by (simp add: l)
    then show ?thesis
      by (cases r; cases "ms_caller s"; cases "ms_lister s")
        (auto simp: merge_inv_def GetSpaceNodes_run [OF l] answer_error_def answer_spaces_def)
  next
    case (Panic e)
    with l have l: "listing tr GetToken conv svc apiUrl w = (Panic e, w')" by simp
    have "panic_inv e w s" using panic_steps_inv [OF assms(1) l] by blast
    then show ?thesis
      by (cases "ms_caller s"; cases "ms_lister s") (auto simp: panic_inv_def GetSpaceNodes_apply l)
  next
    case Hang
    then show ?thesis using listing_not_Hang [of tr GetToken conv svc apiUrl w] l by simp
  qed
qed

text \<open>
  Property C13. \<open>GetSpaceNodes\<close> neither deadlocks nor runs for ever, in any interleaving: with \<open>m\<close>
  local targets each run ends after at most \<open>m + 6\<close> steps, and where no step is left the caller
  has returned or the goroutine has panicked. In particular the wait group is signalled on every
  path of the goroutine.
\<close>
theorem GetSpaceNodes_schedules_end:
  assumes "merge_steps (listing tr GetToken conv svc apiUrl) no to GetTargets w n s"
    and "GetTargets (snd (listing tr GetToken conv svc apiUrl w)) = GetTargets w"
  shows "n \<le> length (GetTargets w) + 6 \<and>
    ((\<exists>s'. merge_step (listing tr GetToken conv svc apiUrl) no to GetTargets s s') \<or>
     (\<exists>e. ms_caller s = Merged e) \<or> \<not> alive s)"
proof -
  obtain o' w' where l: "listing tr GetToken conv svc apiUrl w = (o', w')" by fastforce
  show ?thesis
  proof (cases o')
    case (Ret r)
    with l have l: "listing tr GetToken conv svc apiUrl w = (Ret r, w')" by simp
    have "merge_inv no to (GetTargets w) r w w' s" "n \<le> length (GetTargets w) + 6"
      using merge_steps_inv [OF assms(1) l] assms(2) by (simp_all add: l)
    then show ?thesis using merge_moves [where fetch = "listing tr GetToken conv svc apiUrl", OF _ l] by blast
  next
    case (Panic e)
    with l have l: "listing tr GetToken conv svc apiUrl w = (Panic e, w')" by simp
    have "panic_inv e w s" "n \<le> length (GetTargets w) + 6"
      using panic_steps_inv [OF assms(1) l] by simp_all
    moreover have "\<exists>s'. lister_step (listing tr GetToken conv svc apiUrl) s = Some s'"
      if "ms_lister s = Listing" "ms_world s = w"
      by (simp add: lister_step_def that l)
    ultimately show ?thesis by (auto simp: panic_inv_def alive_def merge_step_iff)
  next
    case Hang
    then show ?thesis using listing_not_Hang [of tr GetToken conv svc apiUrl w] l by simp
  qed
qed

section \<open>Witnesses\<close>

text \<open>A run along a list of choices: \<open>True\<close> lets the caller take a step, \<open>False\<close> the goroutine.\<close>

fun merge_run ::
  "('x world, error + Space list) go \<Rightarrow> ('h, 'x) node_ops \<Rightarrow> 'h target_ops \<Rightarrow>
     ('x world \<Rightarrow> 'h Target list) \<Rightarrow> bool list \<Rightarrow> ('h, 'x) merge_state \<Rightarrow> ('h, 'x) merge_state option" where
  "merge_run fetch no to GetTargets [] s = Some s"
| "merge_run fetch no to GetTargets (c # cs) s =
     (case if c then (if alive s then caller_step no to GetTargets s else None) else lister_step fetch s of
        None \<Rightarrow> None
      | Some s' \<Rightarrow> merge_run fetch no to GetTargets cs s')"

lemma merge_run_steps:
  assumes "merge_run fetch no to GetTargets cs s = Some s'" "merge_steps fetch no to GetTargets w n s"
  shows "merge_steps fetch no to GetTargets w (n + length cs) s'"
  using assms
proof (induction cs arbitrary: s n)
  case Nil
  then show ?case by simp
next
  case (Cons c cs)
  then obtain s1 where rest: "merge_run fetch no to GetTargets cs s1 = Some s'"
    and "merge_step fetch no to GetTargets s s1"
    by (auto simp: merge_step_iff split: option.splits if_splits)
  then have "merge_steps fetch no to GetTargets w (Suc n) s1"
    using Cons.prems(2) by (rule_tac merge_steps.step)
  from Cons.IH [OF rest this] show ?case by simp
qed

abbreviation test_fetch :: "space_user list \<Rightarrow> (unit world, error + Space list) go" where
  "test_fetch us \<equiv> listing test_transport test_token (\<lambda>_. 0) (test_spaces us) []"

abbreviation one_target :: "unit world \<Rightarrow> unit Target list" where
  "one_target \<equiv> \<lambda>_. [test_Target ''s1'']"

definition interleaved :: "(unit, unit) merge_state option" where
  "interleaved = merge_run (test_fetch [s1_user, s2_user]) test_node_ops test_target_ops one_target
     [True, False, False, True, False, False, True] (merge_start (quiet_world ()))"

lemma interleaved_ends:
  "\<exists>s. interleaved = Some s \<and> ms_caller s = Merged None"
proof -
  have "case interleaved of None \<Rightarrow> False | Some s \<Rightarrow> case ms_caller s of Merged None \<Rightarrow> True | _ \<Rightarrow> False"
    by code_simp
  then show ?thesis by (auto split: option.splits caller.splits)
qed

lemma interleaved_steps:
  "interleaved = Some s \<Longrightarrow> merge_steps (test_fetch [s1_user, s2_user]) test_node_ops test_target_ops
     one_target (quiet_world ()) 7 s"
  unfolding interleaved_def by (drule merge_run_steps, rule merge_steps.start) (simp add: eval_nat_numeral)

theorem GetSpaceNodes_any_schedule_witness:
  "\<exists>s. interleaved = Some s \<and> ms_caller s = Merged None \<and>
     test_nodes [s1_user, s2_user] [test_Target ''s1''] = Ret (Inr (ms_nodes s))"
proof -
  obtain s where s: "interleaved = Some s" "ms_caller s = Merged None" using interleaved_ends by blast
  show ?thesis
    using GetSpaceNodes_any_schedule [OF interleaved_steps [OF s(1)]] s by auto
qed

theorem GetSpaceNodes_schedules_end_witness:
  "\<exists>s. interleaved = Some s \<and>
     \<not> (\<exists>s'. merge_step (test_fetch [s1_user, s2_user]) test_node_ops test_target_ops one_target s s')"
proof -
  obtain s where s: "interleaved = Some s" using interleaved_ends by blast
  have "\<not> merge_step (test_fetch [s1_user, s2_user]) test_node_ops test_target_ops one_target s s'" for s'
    using GetSpaceNodes_schedules_end [OF merge_steps.step [OF interleaved_steps [OF s]]] by fastforce
  with s show ?thesis by blast
qed

end
