(* ===== verification/Pool_Threads.thy ===== *)
theory Pool_Threads
  imports Client_Pool
begin

text \<open>
  The client pool of \<open>mycscloud/space_nodes.go\<close> used by several goroutines at once. Each call is cut
  into the steps between which another goroutine may run: it takes the mutex \<open>apiClientSync\<close>, reads
  the map, creates, starts and stores a client or counts, waits, and gives the mutex back. The
  properties say that the calls take effect one after the other, in the order in which they
  return, so that what \<open>Client_Pool\<close> shows of sequences of calls holds for goroutines too.
\<close>

section \<open>Calls in steps\<close>

datatype 'h pool_call = GetClient "'h SpaceNode" | ReturnClient "'h ApiClient"

datatype 'h pool_result = GotClient "error + 'h ApiClient" | Returned

text \<open>
  Where a call is while it holds the mutex: before each access to the map, each write through the
  pointer \<open>ref\<close> and each call of the API client, and at the end with its result.
\<close>

datatype 'h phase =
    Lookup
  | Create
  | StartClient "'h ApiClient"
  | Store "'h ApiClient"
  | CountUp "'h apiClientInstance"
  | AwaitAuth "'h ApiClient"
  | Remove "'h apiClientInstance"
  | StopClient "'h ApiClient"
  | CountDown "'h apiClientInstance"
  | Finish "'h pool_result"

definition get_step ::
  "('h, 'x) node_ops \<Rightarrow> ('h, 'x) mycsnode_ops \<Rightarrow> 'x DeviceContext \<Rightarrow> 'h SpaceNode \<Rightarrow> 'h phase \<Rightarrow>
     'h SpaceNodes \<times> 'x world \<Rightarrow> ('h phase \<times> 'h SpaceNodes \<times> 'x world) option" where
  "get_step no mo dc space p s = (case s of (sn, w) \<Rightarrow>
     (case p of
        Lookup \<Rightarrow>
          (case map_of (sn_spaceAPIClients sn) (no_Key no space) of
             None \<Rightarrow> Some (Create, sn, w)
           | Some ref \<Rightarrow> Some (CountUp ref, sn, w))
      | Create \<Rightarrow>
          (case NewApiClient mo dc space w of
             (Ret (Inl err), w') \<Rightarrow> Some (Finish (GotClient (Inl err)), sn, w')
           | (Ret (Inr c), w') \<Rightarrow> Some (StartClient c, sn, w')
           | _ \<Rightarrow> None)
      | StartClient c \<Rightarrow>
          (case mo_Start mo (ac_ref c) w of
             (Some err, w') \<Rightarrow> Some (Finish (GotClient (Inl err)), sn, w')
           | (None, w') \<Rightarrow> Some (Store c, sn, w'))
      | Store c \<Rightarrow>
          Some (AwaitAuth c, put_client (no_Key no space) \<lparr>refCount = 0, apiClient = c\<rparr> sn, w)
      | CountUp ref \<Rightarrow>
          Some (AwaitAuth (apiClient ref),
            put_client (no_Key no space) (ref\<lparr>refCount := refCount ref + 1\<rparr>) sn, w)
      | AwaitAuth c \<Rightarrow>
          (case mo_WaitForAuth mo (ac_ref c) w of (ok, w') \<Rightarrow>
             Some (Finish (GotClient (if ok then Inr c else Inl (auth_timeout (no_Key no space)))), sn, w'))
      | _ \<Rightarrow> None))"

definition return_step ::
  "('h, 'x) node_ops \<Rightarrow> ('h, 'x) mycsnode_ops \<Rightarrow> 'h ApiClient \<Rightarrow> 'h phase \<Rightarrow>
     'h SpaceNodes \<times> 'x world \<Rightarrow> ('h phase \<times> 'h SpaceNodes \<times> 'x world) option" where
  "return_step no mo c p s = (case s of (sn, w) \<Rightarrow>
     (case p of
        Lookup \<Rightarrow>
          (case map_of (sn_spaceAPIClients sn) (no_Key no (GetSpaceNode c)) of
             None \<Rightarrow> Some (Finish Returned, sn, w)
           | Some ref \<Rightarrow> Some (if refCount ref = 0 then Remove ref else CountDown ref, sn, w))
      | Remove ref \<Rightarrow>
          Some (StopClient (apiClient ref), sn\<lparr>sn_spaceAPIClients :=
            AList.delete (no_Key no (GetSpaceNode c)) (sn_spaceAPIClients sn)\<rparr>, w)
      | StopClient d \<Rightarrow> Some (Finish Returned, sn, mo_Stop mo (ac_ref d) w)
      | CountDown ref \<Rightarrow>
          Some (Finish Returned,
            put_client (no_Key no (GetSpaceNode c)) (ref\<lparr>refCount := refCount ref - 1\<rparr>) sn, w)
      | _ \<Rightarrow> None))"

definition call_step ::
  "('h, 'x) node_ops \<Rightarrow> ('h, 'x) mycsnode_ops \<Rightarrow> 'x DeviceContext \<Rightarrow> 'h pool_call \<Rightarrow> 'h phase \<Rightarrow>
     'h SpaceNodes \<times> 'x world \<Rightarrow> ('h phase \<times> 'h SpaceNodes \<times> 'x world) option" where
  "call_step no mo dc c = (case c of
     GetClient space \<Rightarrow> get_step no mo dc space | ReturnClient client \<Rightarrow> return_step no mo client)"

section \<open>Goroutines\<close>

text \<open>
  A goroutine is outside the pool, waits for the mutex to start a call, or is in the middle of one.
  \<open>mutex\<close> is the goroutine that has taken it.
\<close>

datatype 'h goroutine = Outside | Waiting "'h pool_call" | Inside "'h pool_call" "'h phase"

record ('h, 'x) pool_state =
  goroutine :: "nat \<Rightarrow> 'h goroutine"
  mutex :: "nat option"
  shared :: "'h SpaceNodes \<times> 'x world"

definition set_goroutine ::
  "nat \<Rightarrow> 'h goroutine \<Rightarrow> ('h, 'x) pool_state \<Rightarrow> ('h, 'x) pool_state" where
  "set_goroutine i g s = s\<lparr>goroutine := (goroutine s)(i := g)\<rparr>"

text \<open>The steps of goroutine \<open>i\<close>; the mutex is free or not when \<open>Lock\<close> is called.\<close>

definition lock_step :: "nat \<Rightarrow> ('h, 'x) pool_state \<Rightarrow> ('h, 'x) pool_state option" where
  "lock_step i s = (case goroutine s i of
     Waiting c \<Rightarrow> if mutex s = None then Some ((set_goroutine i (Inside c Lookup) s)\<lparr>mutex := Some i\<rparr>) else None
   | _ \<Rightarrow> None)"

definition inside_step ::
  "('h, 'x) node_ops \<Rightarrow> ('h, 'x) mycsnode_ops \<Rightarrow> 'x DeviceContext \<Rightarrow> nat \<Rightarrow> ('h, 'x) pool_state \<Rightarrow>
     ('h, 'x) pool_state option" where
  "inside_step no mo dc i s = (case goroutine s i of
     Inside c p \<Rightarrow>
       map_option (\<lambda>(p', sh). (set_goroutine i (Inside c p') s)\<lparr>shared := sh\<rparr>)
         (call_step no mo dc c p (shared s))
   | _ \<Rightarrow> None)"

text \<open>The deferred \<open>Unlock\<close>: the call returns.\<close>

definition unlock_step ::
  "nat \<Rightarrow> ('h, 'x) pool_state \<Rightarrow> (('h pool_call \<times> 'h pool_result) \<times> ('h, 'x) pool_state) option" where
  "unlock_step i s = (case goroutine s i of
     Inside c (Finish r) \<Rightarrow> Some ((c, r), (set_goroutine i Outside s)\<lparr>mutex := None\<rparr>)
   | _ \<Rightarrow> None)"

text \<open>
  \<open>pool_trace no mo dc st hist s\<close>: with the shared state \<open>st\<close> at the start and no goroutine in the
  pool, \<open>s\<close> is reached by any steps of any goroutines; \<open>hist\<close> are the calls that have returned.
\<close>

definition pool_idle :: "'h SpaceNodes \<times> 'x world \<Rightarrow> ('h, 'x) pool_state" where
  "pool_idle st = \<lparr>goroutine = \<lambda>_. Outside, mutex = None, shared = st\<rparr>"

inductive pool_trace ::
  "('h, 'x) node_ops \<Rightarrow> ('h, 'x) mycsnode_ops \<Rightarrow> 'x DeviceContext \<Rightarrow> 'h SpaceNodes \<times> 'x world \<Rightarrow>
     ('h pool_call \<times> 'h pool_result) list \<Rightarrow> ('h, 'x) pool_state \<Rightarrow> bool"
  for no mo dc st where
  idle: "pool_trace no mo dc st [] (pool_idle st)"
| call: "pool_trace no mo dc st hist s \<Longrightarrow> goroutine s i = Outside \<Longrightarrow>
    pool_trace no mo dc st hist (set_goroutine i (Waiting c) s)"
| lock: "pool_trace no mo dc st hist s \<Longrightarrow> lock_step i s = Some s' \<Longrightarrow> pool_trace no mo dc st hist s'"
| proceed: "pool_trace no mo dc st hist s \<Longrightarrow> inside_step no mo dc i s = Some s' \<Longrightarrow>
    pool_trace no mo dc st hist s'"
| unlock: "pool_trace no mo dc st hist s \<Longrightarrow> unlock_step i s = Some (e, s') \<Longrightarrow>
    pool_trace no mo dc st (hist @ [e]) s'"

text \<open>The sequential reference: whole calls, one after the other, with the results they gave.\<close>

definition pool_exec ::
  "('h, 'x) node_ops \<Rightarrow> ('h, 'x) mycsnode_ops \<Rightarrow> 'x DeviceContext \<Rightarrow> 'h pool_call \<Rightarrow>
     ('h SpaceNodes \<times> 'x world, 'h pool_result) go" where
  "pool_exec no mo dc c = (case c of
     GetClient space \<Rightarrow> bindg (GetApiClientForSpace no mo dc space) (\<lambda>r. ret (GotClient r))
   | ReturnClient client \<Rightarrow> bindg (ReleaseApiClientForSpace no mo client) (\<lambda>_. ret Returned))"

inductive pool_serial ::
  "('h, 'x) node_ops \<Rightarrow> ('h, 'x) mycsnode_ops \<Rightarrow> 'x DeviceContext \<Rightarrow> 'h SpaceNodes \<times> 'x world \<Rightarrow>
     ('h pool_call \<times> 'h pool_result) list \<Rightarrow> 'h SpaceNodes \<times> 'x world \<Rightarrow> bool"
  for no mo dc st where
  none: "pool_serial no mo dc st [] st"
| more: "pool_serial no mo dc st hist s \<Longrightarrow> pool_exec no mo dc c s = (Ret r, s') \<Longrightarrow>
    pool_serial no mo dc st (hist @ [(c, r)]) s'"

section \<open>The steps of a call make up the call\<close>

text \<open>What is left of a call from a phase on.\<close>

definition get_rest ::
  "('h, 'x) node_ops \<Rightarrow> ('h, 'x) mycsnode_ops \<Rightarrow> 'x DeviceContext \<Rightarrow> 'h SpaceNode \<Rightarrow> 'h phase \<Rightarrow>
     ('h SpaceNodes \<times> 'x world, 'h pool_result) go" where
  "get_rest no mo dc space p =
     (let wait = (\<lambda>c. bindg (wait_for_client mo (no_Key no space) c) (\<lambda>r. ret (GotClient r)));
          store = (\<lambda>c. bindg (putg (\<lambda>(sn, w).
            (put_client (no_Key no space) \<lparr>refCount = 0, apiClient = c\<rparr> sn, w))) (\<lambda>_. wait c));
          start = (\<lambda>c. bindg (on_snd (callg (mo_Start mo (ac_ref c)))) (\<lambda>e. case e of
            Some err \<Rightarrow> ret (GotClient (Inl err)) | None \<Rightarrow> store c))
      in case p of
        Create \<Rightarrow> bindg (on_snd (NewApiClient mo dc space)) (\<lambda>r. case r of
            Inl err \<Rightarrow> ret (GotClient (Inl err)) | Inr c \<Rightarrow> start c)
      | StartClient c \<Rightarrow> start c
      | Store c \<Rightarrow> store c
      | CountUp ref \<Rightarrow> bindg (putg (\<lambda>(sn, w).
            (put_client (no_Key no space) (ref\<lparr>refCount := refCount ref + 1\<rparr>) sn, w)))
            (\<lambda>_. wait (apiClient ref))
      | AwaitAuth c \<Rightarrow> wait c
      | Finish r \<Rightarrow> ret r
      | _ \<Rightarrow> pool_exec no mo dc (GetClient space))"

definition return_rest ::
  "('h, 'x) node_ops \<Rightarrow> ('h, 'x) mycsnode_ops \<Rightarrow> 'x DeviceContext \<Rightarrow> 'h ApiClient \<Rightarrow> 'h phase \<Rightarrow>
     ('h SpaceNodes \<times> 'x world, 'h pool_result) go" where
  "return_rest no mo dc c p =
     (let key = no_Key no (GetSpaceNode c);
          stop = (\<lambda>d. bindg (on_snd (putg (mo_Stop mo (ac_ref d)))) (\<lambda>_. ret Returned))
      in case p of
        Remove ref \<Rightarrow> bindg (putg (\<lambda>(sn, w).
            (sn\<lparr>sn_spaceAPIClients := AList.delete key (sn_spaceAPIClients sn)\<rparr>, w)))
            (\<lambda>_. stop (apiClient ref))
      | StopClient d \<Rightarrow> stop d
      | CountDown ref \<Rightarrow> bindg (putg (\<lambda>(sn, w).
            (put_client key (ref\<lparr>refCount := refCount ref - 1\<rparr>) sn, w))) (\<lambda>_. ret Returned)
      | Finish r \<Rightarrow> ret r
      | _ \<Rightarrow> pool_exec no mo dc (ReturnClient c))"

definition call_rest ::
  "('h, 'x) node_ops \<Rightarrow> ('h, 'x) mycsnode_ops \<Rightarrow> 'x DeviceContext \<Rightarrow> 'h pool_call \<Rightarrow> 'h phase \<Rightarrow>
     ('h SpaceNodes \<times> 'x world, 'h pool_result) go" where
  "call_rest no mo dc c = (case c of
     GetClient space \<Rightarrow> get_rest no mo dc space | ReturnClient d \<Rightarrow> return_rest no mo dc d)"

lemma call_rest_Lookup: "call_rest no mo dc c Lookup = pool_exec no mo dc c"
  by (simp add: call_rest_def get_rest_def return_rest_def Let_def split: pool_call.split)

lemma call_rest_Finish: "call_rest no mo dc c (Finish r) s = (Ret r, s)"
  by (simp add: call_rest_def get_rest_def return_rest_def Let_def ret_apply split: pool_call.split)

lemma get_step_rest:
  "get_step no mo dc n p s = Some (p', s') \<Longrightarrow> get_rest no mo dc n p s = get_rest no mo dc n p' s'"
  by (cases p)
    (auto simp: get_step_def get_rest_def pool_exec_def GetApiClientForSpace_def wait_for_client_def
      auth_timeout_def Let_def go_monad bindg_def on_snd_def callg_def ret_def
      split: option.splits prod.splits outcome.splits sum.splits if_splits)

lemma return_step_rest:
  "return_step no mo c p s = Some (p', s') \<Longrightarrow> return_rest no mo dc c p s = return_rest no mo dc c p' s'"
  by (cases p)
    (auto simp: return_step_def return_rest_def pool_exec_def ReleaseApiClientForSpace_def
      Let_def go_monad on_snd_def putg_def bindg_def ret_def
      split: option.splits prod.splits if_splits)

lemma call_step_rest:
  "call_step no mo dc c p s = Some (p', s') \<Longrightarrow> call_rest no mo dc c p s = call_rest no mo dc c p' s'"
  by (cases c) (auto simp: call_step_def call_rest_def dest: get_step_rest return_step_rest)

section \<open>One at a time\<close>

text \<open>
  The invariant of every trace: without an owner of the mutex nobody is inside and the shared
  state is that of the calls that have returned, one after the other; otherwise only the owner is
  inside, in a phase of its call, and the rest of its call does what the whole call does after
  those that have returned.
\<close>

fun phase_ok :: "'h pool_call \<Rightarrow> 'h phase \<Rightarrow> bool" where
  "phase_ok _ Lookup = True"
| "phase_ok _ (Finish _) = True"
| "phase_ok (GetClient _) p = (case p of Create \<Rightarrow> True | StartClient _ \<Rightarrow> True | Store _ \<Rightarrow> True
     | CountUp _ \<Rightarrow> True | AwaitAuth _ \<Rightarrow> True | _ \<Rightarrow> False)"
| "phase_ok (ReturnClient _) p = (case p of Remove _ \<Rightarrow> True | StopClient _ \<Rightarrow> True
     | CountDown _ \<Rightarrow> True | _ \<Rightarrow> False)"

definition inside :: "('h, 'x) pool_state \<Rightarrow> nat \<Rightarrow> bool" where
  "inside s i = (case goroutine s i of Inside _ _ \<Rightarrow> True | _ \<Rightarrow> False)"

definition pool_threads_inv ::
  "('h, 'x) node_ops \<Rightarrow> ('h, 'x) mycsnode_ops \<Rightarrow> 'x DeviceContext \<Rightarrow> 'h SpaceNodes \<times> 'x world \<Rightarrow>
     ('h pool_call \<times> 'h pool_result) list \<Rightarrow> ('h, 'x) pool_state \<Rightarrow> bool" where
  "pool_threads_inv no mo dc st hist s =
     ((\<forall>i. inside s i \<longleftrightarrow> mutex s = Some i) \<and>
      (case mutex s of
         None \<Rightarrow> pool_serial no mo dc st hist (shared s)
       | Some i \<Rightarrow> \<exists>c p st'. goroutine s i = Inside c p \<and> phase_ok c p \<and>
           pool_serial no mo dc st hist st' \<and> pool_exec no mo dc c st' = call_rest no mo dc c p (shared s)))"

lemma set_goroutine_simps [simp]:
  "goroutine (set_goroutine i g s) = (goroutine s)(i := g)"
  "mutex (set_goroutine i g s) = mutex s" "shared (set_goroutine i g s) = shared s"
  by (simp_all add: set_goroutine_def)

lemma inside_update [simp]:
  "inside (set_goroutine i g s) j =
     (if j = i then (case g of Inside _ _ \<Rightarrow> True | _ \<Rightarrow> False) else inside s j)"
  "inside (s\<lparr>mutex := m\<rparr>) j = inside s j" "inside (s\<lparr>shared := sh\<rparr>) j = inside s j"
  by (simp_all add: inside_def)

lemma call_step_phase_ok: "call_step no mo dc c p s = Some (p', s') \<Longrightarrow> phase_ok c p \<Longrightarrow> phase_ok c p'"
  by (cases c; cases p)
    (auto simp: call_step_def get_step_def return_step_def
      split: option.splits prod.splits outcome.splits sum.splits if_splits)

lemma pool_trace_inv: "pool_trace no mo dc st hist s \<Longrightarrow> pool_threads_inv no mo dc st hist s"
proof (induction rule: pool_trace.induct)
  case idle
  show ?case by (simp add: pool_threads_inv_def pool_idle_def inside_def pool_serial.none)
next
  case (call hist s i c)
  then have out: "\<not> inside s i" by (simp add: inside_def)
  then have "mutex s \<noteq> Some i" using call.IH by (simp add: pool_threads_inv_def)
  then show ?case using call.IH out by (auto simp: pool_threads_inv_def split: option.splits)
next
  case (lock hist s i s')
  then obtain c where c: "goroutine s i = Waiting c" "mutex s = None"
    and s': "s' = (set_goroutine i (Inside c Lookup) s)\<lparr>mutex := Some i\<rparr>"
    by (auto simp: lock_step_def split: goroutine.splits if_splits)
  have "pool_serial no mo dc st hist (shared s)" "\<And>j. \<not> inside s j"
    using lock.IH c(2) by (simp_all add: pool_threads_inv_def)
  then show ?case
    by (simp add: pool_threads_inv_def s' call_rest_Lookup) (metis prod.collapse)
next
  case (proceed hist s i s')
  then obtain c p p' sh where c: "goroutine s i = Inside c p"
    and step: "call_step no mo dc c p (shared s) = Some (p', sh)"
    and s': "s' = (set_goroutine i (Inside c p') s)\<lparr>shared := sh\<rparr>"
    by (auto simp: inside_step_def split: goroutine.splits)
  then have i: "inside s i" by (simp add: inside_def)
  then have "mutex s = Some i" using proceed.IH by (simp add: pool_threads_inv_def)
  then show ?case
    using proceed.IH c i call_step_rest [OF step] call_step_phase_ok [OF step]
    by (auto simp: pool_threads_inv_def s')
next
  case (unlock hist s i e s')
  then obtain c r where c: "goroutine s i = Inside c (Finish r)" "e = (c, r)"
    and s': "s' = (set_goroutine i Outside s)\<lparr>mutex := None\<rparr>"
    by (auto simp: unlock_step_def split: goroutine.splits phase.splits)
  then have i: "inside s i" by (simp add: inside_def)
  then have m: "mutex s = Some i" using unlock.IH by (simp add: pool_threads_inv_def)
  then obtain st' where "pool_serial no mo dc st hist st'" "pool_exec no mo dc c st' = (Ret r, shared s)"
    using unlock.IH c by (auto simp: pool_threads_inv_def call_rest_Finish)
  then have "pool_serial no mo dc st (hist @ [(c, r)]) (shared s)" by (rule pool_serial.more)
  then show ?case using unlock.IH m c by (auto simp: pool_threads_inv_def s')
qed

lemma inside_owner:
  assumes "pool_trace no mo dc st hist s" and "goroutine s i = Inside c p"
  shows "mutex s = Some i" and "phase_ok c p"
proof -
  have inv: "pool_threads_inv no mo dc st hist s" using pool_trace_inv [OF assms(1)] .
  have "inside s i" using assms(2) by (simp add: inside_def)
  then show m: "mutex s = Some i" using inv unfolding pool_threads_inv_def by blast
  show "phase_ok c p" using inv assms(2) unfolding pool_threads_inv_def m by auto
qed

section \<open>Holders\<close>

text \<open>
  The clients handed out and not returned after the calls of a history, and the calls that failed.
  \<open>owners_only\<close>: nobody returns a client that is not handed out.
\<close>

definition hand_over ::
  "'h ApiClient multiset \<Rightarrow> 'h pool_call \<times> 'h pool_result \<Rightarrow> 'h ApiClient multiset" where
  "hand_over H e = (case e of
     (GetClient _, GotClient (Inr c)) \<Rightarrow> add_mset c H
   | (ReturnClient c, _) \<Rightarrow> H - {#c#}
   | _ \<Rightarrow> H)"

definition handed :: "('h pool_call \<times> 'h pool_result) list \<Rightarrow> 'h ApiClient multiset" where
  "handed hist = foldl hand_over {#} hist"

definition failed_keys ::
  "('h, 'x) node_ops \<Rightarrow> ('h pool_call \<times> 'h pool_result) list \<Rightarrow> string multiset" where
  "failed_keys no hist = sum_list (map (\<lambda>e. case e of
     (GetClient n, GotClient (Inl _)) \<Rightarrow> {#no_Key no n#} | _ \<Rightarrow> {#}) hist)"

definition may_return :: "'h ApiClient multiset \<Rightarrow> 'h pool_call \<times> 'h pool_result \<Rightarrow> bool" where
  "may_return H e = (case e of (ReturnClient c, _) \<Rightarrow> c \<in># H | _ \<Rightarrow> True)"

definition owners_only :: "('h pool_call \<times> 'h pool_result) list \<Rightarrow> bool" where
  "owners_only hist = (\<forall>k < length hist. may_return (handed (take k hist)) (hist ! k))"

lemma handed_snoc: "handed (hist @ [e]) = hand_over (handed hist) e"
  by (simp add: handed_def)

lemma failed_keys_snoc:
  "failed_keys no (hist @ [(c, r)]) = failed_keys no hist +
     (case (c, r) of (GetClient n, GotClient (Inl _)) \<Rightarrow> {#no_Key no n#} | _ \<Rightarrow> {#})"
  by (simp add: failed_keys_def)

lemma size_failed_keys: "size (failed_keys no hist) \<le> length hist"
proof (induction hist rule: rev_induct)
  case (snoc e hist)
  then show ?case
    by (cases e) (auto simp: failed_keys_snoc split: pool_call.split pool_result.split sum.split)
qed (simp add: failed_keys_def)

lemma owners_only_snoc:
  "owners_only (hist @ [e]) \<longleftrightarrow> owners_only hist \<and> may_return (handed hist) e"
  by (auto simp: owners_only_def nth_append less_Suc_eq)

lemma size_handed: "size (handed hist) \<le> length hist"
proof (induction hist rule: rev_induct)
  case Nil
  show ?case by (simp add: handed_def)
next
  case (snoc e hist)
  have "size (hand_over H e) \<le> Suc (size H)" for H
    by (auto simp: hand_over_def size_Diff_singleton_if split: prod.split pool_call.split pool_result.split sum.split)
  then show ?case using snoc by (simp add: handed_snoc) (meson le_trans not_less_eq_eq)
qed

lemma pool_serial_run:
  assumes "pool_serial no mo dc st hist s" and "sn_spaceAPIClients (fst st) = []"
    and "owners_only hist" and "2 * length hist < 2 ^ 64"
  shows "\<exists>L. pool_run no mo dc s (handed hist) L \<and> L \<subseteq># failed_keys no hist"
  using assms(1,3,4)
proof induction
  case none
  obtain sn w where "st = (sn, w)" by (cases st)
  then show ?case using assms(2) pool_run.start [of sn no mo dc w] by (auto simp: handed_def)
next
  case (more hist s c r s')
  obtain L where run: "pool_run no mo dc s (handed hist) L" and L: "L \<subseteq># failed_keys no hist"
    using more by (auto simp: owners_only_snoc)
  have few: "size (handed hist) + size L < 2 ^ 64"
    using size_mset_mono [OF L] size_failed_keys [of no hist] size_handed [of hist] more.prems(2) by simp
  show ?case
  proof (cases c)
    case (GetClient n)
    then obtain g where get: "GetApiClientForSpace no mo dc n s = (Ret g, s')" and r: "r = GotClient g"
      using more.hyps(2) by (auto simp: pool_exec_def bindg_Ret base_Ret)
    show ?thesis
    proof (cases g)
      case (Inl e)
      have "pool_run no mo dc s' (handed hist) (if fst s' = fst s then L else add_mset (no_Key no n) L)"
        using pool_run.failed [OF run few] get Inl by simp
      moreover have "(if fst s' = fst s then L else add_mset (no_Key no n) L) \<subseteq># failed_keys no (hist @ [(c, r)])"
        using L subset_mset.order_trans [OF L] by (simp add: failed_keys_snoc GetClient r Inl)
      ultimately show ?thesis using GetClient r Inl
        by (auto simp: handed_snoc hand_over_def)
    next
      case (Inr d)
      then have "pool_run no mo dc s' (add_mset d (handed hist)) L"
        using pool_run.got [OF run few] get by simp
      then show ?thesis using L GetClient r Inr by (auto simp: handed_snoc hand_over_def failed_keys_snoc)
    qed
  next
    case (ReturnClient d)
    then have "ReleaseApiClientForSpace no mo d s = (Ret (), s')" and "r = Returned"
      using more.hyps(2) by (auto simp: pool_exec_def bindg_Ret base_Ret)
    moreover have "d \<in># handed hist"
      using more.prems(1) ReturnClient by (simp add: owners_only_snoc may_return_def)
    ultimately show ?thesis
      using pool_run.returned [OF run, of d s'] L ReturnClient
      by (auto simp: handed_snoc hand_over_def failed_keys_snoc)
  qed
qed

section \<open>Stopping a client\<close>

text \<open>
  What a goroutine knows in the middle of a return, about the state in which the calls that have
  returned have left the registry: it stops the client of an entry that nobody but it refers to.
\<close>

definition return_ok ::
  "('h, 'x) node_ops \<Rightarrow> ('h, 'x) mycsnode_ops \<Rightarrow> 'x DeviceContext \<Rightarrow> 'h SpaceNodes \<times> 'x world \<Rightarrow>
     ('h pool_call \<times> 'h pool_result) list \<Rightarrow> 'h ApiClient \<Rightarrow> 'h phase \<Rightarrow> 'h SpaceNodes \<times> 'x world \<Rightarrow> bool" where
  "return_ok no mo dc st hist c p sh = (case p of
     Lookup \<Rightarrow> pool_serial no mo dc st hist sh
   | Remove ref \<Rightarrow> pool_serial no mo dc st hist sh \<and> refCount ref = 0 \<and>
       map_of (sn_spaceAPIClients (fst sh)) (client_key no c) = Some ref
   | StopClient d \<Rightarrow> \<exists>st' ref. pool_serial no mo dc st hist st' \<and> refCount ref = 0 \<and>
       map_of (sn_spaceAPIClients (fst st')) (client_key no c) = Some ref \<and> d = apiClient ref
   | _ \<Rightarrow> True)"

lemma return_step_ok:
  assumes "return_step no mo c p sh = Some (p', sh')" and "return_ok no mo dc st hist c p sh"
  shows "return_ok no mo dc st hist c p' sh'"
proof (cases p)
  case (Remove ref)
  then have "return_ok no mo dc st hist c (StopClient (apiClient ref)) sh'"
    using assms(2) by (cases sh) (auto simp: return_ok_def intro!: exI [of _ sh] exI [of _ ref])
  then show ?thesis using assms(1) Remove by (auto simp: return_step_def split: prod.splits)
qed (use assms in \<open>auto simp: return_step_def return_ok_def client_key_def GetSpaceNode_def
      split: prod.splits option.splits if_splits\<close>)

lemma trace_return_ok:
  "pool_trace no mo dc st hist s \<Longrightarrow> goroutine s i = Inside (ReturnClient c) p \<Longrightarrow>
     return_ok no mo dc st hist c p (shared s)"
proof (induction arbitrary: i c p rule: pool_trace.induct)
  case idle
  then show ?case by (simp add: pool_idle_def)
next
  case (call hist s j d)
  then show ?case by (simp split: if_splits)
next
  case (lock hist s j s')
  then obtain d where "mutex s = None" and s': "s' = (set_goroutine j (Inside d Lookup) s)\<lparr>mutex := Some j\<rparr>"
    by (auto simp: lock_step_def split: goroutine.splits if_splits)
  then have serial: "pool_serial no mo dc st hist (shared s)"
    using pool_trace_inv [OF lock.hyps(1)] by (simp add: pool_threads_inv_def)
  show ?case
  proof (cases "i = j")
    case True
    then have "p = Lookup" using lock.prems by (simp add: s')
    then show ?thesis using serial by (simp add: s' return_ok_def)
  next
    case False
    then have "goroutine s i = Inside (ReturnClient c) p" using lock.prems by (simp add: s')
    then show ?thesis using lock.IH by (simp add: s')
  qed
next
  case (proceed hist s j s')
  then obtain d q q' sh where d: "goroutine s j = Inside d q"
    and step: "call_step no mo dc d q (shared s) = Some (q', sh)"
    and s': "s' = (set_goroutine j (Inside d q') s)\<lparr>shared := sh\<rparr>"
    by (auto simp: inside_step_def split: goroutine.splits)
  have "i = j"
  proof (rule ccontr)
    assume "i \<noteq> j"
    then have "goroutine s i = Inside (ReturnClient c) p" using proceed.prems by (simp add: s')
    then show False
      using inside_owner(1) [OF proceed.hyps(1), of i] inside_owner(1) [OF proceed.hyps(1) d] \<open>i \<noteq> j\<close> by simp
  qed
  then have "d = ReturnClient c" and "p = q'" using proceed.prems by (simp_all add: s')
  then show ?case
    using return_step_ok [OF _ proceed.IH [of j c q]] d step by (simp add: s' call_step_def)
next
  case (unlock hist s j e s')
  then obtain d r where d: "goroutine s j = Inside d (Finish r)"
    and s': "s' = (set_goroutine j Outside s)\<lparr>mutex := None\<rparr>"
    by (auto simp: unlock_step_def split: goroutine.splits phase.splits)
  then have "i \<noteq> j" and "goroutine s i = Inside (ReturnClient c) p"
    using unlock.prems by (auto split: if_splits)
  then have False
    using inside_owner(1) [OF unlock.hyps(1), of i] inside_owner(1) [OF unlock.hyps(1) d] by simp
  then show ?case ..
qed

text \<open>The client that is stopped is the one that is returned, and nobody else holds it.\<close>

lemma stop_is_last:
  assumes "pool_trace no mo dc st hist s" and "goroutine s i = Inside (ReturnClient c) (StopClient d)"
    and "sn_spaceAPIClients (fst st) = []" and "owners_only hist" and "2 * length hist < 2 ^ 64"
    and "c \<in># handed hist"
  shows "d = c \<and> handed hist = add_mset c (filter_mset (\<lambda>x. client_key no x \<noteq> client_key no c) (handed hist))"
proof -
  obtain st' ref where serial: "pool_serial no mo dc st hist st'" and last: "refCount ref = 0"
    and ref: "map_of (sn_spaceAPIClients (fst st')) (client_key no c) = Some ref" and d: "d = apiClient ref"
    using trace_return_ok [OF assms(1,2)] by (auto simp: return_ok_def)
  obtain L where run: "pool_run no mo dc st' (handed hist) L"
    using pool_serial_run [OF serial assms(3-5)] by blast
  note inv = pool_run_inv [OF run, unfolded pool_inv_def]
  have view: "pool_view (fst st') (client_key no c) = Some (d, 1)"
    using pool_view_held [OF ref] last d by simp
  then have "d = c" using inv assms(6) by fastforce
  moreover have "held_for no (handed hist) (client_key no c) + count L (client_key no c) = 1"
    using inv view by (metis pool_count_def option.simps(5) case_prod_conv)
  then have "size (filter_mset (\<lambda>x. client_key no x = client_key no c) (handed hist)) = 1"
    using held_for_pos [OF assms(6), of no] by (simp add: held_for_def)
  then have "filter_mset (\<lambda>x. client_key no x = client_key no c) (handed hist) = {#c#}"
    using assms(6) by (metis (mono_tags, lifting) filter_mset_eq_conv mem_Collect_eq size_1_singleton_mset
        set_mset_filter set_mset_single singletonD One_nat_def)
  then have "handed hist = {#c#} + filter_mset (\<lambda>x. client_key no x \<noteq> client_key no c) (handed hist)"
    by (metis multiset_partition)
  ultimately show ?thesis by simp
qed

section \<open>Giving the mutex back\<close>

text \<open>How many steps a call has left at most, and \<open>n\<close> steps of goroutine \<open>i\<close> alone.\<close>

fun phase_left :: "'h phase \<Rightarrow> nat" where
  "phase_left Lookup = 5"
| "phase_left Create = 4"
| "phase_left (StartClient _) = 3"
| "phase_left (Store _) = 2"
| "phase_left (CountUp _) = 2"
| "phase_left (Remove _) = 2"
| "phase_left (AwaitAuth _) = 1"
| "phase_left (StopClient _) = 1"
| "phase_left (CountDown _) = 1"
| "phase_left (Finish _) = 0"

fun inside_steps ::
  "('h, 'x) node_ops \<Rightarrow> ('h, 'x) mycsnode_ops \<Rightarrow> 'x DeviceContext \<Rightarrow> nat \<Rightarrow> nat \<Rightarrow> ('h, 'x) pool_state \<Rightarrow>
     ('h, 'x) pool_state option" where
  "inside_steps no mo dc i 0 s = Some s"
| "inside_steps no mo dc i (Suc n) s =
     (case inside_step no mo dc i s of None \<Rightarrow> None | Some s' \<Rightarrow> inside_steps no mo dc i n s')"

definition create_panics ::
  "('h, 'x) mycsnode_ops \<Rightarrow> 'x DeviceContext \<Rightarrow> nat \<Rightarrow> ('h, 'x) pool_state \<Rightarrow> bool" where
  "create_panics mo dc i s = (case goroutine s i of
     Inside (GetClient n) Create \<Rightarrow>
       (case fst (NewApiClient mo dc n (snd (shared s))) of Panic _ \<Rightarrow> True | _ \<Rightarrow> False)
   | _ \<Rightarrow> False)"

lemma NewApiClient_not_Hang: "fst (NewApiClient mo dc n w) \<noteq> Hang"
  by (auto simp: NewApiClient_def go_monad split: option.split sum.split)

lemma call_step_left:
  assumes "phase_ok c p" and "\<And>r. p \<noteq> Finish r"
    and "\<And>n e. c = GetClient n \<Longrightarrow> p = Create \<Longrightarrow> fst (NewApiClient mo dc n (snd s)) \<noteq> Panic e"
  shows "\<exists>p' s'. call_step no mo dc c p s = Some (p', s') \<and> phase_left p' < phase_left p"
proof (cases "p = Create")
  case True
  then obtain n where c: "c = GetClient n" using assms(1) by (cases c) auto
  then obtain r w where "NewApiClient mo dc n (snd s) = (Ret r, w)"
    using assms(3) True NewApiClient_not_Hang [of mo dc n "snd s"]
    by (cases "NewApiClient mo dc n (snd s)"; cases "fst (NewApiClient mo dc n (snd s))") force+
  then show ?thesis
    by (cases r) (auto simp: call_step_def get_step_def c True split: prod.split)
next
  case False
  then show ?thesis
    using assms(1,2)
    by (cases c; cases p)
      (auto simp: call_step_def get_step_def return_step_def split: prod.splits option.splits)
qed

lemma inside_finishes:
  assumes "goroutine s i = Inside c p" "phase_ok c p"
  shows "\<exists>n s1. n \<le> phase_left p \<and> inside_steps no mo dc i n s = Some s1 \<and>
    mutex s1 = mutex s \<and> (\<forall>j. j \<noteq> i \<longrightarrow> goroutine s1 j = goroutine s j) \<and>
    ((\<exists>r. goroutine s1 i = Inside c (Finish r)) \<or> create_panics mo dc i s1)"
  using assms
proof (induction "phase_left p" arbitrary: s p rule: less_induct)
  case less
  show ?case
  proof (cases "(\<exists>r. p = Finish r) \<or> create_panics mo dc i s")
    case True
    then show ?thesis using less.prems by (intro exI [of _ 0] exI [of _ s]) auto
  next
    case False
    then have "fst (NewApiClient mo dc n (snd (shared s))) \<noteq> Panic e" if "c = GetClient n" "p = Create" for n e
      using that less.prems(1) by (auto simp: create_panics_def)
    then obtain p' sh where step: "call_step no mo dc c p (shared s) = Some (p', sh)"
      and lt: "phase_left p' < phase_left p"
      using call_step_left [OF less.prems(2)] False by metis
    define s' where "s' = (set_goroutine i (Inside c p') s)\<lparr>shared := sh\<rparr>"
    have s': "inside_step no mo dc i s = Some s'"
      by (simp add: inside_step_def less.prems(1) step s'_def)
    have "goroutine s' i = Inside c p'" by (simp add: s'_def)
    from less.hyps [OF lt this call_step_phase_ok [OF step less.prems(2)]]
    obtain n s1 where n: "n \<le> phase_left p'" "inside_steps no mo dc i n s' = Some s1"
      "mutex s1 = mutex s'" "\<forall>j. j \<noteq> i \<longrightarrow> goroutine s1 j = goroutine s' j"
      "(\<exists>r. goroutine s1 i = Inside c (Finish r)) \<or> create_panics mo dc i s1" by blast
    then show ?thesis
      using lt s' by (intro exI [of _ "Suc n"] exI [of _ s1]) (auto simp: s'_def)
  qed
qed

lemma inside_steps_trace:
  assumes "pool_trace no mo dc st hist s" "inside_steps no mo dc i n s = Some s'"
  shows "pool_trace no mo dc st hist s'"
  using assms
proof (induction n arbitrary: s)
  case (Suc n)
  then show ?case using pool_trace.proceed by (fastforce split: option.splits)
qed simp

lemma phase_left_le: "phase_left p \<le> 5"
  by (cases p) auto

section \<open>Properties\<close>

text \<open>
  Property C8. The mutex makes the calls of the pool atomic: at most one goroutine is between
  \<open>Lock\<close> and \<open>Unlock\<close>, and whenever none is, the registry and the world are those of the calls that
  have returned, run one after the other in the order in which they returned and with the results
  they gave.
\<close>
theorem pool_calls_atomic:
  assumes "pool_trace no mo dc st hist s"
  shows "(\<forall>i j. inside s i \<and> inside s j \<longrightarrow> i = j) \<and>
    ((\<forall>i. \<not> inside s i) \<longrightarrow> pool_serial no mo dc st hist (shared s))"
  using pool_trace_inv [OF assms]
  by (cases "mutex s") (auto simp: pool_threads_inv_def)

text \<open>
  Property C9. Goroutines that use the pool at the same time share one client for each space, as
  long as they only return clients they hold. In every quiet moment every client that is held is
  the one in the pool for its key, and the holder count of a key is at least the number of its
  clients that were handed out and not returned, and at most that number and the failed calls for
  the key. And at every moment, a goroutine that is about to call \<open>Stop\<close> calls it on the client it
  is returning, and no other client of that key is handed out: no client is stopped under a holder.
\<close>
theorem pool_goroutines_share:
  assumes "pool_trace no mo dc st hist s"
    and "sn_spaceAPIClients (fst st) = []" and "owners_only hist" and "2 * length hist < 2 ^ 64"
  shows "((\<forall>i. \<not> inside s i) \<longrightarrow>
      (\<forall>k. held_for no (handed hist) k \<le> pool_count (pool_view (fst (shared s))) k \<and>
         pool_count (pool_view (fst (shared s))) k \<le> held_for no (handed hist) k + count (failed_keys no hist) k) \<and>
      (\<forall>c \<in># handed hist. \<exists>m. pool_view (fst (shared s)) (client_key no c) = Some (c, m))) \<and>
    (\<forall>i call d. goroutine s i = Inside call (StopClient d) \<longrightarrow> (\<exists>c. call = ReturnClient c \<and>
      (c \<in># handed hist \<longrightarrow> d = c \<and>
        handed hist = add_mset c (filter_mset (\<lambda>x. client_key no x \<noteq> client_key no c) (handed hist)))))"
proof (intro conjI impI allI)
  assume "\<forall>i. \<not> inside s i"
  then have "pool_serial no mo dc st hist (shared s)"
    using pool_trace_inv [OF assms(1)] by (cases "mutex s") (auto simp: pool_threads_inv_def)
  from pool_serial_run [OF this assms(2-4)] obtain L
    where run: "pool_run no mo dc (shared s) (handed hist) L" and L: "L \<subseteq># failed_keys no hist" by blast
  note inv = pool_run_inv [OF run, unfolded pool_inv_def]
  show "held_for no (handed hist) k \<le> pool_count (pool_view (fst (shared s))) k"
    "pool_count (pool_view (fst (shared s))) k \<le> held_for no (handed hist) k + count (failed_keys no hist) k" for k
    using inv mset_subset_eq_count [OF L, of k] by simp_all
  show "\<forall>c \<in># handed hist. \<exists>m. pool_view (fst (shared s)) (client_key no c) = Some (c, m)"
    using inv by blast
next
  fix i call d assume inside: "goroutine s i = Inside call (StopClient d)"
  then have "phase_ok call (StopClient d)" using inside_owner(2) [OF assms(1)] by blast
  then obtain c where c: "call = ReturnClient c" by (cases call) auto
  have "d = c \<and> handed hist = add_mset c (filter_mset (\<lambda>x. client_key no x \<noteq> client_key no c) (handed hist))"
    if "c \<in># handed hist"
    using stop_is_last [OF assms(1) inside [unfolded c] assms(2-4) that] .
  with c show "\<exists>c. call = ReturnClient c \<and> (c \<in># handed hist \<longrightarrow> d = c \<and>
        handed hist = add_mset c (filter_mset (\<lambda>x. client_key no x \<noteq> client_key no c) (handed hist)))"
    by (intro exI [of _ c] conjI impI) simp_all
qed

text \<open>
  Property C20. Nobody waits for the mutex for ever: in every reachable state its owner, running
  alone, is at its \<open>Unlock\<close> after at most five steps, which frees the mutex for any goroutine that
  waits for it; unless the creation of a client panics, which ends the program.
\<close>
theorem pool_mutex_released:
  assumes "pool_trace no mo dc st hist s" and "mutex s = Some i"
  shows "\<exists>n s1. n \<le> 5 \<and> inside_steps no mo dc i n s = Some s1 \<and>
    (create_panics mo dc i s1 \<or>
     (\<exists>e s2. unlock_step i s1 = Some (e, s2) \<and> pool_trace no mo dc st (hist @ [e]) s2 \<and>
        (\<forall>j c. goroutine s j = Waiting c \<longrightarrow> lock_step j s2 \<noteq> None)))"
proof -
  obtain c p where c: "goroutine s i = Inside c p" "phase_ok c p"
    using pool_trace_inv [OF assms(1)] assms(2) by (auto simp: pool_threads_inv_def)
  obtain n s1 where n: "n \<le> phase_left p" "inside_steps no mo dc i n s = Some s1"
      "\<forall>j. j \<noteq> i \<longrightarrow> goroutine s1 j = goroutine s j"
      "(\<exists>r. goroutine s1 i = Inside c (Finish r)) \<or> create_panics mo dc i s1"
    using inside_finishes [OF c] by metis
  have trace1: "pool_trace no mo dc st hist s1" using inside_steps_trace [OF assms(1) n(2)] .
  have "create_panics mo dc i s1 \<or>
     (\<exists>e s2. unlock_step i s1 = Some (e, s2) \<and> pool_trace no mo dc st (hist @ [e]) s2 \<and>
        (\<forall>j c. goroutine s j = Waiting c \<longrightarrow> lock_step j s2 \<noteq> None))"
    using n(4)
  proof (elim disjE exE)
    fix r assume r: "goroutine s1 i = Inside c (Finish r)"
    let ?s2 = "(set_goroutine i Outside s1)\<lparr>mutex := None\<rparr>"
    have unlock: "unlock_step i s1 = Some ((c, r), ?s2)" by (simp add: unlock_step_def r)
    have "lock_step j ?s2 \<noteq> None" if "goroutine s j = Waiting c'" for j c'
      using that n(3) c(1) by (cases "j = i") (simp_all add: lock_step_def)
    then show ?thesis using unlock pool_trace.unlock [OF trace1 unlock] by blast
  qed simp
  moreover have "n \<le> 5" using n(1) phase_left_le [of p] by simp
  ultimately show ?thesis using n(2) by blast
qed

section \<open>Witnesses\<close>

text \<open>A run along a list of choices, each a step of one goroutine.\<close>

datatype 'h pool_choice = Enter nat "'h pool_call" | Acquire nat | Proceed nat | Leave nat

fun pool_drive ::
  "('h, 'x) node_ops \<Rightarrow> ('h, 'x) mycsnode_ops \<Rightarrow> 'x DeviceContext \<Rightarrow> 'h pool_choice list \<Rightarrow>
     ('h pool_call \<times> 'h pool_result) list \<Rightarrow> ('h, 'x) pool_state \<Rightarrow>
     (('h pool_call \<times> 'h pool_result) list \<times> ('h, 'x) pool_state) option" where
  "pool_drive no mo dc [] hist s = Some (hist, s)"
| "pool_drive no mo dc (Enter i c # as) hist s =
     (case goroutine s i of
        Outside \<Rightarrow> pool_drive no mo dc as hist (set_goroutine i (Waiting c) s) | _ \<Rightarrow> None)"
| "pool_drive no mo dc (Acquire i # as) hist s =
     (case lock_step i s of None \<Rightarrow> None | Some s' \<Rightarrow> pool_drive no mo dc as hist s')"
| "pool_drive no mo dc (Proceed i # as) hist s =
     (case inside_step no mo dc i s of None \<Rightarrow> None | Some s' \<Rightarrow> pool_drive no mo dc as hist s')"
| "pool_drive no mo dc (Leave i # as) hist s =
     (case unlock_step i s of None \<Rightarrow> None | Some (e, s') \<Rightarrow> pool_drive no mo dc as (hist @ [e]) s')"

lemma pool_drive_trace:
  "pool_drive no mo dc as hist s = Some (hist', s') \<Longrightarrow> pool_trace no mo dc st hist s \<Longrightarrow>
     pool_trace no mo dc st hist' s'"
  by (induction no mo dc as hist s rule: pool_drive.induct)
    (auto split: option.splits goroutine.splits intro: pool_trace.call pool_trace.lock pool_trace.proceed
      dest: pool_trace.unlock)

text \<open>
  Two goroutines ask for the client of the same space; the second one waits while the first one
  creates it, and shares it.
\<close>

abbreviation ask_1 :: "unit pool_call" where
  "ask_1 \<equiv> GetClient space_1"

definition two_choices :: "unit pool_choice list" where
  "two_choices = [Enter 0 ask_1, Enter 1 ask_1, Acquire 0] @ replicate 5 (Proceed 0) @
     [Leave 0, Acquire 1] @ replicate 3 (Proceed 1) @ [Leave 1]"

abbreviation pool_start :: "(unit, mem_ctx) pool_state" where
  "pool_start \<equiv> pool_idle (empty_SpaceNodes, pool_world)"

definition two_goroutines ::
  "((unit pool_call \<times> unit pool_result) list \<times> (unit, mem_ctx) pool_state) option" where
  "two_goroutines = pool_drive test_node_ops (stop_ops True) mem_context two_choices [] pool_start"

abbreviation both_got :: "(unit pool_call \<times> unit pool_result) list" where
  "both_got \<equiv> [(ask_1, GotClient (Inr client_1)), (ask_1, GotClient (Inr client_1))]"

lemma two_goroutines_run:
  "\<exists>s. two_goroutines = Some (both_got, s) \<and> mutex s = None"
proof -
  have "case two_goroutines of None \<Rightarrow> False | Some (h, s) \<Rightarrow> h = both_got \<and> mutex s = None"
    by code_simp
  then show ?thesis by (auto split: option.splits)
qed

lemma two_goroutines_trace:
  "two_goroutines = Some (hist, s) \<Longrightarrow>
     pool_trace test_node_ops (stop_ops True) mem_context (empty_SpaceNodes, pool_world) hist s"
  unfolding two_goroutines_def using pool_drive_trace pool_trace.idle by blast

lemma quiet: "pool_trace no mo dc st hist s \<Longrightarrow> mutex s = None \<Longrightarrow> \<not> inside s i"
  by (drule pool_trace_inv) (simp add: pool_threads_inv_def)

theorem pool_calls_atomic_witness:
  "\<exists>s. two_goroutines = Some (both_got, s) \<and>
     pool_serial test_node_ops (stop_ops True) mem_context (empty_SpaceNodes, pool_world) both_got (shared s)"
proof -
  obtain s where s: "two_goroutines = Some (both_got, s)" "mutex s = None"
    using two_goroutines_run by blast
  show ?thesis
    using pool_calls_atomic [OF two_goroutines_trace [OF s(1)]] quiet [OF two_goroutines_trace [OF s(1)] s(2)] s(1)
    by blast
qed

theorem pool_goroutines_share_witness:
  "\<exists>s. two_goroutines = Some (both_got, s) \<and>
     pool_count (pool_view (fst (shared s))) ''space/s1'' = 2"
proof -
  obtain s where s: "two_goroutines = Some (both_got, s)" "mutex s = None"
    using two_goroutines_run by blast
  have own: "owners_only both_got" by (auto simp: owners_only_def may_return_def less_Suc_eq)
  have empty: "sn_spaceAPIClients (fst (empty_SpaceNodes :: unit SpaceNodes, pool_world)) = []" by simp
  have few: "2 * length both_got < 2 ^ 64" by simp
  have hist: "failed_keys test_node_ops both_got = {#}" "handed both_got = {#client_1, client_1#}"
    by (simp_all add: failed_keys_def handed_def hand_over_def)
  have quiet: "\<forall>i. \<not> inside s i" using quiet [OF two_goroutines_trace [OF s(1)] s(2)] by blast
  note share = pool_goroutines_share [OF two_goroutines_trace [OF s(1)] empty own few,
      THEN conjunct1, THEN mp, OF quiet, THEN conjunct1, THEN spec, of "''space/s1''"]
  have "pool_count (pool_view (fst (shared s))) ''space/s1'' = 2"
    using share unfolding hist by (simp add: held_for_def)
  with s(1) show ?thesis by blast
qed

definition one_waits ::
  "((unit pool_call \<times> unit pool_result) list \<times> (unit, mem_ctx) pool_state) option" where
  "one_waits = pool_drive test_node_ops (stop_ops True) mem_context (take 3 two_choices) [] pool_start"

theorem pool_mutex_released_witness:
  "\<exists>s n s1. one_waits = Some ([], s) \<and> mutex s = Some 0 \<and> n \<le> 5 \<and>
     inside_steps test_node_ops (stop_ops True) mem_context 0 n s = Some s1"
proof -
  have "case one_waits of None \<Rightarrow> False | Some (h, s) \<Rightarrow> h = [] \<and> mutex s = Some 0"
    by code_simp
  then obtain s where s: "one_waits = Some ([], s)" "mutex s = Some 0"
    by (auto split: option.splits)
  have "pool_trace test_node_ops (stop_ops True) mem_context (empty_SpaceNodes, pool_world) [] s"
    using s(1) pool_drive_trace pool_trace.idle unfolding one_waits_def by blast
  from pool_mutex_released [OF this s(2)] s show ?thesis by blast
qed

end
