(* ===== verification/Tailscale_Client.thy ===== *)
theory Tailscale_Client
  imports Space_Nodes
begin

text \<open>
  \<open>network/tailscale_client.go\<close> and \<open>network/tailscale_client_darwin.go\<close>: the client that logs a
  device in to the mesh network of a space. Its operations run on the triple of the client's own
  state, the registry of space nodes (which hands out the node's API client) and the world.

  The Tailscale command line package and the network configuration of \<open>goutils\<close> are arguments.
  A command writes its output to the client (\<open>cli.Stdout = tsc\<close>) while it runs: it gives the
  texts it wrote, in order, with its result.
\<close>

section \<open>State\<close>

datatype ConnectState =
  Connecting | Connected | Authenticating | Authorizing | WaitingForExitNode | NotConnected

fun connStatusMsgs :: "ConnectState \<Rightarrow> string" where
  "connStatusMsgs Connecting = ''Connecting''"
| "connStatusMsgs Connected = ''Connected''"
| "connStatusMsgs Authenticating = ''Authenticating''"
| "connStatusMsgs Authorizing = ''Authorizing''"
| "connStatusMsgs WaitingForExitNode = ''Waiting for exit node''"
| "connStatusMsgs NotConnected = ''Not connected''"

text \<open>\<open>tsc_cancelled\<close>: \<open>cancel\<close> was called on the context \<open>ctx\<close> of the client.\<close>

record 'h TailscaleClient =
  tsc_cancelled :: bool
  tsc_tunDevName :: string
  tsc_spaceDeviceName :: string
  tsc_apiClient :: "'h ApiClient option"
  tsc_splitDestinationIPs :: "string list"
  tsc_waitForExitNode :: bool
  tsc_connState :: ConnectState

type_synonym ('h, 'x) tsc_world = "'h TailscaleClient \<times> 'h SpaceNodes \<times> 'x world"

section \<open>What the client is built on\<close>

record TSNode =
  tn_Name :: string
  tn_IP :: string
  tn_Endpoints :: "string list"

record SpaceMeshConnectInfo =
  ci_AuthKey :: string
  ci_DNS :: "string list"
  ci_SpaceNode :: TSNode

record login_args =
  la_loginServer :: string
  la_hostname :: string
  la_acceptRoutes :: bool
  la_acceptDNS :: bool
  la_exitNodeIP :: "string option"
  la_exitNodeAllowLANAccess :: bool

text \<open>The commands; the first argument says whether the context they are given is cancelled.\<close>

type_synonym 'x command = "'x world \<Rightarrow> (string list \<times> error option) \<times> 'x world"

record 'x cli_ops =
  cli_RunLogin :: "bool \<Rightarrow> string \<Rightarrow> login_args \<Rightarrow> 'x command"
  cli_RunPing :: "bool \<Rightarrow> string \<Rightarrow> string \<Rightarrow> bool \<Rightarrow> int64 \<Rightarrow> int64 \<Rightarrow> 'x command"
  cli_RunLogout :: "bool \<Rightarrow> 'x command"
  cli_RunDown :: "bool \<Rightarrow> 'x command"

text \<open>The network context, with the managers it hands out.\<close>

record 'x network_ops =
  nc_NewDNSManager :: "'x world \<Rightarrow> (error + nat) \<times> 'x world"
  nc_AddDNSServers :: "nat \<Rightarrow> string list \<Rightarrow> 'x world \<Rightarrow> error option \<times> 'x world"
  nc_DisableIPv6 :: "'x world \<Rightarrow> error option \<times> 'x world"
  nc_NewRouteManager :: "'x world \<Rightarrow> (error + nat) \<times> 'x world"
  nc_AddExternalRouteToIPs :: "nat \<Rightarrow> string list \<Rightarrow> 'x world \<Rightarrow> error option \<times> 'x world"
  nc_AddDefaultRoute :: "nat \<Rightarrow> string \<Rightarrow> 'x world \<Rightarrow> error option \<times> 'x world"
  nc_Clear :: "'x world \<Rightarrow> 'x world"

definition NewTailscaleClient ::
  "('x world \<Rightarrow> error option \<times> 'x world) \<Rightarrow> string \<Rightarrow> string \<Rightarrow>
     ('x world, error + 'h TailscaleClient) go" where
  "NewTailscaleClient NewNetworkContext tunDevName spaceDeviceName =
     bindg (callg NewNetworkContext) (\<lambda>e.
     case e of
       Some err \<Rightarrow> ret (Inl err)
     | None \<Rightarrow> ret (Inr \<lparr>tsc_cancelled = False, tsc_tunDevName = tunDevName,
         tsc_spaceDeviceName = ToLower spaceDeviceName, tsc_apiClient = None,
         tsc_splitDestinationIPs = [], tsc_waitForExitNode = False, tsc_connState = Connecting\<rparr>))"

definition AddSplitDestinations :: "string list \<Rightarrow> 'h TailscaleClient \<Rightarrow> 'h TailscaleClient" where
  "AddSplitDestinations destinations t =
     t\<lparr>tsc_splitDestinationIPs := tsc_splitDestinationIPs t @ destinations\<rparr>"

definition GetStatus :: "'h TailscaleClient \<Rightarrow> string" where
  "GetStatus t = connStatusMsgs (tsc_connState t)"

section \<open>The output of Tailscale\<close>

text \<open>\<open>trim_msg\<close>: the text without line ends on both sides. \<open>Write\<close> also returns its length and nil.\<close>

definition line_ends :: string where
  "line_ends = [CHR 0x0D, CHR 0x0A]"

definition trim_msg :: "string \<Rightarrow> string" where
  "trim_msg p = TrimLeft (TrimRight p line_ends) line_ends"

definition Write :: "string \<Rightarrow> 'h TailscaleClient \<Rightarrow> (nat \<times> error option) \<times> 'h TailscaleClient" where
  "Write p t = ((length p, None),
     (let msg = trim_msg p in
      if tsc_connState t \<noteq> Connected \<and> tsc_connState t \<noteq> NotConnected then
        (if HasPrefix msg ''To authorize your machine, visit'' then t\<lparr>tsc_connState := Authorizing\<rparr>
         else if HasPrefix msg ''To authenticate, visit'' then t\<lparr>tsc_connState := Authenticating\<rparr>
         else if HasPrefix msg ''Success'' then
           (if tsc_waitForExitNode t then t\<lparr>tsc_connState := WaitingForExitNode\<rparr>
            else t\<lparr>tsc_connState := Connected\<rparr>)
         else t)
      else t))"

definition Writes :: "string list \<Rightarrow> 'h TailscaleClient \<Rightarrow> 'h TailscaleClient" where
  "Writes ps t = foldl (\<lambda>s p. snd (Write p s)) t ps"

text \<open>A command run for the client: its output is written, its error is the result.\<close>

definition run_cli :: "'x command \<Rightarrow> (('h, 'x) tsc_world, error option) go" where
  "run_cli c = (\<lambda>(t, sn, w). case c w of ((out, e), w') \<Rightarrow> (Ret e, (Writes out t, sn, w')))"

definition on_world :: "('x world, 'a) go \<Rightarrow> (('h, 'x) tsc_world, 'a) go" where
  "on_world m = on_snd (on_snd m)"

definition get_tsc :: "('h TailscaleClient \<Rightarrow> 'a) \<Rightarrow> (('h, 'x) tsc_world, 'a) go" where
  "get_tsc g = getg (\<lambda>s. g (fst s))"

definition set_tsc ::
  "('h TailscaleClient \<Rightarrow> 'h TailscaleClient) \<Rightarrow> (('h, 'x) tsc_world, unit) go" where
  "set_tsc u = putg (\<lambda>(t, s). (u t, s))"

section \<open>Platform hooks\<close>

text \<open>
  \<open>configureDNS\<close> and \<open>configureExitNode\<close> do nothing unless the package is built for Darwin or
  FreeBSD, where \<open>init\<close> replaces them.
\<close>

datatype platform = DefaultPlatform | Darwin

definition or_else :: "(('h, 'x) tsc_world, error option) go \<Rightarrow>
    (('h, 'x) tsc_world, error option) go \<Rightarrow> (('h, 'x) tsc_world, error option) go" where
  "or_else m rest = bindg m (\<lambda>e. case e of Some err \<Rightarrow> ret (Some err) | None \<Rightarrow> rest)"

definition configureDNS_darwin ::
  "'x network_ops \<Rightarrow> string list \<Rightarrow> (('h, 'x) tsc_world, error option) go" where
  "configureDNS_darwin nc nameServers =
     bindg (on_world (callg (nc_NewDNSManager nc))) (\<lambda>r.
     case r of
       Inl err \<Rightarrow> ret (Some err)
     | Inr dnsManager \<Rightarrow>
         or_else (on_world (callg (nc_AddDNSServers nc dnsManager (''100.100.100.100'' # nameServers))))
           (ret None))"

definition configureExitNode_darwin ::
  "'x network_ops \<Rightarrow> TSNode \<Rightarrow> (('h, 'x) tsc_world, error option) go" where
  "configureExitNode_darwin nc exitNode =
     or_else (on_world (callg (nc_DisableIPv6 nc)))
       (bindg (on_world (callg (nc_NewRouteManager nc))) (\<lambda>r.
        case r of
          Inl err \<Rightarrow> ret (Some err)
        | Inr rm \<Rightarrow>
            or_else (on_world (callg (nc_AddExternalRouteToIPs nc rm (tn_Endpoints exitNode))))
              (bindg (get_tsc tsc_splitDestinationIPs) (\<lambda>split.
               or_else (on_world (callg (nc_AddExternalRouteToIPs nc rm split)))
                 (or_else (on_world (callg (nc_AddDefaultRoute nc rm (tn_IP exitNode))))
                    (bindg (set_tsc (\<lambda>t. t\<lparr>tsc_connState := Connected\<rparr>)) (\<lambda>_. ret None)))))))"

definition configureDNS ::
  "platform \<Rightarrow> 'x network_ops \<Rightarrow> string list \<Rightarrow> (('h, 'x) tsc_world, error option) go" where
  "configureDNS plat nc nameServers =
     (case plat of DefaultPlatform \<Rightarrow> ret None | Darwin \<Rightarrow> configureDNS_darwin nc nameServers)"

definition configureExitNode ::
  "platform \<Rightarrow> 'x network_ops \<Rightarrow> TSNode \<Rightarrow> (('h, 'x) tsc_world, error option) go" where
  "configureExitNode plat nc exitNode =
     (case plat of DefaultPlatform \<Rightarrow> ret None | Darwin \<Rightarrow> configureExitNode_darwin nc exitNode)"

section \<open>Connect\<close>

text \<open>The ping loop, with the error of the last ping.\<close>

fun ping_loop ::
  "'x cli_ops \<Rightarrow> TSNode \<Rightarrow> nat \<Rightarrow> error option \<Rightarrow> (('h, 'x) tsc_world, error option) go" where
  "ping_loop cli exitNode 0 err = ret err"
| "ping_loop cli exitNode (Suc n) err =
     bindg (get_tsc tsc_cancelled) (\<lambda>cancelled.
     bindg (run_cli (cli_RunPing cli cancelled (tn_Name exitNode) (tn_IP exitNode) False 1 30)) (\<lambda>e.
     case e of None \<Rightarrow> ret None | Some _ \<Rightarrow> ping_loop cli exitNode n e))"

text \<open>From \<open>tsc.connState = Connecting\<close> to the end.\<close>

definition login_and_configure ::
  "platform \<Rightarrow> 'x cli_ops \<Rightarrow> 'x network_ops \<Rightarrow> SpaceMeshConnectInfo \<Rightarrow> string \<Rightarrow> bool \<Rightarrow>
     TSNode option \<Rightarrow> (('h, 'x) tsc_world, error option) go" where
  "login_and_configure plat cli nc connectInfo controlServer useSpaceDNS exitNode =
     bindg (set_tsc (\<lambda>t. t\<lparr>tsc_connState := Connecting\<rparr>)) (\<lambda>_.
     bindg (get_tsc (\<lambda>t. (tsc_cancelled t, tsc_spaceDeviceName t))) (\<lambda>(cancelled, hostname).
     or_else (run_cli (cli_RunLogin cli cancelled (ci_AuthKey connectInfo)
         \<lparr>la_loginServer = controlServer, la_hostname = hostname, la_acceptRoutes = True,
           la_acceptDNS = useSpaceDNS, la_exitNodeIP = map_option tn_IP exitNode,
           la_exitNodeAllowLANAccess = (exitNode \<noteq> None)\<rparr>))
     (or_else (if useSpaceDNS then configureDNS plat nc (ci_DNS connectInfo) else ret None)
     (case exitNode of
        None \<Rightarrow> ret None
      | Some node \<Rightarrow>
          or_else (ping_loop cli node 30 None)
            (or_else (configureExitNode plat nc node) (ret None))))))"

definition authKeyExpiration :: int64 where
  "authKeyExpiration = 10000"

definition Connect ::
  "platform \<Rightarrow> ('h, 'x) node_ops \<Rightarrow> ('h, 'x) mycsnode_ops \<Rightarrow> 'x DeviceContext \<Rightarrow>
     ('x, SpaceMeshConnectInfo) rest_exec \<Rightarrow> SpaceMeshConnectInfo \<Rightarrow> 'x cli_ops \<Rightarrow> 'x network_ops \<Rightarrow>
     'h SpaceNode \<Rightarrow> bool \<Rightarrow> bool \<Rightarrow> (('h, 'x) tsc_world, error option) go" where
  "Connect plat no mo dc rest zero cli nc space useSpaceDNS egressViaSpace =
     bindg (on_snd (GetApiClientForSpace no mo dc space)) (\<lambda>got.
     bindg (set_tsc (\<lambda>t. t\<lparr>tsc_apiClient := (case got of Inl _ \<Rightarrow> None | Inr c \<Rightarrow> Some c)\<rparr>)) (\<lambda>_.
     case got of
       Inl err \<Rightarrow> ret (Some err)
     | Inr c \<Rightarrow>
         bindg (on_world (CreateMeshAuthKey mo rest zero c authKeyExpiration)) (\<lambda>key.
         case key of
           Inl err \<Rightarrow> ret (Some err)
         | Inr connectInfo \<Rightarrow>
             (case no_GetEndpoint no (GetSpaceNode c) of
                Inl err \<Rightarrow> ret (Some err)
              | Inr controlServer \<Rightarrow>
                  if egressViaSpace then
                    (if no_CanUseAsEgressNode no space then
                       bindg (set_tsc (\<lambda>t. t\<lparr>tsc_waitForExitNode := True\<rparr>)) (\<lambda>_.
                       deferg (\<lambda>_ (t, s). (t\<lparr>tsc_waitForExitNode := False\<rparr>, s))
                         (\<lambda>(t, s). (t\<lparr>tsc_waitForExitNode := False\<rparr>, s))
                         (login_and_configure plat cli nc connectInfo controlServer useSpaceDNS
                            (Some (ci_SpaceNode connectInfo))))
                     else ret (Some (''space '' @ [CHR 0x22] @ no_GetSpaceName no space @ [CHR 0x22] @
                       '' is not configured as an egress node for this device'')))
                  else login_and_configure plat cli nc connectInfo controlServer useSpaceDNS None))))"

section \<open>Disconnect\<close>

text \<open>The two commands run under a new context, which is not cancelled.\<close>

definition Disconnect ::
  "('h, 'x) node_ops \<Rightarrow> ('h, 'x) mycsnode_ops \<Rightarrow> 'x cli_ops \<Rightarrow> 'x network_ops \<Rightarrow>
     (('h, 'x) tsc_world, error option) go" where
  "Disconnect no mo cli nc =
     bindg (set_tsc (\<lambda>t. t\<lparr>tsc_cancelled := True\<rparr>)) (\<lambda>_.
     bindg (get_tsc tsc_apiClient) (\<lambda>client.
     bindg (case client of
              Some c \<Rightarrow> on_snd (ReleaseApiClientForSpace no mo c)
            | None \<Rightarrow> ret ()) (\<lambda>_.
     bindg (run_cli (cli_RunLogout cli False)) (\<lambda>err.
     bindg (run_cli (cli_RunDown cli False)) (\<lambda>err.
     bindg (on_world (putg (nc_Clear nc))) (\<lambda>_. ret err))))))"

end
