(* ===== verification/Tailscale_Props.thy ===== *)
theory Tailscale_Props
  imports Tailscale_Client Client_Pool
begin

text \<open>
  The status the mesh client reports, the reachability test of the exit node, and its use of the
  client pool: each is a property of every run, whatever the commands write and answer.
\<close>

section \<open>The steps of a connection\<close>

lemma or_else_None:
  "or_else m rest s = (Ret None, s') \<longleftrightarrow>
     (\<exists>s1. m s = (Ret None, s1) \<and> rest s1 = (Ret None, s'))"
  by (auto simp: or_else_def bindg_Ret ret_def split: option.splits)

lemma keeps_or_else [go_keeps]: "keeps I m \<Longrightarrow> keeps I rest \<Longrightarrow> keeps I (or_else m rest)"
  unfolding or_else_def by (intro go_keeps)

lemma keeps_on_world:
  "(\<And>t sn w w'. I (t, sn, w) \<Longrightarrow> I (t, sn, w')) \<Longrightarrow> keeps I (on_world m)"
  by (auto simp: keeps_def on_world_def on_snd_def split: prod.split)

lemma keeps_set_tsc: "(\<And>t s. I (t, s) \<Longrightarrow> I (u t, s)) \<Longrightarrow> keeps I (set_tsc u)"
  by (auto simp: set_tsc_def keeps_def putg_def)

lemma keeps_get_tsc [go_keeps]: "keeps I (get_tsc g)"
  by (simp add: get_tsc_def keeps_get)

lemma Writes_keeps: "(\<And>t p. I t \<Longrightarrow> I (snd (Write p t))) \<Longrightarrow> I t \<Longrightarrow> I (Writes ps t)"
  by (induction ps arbitrary: t) (simp_all add: Writes_def)

lemma keeps_run_cli:
  assumes "\<And>t s p. I (t, s) \<Longrightarrow> I (snd (Write p t), s)"
    and "\<And>t sn w w'. I (t, sn, w) \<Longrightarrow> I (t, sn, w')"
  shows "keeps I (run_cli c)"
proof -
  have "I (Writes ps t, s)" if "I (t, s)" for ps t s
    using Writes_keeps [of "\<lambda>t. I (t, s)" t ps] assms(1) that by blast
  then show ?thesis
    using assms(2) by (auto simp: keeps_def run_cli_def split: prod.splits)
qed

text \<open>What a written text may change: the status, and nothing else.\<close>

lemma Write_frame [simp]:
  "tsc_cancelled (snd (Write p t)) = tsc_cancelled t"
  "tsc_apiClient (snd (Write p t)) = tsc_apiClient t"
  "tsc_waitForExitNode (snd (Write p t)) = tsc_waitForExitNode t"
  "tsc_spaceDeviceName (snd (Write p t)) = tsc_spaceDeviceName t"
  by (simp_all add: Write_def Let_def)

text \<open>
  Every part of \<open>Connect\<close> after the client was taken keeps a property of the client's state and
  the registry that written texts keep and that does not look at the status or the wait flag.
\<close>

definition steady :: "(('h, 'x) tsc_world \<Rightarrow> bool) \<Rightarrow> bool" where
  "steady I = ((\<forall>t s p. I (t, s) \<longrightarrow> I (snd (Write p t), s)) \<and>
     (\<forall>t sn w w'. I (t, sn, w) \<longrightarrow> I (t, sn, w')))"

lemma steady_world: "steady I \<Longrightarrow> keeps I (on_world m)"
  and steady_cli: "steady I \<Longrightarrow> keeps I (run_cli c)"
  unfolding steady_def by (rule keeps_on_world, blast) (rule keeps_run_cli, blast+)

lemma steady_ping: "steady I \<Longrightarrow> keeps I (ping_loop cli node n err)"
  by (induction n arbitrary: err)
    (auto intro!: keeps_ret keeps_bind keeps_get_tsc keeps_option steady_cli)

lemma steady_DNS: "steady I \<Longrightarrow> keeps I (configureDNS plat nc ns)"
  unfolding configureDNS_def configureDNS_darwin_def
  by (cases plat) (auto intro!: go_keeps steady_world)

definition status_free :: "(('h, 'x) tsc_world \<Rightarrow> bool) \<Rightarrow> ConnectState set \<Rightarrow> bool" where
  "status_free I S = (\<forall>t s c. c \<in> S \<longrightarrow> I (t, s) \<longrightarrow> I (t\<lparr>tsc_connState := c\<rparr>, s))"

lemma steady_ExitNode:
  "steady I \<Longrightarrow> plat = Darwin \<longrightarrow> status_free I {Connected} \<Longrightarrow> keeps I (configureExitNode plat nc node)"
  unfolding configureExitNode_def configureExitNode_darwin_def
  by (cases plat) (auto intro!: go_keeps steady_world keeps_set_tsc simp: status_free_def)

lemma steady_login:
  assumes "steady I" "status_free I {Connecting}" "plat = Darwin \<longrightarrow> status_free I {Connected}"
  shows "keeps I (login_and_configure plat cli nc ci cs dns node)"
  unfolding login_and_configure_def
  using assms
  by (auto intro!: go_keeps steady_world steady_cli steady_DNS steady_ping steady_ExitNode
      keeps_set_tsc simp: status_free_def)

lemma steady_login_deferred:
  assumes "steady I" "status_free I {Connecting}" "plat = Darwin \<longrightarrow> status_free I {Connected}"
    and "\<And>t s. I (t, s) \<Longrightarrow> I (t\<lparr>tsc_waitForExitNode := False\<rparr>, s)"
  shows "keeps I (deferg (\<lambda>_ (t, s). (t\<lparr>tsc_waitForExitNode := False\<rparr>, s))
     (\<lambda>(t, s). (t\<lparr>tsc_waitForExitNode := False\<rparr>, s))
     (login_and_configure plat cli nc ci cs dns node))"
  by (rule keeps_defer [OF steady_login [OF assms(1-3)]]) (use assms(4) in \<open>auto split: prod.split\<close>)

text \<open>\<open>Connect\<close> is the call to the pool, the new client stored, and the rest.\<close>

definition connect_rest ::
  "platform \<Rightarrow> ('h, 'x) node_ops \<Rightarrow> ('h, 'x) mycsnode_ops \<Rightarrow>
     ('x, SpaceMeshConnectInfo) rest_exec \<Rightarrow> SpaceMeshConnectInfo \<Rightarrow> 'x cli_ops \<Rightarrow> 'x network_ops \<Rightarrow>
     'h SpaceNode \<Rightarrow> bool \<Rightarrow> bool \<Rightarrow> 'h ApiClient \<Rightarrow> (('h, 'x) tsc_world, error option) go" where
  "connect_rest plat no mo rest zero cli nc space dns egress c =
     bindg (on_world (CreateMeshAuthKey mo rest zero c authKeyExpiration)) (\<lambda>key.
         case key of
           Inl err \<Rightarrow> ret (Some err)
         | Inr connectInfo \<Rightarrow>
             (case no_GetEndpoint no (GetSpaceNode c) of
                Inl err \<Rightarrow> ret (Some err)
              | Inr controlServer \<Rightarrow>
                  if egress then
                    (if no_CanUseAsEgressNode no space then
                       bindg (set_tsc (\<lambda>t. t\<lparr>tsc_waitForExitNode := True\<rparr>)) (\<lambda>_.
                       deferg (\<lambda>_ (t, s). (t\<lparr>tsc_waitForExitNode := False\<rparr>, s))
                         (\<lambda>(t, s). (t\<lparr>tsc_waitForExitNode := False\<rparr>, s))
                         (login_and_configure plat cli nc connectInfo controlServer dns
                            (Some (ci_SpaceNode connectInfo))))
                     else ret (Some (''space '' @ [CHR 0x22] @ no_GetSpaceName no space @ [CHR 0x22] @
                       '' is not configured as an egress node for this device'')))
                  else login_and_configure plat cli nc connectInfo controlServer dns None))"

lemma Connect_eq:
  "Connect plat no mo dc rest zero cli nc space dns egress =
     bindg (on_snd (GetApiClientForSpace no mo dc space)) (\<lambda>got.
     bindg (set_tsc (\<lambda>t. t\<lparr>tsc_apiClient := (case got of Inl _ \<Rightarrow> None | Inr c \<Rightarrow> Some c)\<rparr>)) (\<lambda>_.
     case got of
       Inl err \<Rightarrow> ret (Some err)
     | Inr c \<Rightarrow> connect_rest plat no mo rest zero cli nc space dns egress c))"
  unfolding Connect_def connect_rest_def ..

lemma steady_rest:
  assumes "steady I" "status_free I {Connecting}" "plat = Darwin \<longrightarrow> status_free I {Connected}"
    and "\<And>t s b. I (t, s) \<Longrightarrow> I (t\<lparr>tsc_waitForExitNode := b\<rparr>, s)"
  shows "keeps I (connect_rest plat no mo rest zero cli nc space dns egress c)"
  unfolding connect_rest_def
  using assms
  by (auto intro!: keeps_bind keeps_sum keeps_ret keeps_if keeps_set_tsc steady_world steady_login
      steady_login_deferred)

lemma Connect_Ret:
  assumes "Connect plat no mo dc rest zero cli nc space dns egress (t, sn, w) = (Ret e, s')"
  shows "\<exists>got sn1 w1. GetApiClientForSpace no mo dc space (sn, w) = (Ret got, (sn1, w1)) \<and>
    (case got of
       Inl err \<Rightarrow> e = Some err \<and> s' = (t\<lparr>tsc_apiClient := None\<rparr>, sn1, w1)
     | Inr c \<Rightarrow> connect_rest plat no mo rest zero cli nc space dns egress c
         (t\<lparr>tsc_apiClient := Some c\<rparr>, sn1, w1) = (Ret e, s'))"
proof -
  obtain got s1 where g: "on_snd (GetApiClientForSpace no mo dc space) (t, sn, w) = (Ret got, s1)"
    and r: "bindg (set_tsc (\<lambda>t. t\<lparr>tsc_apiClient := (case got of Inl _ \<Rightarrow> None | Inr c \<Rightarrow> Some c)\<rparr>))
       (\<lambda>_. case got of
         Inl err \<Rightarrow> ret (Some err)
       | Inr c \<Rightarrow> connect_rest plat no mo rest zero cli nc space dns egress c) s1 = (Ret e, s')"
    using assms unfolding Connect_eq bindg_Ret by blast
  obtain sn1 w1 where s1: "s1 = (t, sn1, w1)"
    and got: "GetApiClientForSpace no mo dc space (sn, w) = (Ret got, (sn1, w1))"
    using g by (auto simp: on_snd_def split: prod.splits)
  show ?thesis
    using got r by (cases got) (auto simp: s1 set_tsc_def bindg_put ret_apply)
qed

lemma Connect_None:
  assumes "Connect plat no mo dc rest zero cli nc space dns egress (t, sn, w) = (Ret None, s')"
  shows "\<exists>c sn1 w1. GetApiClientForSpace no mo dc space (sn, w) = (Ret (Inr c), (sn1, w1)) \<and>
    connect_rest plat no mo rest zero cli nc space dns egress c
      (t\<lparr>tsc_apiClient := Some c\<rparr>, sn1, w1) = (Ret None, s')"
proof -
  obtain got sn1 w1 where g: "GetApiClientForSpace no mo dc space (sn, w) = (Ret got, (sn1, w1))"
    and r: "case got of
       Inl err \<Rightarrow> None = Some err \<and> s' = (t\<lparr>tsc_apiClient := None\<rparr>, sn1, w1)
     | Inr c \<Rightarrow> connect_rest plat no mo rest zero cli nc space dns egress c
         (t\<lparr>tsc_apiClient := Some c\<rparr>, sn1, w1) = (Ret None, s')"
    using Connect_Ret [OF assms] by blast
  then show ?thesis by (cases got) auto
qed

section \<open>The status\<close>

lemma Success_no_To:
  "HasPrefix m ''Success'' \<Longrightarrow> \<not> HasPrefix m ''To authorize your machine, visit''"
  "HasPrefix m ''Success'' \<Longrightarrow> \<not> HasPrefix m ''To authenticate, visit''"
  by (auto simp: HasPrefix_iff)

lemma Write_Connected:
  "tsc_connState (snd (Write p t)) = Connected \<longleftrightarrow>
     tsc_connState t = Connected \<or> (tsc_connState t \<noteq> NotConnected \<and> \<not> tsc_waitForExitNode t \<and>
       HasPrefix (trim_msg p) ''Success'')"
  using Success_no_To [of "trim_msg p"] by (auto simp: Write_def Let_def)

lemma Write_NotConnected [simp]:
  "tsc_connState (snd (Write p t)) = NotConnected \<longleftrightarrow> tsc_connState t = NotConnected"
  by (auto simp: Write_def Let_def)

lemma Writes_Cons: "Writes (p # ps) t = Writes ps (snd (Write p t))"
  by (simp add: Writes_def)

lemma Writes_Nil [simp]: "Writes [] t = t"
  by (simp add: Writes_def)

lemma Writes_frame [simp]:
  "tsc_cancelled (Writes ps t) = tsc_cancelled t"
  "tsc_apiClient (Writes ps t) = tsc_apiClient t"
  "tsc_waitForExitNode (Writes ps t) = tsc_waitForExitNode t"
  by (induction ps arbitrary: t) (simp_all add: Writes_Cons)

text \<open>What holds whenever a call returns nil, from what holds when its last part does.\<close>

definition ends :: "('s \<Rightarrow> bool) \<Rightarrow> ('s, error option) go \<Rightarrow> bool" where
  "ends P m = (\<forall>s s'. m s = (Ret None, s') \<longrightarrow> P s')"

lemma ends_bind: "(\<And>a. ends P (f a)) \<Longrightarrow> ends P (bindg m f)"
  by (auto simp: ends_def bindg_Ret)

lemma ends_or_else: "ends P rest \<Longrightarrow> ends P (or_else m rest)"
  by (auto simp: ends_def or_else_None)

lemma ends_error: "ends P (ret (Some err))"
  by (simp add: ends_def ret_def)

lemma ends_sum:
  "(\<And>a. ends P (f a)) \<Longrightarrow> (\<And>b. ends P (g b)) \<Longrightarrow> ends P (case x of Inl a \<Rightarrow> f a | Inr b \<Rightarrow> g b)"
  by (cases x) auto

lemma ends_set: "(\<And>t s. P (u t, s)) \<Longrightarrow> ends P (bindg (set_tsc u) (\<lambda>_. ret None))"
  by (auto simp: ends_def set_tsc_def bindg_put ret_def)

definition is_connected :: "('h, 'x) tsc_world \<Rightarrow> bool" where
  "is_connected s = (tsc_connState (fst s) = Connected)"

lemma ends_configureExitNode: "ends is_connected (configureExitNode Darwin nc node)"
  unfolding configureExitNode_def configureExitNode_darwin_def platform.case
  by (rule ends_or_else, rule ends_bind, rule ends_sum, rule ends_error, rule ends_or_else,
      rule ends_bind, rule ends_or_else, rule ends_or_else, rule ends_set)
    (simp add: is_connected_def)

lemma or_else_ret_None [simp]: "or_else m (ret None) = m"
  unfolding or_else_def
  by (rule ext) (auto simp: bindg_def ret_def split: outcome.splits prod.splits option.splits)

lemma ends_login: "ends is_connected (login_and_configure Darwin cli nc ci cs dns (Some node))"
  unfolding login_and_configure_def
  by (auto intro!: ends_bind ends_or_else ends_configureExitNode)

lemma login_restart:
  "login_and_configure plat cli nc ci cs dns node (t, s) =
     login_and_configure plat cli nc ci cs dns node (t\<lparr>tsc_connState := Connecting\<rparr>, s)"
  by (simp add: login_and_configure_def set_tsc_def bindg_put)

definition waiting :: "('h, 'x) tsc_world \<Rightarrow> bool" where
  "waiting s = (tsc_waitForExitNode (fst s) \<and> tsc_connState (fst s) \<noteq> Connected)"

lemma login_waiting:
  assumes "login_and_configure DefaultPlatform cli nc ci cs dns node (t, s) = (r, (t', s'))"
    and "tsc_waitForExitNode t"
  shows "tsc_connState t' \<noteq> Connected"
proof -
  have "keeps waiting (login_and_configure DefaultPlatform cli nc ci cs dns node)"
    by (rule steady_login) (auto simp: steady_def status_free_def waiting_def Write_Connected)
  then have "waiting (t', s')"
    by (rule keepsD [where w = "(t\<lparr>tsc_connState := Connecting\<rparr>, s)" and r = r])
      (use assms login_restart [of DefaultPlatform cli nc ci cs dns node t s] in
        \<open>auto simp: waiting_def\<close>)
  then show ?thesis by (simp add: waiting_def)
qed

lemma login_darwin:
  "login_and_configure Darwin cli nc ci cs dns (Some node) s = (Ret None, (t', s')) \<Longrightarrow>
     tsc_connState t' = Connected"
  using ends_login [of cli nc ci cs dns node] unfolding ends_def is_connected_def by fastforce

lemma rest_login:
  assumes "connect_rest plat no mo rest zero cli nc space dns egress c (t, sn, w) =
    (Ret None, (t', s'))"
  shows "\<exists>ci cs sn1 w1 t1. login_and_configure plat cli nc ci cs dns
      (if egress then Some (ci_SpaceNode ci) else None)
      (if egress then t\<lparr>tsc_waitForExitNode := True\<rparr> else t, sn1, w1) = (Ret None, (t1, s')) \<and>
    t' = (if egress then t1\<lparr>tsc_waitForExitNode := False\<rparr> else t1)"
proof -
  obtain key s1 where k: "on_world (CreateMeshAuthKey mo rest zero c authKeyExpiration) (t, sn, w) =
      (Ret key, s1)"
    and r: "(case key of Inl err \<Rightarrow> ret (Some err) | Inr connectInfo \<Rightarrow>
             (case no_GetEndpoint no (GetSpaceNode c) of
                Inl err \<Rightarrow> ret (Some err)
              | Inr controlServer \<Rightarrow>
                  if egress then
                    (if no_CanUseAsEgressNode no space then
                       bindg (set_tsc (\<lambda>t. t\<lparr>tsc_waitForExitNode := True\<rparr>)) (\<lambda>_.
                       deferg (\<lambda>_ (t, s). (t\<lparr>tsc_waitForExitNode := False\<rparr>, s))
                         (\<lambda>(t, s). (t\<lparr>tsc_waitForExitNode := False\<rparr>, s))
                         (login_and_configure plat cli nc connectInfo controlServer dns
                            (Some (ci_SpaceNode connectInfo))))
                     else ret (Some (''space '' @ [CHR 0x22] @ no_GetSpaceName no space @ [CHR 0x22] @
                       '' is not configured as an egress node for this device'')))
                  else login_and_configure plat cli nc connectInfo controlServer dns None)) s1 =
        (Ret None, (t', s'))"
    using assms unfolding connect_rest_def bindg_Ret by blast
  have "fst s1 = t" using k by (auto simp: on_world_def on_snd_def split: prod.splits)
  then obtain sn1 w1 where s1: "s1 = (t, sn1, w1)" by (cases s1) auto
  from r show ?thesis
    by (cases egress) (auto simp: s1 ret_def set_tsc_def bindg_put deferg_Ret
        split: sum.splits if_splits, blast+)
qed

section \<open>Properties of the status\<close>

text \<open>
  After any texts were written, the status is connected if and only if it was before,
  or it could still become so, no exit node is awaited and one of the texts, without the line ends
  around it, starts with Success. So connected is final, and an awaited exit node keeps
  Tailscale's own report of success from being shown.
\<close>
lemma status_connected_iff:
  "tsc_connState (Writes ps t) = Connected \<longleftrightarrow>
     tsc_connState t = Connected \<or> (tsc_connState t \<noteq> NotConnected \<and> \<not> tsc_waitForExitNode t \<and>
       (\<exists>p \<in> set ps. HasPrefix (trim_msg p) ''Success''))"
  by (induction ps arbitrary: t) (auto simp: Writes_Cons Write_Connected)

text \<open>
  Property C23. When \<open>Connect\<close> returns nil for a connection that leaves through the space's exit
  node, the exit node is no longer awaited, and the status is connected exactly on Darwin and
  FreeBSD: on the other platforms nothing ever replaces the status that waits for the exit node.
\<close>
theorem egress_connect_status:
  assumes "Connect plat no mo dc rest zero cli nc space dns True (t, sn, w) = (Ret None, (t', s'))"
  shows "\<not> tsc_waitForExitNode t' \<and> (GetStatus t' = ''Connected'' \<longleftrightarrow> plat = Darwin)"
proof -
  obtain c sn1 w1 where "connect_rest plat no mo rest zero cli nc space dns True c
      (t\<lparr>tsc_apiClient := Some c\<rparr>, sn1, w1) = (Ret None, (t', s'))"
    using Connect_None [OF assms] by blast
  from rest_login [OF this, unfolded if_True] obtain ci cs sn2 w2 t1 where
    login: "login_and_configure plat cli nc ci cs dns (Some (ci_SpaceNode ci))
      ((t\<lparr>tsc_apiClient := Some c\<rparr>)\<lparr>tsc_waitForExitNode := True\<rparr>, sn2, w2) = (Ret None, (t1, s'))"
    and t': "t' = t1\<lparr>tsc_waitForExitNode := False\<rparr>"
    by blast
  have "GetStatus t' = ''Connected'' \<longleftrightarrow> tsc_connState t1 = Connected"
    by (cases "tsc_connState t1") (simp_all add: GetStatus_def t')
  moreover have "tsc_connState t1 = Connected \<longleftrightarrow> plat = Darwin"
  proof (cases plat)
    case DefaultPlatform
    then show ?thesis using login login_waiting by fastforce
  next
    case Darwin
    then show ?thesis using login login_darwin by blast
  qed
  ultimately show ?thesis by (simp add: t')
qed

text \<open>
  The states of a client: a new one, and what its operations and written texts make of it, with
  any registry and any world in between.
\<close>

inductive tsc_reach ::
  "platform \<Rightarrow> ('h, 'x) node_ops \<Rightarrow> ('h, 'x) mycsnode_ops \<Rightarrow> 'x DeviceContext \<Rightarrow>
     ('x, SpaceMeshConnectInfo) rest_exec \<Rightarrow> SpaceMeshConnectInfo \<Rightarrow> 'x cli_ops \<Rightarrow> 'x network_ops \<Rightarrow>
     'h TailscaleClient \<Rightarrow> bool"
  for plat no mo dc rest zero cli nc where
  new: "NewTailscaleClient ctx tun name (w :: 'x world) = (Ret (Inr t), w') \<Longrightarrow>
    tsc_reach plat no mo dc rest zero cli nc t"
| connect: "tsc_reach plat no mo dc rest zero cli nc t \<Longrightarrow>
    Connect plat no mo dc rest zero cli nc space dns egress (t, sn, w) = (r, (t', s')) \<Longrightarrow>
    tsc_reach plat no mo dc rest zero cli nc t'"
| disconnect: "tsc_reach plat no mo dc rest zero cli nc t \<Longrightarrow>
    Disconnect no mo cli nc (t, sn, w) = (r, (t', s')) \<Longrightarrow>
    tsc_reach plat no mo dc rest zero cli nc t'"
| written: "tsc_reach plat no mo dc rest zero cli nc t \<Longrightarrow>
    tsc_reach plat no mo dc rest zero cli nc (snd (Write p t))"
| split: "tsc_reach plat no mo dc rest zero cli nc t \<Longrightarrow>
    tsc_reach plat no mo dc rest zero cli nc (AddSplitDestinations ips t)"


inductive_cases tsc_reachE: "tsc_reach plat no mo dc rest zero cli nc t"

definition not_NotConnected :: "('h, 'x) tsc_world \<Rightarrow> bool" where
  "not_NotConnected s = (tsc_connState (fst s) \<noteq> NotConnected)"

lemma steady_not_NotConnected:
  "steady not_NotConnected" "status_free not_NotConnected {Connecting}"
  "status_free not_NotConnected {Connected}"
  by (auto simp: steady_def status_free_def not_NotConnected_def)

lemma Connect_not_NotConnected:
  "keeps not_NotConnected (Connect plat no mo dc rest zero cli nc space dns egress)"
  unfolding Connect_eq
  by (intro keeps_bind keeps_sum keeps_ret keeps_on_snd keeps_set_tsc steady_rest
      steady_not_NotConnected impI)
    (auto simp: not_NotConnected_def)

lemma Disconnect_not_NotConnected:
  "keeps not_NotConnected (Disconnect no mo cli nc)"
  unfolding Disconnect_def
  by (intro keeps_bind keeps_ret keeps_option keeps_get_tsc keeps_on_snd keeps_on_world
      keeps_set_tsc steady_cli steady_not_NotConnected)
    (auto simp: not_NotConnected_def)

text \<open>
  Property C24. No client ever reports that it is not connected: the status is never set to it, so
  a new client reports that it is connecting, and one that was disconnected keeps reporting what
  it reported before.
\<close>
theorem status_never_not_connected:
  assumes "tsc_reach plat no mo dc rest zero cli nc t"
  shows "GetStatus t \<noteq> ''Not connected''"
proof -
  have "tsc_connState t \<noteq> NotConnected"
    using assms
  proof (induction rule: tsc_reach.induct)
    case (new ctx tun name w t w')
    then show ?case
      by (auto simp: NewTailscaleClient_def bindg_call ret_def split: option.splits)
  next
    case (connect t space dns egress sn w r t' s')
    then show ?case
      using keepsD [OF Connect_not_NotConnected _ connect.hyps(2)] by (simp add: not_NotConnected_def)
  next
    case (disconnect t sn w r t' s')
    then show ?case
      using keepsD [OF Disconnect_not_NotConnected _ disconnect.hyps(2)]
      by (simp add: not_NotConnected_def)
  qed (simp_all add: AddSplitDestinations_def)
  then show ?thesis by (cases "tsc_connState t") (simp_all add: GetStatus_def)
qed

lemma set_tsc_bind: "bindg (set_tsc u) f (t, s) = f () (u t, s)"
  by (simp add: set_tsc_def bindg_put)

lemma get_tsc_bind: "bindg (get_tsc g) f (t, s) = f (g t) (t, s)"
  by (simp add: get_tsc_def bindg_get)

section \<open>The exit node\<close>

definition ping_once ::
  "'x cli_ops \<Rightarrow> TSNode \<Rightarrow> (('h, 'x) tsc_world, error option) go" where
  "ping_once cli node = bindg (get_tsc tsc_cancelled) (\<lambda>cancelled.
     run_cli (cli_RunPing cli cancelled (tn_Name node) (tn_IP node) False 1 30))"

lemma ping_once_Ret: "\<exists>e. fst (ping_once cli node s) = Ret e"
  by (cases s) (auto simp: ping_once_def get_tsc_def bindg_get run_cli_def split: prod.split)

lemma ping_loop_step:
  "ping_once cli node s = (Ret e, s') \<Longrightarrow> ping_loop cli node (Suc n) err s =
     (case e of None \<Rightarrow> (Ret None, s') | Some x \<Rightarrow> ping_loop cli node n (Some x) s')"
proof -
  assume p: "ping_once cli node s = (Ret e, s')"
  have "ping_loop cli node (Suc n) err s = bindg (ping_once cli node)
      (\<lambda>e. case e of None \<Rightarrow> ret None | Some _ \<Rightarrow> ping_loop cli node n e) s"
    by (simp add: ping_once_def)
  also have "\<dots> = (case e of None \<Rightarrow> ret None | Some _ \<Rightarrow> ping_loop cli node n e) s'"
    by (rule bindg_step [where m = "ping_once cli node", OF p])
  finally show ?thesis by (simp add: ret_apply split: option.split)
qed

text \<open>The state after \<open>n\<close> pings, and whether the next one is answered.\<close>

definition pinged :: "'x cli_ops \<Rightarrow> TSNode \<Rightarrow> nat \<Rightarrow> ('h, 'x) tsc_world \<Rightarrow> ('h, 'x) tsc_world" where
  "pinged cli node n s = ((\<lambda>v. snd (ping_once cli node v)) ^^ n) s"

definition answered :: "'x cli_ops \<Rightarrow> TSNode \<Rightarrow> nat \<Rightarrow> ('h, 'x) tsc_world \<Rightarrow> bool" where
  "answered cli node n s = (fst (ping_once cli node (pinged cli node n s)) = Ret None)"

lemma pinged_0 [simp]: "pinged cli node 0 s = s"
  by (simp add: pinged_def)

lemma pinged_Suc: "pinged cli node (Suc n) s = pinged cli node n (snd (ping_once cli node s))"
  by (simp add: pinged_def funpow_Suc_right del: funpow.simps)

lemma answered_Suc: "answered cli node (Suc n) s = answered cli node n (snd (ping_once cli node s))"
  by (simp add: answered_def pinged_Suc)

lemma ping_loop_runs:
  "(\<exists>i < n. (\<forall>j < i. \<not> answered cli node j s) \<and> answered cli node i s \<and>
      ping_loop cli node n err s = (Ret None, pinged cli node (Suc i) s)) \<or>
   (\<forall>i < n. \<not> answered cli node i s) \<and> (\<exists>e. ping_loop cli node n err s = (Ret e, pinged cli node n s) \<and>
      (if n = 0 then e = err else fst (ping_once cli node (pinged cli node (n - 1) s)) = Ret e))"
proof (induction n arbitrary: err s)
  case 0
  then show ?case by (simp add: ret_apply)
next
  case (Suc n)
  obtain e s' where p: "ping_once cli node s = (Ret e, s')"
    using ping_once_Ret [of cli node s] by (cases "ping_once cli node s") auto
  show ?case
  proof (cases e)
    case None
    then have "answered cli node 0 s" "ping_loop cli node (Suc n) err s = (Ret None, pinged cli node (Suc 0) s)"
      by (simp_all add: ping_loop_step [OF p] answered_def pinged_Suc p del: ping_loop.simps)
    then show ?thesis by blast
  next
    case (Some x)
    then have first: "\<not> answered cli node 0 s" by (simp add: answered_def p)
    have run: "ping_loop cli node (Suc n) err s = ping_loop cli node n (Some x) s'"
      by (simp add: ping_loop_step [OF p] Some del: ping_loop.simps)
    have later: "answered cli node (Suc i) s = answered cli node i s'" "pinged cli node (Suc i) s = pinged cli node i s'" for i
      by (simp_all add: answered_Suc pinged_Suc p)
    from Suc.IH [of s' "Some x"] show ?thesis
    proof (elim disjE exE conjE)
      fix i assume "i < n" "\<forall>j < i. \<not> answered cli node j s'" "answered cli node i s'"
        "ping_loop cli node n (Some x) s' = (Ret None, pinged cli node (Suc i) s')"
      then show ?thesis
        using first by (intro disjI1 exI [of _ "Suc i"]) (auto simp: run later less_Suc_eq_0_disj simp del: ping_loop.simps)
    next
      fix e' assume none: "\<forall>i < n. \<not> answered cli node i s'"
        and res: "ping_loop cli node n (Some x) s' = (Ret e', pinged cli node n s')"
        and last: "if n = 0 then e' = Some x else fst (ping_once cli node (pinged cli node (n - 1) s')) = Ret e'"
      have "fst (ping_once cli node (pinged cli node n s)) = Ret e'"
        using last later(2) [of "n - 1"] by (cases n) (simp_all add: p Some)
      then show ?thesis
        using none first res by (intro disjI2) (auto simp: run later less_Suc_eq_0_disj simp del: ping_loop.simps)
    qed
  qed
qed

definition login_args_for :: "TSNode \<Rightarrow> string \<Rightarrow> bool \<Rightarrow> 'h TailscaleClient \<Rightarrow> login_args" where
  "login_args_for node controlServer dns t = \<lparr>la_loginServer = controlServer,
     la_hostname = tsc_spaceDeviceName t, la_acceptRoutes = True, la_acceptDNS = dns,
     la_exitNodeIP = Some (tn_IP node), la_exitNodeAllowLANAccess = True\<rparr>"

lemma or_else_step: "m s = (Ret None, s1) \<Longrightarrow> or_else m rest s = rest s1"
  by (simp add: or_else_def bindg_step [where m = m])

lemma login_with_exit_node:
  assumes "run_cli (cli_RunLogin cli (tsc_cancelled t) (ci_AuthKey ci) (login_args_for node cs dns t))
      (t\<lparr>tsc_connState := Connecting\<rparr>, sn, w) = (Ret None, s1)"
    and "(if dns then configureDNS plat nc (ci_DNS ci) else ret None) s1 = (Ret None, s2)"
  shows "login_and_configure plat cli nc ci cs dns (Some node) (t, sn, w) =
    or_else (ping_loop cli node 30 None) (configureExitNode plat nc node) s2"
  unfolding login_and_configure_def set_tsc_bind get_tsc_bind
  using or_else_step [where m = "run_cli (cli_RunLogin cli (tsc_cancelled t) (ci_AuthKey ci) (login_args_for node cs dns t))",
      OF assms(1)]
    or_else_step [where m = "if dns then configureDNS plat nc (ci_DNS ci) else ret None", OF assms(2)]
  by (simp add: login_args_for_def del: ping_loop.simps)

text \<open>
  Property C21. Once Tailscale has logged in and the DNS servers of the space are set, the exit node
  is pinged until a ping is answered, thirty times at most: at the first answered ping the exit
  node is configured, with the result of that, and after thirty pings without an answer the error
  of the last one is returned and the exit node is not configured.
\<close>
theorem exit_node_pinged:
  assumes "run_cli (cli_RunLogin cli (tsc_cancelled t) (ci_AuthKey ci) (login_args_for node cs dns t))
      (t\<lparr>tsc_connState := Connecting\<rparr>, sn, w) = (Ret None, s1)"
    and "(if dns then configureDNS plat nc (ci_DNS ci) else ret None) s1 = (Ret None, s2)"
  shows "(\<exists>i < 30. (\<forall>j < i. \<not> answered cli node j s2) \<and> answered cli node i s2 \<and>
      login_and_configure plat cli nc ci cs dns (Some node) (t, sn, w) =
        configureExitNode plat nc node (pinged cli node (i + 1) s2)) \<or>
    (\<forall>i < 30. \<not> answered cli node i s2) \<and>
      (\<exists>err. fst (ping_once cli node (pinged cli node 29 s2)) = Ret (Some err) \<and>
        login_and_configure plat cli nc ci cs dns (Some node) (t, sn, w) = (Ret (Some err), pinged cli node 30 s2))"
  using ping_loop_runs [of 30 cli node s2 None]
proof (elim disjE exE conjE)
  fix i assume "i < 30" "\<forall>j < i. \<not> answered cli node j s2" "answered cli node i s2"
    and run: "ping_loop cli node 30 None s2 = (Ret None, pinged cli node (Suc i) s2)"
  then show ?thesis
    using or_else_step [where m = "ping_loop cli node 30 None", OF run]
    by (intro disjI1 exI [of _ i]) (simp add: login_with_exit_node [OF assms])
next
  fix e assume none: "\<forall>i < 30. \<not> answered cli node i s2"
    and run: "ping_loop cli node 30 None s2 = (Ret e, pinged cli node 30 s2)"
    and last: "if 30 = (0 :: nat) then e = None else fst (ping_once cli node (pinged cli node (30 - 1) s2)) = Ret e"
  obtain err where "e = Some err"
    using none last by (cases e) (auto simp: answered_def)
  then show ?thesis
    using none last
    by (simp add: login_with_exit_node [OF assms] or_else_def bindg_step [where m = "ping_loop cli node 30 None", OF run]
        ret_apply del: ping_loop.simps)
qed

section \<open>The client pool\<close>

text \<open>After it took its client, \<open>Connect\<close> changes neither the registry nor the client it holds.\<close>

definition pool_fixed :: "'h SpaceNodes \<Rightarrow> 'h ApiClient option \<Rightarrow> ('h, 'x) tsc_world \<Rightarrow> bool" where
  "pool_fixed sn c s = (fst (snd s) = sn \<and> tsc_apiClient (fst s) = c)"

lemma rest_pool_fixed:
  "keeps (pool_fixed sn c) (connect_rest plat no mo rest zero cli nc space dns egress d)"
  by (rule steady_rest) (auto simp: steady_def status_free_def pool_fixed_def)

lemma Connect_pool:
  assumes "Connect plat no mo dc rest zero cli nc space dns egress (t, sn, w) = (Ret e, (t', sn', w'))"
  shows "\<exists>got w1. GetApiClientForSpace no mo dc space (sn, w) = (Ret got, (sn', w1)) \<and>
    tsc_apiClient t' = (case got of Inl _ \<Rightarrow> None | Inr c \<Rightarrow> Some c)"
proof -
  obtain got sn1 w1 where g: "GetApiClientForSpace no mo dc space (sn, w) = (Ret got, (sn1, w1))"
    and r: "case got of
       Inl err \<Rightarrow> e = Some err \<and> (t', sn', w') = (t\<lparr>tsc_apiClient := None\<rparr>, sn1, w1)
     | Inr c \<Rightarrow> connect_rest plat no mo rest zero cli nc space dns egress c
         (t\<lparr>tsc_apiClient := Some c\<rparr>, sn1, w1) = (Ret e, (t', sn', w'))"
    using Connect_Ret [OF assms] by blast
  show ?thesis
  proof (cases got)
    case (Inl err)
    then show ?thesis using g r by auto
  next
    case (Inr c)
    then have run: "connect_rest plat no mo rest zero cli nc space dns egress c
        (t\<lparr>tsc_apiClient := Some c\<rparr>, sn1, w1) = (Ret e, (t', sn', w'))"
      using r by simp
    have "pool_fixed sn1 (Some c) (t\<lparr>tsc_apiClient := Some c\<rparr>, sn1, w1)"
      by (simp add: pool_fixed_def)
    then have "pool_fixed sn1 (Some c) (t', sn', w')"
      by (rule keepsD [OF rest_pool_fixed _ run])
    then show ?thesis using g Inr by (simp add: pool_fixed_def)
  qed
qed

lemma run_cli_bind:
  "c w = ((out, e), w') \<Longrightarrow> bindg (run_cli c) f (t, sn, w) = f e (Writes out t, sn, w')"
  by (simp add: bindg_def run_cli_def)

lemma on_world_put_bind: "bindg (on_world (putg u)) f (t, sn, w) = f () (t, sn, u w)"
  by (simp add: bindg_def on_world_def on_snd_def putg_def)

text \<open>What \<open>Disconnect\<close> does: it always returns, with the result of the last command.\<close>

lemma Disconnect_apply:
  assumes "tsc_apiClient t = Some c" and "ReleaseApiClientForSpace no mo c (sn, w) = (Ret (), (sn', w1))"
    and "cli_RunLogout cli False w1 = ((o1, e1), w2)" and "cli_RunDown cli False w2 = ((o2, e2), w3)"
  shows "Disconnect no mo cli nc (t, sn, w) =
    (Ret e2, (Writes o2 (Writes o1 (t\<lparr>tsc_cancelled := True\<rparr>)), sn', nc_Clear nc w3))"
  using assms
  by (simp add: Disconnect_def set_tsc_bind get_tsc_bind on_world_put_bind run_cli_bind ret_apply
      on_snd_Ret [where m = "ReleaseApiClientForSpace no mo c", OF assms(2)])

lemma Disconnect_none:
  assumes "tsc_apiClient t = None"
    and "cli_RunLogout cli False w = ((o1, e1), w2)" and "cli_RunDown cli False w2 = ((o2, e2), w3)"
  shows "Disconnect no mo cli nc (t, sn, w) =
    (Ret e2, (Writes o2 (Writes o1 (t\<lparr>tsc_cancelled := True\<rparr>)), sn, nc_Clear nc w3))"
  using assms
  by (simp add: Disconnect_def set_tsc_bind get_tsc_bind on_world_put_bind run_cli_bind ret_apply)

lemma Disconnect_pool:
  assumes c: "tsc_apiClient t = Some c"
    and d: "Disconnect no mo cli nc (t, sn, w) = (r, (t', sn', w'))"
  shows "tsc_apiClient t' = Some c \<and> tsc_cancelled t' \<and>
    pool_view sn' = pool_drop (client_key no c) (pool_view sn)"
proof -
  obtain rr sn1 w1 where rel: "ReleaseApiClientForSpace no mo c (sn, w) = (rr, (sn1, w1))"
    by (cases "ReleaseApiClientForSpace no mo c (sn, w)") auto
  have ok: "rr = Ret ()" "pool_view sn1 = pool_drop (client_key no c) (pool_view sn)"
    using Release_view [OF rel] by blast+
  obtain o1 e1 w2 o2 e2 w3 where "cli_RunLogout cli False w1 = ((o1, e1), w2)"
      "cli_RunDown cli False w2 = ((o2, e2), w3)"
    by (metis surj_pair)
  note run = Disconnect_apply [OF c rel [unfolded ok(1)] this]
  show ?thesis using d ok(2) c by (auto simp: run)
qed

lemma Disconnect_cancels:
  assumes "Disconnect no mo cli nc (t, sn, w) = (r, (t', s'))"
  shows "tsc_cancelled t'"
proof (cases "tsc_apiClient t")
  case None
  obtain o1 e1 w2 o2 e2 w3 where "cli_RunLogout cli False w = ((o1, e1), w2)"
      "cli_RunDown cli False w2 = ((o2, e2), w3)"
    by (metis surj_pair)
  then show ?thesis using assms by (auto simp: Disconnect_none [OF None])
next
  case (Some c)
  then show ?thesis using Disconnect_pool assms by (cases s') blast
qed

lemma login_cancelled:
  assumes "login_and_configure plat cli nc ci cs dns node (u, sn, w) = (Ret None, s')" and "tsc_cancelled u"
  shows "\<exists>key args v out v'. cli_RunLogin cli True key args v = ((out, None), v')"
  using assms unfolding login_and_configure_def set_tsc_bind get_tsc_bind
  by (auto simp: or_else_None run_cli_def split: prod.splits) blast


text \<open>What the two commands and the network configuration make of the world.\<close>

definition logged_out :: "'x cli_ops \<Rightarrow> 'x network_ops \<Rightarrow> 'x world \<Rightarrow> 'x world" where
  "logged_out cli nc w = nc_Clear nc (snd (cli_RunDown cli False (snd (cli_RunLogout cli False w))))"

lemma Disconnect_world:
  assumes "tsc_apiClient t = Some c" and "Disconnect no mo cli nc (t, sn, w) = (r, (t', sn', w'))"
    and "pool_view sn (client_key no c) = Some (c, m)"
  shows "w' = logged_out cli nc (if m = 1 then mo_Stop mo (ac_ref c) w else w)"
proof -
  obtain ref where ref: "map_of (sn_spaceAPIClients sn) (client_key no c) = Some ref"
      "apiClient ref = c" "m = unat (refCount ref) + 1"
    using assms(3) by (auto simp: pool_view_def)
  have "\<exists>sn1. ReleaseApiClientForSpace no mo c (sn, w) =
      (Ret (), (sn1, if m = 1 then mo_Stop mo (ac_ref c) w else w))"
    using ref by (auto simp: Release_apply unat_eq_0)
  then obtain sn1 where rel: "ReleaseApiClientForSpace no mo c (sn, w) =
      (Ret (), (sn1, if m = 1 then mo_Stop mo (ac_ref c) w else w))" by blast
  obtain o1 e1 w2 o2 e2 w3 where
      "cli_RunLogout cli False (if m = 1 then mo_Stop mo (ac_ref c) w else w) = ((o1, e1), w2)"
      "cli_RunDown cli False w2 = ((o2, e2), w3)"
    by (metis surj_pair)
  then show ?thesis
    using Disconnect_apply [OF assms(1) rel] assms(2) by (auto simp: logged_out_def)
qed

text \<open>
  Property C26. The client is not forgotten by \<open>Disconnect\<close>, so a second \<open>Disconnect\<close> returns a
  reference that belongs to someone else: if the mesh client and one other user hold the client of
  a node, the first call only counts down, and the second takes the node out of the pool and calls
  \<open>Stop\<close> on the client, under the other user.
\<close>
theorem second_disconnect_drops_others:
  assumes "tsc_apiClient t = Some c" and "pool_view sn (client_key no c) = Some (c, 2)"
    and "Disconnect no mo cli nc (t, sn, w) = (r1, (t1, sn1, w1))"
    and "Disconnect no mo cli nc (t1, sn1, w1) = (r2, (t2, sn2, w2))"
  shows "pool_view sn1 (client_key no c) = Some (c, 1) \<and> w1 = logged_out cli nc w \<and>
    pool_view sn2 (client_key no c) = None \<and> w2 = logged_out cli nc (mo_Stop mo (ac_ref c) w1)"
proof -
  note first = Disconnect_pool [OF assms(1,3)]
  have one: "pool_view sn1 (client_key no c) = Some (c, 1)"
    using first assms(2) by (simp add: pool_drop_def)
  have client: "tsc_apiClient t1 = Some c" using first by blast
  have "pool_view sn2 (client_key no c) = None"
    using Disconnect_pool [OF client assms(4)] one by (simp add: pool_drop_def)
  then show ?thesis
    using one Disconnect_world [OF assms(1,3,2)] Disconnect_world [OF client assms(4) one] by simp
qed

text \<open>
  What becomes of a client from a state \<open>t0\<close> on: its operations and written texts, with any
  registry and any world in between.
\<close>

inductive tsc_later ::
  "platform \<Rightarrow> ('h, 'x) node_ops \<Rightarrow> ('h, 'x) mycsnode_ops \<Rightarrow> 'x DeviceContext \<Rightarrow>
     ('x, SpaceMeshConnectInfo) rest_exec \<Rightarrow> SpaceMeshConnectInfo \<Rightarrow> 'x cli_ops \<Rightarrow> 'x network_ops \<Rightarrow>
     'h TailscaleClient \<Rightarrow> 'h TailscaleClient \<Rightarrow> bool"
  for plat no mo dc rest zero cli nc t0 where
  now: "tsc_later plat no mo dc rest zero cli nc t0 t0"
| connect: "tsc_later plat no mo dc rest zero cli nc t0 t \<Longrightarrow>
    Connect plat no mo dc rest zero cli nc space dns egress (t, s) = (r, (t', s')) \<Longrightarrow>
    tsc_later plat no mo dc rest zero cli nc t0 t'"
| disconnect: "tsc_later plat no mo dc rest zero cli nc t0 t \<Longrightarrow>
    Disconnect no mo cli nc (t, s) = (r, (t', s')) \<Longrightarrow> tsc_later plat no mo dc rest zero cli nc t0 t'"
| written: "tsc_later plat no mo dc rest zero cli nc t0 t \<Longrightarrow>
    tsc_later plat no mo dc rest zero cli nc t0 (snd (Write p t))"
| split: "tsc_later plat no mo dc rest zero cli nc t0 t \<Longrightarrow>
    tsc_later plat no mo dc rest zero cli nc t0 (AddSplitDestinations ips t)"

definition is_cancelled :: "('h, 'x) tsc_world \<Rightarrow> bool" where
  "is_cancelled s = tsc_cancelled (fst s)"

lemma Connect_cancelled: "keeps is_cancelled (Connect plat no mo dc rest zero cli nc space dns egress)"
  unfolding Connect_eq
  by (intro keeps_bind keeps_sum keeps_ret keeps_on_snd keeps_set_tsc steady_rest impI)
    (auto simp: steady_def status_free_def is_cancelled_def)

lemma later_cancelled:
  "tsc_later plat no mo dc rest zero cli nc t0 t \<Longrightarrow> tsc_cancelled t0 \<Longrightarrow> tsc_cancelled t"
proof (induction rule: tsc_later.induct)
  case (connect t space dns egress s r t' s')
  then show ?case using keepsD [OF Connect_cancelled _ connect.hyps(2)] by (simp add: is_cancelled_def)
next
  case (disconnect t s r t' s')
  then show ?case using Disconnect_cancels by (cases s) blast
qed (simp_all add: AddSplitDestinations_def)

text \<open>
  Property C25. A client that was disconnected never gets a new context: however it is used
  afterwards, its context stays cancelled, and a later \<open>Connect\<close> can only return nil if Tailscale
  has logged in under a context that was cancelled before the login began.
\<close>
theorem disconnected_never_reconnects:
  assumes gone: "Disconnect no mo cli nc (t, sn, w) = (r, (t', s'))"
    and later: "tsc_later plat no mo dc rest zero cli nc t' u"
    and again: "Connect plat no mo dc rest zero cli nc space dns egress (u, sn1, w1) = (e, (u', s''))"
  shows "tsc_cancelled u \<and> tsc_cancelled u' \<and>
    (e \<noteq> Ret None \<or> (\<exists>key args v out v'. cli_RunLogin cli True key args v = ((out, None), v')))"
proof -
  have u: "tsc_cancelled u" using later_cancelled [OF later Disconnect_cancels [OF gone]] .
  moreover have "tsc_cancelled u'"
    using keepsD [OF Connect_cancelled _ again] u by (simp add: is_cancelled_def)
  moreover have "\<exists>key args v out v'. cli_RunLogin cli True key args v = ((out, None), v')" if "e = Ret None"
  proof -
    have con: "Connect plat no mo dc rest zero cli nc space dns egress (u, sn1, w1) = (Ret None, (u', s''))"
      using again that by simp
    obtain c sn2 w2 where rest: "connect_rest plat no mo rest zero cli nc space dns egress c
        (u\<lparr>tsc_apiClient := Some c\<rparr>, sn2, w2) = (Ret None, (u', s''))"
      using Connect_None [OF con] by blast
    from rest_login [OF this] obtain ci cs sn3 w3 t1 where login: "login_and_configure plat cli nc ci cs dns
        (if egress then Some (ci_SpaceNode ci) else None)
        (if egress then u\<lparr>tsc_apiClient := Some c, tsc_waitForExitNode := True\<rparr>
         else u\<lparr>tsc_apiClient := Some c\<rparr>, sn3, w3) = (Ret None, (t1, s''))"
      by auto
    show ?thesis by (rule login_cancelled [OF login]) (use u in simp)
  qed
  ultimately show ?thesis by blast
qed

section \<open>Witnesses\<close>

definition test_info :: SpaceMeshConnectInfo where
  "test_info = \<lparr>ci_AuthKey = ''authkey'', ci_DNS = [], ci_SpaceNode = \<lparr>tn_Name = ''exit'',
     tn_IP = ''100.64.0.1'', tn_Endpoints = []\<rparr>\<rparr>"

definition info_rest :: "('x, SpaceMeshConnectInfo) rest_exec" where
  "info_rest ref rq b w =
     (\<lparr>rr_err = None, rr_Body = test_info, rr_Error = True, rr_ErrorMessage = []\<rparr>, w)"

text \<open>Commands that succeed, the login only under a context that is not cancelled.\<close>

definition test_cli :: "'x cli_ops" where
  "test_cli = \<lparr>
     cli_RunLogin = (\<lambda>cancelled _ _ w.
       ((if cancelled then [] else [''Success.''], if cancelled then Some ''context canceled'' else None), w)),
     cli_RunPing = (\<lambda>_ _ _ _ _ _ w. (([''pong''], None), w)),
     cli_RunLogout = (\<lambda>_ w. (([], None), w)),
     cli_RunDown = (\<lambda>_ w. (([], None), w))\<rparr>"

definition test_nc :: "'x network_ops" where
  "test_nc = \<lparr>nc_NewDNSManager = (\<lambda>w. (Inr 0, w)), nc_AddDNSServers = (\<lambda>_ _ w. (None, w)),
     nc_DisableIPv6 = (\<lambda>w. (None, w)), nc_NewRouteManager = (\<lambda>w. (Inr 0, w)),
     nc_AddExternalRouteToIPs = (\<lambda>_ _ w. (None, w)), nc_AddDefaultRoute = (\<lambda>_ _ w. (None, w)),
     nc_Clear = (\<lambda>w. w)\<rparr>"

definition test_tsc :: "bool \<Rightarrow> ConnectState \<Rightarrow> unit ApiClient option \<Rightarrow> unit TailscaleClient" where
  "test_tsc cancelled st c = \<lparr>tsc_cancelled = cancelled, tsc_tunDevName = ''utun0'',
     tsc_spaceDeviceName = ''device'', tsc_apiClient = c, tsc_splitDestinationIPs = [],
     tsc_waitForExitNode = False, tsc_connState = st\<rparr>"

lemma CreateMeshAuthKey_test:
  "bindg (on_world (CreateMeshAuthKey mo info_rest zero c n)) f (t, sn, w) = f (Inr test_info) (t, sn, w)"
  by (simp add: on_world_def CreateMeshAuthKey_def bindg_def on_snd_def exchange_apply
      rest_reply_of_def info_rest_def)

lemma test_Success: "trim_msg ''Success.'' = ''Success.''" "trim_msg ''pong'' = ''pong''"
  by (simp_all add: trim_msg_def TrimLeft_def TrimRight_def line_ends_def)

abbreviation test_connect ::
  "unit TailscaleClient \<times> unit SpaceNodes \<times> mem_ctx world \<Rightarrow>
     error option outcome \<times> unit TailscaleClient \<times> unit SpaceNodes \<times> mem_ctx world" where
  "test_connect \<equiv> Connect DefaultPlatform test_node_ops (stop_ops True) mem_context info_rest
     test_info test_cli test_nc space_1 False True"

abbreviation test_disconnect ::
  "unit TailscaleClient \<times> unit SpaceNodes \<times> mem_ctx world \<Rightarrow>
     error option outcome \<times> unit TailscaleClient \<times> unit SpaceNodes \<times> mem_ctx world" where
  "test_disconnect \<equiv> Disconnect test_node_ops (stop_ops True) test_cli test_nc"

lemma ping_loop_test:
  "ping_loop test_cli node (Suc n) err (t, sn, w) = (Ret None, (Writes [''pong''] t, sn, w))"
  by (simp add: get_tsc_bind run_cli_bind test_cli_def ret_apply)

lemma ping_bind_test:
  "bindg (ping_loop test_cli node (Suc n) err) f (t, sn, w) = f None (Writes [''pong''] t, sn, w)"
  by (rule bindg_step) (rule ping_loop_test)

lemma ping_bind_30:
  "bindg (ping_loop test_cli node 30 err) f (t, sn, w) = f None (Writes [''pong''] t, sn, w)"
  using ping_bind_test [of node 29] by (simp del: ping_loop.simps)

lemma test_login_run:
  "login_and_configure DefaultPlatform test_cli test_nc ci cs False (Some node)
     ((test_tsc False Connecting c)\<lparr>tsc_waitForExitNode := True\<rparr>, sn, w) =
   (Ret None, ((test_tsc False WaitingForExitNode c)\<lparr>tsc_waitForExitNode := True\<rparr>, sn, w))"
proof -
  have login: "cli_RunLogin test_cli False key args w = (([''Success.''], None), w)" for key args
    by (simp add: test_cli_def)
  show ?thesis
    unfolding login_and_configure_def set_tsc_bind get_tsc_bind
    by (simp add: test_tsc_def or_else_def run_cli_bind login Writes_def Write_def Let_def
        test_Success HasPrefix_def ping_bind_30 configureExitNode_def ret_apply
        del: ping_loop.simps)
qed

lemma test_node_ops_simps:
  "\<exists>e. no_GetEndpoint test_node_ops n = Inr e" "no_CanUseAsEgressNode test_node_ops n"
  by (simp_all add: test_node_ops_def)

lemma test_connect_run:
  "test_connect (test_tsc False Connecting None, empty_SpaceNodes, pool_world) =
     (Ret None, (test_tsc False WaitingForExitNode (Some client_1), pool_1 0, pool_world))"
proof -
  have start: "(test_tsc False Connecting None)\<lparr>tsc_apiClient := Some client_1\<rparr> =
      test_tsc False Connecting (Some client_1)"
    by (simp add: test_tsc_def)
  obtain e where e: "no_GetEndpoint (test_node_ops :: (unit, mem_ctx) node_ops) (GetSpaceNode client_1) = Inr e"
    using test_node_ops_simps(1) by blast
  have "connect_rest DefaultPlatform test_node_ops (stop_ops True) info_rest test_info test_cli
      test_nc space_1 False True client_1
      (test_tsc False Connecting (Some client_1), pool_1 0, pool_world) =
     (Ret None, (test_tsc False WaitingForExitNode (Some client_1), pool_1 0, pool_world))"
    unfolding connect_rest_def CreateMeshAuthKey_test
    by (simp add: e test_node_ops_simps(2) set_tsc_bind deferg_def test_login_run)
      (simp add: test_tsc_def)
  then show ?thesis
    by (simp add: Connect_eq on_snd_bind_apply get_free_1 set_tsc_bind start)
qed

lemma test_disconnect_first:
  "test_disconnect (test_tsc False st (Some client_1), pool_1 1, pool_world) =
     (Ret None, (test_tsc True st (Some client_1), pool_1 0, pool_world))"
proof -
  have rel: "ReleaseApiClientForSpace test_node_ops (stop_ops True) client_1 (pool_1 1, pool_world) =
      (Ret (), (pool_1 0, pool_world))"
    by (simp add: Release_apply pool_1_def put_client_def)
  show ?thesis
    using Disconnect_apply [of "test_tsc False st (Some client_1)" client_1 test_node_ops
        "stop_ops True" "pool_1 1" pool_world "pool_1 0" pool_world test_cli "[]" None pool_world
        "[]" None pool_world test_nc, OF _ rel]
    by (simp add: test_tsc_def test_cli_def test_nc_def)
qed

definition stopped_world :: "mem_ctx world" where
  "stopped_world = log_ui [WriteText ''stopped''] pool_world"

lemma test_disconnect_last:
  "test_disconnect (test_tsc b st (Some client_1), pool_1 0, pool_world) =
     (Ret None, (test_tsc True st (Some client_1), empty_SpaceNodes, stopped_world))"
proof -
  have rel: "ReleaseApiClientForSpace test_node_ops (stop_ops True) client_1 (pool_1 0, pool_world) =
      (Ret (), (empty_SpaceNodes, stopped_world))"
    by (simp add: Release_apply pool_1_def empty_SpaceNodes_def stopped_world_def stop_ops_def)
  show ?thesis
    using Disconnect_apply [of "test_tsc b st (Some client_1)" client_1 test_node_ops
        "stop_ops True" "pool_1 0" pool_world empty_SpaceNodes stopped_world test_cli "[]" None
        stopped_world "[]" None stopped_world test_nc, OF _ rel]
    by (simp add: test_tsc_def test_cli_def test_nc_def)
qed

theorem egress_connect_status_witness:
  "GetStatus (test_tsc False WaitingForExitNode (Some client_1)) \<noteq> ''Connected''"
  using egress_connect_status [OF test_connect_run] by simp

theorem status_never_not_connected_witness:
  "GetStatus (test_tsc False Connecting None) \<noteq> ''Not connected''"
proof -
  have "NewTailscaleClient (\<lambda>w. (None, w)) ''utun0'' ''device'' pool_world =
      (Ret (Inr (test_tsc False Connecting None)), pool_world)"
    by (simp add: NewTailscaleClient_def go_monad test_tsc_def ToLower_def to_lower_char_def)
  from tsc_reach.new [OF this] have "tsc_reach DefaultPlatform test_node_ops test_mycsnode
      (mem_context :: mem_ctx DeviceContext) info_rest test_info test_cli test_nc
      (test_tsc False Connecting None)" .
  then show ?thesis by (rule status_never_not_connected)
qed

theorem exit_node_pinged_witness:
  "login_and_configure DefaultPlatform test_cli test_nc test_info ''https://node'' False (Some (ci_SpaceNode test_info))
     (test_tsc False Connecting None, empty_SpaceNodes, pool_world) =
   (Ret None, (test_tsc False Connected None, empty_SpaceNodes, pool_world))"
proof -
  let ?node = "ci_SpaceNode test_info" and ?t = "test_tsc False Connecting None"
  let ?s = "(test_tsc False Connected None, empty_SpaceNodes :: unit SpaceNodes, pool_world)"
  have login: "run_cli (cli_RunLogin test_cli (tsc_cancelled ?t) (ci_AuthKey test_info)
      (login_args_for ?node ''https://node'' False ?t)) (?t\<lparr>tsc_connState := Connecting\<rparr>, empty_SpaceNodes, pool_world) =
    (Ret None, ?s)"
    by (simp add: run_cli_def test_cli_def test_tsc_def Writes_def Write_def Let_def test_Success HasPrefix_def)
  have ping: "ping_once test_cli ?node ?s = (Ret None, ?s)"
    by (simp add: ping_once_def get_tsc_bind run_cli_def test_cli_def test_tsc_def Writes_def Write_def Let_def)
  have dns: "(if False then configureDNS DefaultPlatform test_nc (ci_DNS test_info) else ret None) ?s = (Ret None, ?s)"
    by (simp add: ret_apply)
  have "answered test_cli ?node 0 ?s" "pinged test_cli ?node 1 ?s = ?s"
    by (simp_all add: answered_def pinged_def ping)
  then show ?thesis
    using exit_node_pinged [OF login dns]
    by (auto simp: configureExitNode_def ret_apply) (metis gr0I plus_1_eq_Suc)
qed


theorem second_disconnect_drops_others_witness:
  "\<exists>t1 sn1 w1 t2 sn2 w2. test_disconnect (test_tsc False Connected (Some client_1), pool_1 1, pool_world) =
      (Ret None, (t1, sn1, w1)) \<and> test_disconnect (t1, sn1, w1) = (Ret None, (t2, sn2, w2)) \<and>
    w2 = logged_out test_cli test_nc (mo_Stop (stop_ops True :: (unit, mem_ctx) mycsnode_ops) 0 w1) \<and>
    pool_view sn2 ''space/s1'' = None"
proof -
  have two: "pool_view (pool_1 1) (client_key (test_node_ops :: (unit, mem_ctx) node_ops) client_1) =
      Some (client_1, 2)"
    by (simp add: pool_view_def pool_1_def)
  have client: "tsc_apiClient (test_tsc False Connected (Some client_1)) = Some client_1"
    by (simp add: test_tsc_def)
  have "ac_ref client_1 = 0" by (simp add: client_1_def)
  then show ?thesis
    using second_disconnect_drops_others [OF client two test_disconnect_first test_disconnect_last]
      test_disconnect_first test_disconnect_last by auto
qed

theorem disconnected_never_reconnects_witness:
  "fst (test_connect (test_tsc True Connected (Some client_1), empty_SpaceNodes, stopped_world)) \<noteq> Ret None"
proof -
  obtain e u' s'' where run: "test_connect (test_tsc True Connected (Some client_1), empty_SpaceNodes, stopped_world) =
      (e, (u', s''))" by (metis prod.collapse)
  have "e \<noteq> Ret None \<or> (\<exists>key args v out v'. cli_RunLogin (test_cli :: mem_ctx cli_ops) True key args v = ((out, None), v'))"
    using disconnected_never_reconnects [OF test_disconnect_last tsc_later.now run] by blast
  then show ?thesis using run by (simp add: test_cli_def)
qed

end
