(* ===== verification/User_API.thy ===== *)
theory User_API
  imports Device_API
begin

text \<open>
  \<open>mycscloud/user.go\<close>: the user API of the cloud service. A user is passed by its address. The
  encryption of a user's configuration belongs to the package \<open>cloud-builder\<close>: it is the argument
  \<open>user_ops\<close>.
\<close>

record 'x user_ops =
  uo_DecryptConfig :: "User \<Rightarrow> string \<Rightarrow> error + string"
  uo_EncryptConfig :: "User \<Rightarrow> string \<Rightarrow> 'x world \<Rightarrow> (error + string) \<times> 'x world"

section \<open>Queries\<close>

definition userSearch_request :: "string \<Rightarrow> request" where
  "userSearch_request name = \<lparr>gq_kind = Query,
     gq_tag = ''userSearch(filter: { userName: $userName }, limit: 5)'',
     gq_vars = [(''userName'', GString name)]\<rparr>"

definition UserSearch ::
  "('x, unit, user_info list) gql_exec \<Rightarrow> graphql_client \<Rightarrow> string \<Rightarrow>
     ('x world, error + User list) go" where
  "UserSearch svc api name =
     bindg (exec_gql svc api (userSearch_request name)) (\<lambda>response.
     case response of
       Inl err \<Rightarrow> ret (Inl err)
     | Inr us \<Rightarrow> ret (Inr (if 0 < length us then foldl (\<lambda>users u. users @
         [zero_User\<lparr>u_UserID := ui_UserID u, u_Name := ui_UserName u,
            u_FirstName := ui_FirstName u, u_MiddleName := ui_MiddleName u,
            u_FamilyName := ui_FamilyName u\<rparr>]) [] us else [])))"

definition getUser_request :: request where
  "getUser_request = \<lparr>gq_kind = Query, gq_tag = ''getUser'', gq_vars = []\<rparr>"

record get_user =
  gu_UserID :: string
  gu_PublicKey :: string
  gu_Certificate :: string

definition GetUser ::
  "('x, unit, get_user) gql_exec \<Rightarrow> graphql_client \<Rightarrow> nat \<Rightarrow> ('x world, error + nat) go" where
  "GetUser svc api user =
     bindg (exec_gql svc api getUser_request) (\<lambda>response.
     case response of
       Inl err \<Rightarrow> ret (Inl err)
     | Inr q \<Rightarrow>
         bindg (getg (\<lambda>w. u_UserID (users w user))) (\<lambda>userID.
         if userID \<noteq> gu_UserID q then ret (Inl ''returned user does not match given user'')
         else bindg (putg (\<lambda>w. set_user user ((users w user)\<lparr>u_RSAPublicKey := gu_PublicKey q,
                              u_Certificate := gu_Certificate q\<rparr>) w)) (\<lambda>_.
              ret (Inr user))))"

record get_user_config =
  guc_UserID :: string
  guc_UniversalConfig :: string

text \<open>A user without a configuration has no data: the nil slice.\<close>

definition GetUserConfig ::
  "'x user_ops \<Rightarrow> ('x, unit, get_user_config) gql_exec \<Rightarrow> graphql_client \<Rightarrow> nat \<Rightarrow>
     ('x world, error + string) go" where
  "GetUserConfig uo svc api user =
     bindg (exec_gql svc api getUser_request) (\<lambda>response.
     case response of
       Inl err \<Rightarrow> ret (Inl err)
     | Inr q \<Rightarrow>
         bindg (getg (\<lambda>w. users w user)) (\<lambda>u.
         if u_UserID u \<noteq> guc_UserID q then ret (Inl ''returned user does not match given user'')
         else if 0 < length (guc_UniversalConfig q) then
           (case uo_DecryptConfig uo u (guc_UniversalConfig q) of
              Inl err \<Rightarrow> ret (Inl err)
            | Inr configData \<Rightarrow> ret (Inr configData))
         else ret (Inr [])))"

section \<open>Mutations\<close>

definition updateUserKey_request :: "User \<Rightarrow> request" where
  "updateUserKey_request u = \<lparr>gq_kind = Mutation,
     gq_tag = ''updateUserKey(userKey: { publicKey: $publicKey, keyTimestamp: $keyTimestamp })'',
     gq_vars = [(''publicKey'', GString (u_RSAPublicKey u)),
       (''keyTimestamp'', GString (FormatInt (u_KeyTimestamp u)))]\<rparr>"

definition UpdateUserKey ::
  "('x, unit, string) gql_exec \<Rightarrow> graphql_client \<Rightarrow> nat \<Rightarrow> ('x world, error option) go" where
  "UpdateUserKey svc api user =
     bindg (getg (\<lambda>w. users w user)) (\<lambda>u.
     bindg (exec_gql svc api (updateUserKey_request u)) (\<lambda>response.
     case response of
       Inl err \<Rightarrow> ret (Some err)
     | Inr returnedID \<Rightarrow>
         bindg (getg (\<lambda>w. u_UserID (users w user))) (\<lambda>userID.
         if userID \<noteq> returnedID
         then ret (Some ''updateUserKey returned user does not match given user'')
         else ret None)))"

definition updateUserConfig_request :: "string \<Rightarrow> int64 \<Rightarrow> request" where
  "updateUserConfig_request configData asOfTimestamp = \<lparr>gq_kind = Mutation,
     gq_tag = ''updateUserConfig(universalConfig: $config, asOf: $asOf)'',
     gq_vars = [(''config'', GString configData), (''asOf'', GString (FormatInt asOfTimestamp))]\<rparr>"

text \<open>The text of a \<open>strconv.NumError\<close>, which quotes its input, is the argument \<open>num_text\<close>.\<close>

definition UpdateUserConfig ::
  "(string \<Rightarrow> num_error \<Rightarrow> error) \<Rightarrow> 'x user_ops \<Rightarrow> ('x, unit, string) gql_exec \<Rightarrow> graphql_client \<Rightarrow>
     nat \<Rightarrow> string \<Rightarrow> int64 \<Rightarrow> ('x world, error + int64) go" where
  "UpdateUserConfig num_text uo svc api user config asOfTimestamp =
     bindg (getg (\<lambda>w. users w user)) (\<lambda>u.
     bindg (callg (uo_EncryptConfig uo u config)) (\<lambda>encrypted.
     case encrypted of
       Inl err \<Rightarrow> ret (Inl err)
     | Inr configData \<Rightarrow>
         bindg (exec_gql svc api (updateUserConfig_request configData asOfTimestamp)) (\<lambda>response.
         case response of
           Inl err \<Rightarrow> ret (Inl err)
         | Inr timestamp \<Rightarrow>
             (case ParseInt timestamp of
                Inl e \<Rightarrow> ret (Inl (num_text timestamp e))
              | Inr configTimestamp \<Rightarrow> ret (Inr configTimestamp)))))"

section \<open>Facts\<close>

lemma GetUser_apply:
  "GetUser svc api p w =
     (let r = svc api getUser_request (ext w); w1 = w\<lparr>ext := snd r\<rparr> in
      case fst r of
        Inl err \<Rightarrow> (Ret (Inl err), w1)
      | Inr q \<Rightarrow> if u_UserID (users w p) = gu_UserID q
          then (Ret (Inr p), set_user p ((users w p)\<lparr>u_RSAPublicKey := gu_PublicKey q,
                               u_Certificate := gu_Certificate q\<rparr>) w1)
          else (Ret (Inl ''returned user does not match given user''), w1))"
  by (simp add: GetUser_def go_monad Let_def split: sum.split)

lemma GetUserConfig_apply:
  "GetUserConfig uo svc api p w =
     (let r = svc api getUser_request (ext w); w1 = w\<lparr>ext := snd r\<rparr> in
      (Ret (case fst r of
        Inl err \<Rightarrow> Inl err
      | Inr q \<Rightarrow> if u_UserID (users w p) \<noteq> guc_UserID q
          then Inl ''returned user does not match given user''
          else if guc_UniversalConfig q = [] then Inr []
          else uo_DecryptConfig uo (users w p) (guc_UniversalConfig q)), w1))"
  by (simp add: GetUserConfig_def go_monad Let_def split: sum.split)

end
