(* ===== verification/Cloud_API.thy ===== *)
theory Cloud_API
  imports Space_API
begin

text \<open>
  \<open>mycscloud/cloud.go\<close>, \<open>mycscloud/app.go\<close> and \<open>mycscloud/events.go\<close>: the properties of the cloud
  service, the registration of applications, and the publication of measurement events.
\<close>

section \<open>The authentication context\<close>

text \<open>
  The methods of \<open>config.AuthContext\<close> that the client calls; the object is not part of the
  repository.
\<close>

record 'x AuthContext =
  ax_GetToken :: "'x world token_source"
  ax_IsLoggedIn :: "'x world \<Rightarrow> bool"
  ax_Reset :: "'x world \<Rightarrow> error option \<times> 'x world"
  ax_SetPublicKey :: "string \<Rightarrow> string \<Rightarrow> 'x world \<Rightarrow> 'x world"

section \<open>Cloud properties\<close>

definition cloudProps_request :: request where
  "cloudProps_request = \<lparr>gq_kind = Query, gq_tag = ''mycsCloudProps'', gq_vars = []\<rparr>"

definition UpdateProperties ::
  "('x, unit, string \<times> string) gql_exec \<Rightarrow> graphql_client \<Rightarrow> 'x AuthContext \<Rightarrow>
     ('x world, error option) go" where
  "UpdateProperties svc api authContext =
     bindg (exec_gql svc api cloudProps_request) (\<lambda>response.
     case response of
       Inl err \<Rightarrow> ret (Some err)
     | Inr (publicKeyID, publicKey) \<Rightarrow>
         bindg (putg (ax_SetPublicKey authContext publicKeyID publicKey)) (\<lambda>_. ret None))"

section \<open>Applications\<close>

definition addApp_request :: "'h target_ops \<Rightarrow> 'h Target \<Rightarrow> string \<Rightarrow> string \<Rightarrow> request" where
  "addApp_request to tgt region spaceID = \<lparr>gq_kind = Mutation,
     gq_tag = ''addApp(appName: $appName, appKey: {publicKey: $appPublicKey}, cookbook: $cookbook, recipe: $recipe, iaas: $iaas, region: $region, spaceID: $spaceID)'',
     gq_vars = [(''appName'', GString (to_DeploymentName to tgt)),
       (''appPublicKey'', GString (tg_RSAPublicKey tgt)),
       (''cookbook'', GString (tg_CookbookName tgt)),
       (''recipe'', GString (tg_RecipeName tgt)),
       (''iaas'', GString (tg_RecipeIaas tgt)),
       (''region'', GString region),
       (''spaceID'', GID spaceID)]\<rparr>"

record add_app =
  ada_IdKey :: string
  ada_AppID :: string

text \<open>Unlike \<open>AddSpace\<close>, a target without a region is registered with an empty one.\<close>

definition AddApp ::
  "('x, unit, add_app) gql_exec \<Rightarrow> 'h target_ops \<Rightarrow> graphql_client \<Rightarrow> 'h Target \<Rightarrow> string \<Rightarrow>
     ('x world, error option \<times> 'h Target) go" where
  "AddApp svc to api tgt spaceID =
     (let region = (case to_Region to tgt of None \<Rightarrow> [] | Some r \<Rightarrow> r) in
      bindg (exec_gql svc api (addApp_request to tgt region spaceID)) (\<lambda>response.
      case response of
        Inl err \<Rightarrow> ret (Some err, tgt)
      | Inr m \<Rightarrow> ret (None, tgt\<lparr>tg_NodeKey := ada_IdKey m, tg_NodeID := ada_AppID m\<rparr>)))"

definition deleteApp_request :: "'h Target \<Rightarrow> request" where
  "deleteApp_request tgt = \<lparr>gq_kind = Mutation,
     gq_tag = ''deleteApp(appID: $appID)'',
     gq_vars = [(''appID'', GID (tg_NodeID tgt))]\<rparr>"

definition DeleteApp ::
  "('x, unit, string list) gql_exec \<Rightarrow> graphql_client \<Rightarrow> 'h Target \<Rightarrow>
     ('x world, error + string list) go" where
  "DeleteApp svc api tgt =
     bindg (exec_gql svc api (deleteApp_request tgt)) (\<lambda>response.
     case response of
       Inl err \<Rightarrow> ret (Inl err)
     | Inr userIDs \<Rightarrow> ret (Inr (foldl (\<lambda>acc userID. acc @ [userID]) [] userIDs)))"

section \<open>Measurement events\<close>

text \<open>
  The list of events to publish and the list of errors are built by \<open>mycloudspace-common\<close>, from
  the source and the events (type \<open>'v\<close>) and from the results (\<open>'r\<close>).
\<close>

record ('v, 'p, 'r, 'e) event_ops =
  eo_CreatePublishEventList :: "string \<Rightarrow> 'v list \<Rightarrow> 'p"
  eo_CreateCloudEventErrorList :: "'r list \<Rightarrow> 'v list \<Rightarrow> 'e list"

definition event_source :: "string \<Rightarrow> string \<Rightarrow> string" where
  "event_source deviceID userID = ''urn:mycs:device:'' @ deviceID @ [CHR '':''] @ userID"

definition publishData_request :: "'p \<Rightarrow> 'p gql_request" where
  "publishData_request data = \<lparr>gq_kind = Mutation, gq_tag = ''publishData(data: $data)'',
     gq_vars = [(''data'', GInput data)]\<rparr>"

text \<open>The publisher keeps the URLs and the configuration, of which it uses the two contexts.\<close>

record 'x EventPublisher =
  ep_AuthContext :: "'x AuthContext"
  ep_DeviceContext :: "'x DeviceContext"
  ep_apiUrl :: string
  ep_subUrl :: string

definition NewEventPublisher ::
  "string \<Rightarrow> string \<Rightarrow> 'x AuthContext \<Rightarrow> 'x DeviceContext \<Rightarrow> 'x EventPublisher" where
  "NewEventPublisher apiUrl subUrl authContext dc = \<lparr>ep_AuthContext = authContext,
     ep_DeviceContext = dc, ep_apiUrl = apiUrl, ep_subUrl = subUrl\<rparr>"

definition PostMeasurementEvents ::
  "('v, 'p, 'r, 'e) event_ops \<Rightarrow> ('x, 'p, 'r list) gql_exec \<Rightarrow> transport \<Rightarrow> 'x EventPublisher \<Rightarrow>
     'v list \<Rightarrow> ('x world, error + 'e list) go" where
  "PostMeasurementEvents eo svc tr p cloudEvents =
     bindg (getg (ax_IsLoggedIn (ep_AuthContext p))) (\<lambda>loggedIn.
     if \<not> loggedIn then ret (Inr [])
     else
     bindg (NewGraphQLClientNoPool tr (ax_GetToken (ep_AuthContext p)) (ep_apiUrl p) (ep_subUrl p)) (\<lambda>api.
     bindg (getg (dc_GetDeviceID (ep_DeviceContext p))) (\<lambda>(deviceID, ok).
     if \<not> ok then ret (Inl ''unable to determine current client's device context'')
     else
     bindg (getg (dc_GetLoggedInUserID (ep_DeviceContext p))) (\<lambda>userID.
     bindg (exec_gql svc api (publishData_request
              (eo_CreatePublishEventList eo (event_source deviceID userID) cloudEvents))) (\<lambda>response.
     case response of
       Inl err \<Rightarrow> ret (Inl err)
     | Inr results \<Rightarrow> ret (Inr (eo_CreateCloudEventErrorList eo results cloudEvents)))))))"

end
