(* ===== verification/Auth.thy ===== *)
theory Auth
  imports Cloud_API User_API
begin

text \<open>
  Package \<open>auth\<close>: logging the user in at the identity service, reading the claims of the token,
  and authorising the user on the device. The OAuth flow, the verification of the token, the
  configuration objects and the user's key operations are not part of the repository and are
  arguments. A function that returns a channel here returns the one value that is received from
  it: the channels have room for their value, so that the sender never waits.
\<close>

section \<open>The configuration\<close>

record 'x Config =
  cf_AuthContext :: "'x AuthContext"
  cf_DeviceContext :: "'x DeviceContext"
  cf_SetLoggedInUser :: "string \<Rightarrow> string \<Rightarrow> 'x world \<Rightarrow> error option \<times> 'x world"
  cf_GetConfigAsOf :: "'x world \<Rightarrow> int64"
  cf_SetConfigAsOf :: "int64 \<Rightarrow> 'x world \<Rightarrow> 'x world"
  cf_HasTargetContext :: "'x world \<Rightarrow> bool"
  cf_TargetContextReset :: "'x world \<Rightarrow> error option \<times> 'x world"
  cf_TargetContextLoad :: "string \<Rightarrow> 'x world \<Rightarrow> error option \<times> 'x world"

section \<open>The token\<close>

text \<open>
  \<open>jwk.Fetch\<close> gives the key set \<open>'k\<close> at a URL; \<open>jwt.Parse\<close> verifies a token against it and gives
  its claims: \<open>Get\<close> returns nil for a claim that is not there.
\<close>

record ('k, 'x) jwt_ops =
  jo_Fetch :: "string \<Rightarrow> 'x world \<Rightarrow> (error + 'k) \<times> 'x world"
  jo_Parse :: "string \<Rightarrow> 'k \<Rightarrow> 'x world \<Rightarrow> (error + (string \<Rightarrow> iface)) \<times> 'x world"

record 'k AWSCognitoJWT =
  jwt_jwkSet :: 'k
  jwt_jwtToken :: "string \<Rightarrow> iface"

definition jwks_url :: "ServiceConfig \<Rightarrow> string" where
  "jwks_url sc = ''https://cognito-idp.'' @ sc_Region sc @ ''.amazonaws.com/'' @ sc_UserPoolID sc @
     ''/.well-known/jwks.json''"

definition NewAWSCognitoJWT ::
  "('k, 'x) jwt_ops \<Rightarrow> ServiceConfig \<Rightarrow> 'x AuthContext \<Rightarrow> ('x world, error + 'k AWSCognitoJWT) go" where
  "NewAWSCognitoJWT jo serviceConfig authContext =
     bindg (callg (jo_Fetch jo (jwks_url serviceConfig))) (\<lambda>r.
     case r of
       Inl err \<Rightarrow> ret (Inl err)
     | Inr jwkSet \<Rightarrow>
         bindg (id_token (ax_GetToken authContext)) (\<lambda>tok.
         bindg (callg (jo_Parse jo tok jwkSet)) (\<lambda>p.
         case p of
           Inl err \<Rightarrow> ret (Inl err)
         | Inr claims \<Rightarrow> ret (Inr \<lparr>jwt_jwkSet = jwkSet, jwt_jwtToken = claims\<rparr>))))"

definition jwt_UserID :: "'k AWSCognitoJWT \<Rightarrow> ('w, string) go" where
  "jwt_UserID j = assert_string (jwt_jwtToken j ''custom:userID'')"

definition jwt_Username :: "'k AWSCognitoJWT \<Rightarrow> ('w, string) go" where
  "jwt_Username j = assert_string (jwt_jwtToken j ''cognito:username'')"

text \<open>
  \<open>json.Unmarshal\<close> into the default preferences is the argument \<open>unmarshal\<close>; what it has stored
  when it returns an error is kept.
\<close>

record Preferences =
  pf_PreferredName :: string
  pf_EnableBiometric :: bool
  pf_EnableMFA :: bool
  pf_EnableTOTP :: bool
  pf_RememberFor24h :: bool

definition jwt_Preferences ::
  "(string \<Rightarrow> Preferences \<Rightarrow> Preferences \<times> error option) \<Rightarrow> 'k AWSCognitoJWT \<Rightarrow> Preferences" where
  "jwt_Preferences unmarshal j =
     (let prefs = \<lparr>pf_PreferredName = [], pf_EnableBiometric = False, pf_EnableMFA = False,
            pf_EnableTOTP = False, pf_RememberFor24h = False\<rparr>
      in case jwt_jwtToken j ''custom:preferences'' of
           NilIface \<Rightarrow> prefs
         | OtherIface \<Rightarrow> prefs
         | StringIface data \<Rightarrow> fst (unmarshal data prefs))"

definition getTimesampClaim :: "'k AWSCognitoJWT \<Rightarrow> string \<Rightarrow> int64" where
  "getTimesampClaim j claimKey =
     (case jwt_jwtToken j claimKey of
        NilIface \<Rightarrow> 0
      | OtherIface \<Rightarrow> 0
      | StringIface ts \<Rightarrow> (case ParseInt ts of Inl _ \<Rightarrow> 0 | Inr tsValue \<Rightarrow> tsValue))"

definition jwt_KeyTimestamp :: "'k AWSCognitoJWT \<Rightarrow> int64" where
  "jwt_KeyTimestamp j = getTimesampClaim j ''custom:keyTimestamp''"

definition jwt_ConfigTimestamp :: "'k AWSCognitoJWT \<Rightarrow> int64" where
  "jwt_ConfigTimestamp j = getTimesampClaim j ''custom:configTimestamp''"

section \<open>Authenticate\<close>

record oauth_config =
  oa_ClientID :: string
  oa_ClientSecret :: string
  oa_Scopes :: "string list"
  oa_AuthURL :: string
  oa_TokenURL :: string

definition oauth_config_of :: "ServiceConfig \<Rightarrow> oauth_config" where
  "oauth_config_of sc = \<lparr>oa_ClientID = sc_CliendID sc, oa_ClientSecret = sc_ClientSecret sc,
     oa_Scopes = [''openid'', ''profile''], oa_AuthURL = sc_AuthURL sc, oa_TokenURL = sc_TokenURL sc\<rparr>"

text \<open>The authenticator of \<open>cloud-builder\<close>; a poll gives whether to go on waiting, and an error.\<close>

record 'x authenticator =
  an_IsAuthenticated :: "'x world \<Rightarrow> (bool \<times> error option) \<times> 'x world"
  an_StartOAuthFlow :: "int list \<Rightarrow> 'x world \<Rightarrow> (error + string) \<times> 'x world"
  an_WaitForOAuthFlowCompletion :: "'x world \<Rightarrow> (bool \<times> error option) \<times> 'x world"

definition callbackPorts :: "int list" where
  "callbackPorts = [9080, 19080, 29080, 39080, 49080, 59080]"

text \<open>\<open>exec.Command(...).Run()\<close> is the argument \<open>run\<close>.\<close>

definition openBrowser ::
  "string \<Rightarrow> (string list \<Rightarrow> 'x world \<Rightarrow> error option \<times> 'x world) \<Rightarrow> string \<Rightarrow>
     ('x world, error option) go" where
  "openBrowser goos run url =
     (if goos = ''linux'' then callg (run [''xdg-open'', url])
      else if goos = ''windows'' then callg (run [''rundll32'', ''url.dll,FileProtocolHandler'', url])
      else if goos = ''darwin'' then callg (run [''open'', url])
      else ret (Some ''unsupported platform''))"

text \<open>
  The loop \<open>for wait := true; wait; { wait, err = ... }\<close>: it may go on for ever, and then there is
  no result.
\<close>

partial_function (option) poll_loop ::
  "('w \<Rightarrow> (bool \<times> error option) \<times> 'w) \<Rightarrow> 'w \<Rightarrow> (error option \<times> 'w) option" where
  "poll_loop poll w = (case poll w of ((wait, err), w') \<Rightarrow>
     if wait then poll_loop poll w' else Some (err, w'))"

definition wait_for_flow :: "'x authenticator \<Rightarrow> ('x world, error option) go" where
  "wait_for_flow an = (\<lambda>w. case poll_loop (an_WaitForOAuthFlowCompletion an) w of
     None \<Rightarrow> (Hang, w)
   | Some (err, w') \<Rightarrow> (Ret err, w'))"

definition finish_flow ::
  "transport \<Rightarrow> ('x, unit, string \<times> string) gql_exec \<Rightarrow> 'x authenticator \<Rightarrow> ServiceConfig \<Rightarrow>
     'x AuthContext \<Rightarrow> ('x world, error option) go" where
  "finish_flow tr svc an serviceConfig authContext =
     bindg (show_ui ProgressStart) (\<lambda>_.
     deferg (\<lambda>_. log_ui [ProgressDone]) (log_ui [ProgressDone])
       (bindg (wait_for_flow an) (\<lambda>err.
        case err of
          Some e \<Rightarrow> ret (Some e)
        | None \<Rightarrow>
            bindg (NewGraphQLClient tr (ax_GetToken authContext) (sc_ApiURL serviceConfig) []) (\<lambda>api.
            UpdateProperties svc api authContext))))"

definition Authenticate ::
  "transport \<Rightarrow> ('x, unit, string \<times> string) gql_exec \<Rightarrow> (oauth_config \<Rightarrow> 'x authenticator) \<Rightarrow> string \<Rightarrow>
     (string list \<Rightarrow> 'x world \<Rightarrow> error option \<times> 'x world) \<Rightarrow> ServiceConfig \<Rightarrow> 'x AuthContext \<Rightarrow>
     string list \<Rightarrow> ('x world, error option) go" where
  "Authenticate tr svc NewAuthenticator goos run serviceConfig authContext loginMessages =
     (let an = NewAuthenticator (oauth_config_of serviceConfig) in
      bindg (callg (an_IsAuthenticated an)) (\<lambda>(isAuthenticated, err).
      if err \<noteq> None \<and> err \<noteq> Some ''not authenticated'' then ret err
      else if isAuthenticated then ret None
      else
      bindg (show_ui (NewUIMessageWithCancel ''Login to My Cloud Space'')) (\<lambda>_.
      bindg (if 0 < length loginMessages then show_ui (WriteNoticeMessage (hd loginMessages))
             else ret ()) (\<lambda>_.
      bindg (callg (an_StartOAuthFlow an callbackPorts)) (\<lambda>started.
      case started of
        Inl e \<Rightarrow> ret (Some e)
      | Inr authUrl \<Rightarrow>
          bindg (openBrowser goos run authUrl) (\<lambda>opened.
          bindg (case opened of
                   Some _ \<Rightarrow>
                     bindg (show_ui (WriteNoteMessage (''You need to open a browser window and navigate to the following URL in order to '' @
                       ''login to your My Cloud Space account. Once authenticated the MyCS app will be ready '' @
                       ''for use.''))) (\<lambda>_.
                     show_ui (WriteText (CHR 0x0A # ''=> '' @ authUrl)))
                 | None \<Rightarrow>
                     show_ui (WriteNoteMessage (''You have been directed to a browser window from which you need to login to your '' @
                       ''My Cloud Space account. Once authenticated the MyCS app will be ready for use.''))) (\<lambda>_.
          bindg (show_ui (ShowMessageWithProgressIndicator ''Waiting for authentication to complete.'' []
                   ''Authentication is complete. You are now signed in.'' 0)) (\<lambda>_.
          finish_flow tr svc an serviceConfig authContext))))))))"

text \<open>
  The pages the flow serves: \<open>Write\<close> of the response is the argument \<open>write\<close>, the constant texts of
  \<open>assets.go\<close> and base64 decoding are arguments too. Errors are only logged.
\<close>

definition callBackHandler ::
  "string \<Rightarrow> (string \<Rightarrow> 'w \<Rightarrow> error option \<times> 'w) \<Rightarrow> ('w, unit) go" where
  "callBackHandler authSuccessHTML write = bindg (callg (write authSuccessHTML)) (\<lambda>_. ret ())"

definition logoRequestHandler ::
  "(string \<Rightarrow> error + string) \<Rightarrow> string \<Rightarrow> (string \<Rightarrow> 'w \<Rightarrow> error option \<times> 'w) \<Rightarrow> string \<times> ('w, unit) go" where
  "logoRequestHandler decode appBricksLogoImg write =
     (''/logo.png'',
      case decode appBricksLogoImg of
        Inl _ \<Rightarrow> ret ()
      | Inr data \<Rightarrow> bindg (callg (write data)) (\<lambda>_. ret ()))"

section \<open>Tokens\<close>

definition GetAuthenticatedToken ::
  "('x world, error option) go \<Rightarrow> ('k, 'x) jwt_ops \<Rightarrow> ServiceConfig \<Rightarrow> 'x Config \<Rightarrow> bool \<Rightarrow>
     ('x world, error + 'k AWSCognitoJWT) go" where
  "GetAuthenticatedToken authenticate jo serviceConfig cf forceLogin =
     bindg (if forceLogin then callg (ax_Reset (cf_AuthContext cf)) else ret None) (\<lambda>reset.
     case reset of
       Some err \<Rightarrow> ret (Inl err)
     | None \<Rightarrow>
         bindg authenticate (\<lambda>auth.
         case auth of
           Some err \<Rightarrow> ret (Inl err)
         | None \<Rightarrow>
             bindg (NewAWSCognitoJWT jo serviceConfig (cf_AuthContext cf)) (\<lambda>r.
             case r of
               Inl err \<Rightarrow> ret (Inl err)
             | Inr awsAuth \<Rightarrow>
                 bindg (jwt_UserID awsAuth) (\<lambda>userID.
                 bindg (jwt_Username awsAuth) (\<lambda>userName.
                 bindg (callg (cf_SetLoggedInUser cf userID userName)) (\<lambda>e.
                 case e of
                   Some err \<Rightarrow> ret (Inl err)
                 | None \<Rightarrow> ret (Inr awsAuth)))))))"

text \<open>
  \<open>err.Error()\<close> on a nil error panics: that is what the second branch does when the token is valid
  and its user is the one who is logged in.
\<close>

definition ValidateAuthenticatedToken ::
  "(oauth_config \<Rightarrow> 'x authenticator) \<Rightarrow> ('k, 'x) jwt_ops \<Rightarrow> ServiceConfig \<Rightarrow> 'x Config \<Rightarrow>
     ('x world, bool \<times> error option) go" where
  "ValidateAuthenticatedToken NewAuthenticator jo serviceConfig cf =
     (let an = NewAuthenticator (oauth_config_of serviceConfig) in
      bindg (callg (an_IsAuthenticated an)) (\<lambda>(isAuthenticated, err).
      case err of
        Some e \<Rightarrow> ret (isAuthenticated, Some e)
      | None \<Rightarrow>
          bindg (NewAWSCognitoJWT jo serviceConfig (cf_AuthContext cf)) (\<lambda>r.
          case r of
            Inl e \<Rightarrow> ret (False, Some e)
          | Inr awsAuth \<Rightarrow>
              bindg (jwt_Username awsAuth) (\<lambda>userName.
              bindg (getg (dc_GetLoggedInUserName (cf_DeviceContext cf))) (\<lambda>loggedIn.
              if userName \<noteq> loggedIn then
                bindg (jwt_UserID awsAuth) (\<lambda>userID.
                bindg (callg (cf_SetLoggedInUser cf userID userName)) (\<lambda>e.
                case e of
                  Some s \<Rightarrow> ret (False, Some s)
                | None \<Rightarrow> ret (isAuthenticated, None)))
              else panic ''invalid memory address or nil pointer dereference'')))))"

definition Logout ::
  "('k, 'x) jwt_ops \<Rightarrow> ServiceConfig \<Rightarrow> 'x Config \<Rightarrow> ('x world, error option) go" where
  "Logout jo serviceConfig cf =
     bindg (getg (ax_IsLoggedIn (cf_AuthContext cf))) (\<lambda>loggedIn.
     bindg (if loggedIn
            then bindg (NewAWSCognitoJWT jo serviceConfig (cf_AuthContext cf)) (\<lambda>r. ret (Some r))
            else ret None) (\<lambda>awsAuth.
     case awsAuth of
       Some (Inl err) \<Rightarrow> ret (Some err)
     | _ \<Rightarrow>
         bindg (callg (ax_Reset (cf_AuthContext cf))) (\<lambda>reset.
         case reset of
           Some err \<Rightarrow> ret (Some err)
         | None \<Rightarrow>
             bindg (putg (dc_SetLoggedInUser (cf_DeviceContext cf) [] [])) (\<lambda>_.
             bindg (case awsAuth of
                      Some (Inr j) \<Rightarrow> bindg (jwt_Username j) (\<lambda>_. ret ())
                    | _ \<Rightarrow> ret ()) (\<lambda>_.
             ret None)))))"

end
