(* ===== verification/Authorize.thy ===== *)
theory Authorize
  imports Auth
begin

text \<open>
  \<open>auth/auth.go\<close>: \<open>AuthorizeDeviceAndUser\<close>, which brings the device context up to date, lets a user
  without access ask for it, opens the owner's key and loads a newer configuration; and \<open>Login\<close>,
  which runs it after the user has a token.
\<close>

section \<open>What it calls\<close>

record 'x cloud_services =
  cs_authDevice :: "('x, unit, auth_device) gql_exec"
  cs_addDeviceUser :: "('x, unit, string \<times> string) gql_exec"
  cs_getUserConfig :: "('x, unit, get_user_config) gql_exec"

text \<open>\<open>crypto.NewRSAKeyFromFile\<close> and the method \<open>SetKey\<close> of a user.\<close>

record ('key, 'x) key_ops =
  ko_NewRSAKeyFromFile :: "string \<Rightarrow> string \<Rightarrow> 'x world \<Rightarrow> (error + 'key) \<times> 'x world"
  ko_SetKey :: "nat \<Rightarrow> 'key \<Rightarrow> bool \<Rightarrow> 'x world \<Rightarrow> error option \<times> 'x world"

text \<open>The deferred message about a failed authorization.\<close>

definition report_auth_error :: "error option \<Rightarrow> 'x world \<Rightarrow> 'x world" where
  "report_auth_error authErr = (case authErr of
     None \<Rightarrow> (\<lambda>w. w)
   | Some e \<Rightarrow> log_ui [ShowErrorMessage (''Device authorization failed: '' @ e)])"

section \<open>A user without access\<close>

text \<open>
  The request for access. \<open>Inl\<close> is an early return with the error and the authorization error that
  is still set; \<open>Inr\<close> goes on to reset the authentication context. The channel of the answer has
  no room, so the handler waits for the reader.
\<close>

definition add_guest_failed :: "error \<Rightarrow> error" where
  "add_guest_failed err = ''failed to add new guest user to device: '' @ err"

definition submit_request ::
  "'x cloud_services \<Rightarrow> graphql_client \<Rightarrow> 'x Config \<Rightarrow> nat \<Rightarrow> error \<Rightarrow>
     ('x world, (error option \<times> error option) + (error option \<times> error option)) go" where
  "submit_request cs api cf user authErr =
     bindg (getg (dc_GetDevice (cf_DeviceContext cf))) (\<lambda>device.
     case device of
       None \<Rightarrow> panic ''invalid memory address or nil pointer dereference''
     | Some d \<Rightarrow>
         bindg (getg (\<lambda>w. d_DeviceID (devices w d))) (\<lambda>deviceID.
         bindg (AddDeviceUser (cs_addDeviceUser cs) api deviceID []) (\<lambda>added.
         case added of
           Inl err \<Rightarrow> ret (Inl (Some (add_guest_failed err), Some authErr))
         | Inr _ \<Rightarrow>
             bindg (getg (\<lambda>w. u_Name (users w user))) (\<lambda>name.
             bindg (show_ui (ShowNoteMessage ''Device Access''
                      (''A request to grant user '' @ [CHR 0x22] @ name @ [CHR 0x22] @
                       '' access to this device has been submitted.''))) (\<lambda>_.
             ret (Inr (None, None)))))))"

definition requesting_user ::
  "'x DeviceContext \<Rightarrow> string \<Rightarrow> string \<Rightarrow> ('x world, error + nat) go" where
  "requesting_user dc userID userName =
     bindg (getg (dc_GetGuestUser dc userName)) (\<lambda>(guest, _).
     case guest of
       None \<Rightarrow> callg (dc_NewGuestUser dc userID userName)
     | Some p \<Rightarrow> bindg (putg (\<lambda>w. set_user p ((users w p)\<lparr>u_Active := False\<rparr>) w)) (\<lambda>_. ret (Inr p)))"

definition access_question :: "string \<Rightarrow> ui_event" where
  "access_question userName = WriteNoticeMessage (''User '' @ [CHR 0x22] @ userName @ [CHR 0x22] @
     '' is not authorized to use this device.'' @ [CHR 0x0A, CHR 0x0A] @
     ''Do you wish to request access to this device'')"

definition request_access ::
  "'x cloud_services \<Rightarrow> graphql_client \<Rightarrow> 'x Config \<Rightarrow> string \<Rightarrow> string \<Rightarrow> error \<Rightarrow>
     ('x world, (error option \<times> error option) + (error option \<times> error option)) go" where
  "request_access cs api cf userID userName authErr =
     bindg (show_ui (NewUIMessage ''Device Access'')) (\<lambda>_.
     bindg (show_ui (access_question userName)) (\<lambda>_.
     bindg (ask_yesno 0) (\<lambda>yes.
     if \<not> yes then ret (Inr (Some ''access request declined'', Some authErr))
     else
     bindg (requesting_user (cf_DeviceContext cf) userID userName) (\<lambda>user.
     case user of
       Inl err \<Rightarrow> ret (Inl (Some (add_guest_failed err), Some authErr))
     | Inr p \<Rightarrow> submit_request cs api cf p authErr))))"

definition refused ::
  "'x cloud_services \<Rightarrow> graphql_client \<Rightarrow> 'x Config \<Rightarrow> string \<Rightarrow> string \<Rightarrow> error \<Rightarrow>
     ('x world, error option \<times> error option) go" where
  "refused cs api cf userID userName authErr =
     bindg
       (if authErr = ''unauthorized(pending)'' then
          bindg (show_ui (ShowNoticeMessage ''Device Access''
            (''User '' @ [CHR 0x22] @ userName @ [CHR 0x22] @ '' is not authorized to use this device. A request to grant access to this device is still pending.''))) (\<lambda>_.
          ret (Inr (Some authErr, None)))
        else if authErr = ''unauthorized'' then request_access cs api cf userID userName authErr
        else ret (Inr (Some authErr, Some authErr))) (\<lambda>r.
     case r of
       Inl early \<Rightarrow> ret early
     | Inr result \<Rightarrow> bindg (callg (ax_Reset (cf_AuthContext cf))) (\<lambda>_. ret result))"

section \<open>The owner\<close>

definition open_owner_key ::
  "('key, 'x) key_ops \<Rightarrow> nat \<Rightarrow> ('x world, error option) go" where
  "open_owner_key ko owner =
     bindg (show_ui (NewUIMessage ''Open Device Owner's Key'')) (\<lambda>_.
     bindg (ask_text ShowMessageWithFileInput) (\<lambda>keyFileName.
     case keyFileName of
       None \<Rightarrow> ret (Some ''no key file provided'')
     | Some file \<Rightarrow>
         bindg (show_ui (NewUIMessage ''Key File Passphrase'')) (\<lambda>_.
         bindg (show_ui (WriteInfoMessage ''Enter the passphrase needed to open the key file.'')) (\<lambda>_.
         bindg (ask_text ShowMessageWithSecureInput) (\<lambda>keyFilePassphrase.
         case keyFilePassphrase of
           None \<Rightarrow> ret (Some ''key file needs a passphrase'')
         | Some passphrase \<Rightarrow>
             bindg (callg (ko_NewRSAKeyFromFile ko file passphrase)) (\<lambda>key.
             bindg (case key of Inl err \<Rightarrow> ret (Some err) | Inr k \<Rightarrow> callg (ko_SetKey ko owner k False)) (\<lambda>e.
             case e of
               Some err \<Rightarrow> ret (Some (''failed to load user's private key: '' @ err))
             | None \<Rightarrow> ret None)))))))"

definition sync_config ::
  "'x cloud_services \<Rightarrow> 'x user_ops \<Rightarrow> graphql_client \<Rightarrow> 'x Config \<Rightarrow> nat \<Rightarrow> int64 \<Rightarrow>
     ('x world, error option) go" where
  "sync_config cs uo api cf owner tokenTimestamp =
     (let failed = (\<lambda>err. ret (Some (''failed to sync target context with remote: '' @ err))) in
      bindg (getg (cf_HasTargetContext cf)) (\<lambda>present.
      if \<not> present then ret None
      else
      bindg (getg (cf_GetConfigAsOf cf)) (\<lambda>asOf.
      if \<not> sint asOf < sint tokenTimestamp then ret None
      else
      bindg (GetUserConfig uo (cs_getUserConfig cs) api owner) (\<lambda>r.
      case r of
        Inl err \<Rightarrow> failed err
      | Inr ownerConfig \<Rightarrow>
          bindg (callg (cf_TargetContextReset cf)) (\<lambda>reset.
          case reset of
            Some err \<Rightarrow> failed err
          | None \<Rightarrow>
              bindg (callg (cf_TargetContextLoad cf ownerConfig)) (\<lambda>loaded.
              case loaded of
                Some err \<Rightarrow> failed err
              | None \<Rightarrow> bindg (putg (cf_SetConfigAsOf cf tokenTimestamp)) (\<lambda>_. ret None)))))))"

definition admitted_user ::
  "'x cloud_services \<Rightarrow> 'x user_ops \<Rightarrow> ('key, 'x) key_ops \<Rightarrow> graphql_client \<Rightarrow> 'x Config \<Rightarrow>
     'k AWSCognitoJWT \<Rightarrow> string \<Rightarrow> string \<Rightarrow> ('x world, error option) go" where
  "admitted_user cs uo ko api cf awsAuth userID ownerUserID =
     (if userID \<noteq> ownerUserID then ret None
      else
      bindg (getg (dc_GetOwner (cf_DeviceContext cf))) (\<lambda>owner.
      case owner of
        None \<Rightarrow> panic ''invalid memory address or nil pointer dereference''
      | Some p \<Rightarrow>
          bindg (getg (\<lambda>w. u_RSAPrivateKey (users w p))) (\<lambda>key.
          bindg (if length key = 0 then open_owner_key ko p else ret None) (\<lambda>e.
          case e of
            Some err \<Rightarrow> ret (Some err)
          | None \<Rightarrow> sync_config cs uo api cf p (jwt_ConfigTimestamp awsAuth)))))"

section \<open>AuthorizeDeviceAndUser and Login\<close>

definition AuthorizeDeviceAndUser ::
  "transport \<Rightarrow> ('k, 'x) jwt_ops \<Rightarrow> 'x cloud_services \<Rightarrow> 'x user_ops \<Rightarrow> ('key, 'x) key_ops \<Rightarrow>
     (string list \<Rightarrow> string list) \<Rightarrow> ServiceConfig \<Rightarrow> 'x Config \<Rightarrow> ('x world, error option) go" where
  "AuthorizeDeviceAndUser tr jo cs uo ko ord serviceConfig cf =
     (let dc = cf_DeviceContext cf in
      bindg (NewGraphQLClient tr (ax_GetToken (cf_AuthContext cf)) (sc_ApiURL serviceConfig) []) (\<lambda>api.
      bindg (getg (dc_GetOwnerUserID dc)) (\<lambda>(ownerUserID, isOwnerSet).
      if \<not> isOwnerSet then ret (Some ''no device owner configured'')
      else
      bindg (NewAWSCognitoJWT jo serviceConfig (cf_AuthContext cf)) (\<lambda>r.
      case r of
        Inl err \<Rightarrow> ret (Some err)
      | Inr awsAuth \<Rightarrow>
          bindg (jwt_UserID awsAuth) (\<lambda>userID.
          bindg (jwt_Username awsAuth) (\<lambda>userName.
          bindg (UpdateDeviceContext (cs_authDevice cs) ord api dc) (\<lambda>authErr.
          case authErr of
            Some e \<Rightarrow>
              bindg (deferg (\<lambda>(err, authErr). report_auth_error authErr) (report_auth_error (Some e))
                       (refused cs api cf userID userName e)) (\<lambda>(err, _). ret err)
          | None \<Rightarrow> admitted_user cs uo ko api cf awsAuth userID ownerUserID)))))))"

text \<open>
  The deferred function of \<open>Login\<close>: it also runs when the authorization panics, with a nil error.
  \<open>handle\<close> is the caller's \<open>handleLoginResult\<close>.
\<close>

definition login_exit ::
  "'x Config \<Rightarrow> (error option \<Rightarrow> 'x world \<Rightarrow> 'x world) \<Rightarrow> error option \<Rightarrow> 'x world \<Rightarrow> 'x world" where
  "login_exit cf handle err w =
     handle err (if err \<noteq> None then snd (ax_Reset (cf_AuthContext cf) w) else w)"

text \<open>
  What \<open>Login\<close> does in its goroutine with the channel of the token and the authorization to run.
\<close>

definition login_run ::
  "('x world, error + 'k AWSCognitoJWT) go \<Rightarrow> ('x world, error option) go \<Rightarrow> 'x Config \<Rightarrow>
     (error option \<Rightarrow> 'x world \<Rightarrow> 'x world) \<Rightarrow> ('x world, unit) go" where
  "login_run tokenRet authorize cf handle =
     bindg tokenRet (\<lambda>token.
     bindg (deferg (login_exit cf handle) (login_exit cf handle None)
              (case token of Inl err \<Rightarrow> ret (Some err) | Inr _ \<Rightarrow> authorize)) (\<lambda>_. ret ()))"

definition Login ::
  "transport \<Rightarrow> ('k, 'x) jwt_ops \<Rightarrow> 'x cloud_services \<Rightarrow> 'x user_ops \<Rightarrow> ('key, 'x) key_ops \<Rightarrow>
     (string list \<Rightarrow> string list) \<Rightarrow> ('x, unit, string \<times> string) gql_exec \<Rightarrow>
     (oauth_config \<Rightarrow> 'x authenticator) \<Rightarrow> string \<Rightarrow>
     (string list \<Rightarrow> 'x world \<Rightarrow> error option \<times> 'x world) \<Rightarrow> ServiceConfig \<Rightarrow> 'x Config \<Rightarrow>
     (error option \<Rightarrow> 'x world \<Rightarrow> 'x world) \<Rightarrow> ('x world, unit) go" where
  "Login tr jo cs uo ko ord props NewAuthenticator goos run serviceConfig cf handle =
     login_run
       (GetAuthenticatedToken
          (Authenticate tr props NewAuthenticator goos run serviceConfig (cf_AuthContext cf) [])
          jo serviceConfig cf False)
       (AuthorizeDeviceAndUser tr jo cs uo ko ord serviceConfig cf) cf handle"

end
