(* ===== verification/Auth_Props.thy ===== *)
theory Auth_Props
  imports Authorize Device_Props
begin

text \<open>
  What logging in guarantees: when the wait for the browser ends, what a token's timestamps mean,
  who is authorized, and when a newer configuration replaces the local one.
\<close>

section \<open>The wait for the OAuth flow\<close>

definition nth_world :: "('w \<Rightarrow> 'a \<times> 'w) \<Rightarrow> nat \<Rightarrow> 'w \<Rightarrow> 'w" where
  "nth_world poll i w = ((\<lambda>v. snd (poll v)) ^^ i) w"

lemma nth_world_Suc: "nth_world poll (Suc i) w = nth_world poll i (snd (poll w))"
  by (simp add: nth_world_def funpow_Suc_right del: funpow.simps)

lemma nth_world_0 [simp]: "nth_world poll 0 w = w"
  by (simp add: nth_world_def)

lemma poll_loop_finishes:
  "(\<forall>i < n. fst (fst (poll (nth_world poll i w)))) \<Longrightarrow> fst (poll (nth_world poll n w)) = (False, err) \<Longrightarrow>
     poll_loop poll w = Some (err, nth_world poll (Suc n) w)"
proof (induction n arbitrary: w)
  case 0
  then show ?case
    by (subst poll_loop.simps) (simp add: case_prod_beta nth_world_Suc)
next
  case (Suc n)
  have now: "fst (fst (poll w))" using Suc.prems(1) by (auto dest: spec [of _ 0])
  have later: "\<forall>i < n. fst (fst (poll (nth_world poll i (snd (poll w)))))"
    using Suc.prems(1) by (auto simp: nth_world_Suc dest: spec [of _ "Suc _"])
  have "poll_loop poll (snd (poll w)) = Some (err, nth_world poll (Suc n) (snd (poll w)))"
    by (rule Suc.IH [OF later]) (use Suc.prems(2) in \<open>simp add: nth_world_Suc\<close>)
  then show ?case
    using now by (subst poll_loop.simps) (simp add: case_prod_beta nth_world_Suc)
qed

definition polls_until_done :: "('w \<Rightarrow> (bool \<times> error option) \<times> 'w) \<Rightarrow> 'w \<Rightarrow> error option \<Rightarrow> bool" where
  "polls_until_done poll w err = (\<exists>n. (\<forall>i < n. fst (fst (poll (nth_world poll i w)))) \<and>
     fst (poll (nth_world poll n w)) = (False, err))"

lemma polls_until_done_wait:
  "poll w = ((True, e), w') \<Longrightarrow> polls_until_done poll w' err \<Longrightarrow> polls_until_done poll w err"
  unfolding polls_until_done_def
proof (elim exE conjE)
  fix n
  assume p: "poll w = ((True, e), w')" and n: "\<forall>i < n. fst (fst (poll (nth_world poll i w')))"
    "fst (poll (nth_world poll n w')) = (False, err)"
  have "\<forall>i < Suc n. fst (fst (poll (nth_world poll i w)))"
    using p n(1) by (auto simp: less_Suc_eq_0_disj nth_world_Suc)
  moreover have "fst (poll (nth_world poll (Suc n) w)) = (False, err)"
    using n(2) p by (simp add: nth_world_Suc)
  ultimately show "\<exists>n. (\<forall>i < n. fst (fst (poll (nth_world poll i w)))) \<and>
      fst (poll (nth_world poll n w)) = (False, err)" by blast
qed

lemma polls_until_done_now: "poll w = ((False, err), w') \<Longrightarrow> polls_until_done poll w err"
  unfolding polls_until_done_def by (intro exI [of _ 0]) simp

lemma poll_loop_returns:
  assumes "poll_loop poll w = Some r"
  shows "polls_until_done poll w (fst r)"
proof (rule poll_loop.raw_induct [where P = "\<lambda>poll w r. polls_until_done poll w (fst r)", OF _ assms])
  fix loop :: "('a \<Rightarrow> (bool \<times> error option) \<times> 'a) \<Rightarrow> 'a \<Rightarrow> (error option \<times> 'a) option"
  fix poll :: "'a \<Rightarrow> (bool \<times> error option) \<times> 'a" and w r
  assume IH: "\<And>poll w r. loop poll w = Some r \<Longrightarrow> polls_until_done poll w (fst r)"
    and body: "(case poll w of ((wait, err), w') \<Rightarrow> if wait then loop poll w' else Some (err, w')) = Some r"
  obtain wait err w' where p: "poll w = ((wait, err), w')" by (metis surj_pair)
  show "polls_until_done poll w (fst r)"
  proof (cases wait)
    case True
    then have "loop poll w' = Some r" using body p by simp
    then have later: "polls_until_done poll w' (fst r)" by (rule IH)
    show ?thesis by (rule polls_until_done_wait [OF _ later]) (simp add: p True)
  next
    case False
    then have "poll w = ((False, fst r), w')" using body p by auto
    then show ?thesis by (rule polls_until_done_now)
  qed
qed

text \<open>
  Property C22. The wait for the browser returns if and only if some poll reports that the flow is
  over, and then it returns the error of the first such poll; if no poll ever does, it does not return.
\<close>
theorem wait_for_flow_returns:
  "fst (wait_for_flow an w) = Ret err \<longleftrightarrow>
     (\<exists>n. (\<forall>i < n. fst (fst (an_WaitForOAuthFlowCompletion an
               (nth_world (an_WaitForOAuthFlowCompletion an) i w)))) \<and>
          fst (an_WaitForOAuthFlowCompletion an
               (nth_world (an_WaitForOAuthFlowCompletion an) n w)) = (False, err))"
proof -
  let ?poll = "an_WaitForOAuthFlowCompletion an"
  have "fst (wait_for_flow an w) = Ret err \<longleftrightarrow> (\<exists>w'. poll_loop ?poll w = Some (err, w'))"
    by (auto simp: wait_for_flow_def split: option.split)
  also have "\<dots> \<longleftrightarrow> (\<exists>n. (\<forall>i < n. fst (fst (?poll (nth_world ?poll i w)))) \<and>
      fst (?poll (nth_world ?poll n w)) = (False, err))"
    using poll_loop_finishes [of _ ?poll w err] poll_loop_returns [of ?poll w]
    by (auto simp: polls_until_done_def)
  finally show ?thesis .
qed

section \<open>The claims of a token\<close>

text \<open>
  Property C34. The key timestamp that \<open>UpdateUserKey\<close> sends is the one a token with that text in
  its claim is read to have, for every 64-bit value. Any text with an optional sign and digits is
  read as its decimal value if that fits into 64 bits with a sign; every other text, and a claim
  that is missing or no text, reads as zero.
\<close>
theorem key_timestamp_roundtrip:
  "(case map_of (gq_vars (updateUserKey_request u)) ''keyTimestamp'' of
      Some (GString ts) \<Rightarrow>
        jwt_KeyTimestamp \<lparr>jwt_jwkSet = k, jwt_jwtToken = claims(''custom:keyTimestamp'' := StringIface ts)\<rparr> =
          u_KeyTimestamp u
    | _ \<Rightarrow> False) \<and>
   jwt_KeyTimestamp \<lparr>jwt_jwkSet = k, jwt_jwtToken = claims(''custom:keyTimestamp'' := StringIface s)\<rparr> =
     (if int64_text s then word_of_int (text_value s) else 0) \<and>
   jwt_KeyTimestamp \<lparr>jwt_jwkSet = k, jwt_jwtToken = claims(''custom:keyTimestamp'' := NilIface)\<rparr> = 0 \<and>
   jwt_KeyTimestamp \<lparr>jwt_jwkSet = k, jwt_jwtToken = claims(''custom:keyTimestamp'' := OtherIface)\<rparr> = 0"
proof -
  have "(case ParseInt s of Inl _ \<Rightarrow> 0 | Inr v \<Rightarrow> v) = (if int64_text s then word_of_int (text_value s) else 0)"
    using ParseInt_text [of s] by (auto split: if_splits)
  then show ?thesis
    by (simp add: updateUserKey_request_def jwt_KeyTimestamp_def getTimesampClaim_def decimal.parse_fmt)
qed

section \<open>Validation\<close>

lemma NewAWSCognitoJWT_apply:
  "jo_Fetch jo (jwks_url sc) w = (Inr ks, w1) \<Longrightarrow> ax_GetToken ax w1 = Some extra \<Longrightarrow>
   extra ''id_token'' = StringIface tok \<Longrightarrow> jo_Parse jo tok ks w1 = (Inr claims, w2) \<Longrightarrow>
     NewAWSCognitoJWT jo sc ax w = (Ret (Inr \<lparr>jwt_jwkSet = ks, jwt_jwtToken = claims\<rparr>), w2)"
  by (simp add: NewAWSCognitoJWT_def go_monad bindg_step [OF id_token_Some])

text \<open>
  Property C33. \<open>ValidateAuthenticatedToken\<close> panics whenever the token is valid and its user is the
  one who is logged in already: the message of the error that is nil then is logged.
\<close>
theorem validate_panics_for_current_user:
  assumes "fst (an_IsAuthenticated (NewAuthenticator (oauth_config_of sc)) w) = (True, None)"
    and "NewAWSCognitoJWT jo sc (cf_AuthContext cf)
      (snd (an_IsAuthenticated (NewAuthenticator (oauth_config_of sc)) w)) = (Ret (Inr j), w1)"
    and "jwt_jwtToken j ''cognito:username'' = StringIface (dc_GetLoggedInUserName (cf_DeviceContext cf) w1)"
  shows "fst (ValidateAuthenticatedToken NewAuthenticator jo sc cf w) =
    Panic ''invalid memory address or nil pointer dereference''"
  using assms
  by (simp add: ValidateAuthenticatedToken_def Let_def bindg_call
      bindg_step [where m = "NewAWSCognitoJWT jo sc (cf_AuthContext cf)", OF assms(2)]
      jwt_Username_def bindg_get panic_apply)

section \<open>Logging out\<close>

text \<open>
  Property C31. \<open>Logout\<close> of a user who is logged in first reads the token. If that fails, for
  instance because the key set cannot be fetched, the error is returned and nothing else happens:
  the authentication context is not reset and the device keeps its user. Otherwise the context is
  reset; only when that succeeds is the user of the device cleared and the result nil.
\<close>
theorem logout_needs_token:
  assumes "Logout jo sc cf w = (Ret e, w')"
  defines "ax \<equiv> cf_AuthContext cf"
  shows "(\<exists>err. ax_IsLoggedIn ax w \<and> NewAWSCognitoJWT jo sc ax w = (Ret (Inl err), w') \<and> e = Some err) \<or>
    (\<exists>v. (if ax_IsLoggedIn ax w then \<exists>j. NewAWSCognitoJWT jo sc ax w = (Ret (Inr j), v) else v = w) \<and>
      (case ax_Reset ax v of
         (Some err, v1) \<Rightarrow> e = Some err \<and> w' = v1
       | (None, v1) \<Rightarrow> e = None \<and> w' = dc_SetLoggedInUser (cf_DeviceContext cf) [] [] v1))"
proof (cases "ax_IsLoggedIn ax w")
  case False
  then show ?thesis
    using assms(1) by (auto simp: Logout_def ax_def [symmetric] go_monad split: option.splits prod.splits)
next
  case True
  note start = assms(1) [unfolded Logout_def ax_def [symmetric] bindg_get]
  obtain r v where r: "NewAWSCognitoJWT jo sc ax w = (Ret r, v)"
    using start True by (auto simp: bindg_Ret)
  note read = bindg_step [where m = "NewAWSCognitoJWT jo sc ax", OF r]
  show ?thesis
  proof (cases r)
    case (Inl err)
    then show ?thesis using start True r by (auto simp: bindg_assoc read go_monad)
  next
    case (Inr j)
    have "case ax_Reset ax v of
         (Some err, v1) \<Rightarrow> e = Some err \<and> w' = v1
       | (None, v1) \<Rightarrow> e = None \<and> w' = dc_SetLoggedInUser (cf_DeviceContext cf) [] [] v1"
      using start True Inr
      by (auto simp: bindg_assoc read go_monad jwt_Username_def bindg_Ret assert_string_Ret split: option.splits prod.splits)
    then show ?thesis using True r Inr by auto
  qed
qed

section \<open>Who is authorized\<close>

lemma ask_yesno_Ret:
  "ask_yesno k w = (Ret a, w') \<Longrightarrow> \<not> (k = 0 \<and> ui_sync w) \<and>
     (\<exists>as. yesno_answers w = a # as)"
  by (auto simp: ask_yesno_def go_monad split: if_splits list.splits)

text \<open>
  The request of user \<open>p\<close> for access to the device of the context was sent in the world \<open>w\<close> and
  accepted by the service; and, from the world \<open>w\<close> on in which the user of the token was refused:
  the user was asked, answered yes, was entered in the context, and this request was sent, after
  which the authentication context was reset.
\<close>

definition request_sent ::
  "'x cloud_services \<Rightarrow> graphql_client \<Rightarrow> 'x DeviceContext \<Rightarrow> nat \<Rightarrow> 'x world \<Rightarrow> 'x world \<Rightarrow> bool" where
  "request_sent cs api dc p w w' = (\<exists>d ids v. dc_GetDevice dc w = Some d \<and>
     AddDeviceUser (cs_addDeviceUser cs) api (d_DeviceID (devices w d)) [] w = (Ret (Inr ids), v) \<and>
     w' = log_ui [ShowNoteMessage ''Device Access''
       (''A request to grant user '' @ [CHR 0x22] @ u_Name (users v p) @ [CHR 0x22] @
        '' access to this device has been submitted.'')] v)"

definition answered_yes :: "string \<Rightarrow> 'x world \<Rightarrow> 'x world \<Rightarrow> bool" where
  "answered_yes userName w v = (\<not> ui_sync w \<and> (\<exists>as. yesno_answers w = True # as \<and>
     v = (log_ui [NewUIMessage ''Device Access'', access_question userName, ShowMessageWithYesNoInput] w)
       \<lparr>yesno_answers := as\<rparr>))"

definition access_requested ::
  "'x cloud_services \<Rightarrow> graphql_client \<Rightarrow> 'x Config \<Rightarrow> string \<Rightarrow> string \<Rightarrow> 'x world \<Rightarrow> 'x world \<Rightarrow> bool" where
  "access_requested cs api cf userID userName w w' =
     (\<exists>v1 p v2 v3. answered_yes userName w v1 \<and>
        requesting_user (cf_DeviceContext cf) userID userName v1 = (Ret (Inr p), v2) \<and>
        request_sent cs api (cf_DeviceContext cf) p v2 v3 \<and>
        w' = snd (ax_Reset (cf_AuthContext cf) v3))"

lemma ask_yesno_log:
  "ask_yesno k w = (Ret True, v) \<Longrightarrow> \<exists>as. yesno_answers w = True # as \<and>
     v = (log_ui [ShowMessageWithYesNoInput] w)\<lparr>yesno_answers := as\<rparr>"
  by (auto simp: ask_yesno_def show_ui_bind split: if_splits list.splits)

lemma submit_request_result:
  assumes "submit_request cs api cf p ae w = (Ret x, w')"
  shows "(\<exists>e. x = Inl (Some e, Some ae)) \<or>
    x = Inr (None, None) \<and> request_sent cs api (cf_DeviceContext cf) p w w'"
proof -
  obtain d where d: "dc_GetDevice (cf_DeviceContext cf) w = Some d"
    using assms by (cases "dc_GetDevice (cf_DeviceContext cf) w") (simp_all add: submit_request_def go_monad)
  let ?add = "AddDeviceUser (cs_addDeviceUser cs) api (d_DeviceID (devices w d)) []"
  obtain added v where added: "?add w = (Ret added, v)"
    using assms d by (auto simp: submit_request_def bindg_get bindg_Ret)
  show ?thesis
  proof (cases added)
    case (Inl e)
    then show ?thesis
      using assms by (simp add: submit_request_def bindg_get d bindg_step [where m = ?add, OF added] ret_apply) auto
  next
    case (Inr ids)
    then show ?thesis
      using assms added d
      by (simp add: submit_request_def request_sent_def bindg_step [where m = ?add, OF added] go_monad show_ui_bind)
  qed
qed

lemma request_access_result:
  assumes "request_access cs api cf uid un ae w = (Ret x, w')"
  shows "(\<exists>e. x = Inl (Some e, Some ae)) \<or> x = Inr (Some ''access request declined'', Some ae) \<or>
    x = Inr (None, None) \<and> (\<exists>v1 p v2. answered_yes un w v1 \<and>
      requesting_user (cf_DeviceContext cf) uid un v1 = (Ret (Inr p), v2) \<and>
      request_sent cs api (cf_DeviceContext cf) p v2 w')"
proof -
  obtain yes v where yes: "ask_yesno 0 (log_ui [access_question un] (log_ui [NewUIMessage ''Device Access''] w)) = (Ret yes, v)"
    using assms by (auto simp: request_access_def show_ui_bind bindg_Ret)
  show ?thesis
  proof (cases yes)
    case False
    then show ?thesis
      using assms by (simp add: request_access_def show_ui_bind bindg_step [where m = "ask_yesno 0", OF yes] ret_apply)
  next
    case True
    then have yes': "ask_yesno 0 (log_ui [access_question un] (log_ui [NewUIMessage ''Device Access''] w)) = (Ret True, v)"
      using yes by simp
    have answer: "answered_yes un w v"
      using ask_yesno_Ret [OF yes] ask_yesno_log [OF yes']
      by (auto simp: answered_yes_def log_ui_def)
    obtain user v' where user: "requesting_user (cf_DeviceContext cf) uid un v = (Ret user, v')"
      and then_submit: "(case user of
          Inl err \<Rightarrow> ret (Inl (Some (add_guest_failed err), Some ae))
        | Inr p \<Rightarrow> submit_request cs api cf p ae) v' = (Ret x, w')"
      using assms True by (auto simp: request_access_def show_ui_bind bindg_step [where m = "ask_yesno 0", OF yes] bindg_Ret)
    show ?thesis
      using then_submit answer user
      by (cases user) (auto simp: ret_apply dest!: submit_request_result)
  qed
qed

lemma refused_None:
  assumes "refused cs api cf uid un e w = (Ret (None, b), w')"
  shows "b = None \<and> e = ''unauthorized'' \<and> access_requested cs api cf uid un w w'"
proof -
  have e: "e = ''unauthorized''"
  proof (rule ccontr)
    assume "e \<noteq> ''unauthorized''"
    then show False using assms by (simp add: refused_def go_monad split: if_splits)
  qed
  then obtain x v where x: "request_access cs api cf uid un e w = (Ret x, v)"
    using assms by (auto simp: refused_def bindg_Ret)
  then have after: "(case x of Inl early \<Rightarrow> ret early
      | Inr result \<Rightarrow> bindg (callg (ax_Reset (cf_AuthContext cf))) (\<lambda>_. ret result)) v = (Ret (None, b), w')"
    using assms e by (simp add: refused_def bindg_step [where m = "request_access cs api cf uid un ''unauthorized''", OF x [unfolded e]])
  have "x = Inr (None, None)" and "b = None" and "w' = snd (ax_Reset (cf_AuthContext cf) v)"
    using request_access_result [OF x] after by (auto simp: go_monad)
  then show ?thesis
    using request_access_result [OF x] e unfolding access_requested_def by auto
qed

lemma AuthorizeDeviceAndUser_None:
  assumes "AuthorizeDeviceAndUser tr jo cs uo ko ord sc cf w = (Ret None, w')"
  shows "\<exists>c j w1 w2 r. NewGraphQLClient tr (ax_GetToken (cf_AuthContext cf)) (sc_ApiURL sc) [] w = (Ret c, w) \<and>
    NewAWSCognitoJWT jo sc (cf_AuthContext cf) w = (Ret (Inr j), w1) \<and>
    UpdateDeviceContext (cs_authDevice cs) ord c (cf_DeviceContext cf) w1 = (Ret r, w2) \<and>
    (r = None \<or>
     r = Some ''unauthorized'' \<and> (\<exists>userID userName.
       jwt_jwtToken j ''custom:userID'' = StringIface userID \<and>
       jwt_jwtToken j ''cognito:username'' = StringIface userName \<and>
       access_requested cs c cf userID userName w2 w'))"
proof -
  let ?ax = "cf_AuthContext cf"
  obtain c where c: "NewGraphQLClient tr (ax_GetToken ?ax) (sc_ApiURL sc) [] w = (Ret c, w)"
    using assms NewGraphQLClient_Ret by (fastforce simp: AuthorizeDeviceAndUser_def Let_def bindg_Ret)
  obtain ou where ou: "dc_GetOwnerUserID (cf_DeviceContext cf) w = (ou, True)"
    using assms by (auto simp: AuthorizeDeviceAndUser_def Let_def bindg_step [where m = "NewGraphQLClient tr (ax_GetToken ?ax) (sc_ApiURL sc) []", OF c] go_monad
        split: prod.splits if_splits)
  note start = assms [unfolded AuthorizeDeviceAndUser_def Let_def bindg_step [where m = "NewGraphQLClient tr (ax_GetToken ?ax) (sc_ApiURL sc) []", OF c] bindg_get ou]
  obtain jr w1 where jr: "NewAWSCognitoJWT jo sc ?ax w = (Ret jr, w1)"
    using start by (auto simp: bindg_Ret)
  obtain j where j: "jr = Inr j"
    using start by (cases jr) (simp_all add: bindg_step [where m = "NewAWSCognitoJWT jo sc ?ax", OF jr] ret_apply)
  obtain uid un where ids: "jwt_jwtToken j ''custom:userID'' = StringIface uid"
      "jwt_jwtToken j ''cognito:username'' = StringIface un"
    using start by (auto simp: bindg_step [where m = "NewAWSCognitoJWT jo sc ?ax", OF jr] j bindg_Ret
        jwt_UserID_def jwt_Username_def assert_string_Ret)
  note after = start [simplified, unfolded bindg_step [where m = "NewAWSCognitoJWT jo sc ?ax", OF jr],
      simplified j sum.case jwt_UserID_def jwt_Username_def ids assert_string.simps bindg_ret]
  obtain r w2 where r: "UpdateDeviceContext (cs_authDevice cs) ord c (cf_DeviceContext cf) w1 = (Ret r, w2)"
    using after by (auto simp: bindg_Ret)
  show ?thesis
  proof (cases r)
    case None
    then show ?thesis using c jr r j by blast
  next
    case (Some e)
    then obtain b v where no: "refused cs c cf uid un e w2 = (Ret (None, b), v)" "w' = report_auth_error b v"
      using after by (auto simp: bindg_step [where m = "UpdateDeviceContext (cs_authDevice cs) ord c (cf_DeviceContext cf)", OF r]
          bindg_Ret deferg_def ret_apply split: prod.splits outcome.splits)
    then have "w' = v" using refused_None [OF no(1)] by (simp add: report_auth_error_def)
    then show ?thesis
      using refused_None [OF no(1)] c jr r j ids Some by blast
  qed
qed

text \<open>
  Property C18. \<open>AuthorizeDeviceAndUser\<close> succeeds only if the service admits the user of the token
  to the device of the context; or if it says that the user is not authorized, this user is asked
  about access and answers yes, is entered in the context, and the service accepts the request for
  access to the device of the context that is sent then. In the second case the call succeeds
  although it has just reset the authentication context, and does nothing after that.
\<close>
theorem authorize_success_cases:
  assumes "AuthorizeDeviceAndUser tr jo cs uo ko ord sc cf w = (Ret None, w')"
  shows "\<exists>c j w1 w2 r. NewGraphQLClient tr (ax_GetToken (cf_AuthContext cf)) (sc_ApiURL sc) [] w = (Ret c, w) \<and>
    NewAWSCognitoJWT jo sc (cf_AuthContext cf) w = (Ret (Inr j), w1) \<and>
    UpdateDeviceContext (cs_authDevice cs) ord c (cf_DeviceContext cf) w1 = (Ret r, w2) \<and>
    (r = None \<or>
     r = Some ''unauthorized'' \<and> (\<exists>userID userName.
       jwt_jwtToken j ''custom:userID'' = StringIface userID \<and>
       jwt_jwtToken j ''cognito:username'' = StringIface userName \<and>
       access_requested cs c cf userID userName w2 w'))"
  by (rule AuthorizeDeviceAndUser_None [OF assms])

section \<open>A configuration for the witnesses\<close>

text \<open>
  An identity service whose every token is that of a given user, and a configuration around the
  in-memory device context whose reset logs the user out.
\<close>

definition login_token :: "'x world token_source" where
  "login_token = (\<lambda>_. Some ((\<lambda>_. NilIface)(''id_token'' := StringIface ''token'')))"

definition test_claims :: "string \<Rightarrow> string \<Rightarrow> int64 \<Rightarrow> string \<Rightarrow> iface" where
  "test_claims i n t = (\<lambda>_. NilIface)(''custom:userID'' := StringIface i,
     ''cognito:username'' := StringIface n, ''custom:configTimestamp'' := StringIface (FormatInt t))"

definition test_jwt :: "string \<Rightarrow> string \<Rightarrow> int64 \<Rightarrow> (unit, 'x) jwt_ops" where
  "test_jwt i n t = \<lparr>jo_Fetch = (\<lambda>_ w. (Inr (), w)), jo_Parse = (\<lambda>_ _ w. (Inr (test_claims i n t), w))\<rparr>"

definition test_auth_context :: "'m mem_ctx_scheme AuthContext" where
  "test_auth_context = \<lparr>ax_GetToken = login_token, ax_IsLoggedIn = (\<lambda>_. True),
     ax_Reset = (\<lambda>w. (None, map_ext (\<lambda>x. x\<lparr>m_logged_in := ([], [])\<rparr>) w)),
     ax_SetPublicKey = (\<lambda>_ _ w. w)\<rparr>"

definition test_config :: "bool \<Rightarrow> 'm mem_ctx_scheme Config" where
  "test_config has_target = \<lparr>cf_AuthContext = test_auth_context, cf_DeviceContext = mem_context,
     cf_SetLoggedInUser = (\<lambda>i n w. (None, map_ext (\<lambda>x. x\<lparr>m_logged_in := (i, n)\<rparr>) w)),
     cf_GetConfigAsOf = (\<lambda>w. of_nat (m_next (ext w))),
     cf_SetConfigAsOf = (\<lambda>t. map_ext (\<lambda>x. x\<lparr>m_next := unat t\<rparr>)),
     cf_HasTargetContext = (\<lambda>_. has_target),
     cf_TargetContextReset = (\<lambda>w. (None, w)),
     cf_TargetContextLoad = (\<lambda>_ w. (None, w))\<rparr>"

definition test_cloud :: "auth_device \<Rightarrow> get_user_config \<Rightarrow> 'x cloud_services" where
  "test_cloud q guc = \<lparr>cs_authDevice = test_service q,
     cs_addDeviceUser = (\<lambda>_ _ x. (Inr (''1234'', ''2222''), x)),
     cs_getUserConfig = (\<lambda>_ _ x. (Inr guc, x))\<rparr>"

definition test_sc :: ServiceConfig where
  "test_sc = \<lparr>sc_Region = ''us-east-1'', sc_UserPoolID = ''pool'', sc_CliendID = ''client'',
     sc_ClientSecret = [], sc_AuthURL = [], sc_TokenURL = [], sc_ApiURL = ''http://localhost''\<rparr>"

definition test_user_ops :: "'x user_ops" where
  "test_user_ops = \<lparr>uo_DecryptConfig = (\<lambda>_ d. Inr d), uo_EncryptConfig = (\<lambda>_ d w. (Inr d, w))\<rparr>"

definition test_key_ops :: "(unit, 'x) key_ops" where
  "test_key_ops = \<lparr>ko_NewRSAKeyFromFile = (\<lambda>_ _ w. (Inr (), w)), ko_SetKey = (\<lambda>_ _ _ w. (None, w))\<rparr>"

lemmas test_auth_defs = login_token_def test_claims_def test_jwt_def test_auth_context_def
  test_config_def test_cloud_def test_sc_def test_user_ops_def test_key_ops_def test_service_def

text \<open>A guest without access who says yes.\<close>

definition asking_world :: "mem_ctx world" where
  "asking_world = test_world\<lparr>yesno_answers := [True]\<rparr>"

definition no_access :: auth_device where
  "no_access = test_answer\<lparr>ad_AccessType := ''unauthorized''\<rparr>"

abbreviation asking_run :: "error option outcome \<times> mem_ctx world" where
  "asking_run \<equiv> AuthorizeDeviceAndUser (gc_transport test_client) (test_jwt ''2222'' ''guest2'' 0)
     (test_cloud no_access \<lparr>guc_UserID = [], guc_UniversalConfig = []\<rparr>) test_user_ops test_key_ops rev test_sc
     (test_config False) asking_world"

lemma asking_run_submits: "fst asking_run = Ret None"
  by code_simp

theorem authorize_success_cases_witness:
  "\<exists>w' c j w1 w2 r. asking_run = (Ret None, w') \<and>
    NewAWSCognitoJWT (test_jwt ''2222'' ''guest2'' 0) test_sc test_auth_context asking_world = (Ret (Inr j), w1) \<and>
    UpdateDeviceContext (test_service no_access) rev c mem_context w1 = (Ret r, w2) \<and>
    (r = None \<or> (\<exists>i n. access_requested (test_cloud no_access \<lparr>guc_UserID = [], guc_UniversalConfig = []\<rparr>) c
       (test_config False) i n w2 w'))"
proof -
  obtain w' where run: "asking_run = (Ret None, w')"
    using asking_run_submits by (metis prod.collapse)
  have same: "cf_AuthContext (test_config False) = test_auth_context"
    "cf_DeviceContext (test_config False) = mem_context"
    "cs_authDevice (test_cloud no_access q) = test_service no_access" for q
    by (simp_all add: test_config_def test_cloud_def)
  show ?thesis using authorize_success_cases [OF run, unfolded same] run by blast
qed

text \<open>
  Property C32. With a user interface that calls the handler of the question before the \<open>Show\<close>
  method returns, \<open>AuthorizeDeviceAndUser\<close> never returns for a user without access: the handler
  sends the answer on a channel without room, from the goroutine that would read it.
\<close>
theorem sync_ui_deadlocks:
  assumes "NewGraphQLClient tr (ax_GetToken (cf_AuthContext cf)) (sc_ApiURL sc) [] w = (Ret c, w)"
    and "snd (dc_GetOwnerUserID (cf_DeviceContext cf) w)"
    and "NewAWSCognitoJWT jo sc (cf_AuthContext cf) w = (Ret (Inr j), w1)"
    and "jwt_jwtToken j ''custom:userID'' = StringIface uid"
    and "jwt_jwtToken j ''cognito:username'' = StringIface un"
    and "UpdateDeviceContext (cs_authDevice cs) ord c (cf_DeviceContext cf) w1 =
      (Ret (Some ''unauthorized''), w2)"
    and "ui_sync w2"
  shows "fst (AuthorizeDeviceAndUser tr jo cs uo ko ord sc cf w) = Hang"
proof -
  obtain ou where ou: "dc_GetOwnerUserID (cf_DeviceContext cf) w = (ou, True)"
    using assms(2) by (cases "dc_GetOwnerUserID (cf_DeviceContext cf) w") simp
  have "fst (request_access cs c cf uid un ''unauthorized'' w2) = Hang"
    using assms(7) by (simp add: request_access_def ask_yesno_def go_monad bindg_def show_ui_def putg_def)
  then obtain v where hung: "request_access cs c cf uid un ''unauthorized'' w2 = (Hang, v)"
    by (metis prod.collapse)
  have "refused cs c cf uid un ''unauthorized'' w2 = (Hang, v)"
    by (simp add: refused_def) (simp add: bindg_def hung)
  then show ?thesis
    by (simp add: AuthorizeDeviceAndUser_def Let_def bindg_step [where m = "NewGraphQLClient tr (ax_GetToken (cf_AuthContext cf)) (sc_ApiURL sc) []", OF assms(1)]
        bindg_get ou bindg_step [where m = "NewAWSCognitoJWT jo sc (cf_AuthContext cf)", OF assms(3)]
        jwt_UserID_def jwt_Username_def assms(4,5)
        bindg_step [where m = "UpdateDeviceContext (cs_authDevice cs) ord c (cf_DeviceContext cf)", OF assms(6)])
      (simp add: bindg_def deferg_def)
qed

theorem sync_ui_deadlocks_witness:
  "fst (AuthorizeDeviceAndUser (gc_transport test_client) (test_jwt ''2222'' ''guest2'' 0)
     (test_cloud no_access \<lparr>guc_UserID = [], guc_UniversalConfig = []\<rparr>) test_user_ops test_key_ops rev test_sc
     (test_config False) (asking_world\<lparr>ui_sync := True\<rparr>)) = Hang"
proof -
  let ?w = "asking_world\<lparr>ui_sync := True\<rparr>"
  let ?cs = "test_cloud no_access \<lparr>guc_UserID = [], guc_UniversalConfig = []\<rparr> :: mem_ctx cloud_services"
  let ?c = "\<lparr>gc_url = ''http://localhost'', gc_idToken = ''token'', gc_transport = gc_transport test_client,
    gc_Timeout = 0\<rparr>"
  let ?j = "\<lparr>jwt_jwkSet = (), jwt_jwtToken = test_claims ''2222'' ''guest2'' 0\<rparr>"
  show ?thesis
  proof (rule sync_ui_deadlocks [where c = ?c and j = ?j and uid = "''2222''" and un = "''guest2''"
        and ?w1.0 = ?w and ?w2.0 = ?w])
    show "NewGraphQLClient (gc_transport test_client) (ax_GetToken (cf_AuthContext (test_config False)))
        (sc_ApiURL test_sc) [] ?w = (Ret ?c, ?w)"
      by (simp add: NewGraphQLClient_def id_token_def test_auth_defs go_monad)
    show "NewAWSCognitoJWT (test_jwt ''2222'' ''guest2'' 0) test_sc (cf_AuthContext (test_config False)) ?w =
        (Ret (Inr ?j), ?w)"
      by (simp add: NewAWSCognitoJWT_def id_token_def test_auth_defs go_monad)
    show "UpdateDeviceContext (cs_authDevice ?cs) rev ?c (cf_DeviceContext (test_config False)) ?w =
        (Ret (Some ''unauthorized''), ?w)"
      by (simp add: UpdateDeviceContext_def update_guest_def test_auth_defs mem_context_def asking_world_def
          no_access_def test_answer_def test_world_def go_monad)
  qed (simp_all add: test_auth_defs mem_context_def asking_world_def test_world_def)
qed

section \<open>The configuration of the owner\<close>

definition sync_failed :: "error \<Rightarrow> error option" where
  "sync_failed err = Some (''failed to sync target context with remote: '' @ err)"

text \<open>
  Property C19. The owner's configuration is fetched if and only if there is a target context and it
  is older than the token says, as signed 64-bit timestamps; otherwise nothing happens and the
  result is nil. Once fetched and decrypted it is loaded into the target context after a reset,
  and only when all three succeed is the result nil and the context as new as the token says. An
  error of any of them is returned, and then the timestamp is not touched, so that the next login
  fetches the configuration again; an error of the load leaves a context that was reset.
\<close>
theorem sync_config_latest:
  assumes "sync_config cs uo api cf owner t w = (Ret e, w')"
    and "\<And>a v. cf_GetConfigAsOf cf (cf_SetConfigAsOf cf a v) = a"
  shows "if cf_HasTargetContext cf w \<and> sint (cf_GetConfigAsOf cf w) < sint t
    then \<exists>r v1. GetUserConfig uo (cs_getUserConfig cs) api owner w = (Ret r, v1) \<and> (case r of
        Inl err \<Rightarrow> e = sync_failed err \<and> w' = v1
      | Inr data \<Rightarrow> (case cf_TargetContextReset cf v1 of
          (Some err, v2) \<Rightarrow> e = sync_failed err \<and> w' = v2
        | (None, v2) \<Rightarrow> (case cf_TargetContextLoad cf data v2 of
            (Some err, v3) \<Rightarrow> e = sync_failed err \<and> w' = v3
          | (None, v3) \<Rightarrow> e = None \<and> w' = cf_SetConfigAsOf cf t v3 \<and> cf_GetConfigAsOf cf w' = t)))
    else e = None \<and> w' = w"
proof (cases "cf_HasTargetContext cf w \<and> sint (cf_GetConfigAsOf cf w) < sint t")
  case False
  then show ?thesis using assms(1) by (auto simp: sync_config_def Let_def go_monad split: if_splits)
next
  case True
  note start = assms(1) [unfolded sync_config_def Let_def bindg_get]
  obtain r v1 where r: "GetUserConfig uo (cs_getUserConfig cs) api owner w = (Ret r, v1)"
    using start True by (auto simp: bindg_Ret)
  note got = bindg_step [where m = "GetUserConfig uo (cs_getUserConfig cs) api owner", OF r]
  show ?thesis
    using start True assms(2) r
    by (auto simp: got go_monad sync_failed_def split: sum.split prod.split option.split)
qed

theorem sync_config_latest_witness:
  "\<exists>w'. sync_config (test_cloud test_answer \<lparr>guc_UserID = ''0000'', guc_UniversalConfig = ''config''\<rparr>)
      test_user_ops test_client (test_config True) 0 7 test_world = (Ret None, w') \<and>
    cf_GetConfigAsOf (test_config True) w' = 7"
proof -
  let ?run = "sync_config (test_cloud test_answer \<lparr>guc_UserID = ''0000'', guc_UniversalConfig = ''config''\<rparr>)
      test_user_ops test_client (test_config True) 0 7 test_world"
  have "fst ?run = Ret None" by code_simp
  then obtain w' where run: "?run = (Ret None, w')" by (metis prod.collapse)
  have "cf_GetConfigAsOf (test_config True) w' = 7"
    using sync_config_latest [OF run] by (auto simp: test_config_def test_world_def sync_failed_def split: sum.splits)
      (metis sum.exhaust)
  then show ?thesis using run by blast
qed

section \<open>Logging in\<close>

lemma Login_returned:
  assumes "Login tr jo cs uo ko ord props NewAuthenticator goos run sc cf handle w = (Ret (), w')"
  shows "\<exists>err v. w' = login_exit cf handle err v \<and>
    (let token = GetAuthenticatedToken (Authenticate tr props NewAuthenticator goos run sc
           (cf_AuthContext cf) []) jo sc cf False w in
     (\<exists>e. token = (Ret (Inl e), v) \<and> err = Some e) \<or>
     (\<exists>j u. token = (Ret (Inr j), u) \<and> AuthorizeDeviceAndUser tr jo cs uo ko ord sc cf u = (Ret err, v)))"
proof -
  let ?token = "GetAuthenticatedToken (Authenticate tr props NewAuthenticator goos run sc
      (cf_AuthContext cf) []) jo sc cf False"
  obtain token u where token: "?token w = (Ret token, u)"
    using assms by (auto simp: Login_def login_run_def bindg_Ret)
  obtain err v where err: "(case token of Inl err \<Rightarrow> ret (Some err)
      | Inr _ \<Rightarrow> AuthorizeDeviceAndUser tr jo cs uo ko ord sc cf) u = (Ret err, v)"
    and w': "w' = login_exit cf handle err v"
    using assms
    by (auto simp: Login_def login_run_def bindg_step [where m = ?token, OF token] bindg_Ret deferg_def ret_apply
        split: prod.splits outcome.splits)
  show ?thesis
    using token err w' by (cases token) (auto simp: ret_apply Let_def)
qed


definition test_authenticator :: "oauth_config \<Rightarrow> 'x authenticator" where
  "test_authenticator oa = \<lparr>an_IsAuthenticated = (\<lambda>w. ((True, None), w)),
     an_StartOAuthFlow = (\<lambda>_ w. (Inr [], w)), an_WaitForOAuthFlowCompletion = (\<lambda>w. ((False, None), w))\<rparr>"

text \<open>A guest of the device who is let in, and a handler that shows what it is given.\<close>

definition guest_access :: auth_device where
  "guest_access = test_answer\<lparr>ad_AccessType := ''guest''\<rparr>"

definition show_result :: "error option \<Rightarrow> 'x world \<Rightarrow> 'x world" where
  "show_result err = log_ui [case err of None \<Rightarrow> WriteText ''ok'' | Some e \<Rightarrow> ShowErrorMessage e]"

abbreviation test_token :: "mem_ctx world \<Rightarrow> (error + unit AWSCognitoJWT) outcome \<times> mem_ctx world" where
  "test_token \<equiv> GetAuthenticatedToken (Authenticate (gc_transport test_client)
     (\<lambda>_ _ x. (Inr ([], []), x)) test_authenticator ''linux'' (\<lambda>_ w. (None, w)) test_sc test_auth_context [])
     (test_jwt ''2222'' ''guest2'' 0) test_sc (test_config False) False"

abbreviation test_login :: "unit outcome \<times> mem_ctx world" where
  "test_login \<equiv> Login (gc_transport test_client) (test_jwt ''2222'' ''guest2'' 0)
     (test_cloud guest_access \<lparr>guc_UserID = [], guc_UniversalConfig = []\<rparr>) test_user_ops test_key_ops rev
     (\<lambda>_ _ x. (Inr ([], []), x)) test_authenticator ''linux'' (\<lambda>_ w. (None, w)) test_sc (test_config False)
     show_result test_world"

abbreviation guest_cloud :: "mem_ctx cloud_services" where
  "guest_cloud \<equiv> test_cloud guest_access \<lparr>guc_UserID = [], guc_UniversalConfig = []\<rparr>"


theorem logout_needs_token_witness:
  "\<exists>w'. Logout ((test_jwt ''0000'' ''owner'' 0)\<lparr>jo_Fetch := (\<lambda>_ w. (Inl ''offline'', w))\<rparr>) test_sc (test_config False)
     test_world = (Ret (Some ''offline''), w') \<and> m_logged_in (ext w') = (''0000'', ''owner'')"
proof -
  let ?jo = "(test_jwt ''0000'' ''owner'' 0)\<lparr>jo_Fetch := (\<lambda>_ w. (Inl ''offline'', w))\<rparr>"
  let ?run = "Logout ?jo test_sc (test_config False) test_world"
  have "fst ?run = Ret (Some ''offline'')" by code_simp
  then obtain w' where run: "?run = (Ret (Some ''offline''), w')" by (metis prod.collapse)
  have "NewAWSCognitoJWT ?jo test_sc (cf_AuthContext (test_config False)) test_world =
      (Ret (Inl ''offline''), test_world)"
    by (simp add: NewAWSCognitoJWT_def go_monad)
  then have "w' = test_world"
    using logout_needs_token [OF run] by (auto simp: test_config_def test_auth_context_def)
  then show ?thesis using run by (simp add: test_world_def)
qed

theorem validate_panics_for_current_user_witness:
  "fst (ValidateAuthenticatedToken test_authenticator (test_jwt ''0000'' ''owner'' 0) test_sc
     (test_config False) test_world) = Panic ''invalid memory address or nil pointer dereference''"
  by (rule validate_panics_for_current_user [where j = "\<lparr>jwt_jwkSet = (), jwt_jwtToken = test_claims ''0000'' ''owner'' 0\<rparr>"
        and ?w1.0 = test_world])
    (simp_all add: test_authenticator_def NewAWSCognitoJWT_def id_token_def test_auth_defs go_monad
      mem_context_def test_world_def)

definition third_poll :: "mem_ctx authenticator" where
  "third_poll = (test_authenticator (oauth_config_of test_sc))\<lparr>an_WaitForOAuthFlowCompletion :=
     (\<lambda>w. ((m_next (ext w) < 6, None), map_ext (\<lambda>x. x\<lparr>m_next := Suc (m_next x)\<rparr>) w))\<rparr>"

theorem wait_for_flow_returns_witness: "fst (wait_for_flow third_poll test_world) = Ret None"
  by (rule wait_for_flow_returns [THEN iffD2], rule exI [of _ 2])
    (simp add: third_poll_def less_Suc_eq all_conj_distrib nth_world_def test_world_def eval_nat_numeral)

end
