(* ===== verification/Device_Info.thy ===== *)
theory Device_Info
  imports Go_Prelude
begin

text \<open>
  Package \<open>system\<close>: the type and the version string of the device. Each platform determines the
  type in the background and hands it to the first caller of \<open>GetDeviceType\<close> that waits for it.
  Running a system utility and extracting the matches of a pattern from its output belong to
  \<open>goutils\<close> and are arguments.
\<close>

section \<open>The device type and its cache\<close>

text \<open>
  \<open>dt_pending\<close> is the value that the background search sends or will send: the channel has no room,
  so the sender waits for a reader. Whether it is ready within the second that a reader waits is
  the argument \<open>in_time\<close>.
\<close>

record device_type_state =
  dt_deviceType :: string
  dt_pending :: "string option"

definition GetDeviceType :: "bool \<Rightarrow> (device_type_state, string) go" where
  "GetDeviceType in_time =
     bindg (getg dt_deviceType) (\<lambda>deviceType.
     bindg (if length deviceType = 0 then
              putg (\<lambda>s. case dt_pending s of
                  None \<Rightarrow> s\<lparr>dt_deviceType := ''Unknown''\<rparr>
                | Some t \<Rightarrow> if in_time then s\<lparr>dt_deviceType := t, dt_pending := None\<rparr>
                            else s\<lparr>dt_deviceType := ''Unknown''\<rparr>)
            else ret ()) (\<lambda>_.
     getg dt_deviceType))"

definition GetDeviceVersion :: "string \<Rightarrow> string \<Rightarrow> string \<Rightarrow> string \<Rightarrow> string" where
  "GetDeviceVersion GOOS GOARCH clientType clientVersion =
     clientType @ ''/'' @ GOOS @ '':'' @ GOARCH @ ''/'' @ clientVersion"

section \<open>Determining the type\<close>

text \<open>
  \<open>run.NewCLI\<close> for a path, \<open>Run\<close> with arguments (the text it has written to the buffer, or an
  error), and \<open>utils.ExtractMatches\<close>: for the name of each pattern that occurs in the text, its
  matches, each with its groups. A map without the key gives nil. Each definition gives the one
  value that is sent on the channel.
\<close>

record 'w system_ops =
  so_NewCLI :: "string \<Rightarrow> 'w \<Rightarrow> error option \<times> 'w"
  so_Run :: "string \<Rightarrow> string list \<Rightarrow> 'w \<Rightarrow> (error + string) \<times> 'w"
  so_ExtractMatches :: "string \<Rightarrow> (string \<times> string) list \<Rightarrow> string \<Rightarrow> string list list option"

definition run_utility ::
  "'w system_ops \<Rightarrow> string \<Rightarrow> string list \<Rightarrow> ('w, string option) go" where
  "run_utility so path args =
     bindg (callg (so_NewCLI so path)) (\<lambda>err.
     case err of
       Some _ \<Rightarrow> ret None
     | None \<Rightarrow> bindg (callg (so_Run so path args)) (\<lambda>r.
         case r of Inl _ \<Rightarrow> ret None | Inr text \<Rightarrow> ret (Some text)))"

text \<open>\<open>results[k][0]\<close> for a key that is there, and \<open>m[1]\<close>: an index out of range panics.\<close>

definition index0 :: "'a list \<Rightarrow> ('w, 'a) go" where
  "index0 xs = (if 0 < length xs then ret (xs ! 0)
     else panic ''runtime error: index out of range [0]'')"

definition index1 :: "'a list \<Rightarrow> ('w, 'a) go" where
  "index1 xs = (if 1 < length xs then ret (xs ! 1)
     else panic ''runtime error: index out of range [1]'')"

text \<open>The group of the first match when \<open>enough\<close> holds of its number of groups.\<close>

definition first_group ::
  "(nat \<Rightarrow> bool) \<Rightarrow> string list list option \<Rightarrow> ('w, string option) go" where
  "first_group enough r = (case r of
     None \<Rightarrow> ret None
   | Some ms \<Rightarrow> bindg (index0 ms) (\<lambda>m.
       if enough (length m) then bindg (index1 m) (\<lambda>g. ret (Some g)) else ret None))"

text \<open>The patterns: a line with a label and a text, with one group for the text.\<close>

definition any_blanks :: string where
  "any_blanks = [CHR 0x5C, CHR ''s'', CHR ''*'']"

definition label_pattern :: "string \<Rightarrow> string \<Rightarrow> string" where
  "label_pattern start label =
     ''^'' @ start @ label @ [CHR 0x5C] @ ''s+(.*)'' @ any_blanks @ ''$''"

definition detect_darwin :: "'w system_ops \<Rightarrow> ('w, string) go" where
  "detect_darwin so =
     (let deviceType = ''DarwinPC'' in
      bindg (run_utility so ''/usr/sbin/system_profiler'' [''SPHardwareDataType'']) (\<lambda>out.
      case out of
        None \<Rightarrow> ret deviceType
      | Some text \<Rightarrow>
          bindg (first_group (\<lambda>n. n = 2) (so_ExtractMatches so text
                   [(''modelName'', label_pattern any_blanks ''Model Name:'')] ''modelName'')) (\<lambda>model.
          case model of
            Some modelName \<Rightarrow> ret modelName
          | None \<Rightarrow>
              bindg (run_utility so ''/usr/bin/sw_vers'' []) (\<lambda>out.
              case out of
                None \<Rightarrow> ret deviceType
              | Some text \<Rightarrow>
                  (let results = so_ExtractMatches so text
                         [(''productName'', label_pattern [] ''ProductName:''),
                          (''productVersion'', label_pattern [] ''ProductVersion:'')] in
                   bindg (first_group (\<lambda>n. 1 < n) (results ''productVersion'')) (\<lambda>productVersion.
                   bindg (first_group (\<lambda>n. \<not> n < 1) (results ''productName'')) (\<lambda>productName.
                   case productName of
                     None \<Rightarrow> ret deviceType
                   | Some name \<Rightarrow> ret (''DarwinPC/'' @ name @ '':'' @
                       (case productVersion of None \<Rightarrow> [] | Some v \<Rightarrow> v)))))))))"

definition detect_linux :: "'w system_ops \<Rightarrow> ('w, string) go" where
  "detect_linux so =
     (let deviceType = ''LinuxPC'' in
      bindg (run_utility so ''/usr/bin/systemd-detect-virt'' []) (\<lambda>out.
      case out of
        None \<Rightarrow> ret deviceType
      | Some text \<Rightarrow>
          (let virtType = TrimSpace text in
           if virtType = ''none'' then ret deviceType
           else if virtType = ''oracle'' then ret ''LinuxVM/virtualbox''
           else if virtType \<in> set [''openvz'', ''lxc'', ''lxc-libvirt'', ''systemd-nspawn'', ''docker'',
                     ''podman'', ''rkt'', ''wsl'', ''proot'', ''pouch'']
           then ret (''LinuxContainer/'' @ virtType)
           else ret (''LinuxVM/'' @ virtType))))"

definition detect_windows :: "'w system_ops \<Rightarrow> ('w, string) go" where
  "detect_windows so =
     (let deviceType = ''WindowsPC'' in
      bindg (run_utility so ''C:/Windows/System32/systeminfo.exe'' []) (\<lambda>out.
      case out of
        None \<Rightarrow> ret deviceType
      | Some text \<Rightarrow>
          (let results = so_ExtractMatches so text
                 [(''systemModel'', label_pattern [] ''System Model:''),
                  (''hyperVReqmts'', label_pattern [] ''Hyper-V Requirements:'')];
               text_of = (\<lambda>r. case r of None \<Rightarrow> [] | Some t \<Rightarrow> t) in
           bindg (first_group (\<lambda>n. n = 2) (results ''systemModel'')) (\<lambda>systemModel.
           bindg (first_group (\<lambda>n. n = 2) (results ''hyperVReqmts'')) (\<lambda>hyperVReqmts.
           if HasPrefix (text_of hyperVReqmts) ''A hypervisor has been detected.'' then
             (if HasPrefix (text_of systemModel) ''VirtualBox'' then ret ''WindowsVM/VirtualBox''
              else if HasPrefix (text_of systemModel) ''VMware'' then ret ''WindowsVM/VMware''
              else ret ''WindowsVM'')
           else ret deviceType)))))"

section \<open>What is determined\<close>

lemma GetDeviceType_apply:
  "GetDeviceType b s =
     (let t = if dt_deviceType s \<noteq> [] then dt_deviceType s
              else (case dt_pending s of Some v \<Rightarrow> if b then v else ''Unknown'' | None \<Rightarrow> ''Unknown'') in
      (Ret t, s\<lparr>dt_deviceType := t,
         dt_pending := if dt_deviceType s = [] \<and> b then None else dt_pending s\<rparr>))"
  by (simp add: GetDeviceType_def go_monad Let_def split: option.split)

text \<open>
  Once \<open>GetDeviceType\<close> has given a type, every later call gives the same one, whatever
  the background search delivers afterwards; a search that is not ready for the first call within
  a second is therefore never used, and the type is \<open>Unknown\<close> for good.
\<close>
lemma device_type_sticky:
  "(dt_deviceType s = [] \<longrightarrow> dt_pending s = None \<or> \<not> b \<longrightarrow> fst (GetDeviceType b s) = Ret ''Unknown'') \<and>
   (fst (GetDeviceType b s) \<noteq> Ret [] \<longrightarrow>
      fst (GetDeviceType b' ((snd (GetDeviceType b s))\<lparr>dt_pending := p\<rparr>)) = fst (GetDeviceType b s))"
  by (simp add: GetDeviceType_apply Let_def split: option.split)

text \<open>
  A match of a pattern with one group has two entries, and a pattern is in the result only with a
  match.
\<close>

definition matches_ok :: "'w system_ops \<Rightarrow> bool" where
  "matches_ok so = (\<forall>text pats k ms. so_ExtractMatches so text pats k = Some ms \<longrightarrow>
     ms \<noteq> [] \<and> (\<forall>m \<in> set ms. length m = 2))"

lemma first_group_Ret:
  assumes "matches_ok so"
  shows "\<exists>g. first_group enough (so_ExtractMatches so text pats k) = ret g"
proof (cases "so_ExtractMatches so text pats k")
  case (Some ms)
  then have "0 < length ms" and "length (ms ! 0) = 2"
    using assms by (auto simp: matches_ok_def)
  then show ?thesis by (auto simp: Some first_group_def index0_def index1_def)
qed (auto simp: first_group_def)

lemma run_utility_Ret: "\<exists>r w'. run_utility so path args w = (Ret r, w')"
  by (auto simp: run_utility_def go_monad split: option.split sum.split)

text \<open>
  On every platform the search delivers exactly one type, whatever the utilities do
  and write: no index is out of range, and what is delivered on Linux and Windows is never empty.
\<close>
lemma detection_delivers:
  assumes "matches_ok so"
  shows "(\<exists>t. fst (detect_darwin so w) = Ret t) \<and>
    (\<exists>t. fst (detect_linux so w) = Ret t \<and> t \<noteq> []) \<and>
    (\<exists>t. fst (detect_windows so w) = Ret t \<and> t \<noteq> [])"
proof (intro conjI)
  let ?virt = "run_utility so ''/usr/bin/systemd-detect-virt'' []"
  obtain r w1 where r: "?virt w = (Ret r, w1)" using run_utility_Ret by metis
  show "\<exists>t. fst (detect_linux so w) = Ret t \<and> t \<noteq> []"
    by (simp add: detect_linux_def Let_def bindg_step [where m = ?virt, OF r] ret_apply split: option.split)
next
  let ?info = "run_utility so ''C:/Windows/System32/systeminfo.exe'' []"
  obtain r w1 where r: "?info w = (Ret r, w1)" using run_utility_Ret by metis
  show "\<exists>t. fst (detect_windows so w) = Ret t \<and> t \<noteq> []"
  proof (cases r)
    case None
    then show ?thesis
      by (simp add: detect_windows_def Let_def bindg_step [where m = ?info, OF r] ret_apply)
  next
    case (Some report)
    let ?res = "so_ExtractMatches so report [(''systemModel'', label_pattern [] ''System Model:''),
        (''hyperVReqmts'', label_pattern [] ''Hyper-V Requirements:'')]"
    obtain g h where "first_group (\<lambda>n. n = 2) (?res ''systemModel'') = (ret g :: ('a, string option) go)"
        "first_group (\<lambda>n. n = 2) (?res ''hyperVReqmts'') = (ret h :: ('a, string option) go)"
      using first_group_Ret [OF assms] by metis
    then show ?thesis
      by (simp add: Some detect_windows_def Let_def bindg_step [where m = ?info, OF r] ret_apply)
  qed
next
  let ?profiler = "run_utility so ''/usr/sbin/system_profiler'' [''SPHardwareDataType'']"
  let ?vers = "run_utility so ''/usr/bin/sw_vers'' []"
  obtain r w1 where r: "?profiler w = (Ret r, w1)" using run_utility_Ret by metis
  obtain v w2 where v: "?vers w1 = (Ret v, w2)" using run_utility_Ret by metis
  note first = first_group_Ret [OF assms]
  have versioned: "\<exists>t. fst (bindg ?vers (\<lambda>out. case out of None \<Rightarrow> ret d
      | Some report \<Rightarrow> bindg (first_group e (so_ExtractMatches so report ps k)) (\<lambda>x.
          bindg (first_group e' (so_ExtractMatches so report ps k')) (\<lambda>y. f x y))) w1) = Ret t"
    if "\<And>x y w. \<exists>t. fst (f x y w) = Ret t" for d e e' ps k k' f
  proof (cases v)
    case (Some report)
    obtain g h where "first_group e (so_ExtractMatches so report ps k) = (ret g :: ('a, string option) go)"
        "first_group e' (so_ExtractMatches so report ps k') = (ret h :: ('a, string option) go)"
      using first by metis
    then show ?thesis using that by (simp add: Some bindg_step [where m = ?vers, OF v])
  qed (simp add: bindg_step [where m = ?vers, OF v] ret_apply)
  show "\<exists>t. fst (detect_darwin so w) = Ret t"
  proof (cases r)
    case None
    then show ?thesis
      by (simp add: detect_darwin_def Let_def bindg_step [where m = ?profiler, OF r] ret_apply)
  next
    case (Some report)
    obtain g where g: "first_group (\<lambda>n. n = 2) (so_ExtractMatches so report
        [(''modelName'', label_pattern any_blanks ''Model Name:'')] ''modelName'') = (ret g :: ('a, string option) go)"
      using first by metis
    show ?thesis
      unfolding detect_darwin_def Let_def bindg_step [where m = ?profiler, OF r] Some option.case g bindg_ret
      by (cases g) (auto simp: ret_apply intro!: versioned split: option.split)
  qed
qed

end
