(* ===== verification/Config_Init.thy ===== *)
theory Config_Init
  imports Auth Device_Info "HOL-Library.Signed_Division"
begin

text \<open>
  \<open>config/initializer.go\<close>: setting up a device. \<open>ResetDeviceOwner\<close> logs a new owner in,
  \<open>LoadDeviceOwnerKey\<close> creates or opens the owner's key, and \<open>Save\<close> registers the device and writes
  the configuration. The operations run on the triple of the initializer, the cache of the device
  type and the world. The configuration file, keys and the file system are arguments. Each
  operation calls the handler it is given when it returns; a panic ends the process.
\<close>

section \<open>State\<close>

record 'x FileConfig =
  fc_Config :: "'x Config"
  fc_GetConfigFile :: string
  fc_GetPassphrase :: "'x world \<Rightarrow> string"
  fc_Initialized :: "'x world \<Rightarrow> bool"
  fc_Load :: "'x world \<Rightarrow> error option \<times> 'x world"
  fc_Save :: "'x world \<Rightarrow> error option \<times> 'x world"
  fc_SetPassphrase :: "string \<Rightarrow> 'x world \<Rightarrow> 'x world"
  fc_GetKeyTimeout :: "'x world \<Rightarrow> int64"
  fc_SetKeyTimeout :: "int64 \<Rightarrow> 'x world \<Rightarrow> 'x world"
  fc_SetInitialized :: "'x world \<Rightarrow> 'x world"

abbreviation fc_DeviceContext :: "'x FileConfig \<Rightarrow> 'x DeviceContext" where
  "fc_DeviceContext fc \<equiv> cf_DeviceContext (fc_Config fc)"

abbreviation fc_AuthContext :: "'x FileConfig \<Rightarrow> 'x AuthContext" where
  "fc_AuthContext fc \<equiv> cf_AuthContext (fc_Config fc)"

record 'x ConfigInitializer =
  ci_appConfig :: "'x FileConfig"
  ci_resetConfig :: bool
  ci_currOwnerAPIClient :: "graphql_client option"
  ci_currOwnerUserID :: string
  ci_currDeviceID :: string
  ci_newOwnerAPIClient :: "graphql_client option"
  ci_updateUserKey :: bool
  ci_serviceConfig :: ServiceConfig

type_synonym 'x ci_world = "'x ConfigInitializer \<times> device_type_state \<times> 'x world"

definition in_world :: "('x world, 'a) go \<Rightarrow> ('x ci_world, 'a) go" where
  "in_world m = on_snd (on_snd m)"

definition get_ci :: "('x ConfigInitializer \<Rightarrow> 'a) \<Rightarrow> ('x ci_world, 'a) go" where
  "get_ci g = getg (\<lambda>s. g (fst s))"

definition set_ci :: "('x ConfigInitializer \<Rightarrow> 'x ConfigInitializer) \<Rightarrow> ('x ci_world, unit) go" where
  "set_ci u = putg (\<lambda>(c, s). (u c, s))"

definition map_world :: "('x world \<Rightarrow> 'x world) \<Rightarrow> 'x ci_world \<Rightarrow> 'x ci_world" where
  "map_world u = (\<lambda>(c, dt, w). (c, dt, u w))"

section \<open>NewConfigInitializer and the readers\<close>

text \<open>\<open>InitFileConfig\<close> takes the path and the function that gives the passphrase.\<close>

type_synonym 'x init_config =
  "string \<Rightarrow> ('x world \<Rightarrow> string) \<Rightarrow> 'x world \<Rightarrow> (error + 'x FileConfig) \<times> 'x world"

definition NewConfigInitializer ::
  "'x init_config \<Rightarrow> transport \<Rightarrow> 'x FileConfig \<Rightarrow> ServiceConfig \<Rightarrow>
     ('x world, error + 'x ConfigInitializer) go" where
  "NewConfigInitializer InitFileConfig tr forAppConfig serviceConfig =
     bindg (callg (InitFileConfig (fc_GetConfigFile forAppConfig) (fc_GetPassphrase forAppConfig))) (\<lambda>r.
     case r of
       Inl err \<Rightarrow> ret (Inl err)
     | Inr appConfig \<Rightarrow>
         bindg (callg (fc_Load appConfig)) (\<lambda>loaded.
         case loaded of
           Some err \<Rightarrow> ret (Inl err)
         | None \<Rightarrow>
             (let ci = \<lparr>ci_appConfig = appConfig, ci_resetConfig = False, ci_currOwnerAPIClient = None,
                    ci_currOwnerUserID = [], ci_currDeviceID = [], ci_newOwnerAPIClient = None,
                    ci_updateUserKey = False, ci_serviceConfig = serviceConfig\<rparr>;
                  dc = fc_DeviceContext appConfig in
              bindg (getg (fc_Initialized appConfig)) (\<lambda>initialized.
              if initialized then
                bindg (getg (dc_GetOwnerUserID dc)) (\<lambda>(currOwnerUserID, ownerOK).
                bindg (getg (dc_GetDeviceID dc)) (\<lambda>(currDeviceID, deviceOK).
                if \<not> ownerOK \<or> \<not> deviceOK
                then ret (Inl ''device configuration is in an inconsistent state'')
                else
                bindg (NewGraphQLClient tr (ax_GetToken (fc_AuthContext appConfig)) (sc_ApiURL serviceConfig) []) (\<lambda>api.
                ret (Inr (ci\<lparr>ci_currOwnerUserID := currOwnerUserID, ci_currDeviceID := currDeviceID,
                            ci_currOwnerAPIClient := Some api\<rparr>)))))
              else ret (Inr (ci\<lparr>ci_resetConfig := True\<rparr>))))))"

definition Initialized :: "'x ConfigInitializer \<Rightarrow> 'x world \<Rightarrow> bool" where
  "Initialized ci = fc_Initialized (ci_appConfig ci)"

definition DeviceUsername :: "'x ConfigInitializer \<Rightarrow> 'x world \<Rightarrow> string" where
  "DeviceUsername ci w = fst (dc_GetOwnerUserName (fc_DeviceContext (ci_appConfig ci)) w)"

definition DeviceName :: "'x ConfigInitializer \<Rightarrow> 'x world \<Rightarrow> string" where
  "DeviceName ci w = fst (dc_GetDeviceName (fc_DeviceContext (ci_appConfig ci)) w)"

definition DevicePassphrase :: "'x ConfigInitializer \<Rightarrow> 'x world \<Rightarrow> string" where
  "DevicePassphrase ci = fc_GetPassphrase (ci_appConfig ci)"

text \<open>
  A \<open>time.Duration\<close> counts nanoseconds in a signed 64-bit integer: the product of \<open>Save\<close> wraps
  around, the division of \<open>UnlockedTimeout\<close> truncates towards zero.
\<close>

definition Minute :: int64 where
  "Minute = 60000000000"

definition minutes :: "int64 \<Rightarrow> int64" where
  "minutes n = n * Minute"

definition UnlockedTimeout :: "'x ConfigInitializer \<Rightarrow> 'x world \<Rightarrow> int64" where
  "UnlockedTimeout ci w =
     word_of_int (sint (fc_GetKeyTimeout (ci_appConfig ci) w) sdiv sint Minute)"

section \<open>ResetDeviceOwner\<close>

record ('k, 'x) login_env =
  le_InitFileConfig :: "'x init_config"
  le_transport :: transport
  le_jwt :: "('k, 'x) jwt_ops"
  le_cloudProps :: "('x, unit, string \<times> string) gql_exec"
  le_getUser :: "('x, unit, get_user) gql_exec"
  le_NewAuthenticator :: "oauth_config \<Rightarrow> 'x authenticator"
  le_goos :: string
  le_run :: "string list \<Rightarrow> 'x world \<Rightarrow> error option \<times> 'x world"

text \<open>The forced login of a user on the new configuration.\<close>

definition forced_login ::
  "('k, 'x) login_env \<Rightarrow> ServiceConfig \<Rightarrow> 'x FileConfig \<Rightarrow> string \<Rightarrow>
     ('x world, error + 'k AWSCognitoJWT) go" where
  "forced_login env serviceConfig new message =
     GetAuthenticatedToken
       (Authenticate (le_transport env) (le_cloudProps env) (le_NewAuthenticator env) (le_goos env)
          (le_run env) serviceConfig (fc_AuthContext new) [message])
       (le_jwt env) serviceConfig (fc_Config new) True"

definition reset_warning :: ui_event where
  "reset_warning = WriteDangerMessage
     (''Resetting the user that is registered as the owner of this device will remove '' @
      ''the device from the his/her device list and reset any saved configurations. '' @
      ''Do you wish to continue?'')"

definition check_owner ::
  "string \<Rightarrow> error + 'k AWSCognitoJWT \<Rightarrow> ('x world, error option) go" where
  "check_owner deviceOwner token = (case token of
     Inl err \<Rightarrow> ret (Some err)
   | Inr awsAuth \<Rightarrow>
       bindg (jwt_Username awsAuth) (\<lambda>userName.
       if userName \<noteq> deviceOwner then
         bindg (show_ui (ShowErrorMessage ''In order to re-initialize a configuration you need to sign in as the current device owner.'')) (\<lambda>_.
         ret (Some ''device owner not logged in''))
       else ret None))"

definition confirm_owner ::
  "('k, 'x) login_env \<Rightarrow> ServiceConfig \<Rightarrow> 'x FileConfig \<Rightarrow> string \<Rightarrow> ('x world, error option) go" where
  "confirm_owner env serviceConfig new deviceOwner =
     bindg (show_ui (NewUIMessage ''Confirm Reset Owner'')) (\<lambda>_.
     bindg (show_ui reset_warning) (\<lambda>_.
     bindg (ask_yesno 1) (\<lambda>confirm.
     if \<not> confirm then ret (Some ''device owner reset cancelled'')
     else
     bindg (forced_login env serviceConfig new
              ''To continue please authenticate as the current device owner whose configuration will be overwritten.'')
       (check_owner deviceOwner))))"

definition quoted :: "string \<Rightarrow> string" where
  "quoted s = [CHR 0x27] @ s @ [CHR 0x27]"

definition resetDeviceOwner ::
  "('k, 'x) login_env \<Rightarrow> 'k AWSCognitoJWT \<Rightarrow> 'x FileConfig \<Rightarrow>
     ('x ci_world, error + string \<times> string) go" where
  "resetDeviceOwner env awsAuth new =
     (let dc = fc_DeviceContext new in
      bindg (jwt_Username awsAuth) (\<lambda>newUserName.
      bindg (jwt_UserID awsAuth) (\<lambda>userID.
      bindg (in_world (callg (dc_NewOwnerUser dc userID newUserName))) (\<lambda>created.
      case created of
        Inl err \<Rightarrow> ret (Inl (''failed to initialize new device owner: '' @ err))
      | Inr owner \<Rightarrow>
          bindg (get_ci ci_serviceConfig) (\<lambda>sc.
          bindg (in_world (NewGraphQLClient (le_transport env) (ax_GetToken (fc_AuthContext new)) (sc_ApiURL sc) [])) (\<lambda>api.
          bindg (set_ci (\<lambda>c. c\<lparr>ci_newOwnerAPIClient := Some api\<rparr>)) (\<lambda>_.
          bindg (in_world (GetUser (le_getUser env) api owner)) (\<lambda>got.
          bindg (in_world (getg (\<lambda>w. u_Name (users w owner)))) (\<lambda>ownerName.
          case got of
            Inl err \<Rightarrow> ret (Inl (''failed to retrieve user '' @ quoted ownerName @ '' from MyCS cloud: '' @ err))
          | Inr _ \<Rightarrow>
              bindg (in_world (callg (dc_NewDevice dc))) (\<lambda>device.
              case device of
                Inl err \<Rightarrow> ret (Inl (''failed to initiaize new device for user '' @ quoted ownerName @ '': '' @ err))
              | Inr d \<Rightarrow>
                  bindg (in_world (getg (\<lambda>w. d_Name (devices w d)))) (\<lambda>deviceName.
                  bindg (in_world (getg (\<lambda>w. u_Name (users w owner)))) (\<lambda>ownerName.
                  bindg (set_ci (\<lambda>c. c\<lparr>ci_resetConfig := True\<rparr>)) (\<lambda>_.
                  ret (Inr (newUserName,
                    if deviceName = [] then ownerName @ ''-device'' else deviceName)))))))))))))))"

text \<open>The new owner: their names and whether they need a key.\<close>

definition login_new_owner ::
  "('k, 'x) login_env \<Rightarrow> ServiceConfig \<Rightarrow> 'x FileConfig \<Rightarrow> string \<Rightarrow>
     ('x ci_world, error + string \<times> string \<times> bool) go" where
  "login_new_owner env serviceConfig new deviceOwner =
     bindg (in_world (forced_login env serviceConfig new
              ''Please login as the primary user that will be configured as the owner of this device.'')) (\<lambda>token.
     case token of
       Inl err \<Rightarrow> ret (Inl err)
     | Inr awsAuth \<Rightarrow>
         bindg (jwt_Username awsAuth) (\<lambda>userName.
         if deviceOwner = userName then
           bindg (in_world (show_ui (ShowInfoMessage ''Device Owner Reset''
                    (''User '' @ [CHR 0x22] @ deviceOwner @ [CHR 0x22] @ '' is already the device owner.'')))) (\<lambda>_.
           ret (Inl ''device owner already set''))
         else
         bindg (resetDeviceOwner env awsAuth new) (\<lambda>r.
         case r of
           Inl err \<Rightarrow> bindg (in_world (show_ui (ShowErrorMessage err))) (\<lambda>_. ret (Inl err))
         | Inr (newUserName, newDeviceName) \<Rightarrow>
             ret (Inr (newUserName, newDeviceName, jwt_KeyTimestamp awsAuth = 0)))))"

text \<open>The handler's arguments: user name, device name, whether a key is needed, and the error.\<close>

type_synonym 'x auth_handler = "string \<Rightarrow> string \<Rightarrow> bool \<Rightarrow> error option \<Rightarrow> 'x world \<Rightarrow> 'x world"

definition reset_exit ::
  "'x auth_handler \<Rightarrow> (error + 'x FileConfig \<times> string \<times> string \<times> bool) \<Rightarrow> 'x ci_world \<Rightarrow> 'x ci_world" where
  "reset_exit handle r = (\<lambda>(c, dt, w).
     case r of
       Inl err \<Rightarrow> (c\<lparr>ci_newOwnerAPIClient := None, ci_resetConfig := \<not> fc_Initialized (ci_appConfig c) w\<rparr>,
                   dt, handle [] [] False (Some err) w)
     | Inr (new, newUserName, newDeviceName, needsKey) \<Rightarrow>
         (c\<lparr>ci_appConfig := new\<rparr>, dt, handle newUserName newDeviceName needsKey None w))"

definition reset_owner ::
  "('k, 'x) login_env \<Rightarrow> ('x ci_world, error + 'x FileConfig \<times> string \<times> string \<times> bool) go" where
  "reset_owner env =
     bindg (get_ci ci_appConfig) (\<lambda>appConfig.
     bindg (in_world (callg (le_InitFileConfig env (fc_GetConfigFile appConfig) (\<lambda>_. [])))) (\<lambda>created.
     case created of
       Inl err \<Rightarrow> ret (Inl err)
     | Inr new \<Rightarrow>
         bindg (in_world (getg (dc_GetOwnerUserName (fc_DeviceContext appConfig)))) (\<lambda>(deviceOwner, ownerIsSet).
         bindg (get_ci ci_serviceConfig) (\<lambda>sc.
         bindg (in_world (getg (fc_Initialized appConfig))) (\<lambda>initialized.
         bindg (if initialized \<and> ownerIsSet then in_world (confirm_owner env sc new deviceOwner)
                else ret None) (\<lambda>refused.
         case refused of
           Some err \<Rightarrow> ret (Inl err)
         | None \<Rightarrow>
             bindg (login_new_owner env sc new deviceOwner) (\<lambda>r.
             case r of
               Inl err \<Rightarrow> ret (Inl err)
             | Inr (u, d, k) \<Rightarrow> ret (Inr (new, u, d, k)))))))))"

definition ResetDeviceOwner ::
  "('k, 'x) login_env \<Rightarrow> 'x auth_handler \<Rightarrow> ('x ci_world, unit) go" where
  "ResetDeviceOwner env handle =
     bindg (deferg (reset_exit handle) (\<lambda>s. s) (reset_owner env)) (\<lambda>_. ret ())"

section \<open>LoadDeviceOwnerKey\<close>

datatype stat_result = Exists | NotExist | StatFailed error

text \<open>
  \<open>os.Stat\<close>, \<open>os.WriteFile\<close> and the functions of package \<open>crypto\<close>; a key is a pointer, so that a
  key file may be opened to nil.
\<close>

record ('key, 'x) keyfile_ops =
  kf_Stat :: "string \<Rightarrow> 'x world \<Rightarrow> stat_result"
  kf_NewRSAKey :: "'x world \<Rightarrow> (error + 'key) \<times> 'x world"
  kf_GetEncryptedPrivateKeyPEM :: "'key \<Rightarrow> string \<Rightarrow> 'x world \<Rightarrow> (error + string) \<times> 'x world"
  kf_WriteFile :: "string \<Rightarrow> string \<Rightarrow> 'x world \<Rightarrow> error option \<times> 'x world"
  kf_NewRSAKeyFromFile :: "string \<Rightarrow> string \<Rightarrow> 'x world \<Rightarrow> (error + 'key option) \<times> 'x world"
  kf_SetKey :: "nat \<Rightarrow> 'key \<Rightarrow> bool \<Rightarrow> 'x world \<Rightarrow> error option \<times> 'x world"

text \<open>The handlers dereference the passphrase without a test.\<close>

definition deref :: "'a option \<Rightarrow> ('w, 'a) go" where
  "deref p = (case p of
     None \<Rightarrow> panic ''invalid memory address or nil pointer dereference''
   | Some a \<Rightarrow> ret a)"

definition create_key_file ::
  "('key, 'x) keyfile_ops \<Rightarrow> string \<Rightarrow> ('x world, error + 'key option) go" where
  "create_key_file kf keyFileName =
     bindg (show_ui (NewUIMessage ''Key File Passphrase'')) (\<lambda>_.
     bindg (show_ui (WriteInfoMessage (''Please enter and verify the key file passphrase. '' @
              ''This will be used to encrypt the private key.''))) (\<lambda>_.
     bindg (ask_text ShowMessageWithSecureVerifiedInput) (\<lambda>keyFilePassphrase.
     bindg (callg (kf_NewRSAKey kf)) (\<lambda>key.
     case key of
       Inl err \<Rightarrow> ret (Inl err)
     | Inr k \<Rightarrow>
         bindg (deref keyFilePassphrase) (\<lambda>passphrase.
         bindg (callg (kf_GetEncryptedPrivateKeyPEM kf k passphrase)) (\<lambda>pem.
         case pem of
           Inl err \<Rightarrow> ret (Inl err)
         | Inr keyFilePEM \<Rightarrow>
             bindg (callg (kf_WriteFile kf keyFileName keyFilePEM)) (\<lambda>written.
             case written of
               Some err \<Rightarrow> ret (Inl err)
             | None \<Rightarrow>
                 bindg (show_ui (ShowInfoMessage ''Key File Created''
                   (''This key will be used to secure all data associated with the device user '' @
                    ''as well as establishing a verifiable identity. It is important that this '' @
                    ''key is saved in a secure location offline such as a USB key which can be '' @
                    ''locked away in a safe.''))) (\<lambda>_.
                 ret (Inr (Some k))))))))))"

definition open_key_file ::
  "('key, 'x) keyfile_ops \<Rightarrow> string \<Rightarrow> ('x world, error + 'key option) go" where
  "open_key_file kf keyFileName =
     bindg (show_ui (NewUIMessage ''Key File Passphrase'')) (\<lambda>_.
     bindg (show_ui (WriteInfoMessage ''Enter the passphrase needed to open the key file.'')) (\<lambda>_.
     bindg (ask_text ShowMessageWithSecureInput) (\<lambda>keyFilePassphrase.
     bindg (deref keyFilePassphrase) (\<lambda>passphrase.
     callg (kf_NewRSAKeyFromFile kf keyFileName passphrase)))))"

definition getPrivateKey ::
  "('key, 'x) keyfile_ops \<Rightarrow> string \<Rightarrow> bool \<Rightarrow> ('x world, error + 'key option) go" where
  "getPrivateKey kf keyFileName createKey =
     bindg (getg (kf_Stat kf keyFileName)) (\<lambda>st.
     case st of
       StatFailed err \<Rightarrow> ret (Inl err)
     | Exists \<Rightarrow>
         (if createKey then ret (Inl (''a file already exists at the given path '' @ quoted keyFileName))
          else open_key_file kf keyFileName)
     | NotExist \<Rightarrow>
         (if createKey then create_key_file kf keyFileName
          else ret (Inl (''key file '' @ quoted keyFileName @ '' does not exist''))))"

definition load_exit ::
  "bool \<Rightarrow> string \<Rightarrow> (string \<Rightarrow> error option \<Rightarrow> 'x world \<Rightarrow> 'x world) \<Rightarrow> error option \<Rightarrow>
     'x world \<Rightarrow> 'x world" where
  "load_exit createKey keyFileName handle err w = handle keyFileName err
     (case err of
        None \<Rightarrow> w
      | Some e \<Rightarrow> log_ui [ShowErrorMessage
          ((if createKey then ''Unable to create/update key file: '' else ''Unable to open key file: '') @ e)] w)"

definition LoadDeviceOwnerKey ::
  "('key, 'x) keyfile_ops \<Rightarrow> string \<Rightarrow> bool \<Rightarrow> (string \<Rightarrow> error option \<Rightarrow> 'x world \<Rightarrow> 'x world) \<Rightarrow>
     ('x ci_world, unit) go" where
  "LoadDeviceOwnerKey kf keyFileURL createKey handle =
     (let keyFileName = TrimPrefix keyFileURL ''file://'' in
      bindg (in_world (getPrivateKey kf keyFileName createKey)) (\<lambda>key.
      bindg (deferg (\<lambda>err. map_world (load_exit createKey keyFileName handle err)) (\<lambda>s. s)
        (case key of
           Inl err \<Rightarrow> ret (Some err)
         | Inr None \<Rightarrow> ret (Some ''key file not loaded and no error was returned'')
         | Inr (Some k) \<Rightarrow>
             bindg (get_ci ci_appConfig) (\<lambda>appConfig.
             bindg (in_world (getg (dc_GetOwner (fc_DeviceContext appConfig)))) (\<lambda>owner.
             case owner of
               None \<Rightarrow> ret (Some ''cannot set key as device owner not configured'')
             | Some p \<Rightarrow>
                 bindg (in_world (callg (kf_SetKey kf p k createKey))) (\<lambda>e.
                 case e of
                   Some _ \<Rightarrow> bindg (in_world (getg (\<lambda>w. u_Name (users w p)))) (\<lambda>name.
                     ret (Some (''incorrect key for user '' @ quoted name @ ''.'')))
                 | None \<Rightarrow> bindg (set_ci (\<lambda>c. c\<lparr>ci_updateUserKey := True\<rparr>)) (\<lambda>_. ret None)))))) (\<lambda>_.
      ret ())))"

section \<open>Save\<close>

record 'x save_services =
  sv_updateUserKey :: "('x, unit, string) gql_exec"
  sv_deleteDevice :: "('x, unit, string list) gql_exec"
  sv_addDevice :: "('x, unit, add_device) gql_exec"
  sv_type_in_time :: bool
  sv_GOOS :: string
  sv_GOARCH :: string

definition of_device_type :: "(device_type_state, 'a) go \<Rightarrow> ('x ci_world, 'a) go" where
  "of_device_type m = (\<lambda>(c, dt, w). case m dt of (r, dt') \<Rightarrow> (r, (c, dt', w)))"

text \<open>A call of the library on a nil client, or the nil owner, panics.\<close>

definition update_key ::
  "'x save_services \<Rightarrow> ('x ci_world, error option) go" where
  "update_key sv =
     bindg (get_ci (\<lambda>c. c)) (\<lambda>ci.
     bindg (in_world (getg (dc_GetOwner (fc_DeviceContext (ci_appConfig ci))))) (\<lambda>owner.
     bindg (deref owner) (\<lambda>p.
     bindg (deref (case ci_newOwnerAPIClient ci of Some api \<Rightarrow> Some api | None \<Rightarrow> ci_currOwnerAPIClient ci)) (\<lambda>api.
     in_world (UpdateUserKey (sv_updateUserKey sv) api p)))))"

definition unregister_current :: "'x save_services \<Rightarrow> ('x ci_world, unit) go" where
  "unregister_current sv =
     bindg (get_ci (\<lambda>c. c)) (\<lambda>ci.
     case ci_currOwnerAPIClient ci of
       None \<Rightarrow> ret ()
     | Some api \<Rightarrow> bindg (in_world (UnRegisterDevice (sv_deleteDevice sv) api (ci_currDeviceID ci))) (\<lambda>_. ret ()))"

definition register_new ::
  "'x save_services \<Rightarrow> graphql_client \<Rightarrow> string \<Rightarrow> string \<Rightarrow> string \<Rightarrow> ('x ci_world, error option) go" where
  "register_new sv api deviceName clientType clientVersion =
     bindg (of_device_type (GetDeviceType (sv_type_in_time sv))) (\<lambda>deviceType.
     bindg (get_ci (\<lambda>c. fc_DeviceContext (ci_appConfig c))) (\<lambda>dc.
     bindg (in_world (getg (dc_GetDevice dc))) (\<lambda>device.
     bindg (deref device) (\<lambda>d.
     bindg (in_world (getg (\<lambda>w. d_RSAPublicKey (devices w d)))) (\<lambda>publicKey.
     bindg (in_world (RegisterDevice (sv_addDevice sv) api deviceName deviceType
              (GetDeviceVersion (sv_GOOS sv) (sv_GOARCH sv) clientType clientVersion) [] publicKey [])) (\<lambda>r.
     case r of
       Inl err \<Rightarrow> ret (Some err)
     | Inr (deviceIDKey, deviceID) \<Rightarrow>
         bindg (in_world (putg (dc_SetDeviceID dc deviceIDKey deviceID deviceName))) (\<lambda>_. ret None)))))))"

definition register_device ::
  "'x save_services \<Rightarrow> string \<Rightarrow> string \<Rightarrow> string \<Rightarrow> ('x ci_world, error option) go" where
  "register_device sv deviceName clientType clientVersion =
     bindg (unregister_current sv) (\<lambda>_.
     bindg (get_ci ci_newOwnerAPIClient) (\<lambda>newOwner.
     case newOwner of
       None \<Rightarrow> ret (Some ''no new owner API client available to register new device with'')
     | Some api \<Rightarrow> register_new sv api deviceName clientType clientVersion))"

definition write_config ::
  "string \<Rightarrow> int64 \<Rightarrow> ('x ci_world, error option) go" where
  "write_config deviceLockPassphrase unlockedTimeout =
     bindg (get_ci ci_appConfig) (\<lambda>fc.
     bindg (in_world (putg (fc_SetPassphrase fc deviceLockPassphrase))) (\<lambda>_.
     bindg (in_world (putg (fc_SetKeyTimeout fc (minutes unlockedTimeout)))) (\<lambda>_.
     bindg (in_world (putg (fc_SetInitialized fc))) (\<lambda>_.
     in_world (callg (fc_Save fc))))))"

definition save_exit ::
  "(error option \<Rightarrow> 'x world \<Rightarrow> 'x world) \<Rightarrow> error option \<Rightarrow> 'x world \<Rightarrow> 'x world" where
  "save_exit handle err w = handle err
     (case err of None \<Rightarrow> w | Some e \<Rightarrow> log_ui [ShowErrorMessage (''Unable to save settings: '' @ e)] w)"

definition save_run ::
  "'x save_services \<Rightarrow> string \<Rightarrow> string \<Rightarrow> string \<Rightarrow> string \<Rightarrow> int64 \<Rightarrow> ('x ci_world, error option) go" where
  "save_run sv deviceName deviceLockPassphrase clientType clientVersion unlockedTimeout =
     bindg (get_ci (\<lambda>c. c)) (\<lambda>ci.
     bindg (if ci_updateUserKey ci then update_key sv else ret None) (\<lambda>e.
     case e of
       Some err \<Rightarrow> ret (Some err)
     | None \<Rightarrow>
         bindg (if ci_resetConfig ci then register_device sv deviceName clientType clientVersion
                else ret None) (\<lambda>e.
         case e of
           Some err \<Rightarrow> ret (Some err)
         | None \<Rightarrow> write_config deviceLockPassphrase unlockedTimeout)))"

definition Save ::
  "'x save_services \<Rightarrow> string \<Rightarrow> string \<Rightarrow> string \<Rightarrow> string \<Rightarrow> int64 \<Rightarrow>
     (error option \<Rightarrow> 'x world \<Rightarrow> 'x world) \<Rightarrow> ('x ci_world, unit) go" where
  "Save sv deviceName deviceLockPassphrase clientType clientVersion unlockedTimeout handle =
     bindg (deferg (\<lambda>err. map_world (save_exit handle err)) (\<lambda>s. s)
       (save_run sv deviceName deviceLockPassphrase clientType clientVersion unlockedTimeout)) (\<lambda>_. ret ())"

end
