(* ===== verification/Config_Props.thy ===== *)
theory Config_Props
  imports Config_Init Auth_Props
begin

text \<open>
  What setting up a device guarantees: who may replace the owner, what a failed replacement leaves
  behind, and for which values the time until the device is locked is read back as it was set.
\<close>

section \<open>Calls inside the initializer\<close>

lemma in_world_Ret [simp]:
  "in_world m (c, dt, w) = (r, (c', dt', w')) \<longleftrightarrow> c' = c \<and> dt' = dt \<and> m w = (r, w')"
  by (auto simp: in_world_def on_snd_def split: prod.splits)

lemma bind_get_ci [go_monad]: "bindg (get_ci g) f s = f (g (fst s)) s"
  by (simp add: get_ci_def go_monad)

lemma bind_set_ci [go_monad]: "bindg (set_ci u) f (c, s) = f () (u c, s)"
  by (simp add: set_ci_def go_monad)

lemma bind_in_world_Ret:
  "bindg (in_world m) f (c, dt, w) = (Ret b, s) \<longleftrightarrow>
     (\<exists>a v. m w = (Ret a, v) \<and> f a (c, dt, v) = (Ret b, s))"
  by (cases "m w") (auto simp: bindg_def in_world_def on_snd_def split: outcome.split)

lemma bind_in_world_step: "m w = (Ret a, v) \<Longrightarrow> bindg (in_world m) f (c, dt, w) = f a (c, dt, v)"
  by (simp add: bindg_def in_world_def on_snd_def)

lemma bind_in_world_pure [go_monad]:
  "bindg (in_world (getg g)) f (c, dt, w) = f (g w) (c, dt, w)"
  "bindg (in_world (putg u)) f1 (c, dt, w) = f1 () (c, dt, u w)"
  "bindg (in_world (callg h)) f2 (c, dt, w) = f2 (fst (h w)) (c, dt, snd (h w))"
  by (simp_all add: bind_in_world_step go_monad)

section \<open>Replacing the owner\<close>

text \<open>A forced login ended with the token of the user of that name.\<close>

definition logged_in_as ::
  "('k, 'x) login_env \<Rightarrow> ServiceConfig \<Rightarrow> 'x FileConfig \<Rightarrow> string \<Rightarrow> bool" where
  "logged_in_as env sc new name = (\<exists>msg v j v'. forced_login env sc new msg v = (Ret (Inr j), v') \<and>
     jwt_jwtToken j ''cognito:username'' = StringIface name)"

text \<open>A client of the cloud service with the token of the user who is logged in to a configuration.\<close>

definition client_of ::
  "('k, 'x) login_env \<Rightarrow> ServiceConfig \<Rightarrow> 'x FileConfig \<Rightarrow> graphql_client \<Rightarrow> bool" where
  "client_of env sc new api = (\<exists>v v'. NewGraphQLClient (le_transport env) (ax_GetToken (fc_AuthContext new))
     (sc_ApiURL sc) [] v = (Ret api, v'))"

lemma client_ofI:
  "NewGraphQLClient (le_transport env) (ax_GetToken (fc_AuthContext new)) (sc_ApiURL sc) [] v = (Ret api, v') \<Longrightarrow>
     client_of env sc new api"
  unfolding client_of_def by blast

lemma check_owner_None:
  "check_owner deviceOwner token w = (Ret None, w') \<Longrightarrow>
     \<exists>j. token = Inr j \<and> jwt_jwtToken j ''cognito:username'' = StringIface deviceOwner"
  by (auto simp: check_owner_def bindg_Ret ret_apply jwt_Username_def assert_string_Ret show_ui_apply
      split: sum.splits if_splits)

lemma confirm_owner_None:
  assumes "confirm_owner env sc new deviceOwner w = (Ret None, w')"
  shows "(\<exists>as. yesno_answers w = True # as) \<and> logged_in_as env sc new deviceOwner"
proof -
  let ?w = "log_ui [reset_warning] (log_ui [NewUIMessage ''Confirm Reset Owner''] w)"
  obtain yes v where yes: "ask_yesno 1 ?w = (Ret yes, v)"
    using assms by (auto simp: confirm_owner_def show_ui_bind bindg_Ret)
  note asked = assms [unfolded confirm_owner_def show_ui_bind bindg_step [where m = "ask_yesno 1", OF yes]]
  then have "yes" by (cases yes) (simp_all add: ret_apply)
  then obtain token u where "forced_login env sc new
      ''To continue please authenticate as the current device owner whose configuration will be overwritten.'' v =
        (Ret token, u)" "check_owner deviceOwner token u = (Ret None, w')"
    using asked by (auto simp: bindg_Ret)
  then have "logged_in_as env sc new deviceOwner"
    using check_owner_None unfolding logged_in_as_def by blast
  then show ?thesis using ask_yesno_Ret [OF yes] \<open>yes\<close> by simp
qed

lemma resetDeviceOwner_frame:
  assumes "resetDeviceOwner env j new (c, dt, w) = (Ret r, (c', dt', w'))"
  shows "dt' = dt \<and> (case r of
      Inl _ \<Rightarrow> \<exists>api. c' = c \<or> c' = c\<lparr>ci_newOwnerAPIClient := Some api\<rparr>
    | Inr (u, d) \<Rightarrow> jwt_jwtToken j ''cognito:username'' = StringIface u \<and>
        (\<exists>api. client_of env (ci_serviceConfig c) new api \<and>
           c' = c\<lparr>ci_newOwnerAPIClient := Some api, ci_resetConfig := True\<rparr>))"
proof -
  obtain u i where ids: "jwt_jwtToken j ''cognito:username'' = StringIface u"
      "jwt_jwtToken j ''custom:userID'' = StringIface i"
    using assms by (auto simp: resetDeviceOwner_def Let_def bindg_Ret jwt_Username_def jwt_UserID_def assert_string_Ret)
  note start = assms [unfolded resetDeviceOwner_def Let_def jwt_Username_def jwt_UserID_def ids
      assert_string.simps bindg_ret bind_in_world_pure]
  show ?thesis
    using start ids
    by (auto simp: bind_get_ci bind_set_ci bind_in_world_Ret bind_in_world_pure go_returns) (blast intro: client_ofI)+
qed

lemma login_new_owner_frame:
  assumes "login_new_owner env sc new deviceOwner (c, dt, w) = (Ret r, (c', dt', w'))"
  shows "dt' = dt \<and> (case r of
      Inl _ \<Rightarrow> \<exists>api. c' = c \<or> c' = c\<lparr>ci_newOwnerAPIClient := api\<rparr>
    | Inr (u, d, k) \<Rightarrow> u \<noteq> deviceOwner \<and> logged_in_as env sc new u \<and>
        (\<exists>api. client_of env (ci_serviceConfig c) new api \<and>
           c' = c\<lparr>ci_newOwnerAPIClient := Some api, ci_resetConfig := True\<rparr>))"
proof -
  obtain token v where token: "forced_login env sc new
      ''Please login as the primary user that will be configured as the owner of this device.'' w = (Ret token, v)"
    using assms by (auto simp: login_new_owner_def bind_in_world_Ret)
  note start = assms [unfolded login_new_owner_def
      bind_in_world_step [where m = "forced_login env sc new _", OF token]]
  show ?thesis
  proof (cases token)
    case (Inl e)
    then show ?thesis using start by (auto simp: go_returns)
  next
    case (Inr j)
    then obtain u where u: "jwt_jwtToken j ''cognito:username'' = StringIface u"
      using start by (auto simp: bindg_Ret jwt_Username_def assert_string_Ret)
    then have "logged_in_as env sc new u"
      using token Inr unfolding logged_in_as_def by blast
    then show ?thesis
      using start Inr u
      by (auto simp: jwt_Username_def bindg_Ret bind_in_world_Ret go_returns dest!: resetDeviceOwner_frame)
  qed
qed

definition owner_confirmed ::
  "('k, 'x) login_env \<Rightarrow> 'x ConfigInitializer \<Rightarrow> 'x FileConfig \<Rightarrow> 'x world \<Rightarrow> bool" where
  "owner_confirmed env c new w =
     (case dc_GetOwnerUserName (fc_DeviceContext (ci_appConfig c)) w of (owner, isSet) \<Rightarrow>
        fc_Initialized (ci_appConfig c) w \<and> isSet \<longrightarrow>
        (\<exists>as. yesno_answers w = True # as) \<and> logged_in_as env (ci_serviceConfig c) new owner)"

lemma reset_owner_result:
  assumes "reset_owner env (c, dt, w) = (Ret r, (c', dt', w'))"
  shows "dt' = dt \<and> (case r of
      Inl _ \<Rightarrow> \<exists>api. c' = c \<or> c' = c\<lparr>ci_newOwnerAPIClient := api\<rparr>
    | Inr (new, u, d, k) \<Rightarrow> \<exists>w0. le_InitFileConfig env (fc_GetConfigFile (ci_appConfig c)) (\<lambda>_. []) w = (Inr new, w0) \<and>
        owner_confirmed env c new w0 \<and>
        u \<noteq> fst (dc_GetOwnerUserName (fc_DeviceContext (ci_appConfig c)) w0) \<and>
        logged_in_as env (ci_serviceConfig c) new u \<and>
        (\<exists>api. client_of env (ci_serviceConfig c) new api \<and>
           c' = c\<lparr>ci_newOwnerAPIClient := Some api, ci_resetConfig := True\<rparr>))"
proof -
  obtain created w0 where w0: "le_InitFileConfig env (fc_GetConfigFile (ci_appConfig c)) (\<lambda>_. []) w = (created, w0)"
    by (metis prod.collapse)
  obtain owner isSet where owner: "dc_GetOwnerUserName (fc_DeviceContext (ci_appConfig c)) w0 = (owner, isSet)"
    by (metis prod.collapse)
  show ?thesis
  proof (cases created)
    case (Inl e)
    then show ?thesis
      using assms w0 by (auto simp: reset_owner_def bind_get_ci bind_in_world_pure go_returns)
  next
    case (Inr new)
    let ?sc = "ci_serviceConfig c"
    have "owner_confirmed env c new w0 \<and> (\<exists>v. bindg (login_new_owner env ?sc new owner) (\<lambda>r. case r of
        Inl err \<Rightarrow> ret (Inl err) | Inr (u, d, k) \<Rightarrow> ret (Inr (new, u, d, k))) (c, dt, v) = (Ret r, (c', dt', w')))
      \<or> (\<exists>e. r = Inl e \<and> c' = c \<and> dt' = dt)"
      using assms w0 Inr owner
      by (cases "fc_Initialized (ci_appConfig c) w0 \<and> isSet")
        (auto simp: reset_owner_def owner_confirmed_def bind_get_ci bind_in_world_pure bind_in_world_Ret case_sum_Ret case_option_Ret
          base_Ret dest!: confirm_owner_None)
    then show ?thesis
      using Inr owner w0 by (auto simp: bindg_Ret go_returns dest!: login_new_owner_frame)
  qed
qed

text \<open>
  Property C6. When \<open>ResetDeviceOwner\<close> is through it has called the handler last. After an error
  the initializer keeps its configuration, has no new owner and wants a reset exactly when that
  configuration is not initialized. Otherwise it holds the new configuration and the client of the
  new owner, another user than the owner so far who has just logged in; and if the device had been
  set up, its owner has agreed and has just logged in too.
\<close>
theorem reset_needs_owner:
  assumes "ResetDeviceOwner env handle (c, dt, w) = (Ret (), (c', dt', w'))"
  shows "dt' = dt \<and>
    ((\<exists>err v. w' = handle [] [] False (Some err) v \<and>
        c' = c\<lparr>ci_newOwnerAPIClient := None, ci_resetConfig := \<not> fc_Initialized (ci_appConfig c) v\<rparr>) \<or>
     (\<exists>new u d k api v w0. w' = handle u d k None v \<and> client_of env (ci_serviceConfig c) new api \<and>
        c' = c\<lparr>ci_appConfig := new, ci_newOwnerAPIClient := Some api, ci_resetConfig := True\<rparr> \<and>
        le_InitFileConfig env (fc_GetConfigFile (ci_appConfig c)) (\<lambda>_. []) w = (Inr new, w0) \<and>
        owner_confirmed env c new w0 \<and> logged_in_as env (ci_serviceConfig c) new u \<and>
        u \<noteq> fst (dc_GetOwnerUserName (fc_DeviceContext (ci_appConfig c)) w0)))"
proof -
  obtain r c1 dt1 v where run: "reset_owner env (c, dt, w) = (Ret r, (c1, dt1, v))"
    and exit: "(c', dt', w') = reset_exit handle r (c1, dt1, v)"
    using assms by (auto simp: ResetDeviceOwner_def bindg_Ret deferg_Ret base_Ret)
  note result = reset_owner_result [OF run]
  show ?thesis
  proof (cases r)
    case (Inl err)
    then obtain api where "c1 = c \<or> c1 = c\<lparr>ci_newOwnerAPIClient := api\<rparr>" and "dt1 = dt"
      using result by auto
    then have failed: "w' = handle [] [] False (Some err) v \<and>
        c' = c\<lparr>ci_newOwnerAPIClient := None, ci_resetConfig := \<not> fc_Initialized (ci_appConfig c) v\<rparr>"
      using exit Inl by (auto simp: reset_exit_def)
    have "dt' = dt" using exit Inl \<open>dt1 = dt\<close> by (simp add: reset_exit_def)
    then show ?thesis using failed by blast
  next
    case (Inr x)
    obtain new u d k where "x = (new, u, d, k)" by (metis prod_cases4)
    then have w': "w' = handle u d k None v" and "dt' = dt" and c': "c' = c1\<lparr>ci_appConfig := new\<rparr>"
      using exit result Inr by (auto simp: reset_exit_def)
    obtain w0 api where w0: "le_InitFileConfig env (fc_GetConfigFile (ci_appConfig c)) (\<lambda>_. []) w = (Inr new, w0)"
        "owner_confirmed env c new w0" "logged_in_as env (ci_serviceConfig c) new u"
        "u \<noteq> fst (dc_GetOwnerUserName (fc_DeviceContext (ci_appConfig c)) w0)"
        "client_of env (ci_serviceConfig c) new api"
      and c1: "c1 = c\<lparr>ci_newOwnerAPIClient := Some api, ci_resetConfig := True\<rparr>"
      using result Inr \<open>x = (new, u, d, k)\<close> by auto
    have "c' = c\<lparr>ci_appConfig := new, ci_newOwnerAPIClient := Some api, ci_resetConfig := True\<rparr>"
      by (simp add: c' c1)
    then show ?thesis using w' \<open>dt' = dt\<close> w0 by blast
  qed
qed

section \<open>Every run of the initializer\<close>

text \<open>
  The states of an initializer: it is made, its operations run one after the other, and between
  them the world and the cached device type may change.
\<close>

inductive init_run ::
  "'x init_config \<Rightarrow> transport \<Rightarrow> ServiceConfig \<Rightarrow> ('k, 'x) login_env \<Rightarrow> ('key, 'x) keyfile_ops \<Rightarrow>
     'x save_services \<Rightarrow> 'x ConfigInitializer \<Rightarrow> 'x ci_world \<Rightarrow> bool"
  for InitFileConfig tr sc env kf sv where
  made: "NewConfigInitializer InitFileConfig tr forAppConfig sc w = (Ret (Inr c), w') \<Longrightarrow>
    init_run InitFileConfig tr sc env kf sv c (c, dt, w')"
| elsewhere: "init_run InitFileConfig tr sc env kf sv c0 (c, dt, w) \<Longrightarrow>
    init_run InitFileConfig tr sc env kf sv c0 (c, dt', w')"
| owner_reset: "init_run InitFileConfig tr sc env kf sv c0 s \<Longrightarrow> ResetDeviceOwner env handle s = (Ret (), s') \<Longrightarrow>
    init_run InitFileConfig tr sc env kf sv c0 s'"
| key_loaded: "init_run InitFileConfig tr sc env kf sv c0 s \<Longrightarrow>
    LoadDeviceOwnerKey kf url createKey handleKey s = (Ret (), s') \<Longrightarrow> init_run InitFileConfig tr sc env kf sv c0 s'"
| saved: "init_run InitFileConfig tr sc env kf sv c0 s \<Longrightarrow> Save sv n p ct cv t handleSave s = (Ret (), s') \<Longrightarrow>
    init_run InitFileConfig tr sc env kf sv c0 s'"

inductive_cases init_runE: "init_run InitFileConfig tr sc env kf sv c0 s"

text \<open>A call of the world keeps what holds of the initializer.\<close>

lemma keeps_in_world [go_keeps]: "keeps (\<lambda>s. I (fst s)) (in_world m)"
  by (auto simp: keeps_def in_world_def on_snd_def split: prod.split)

lemma keeps_of_device_type [go_keeps]: "keeps (\<lambda>s. I (fst s)) (of_device_type m)"
  by (auto simp: keeps_def of_device_type_def split: prod.split)

lemma keeps_get_ci [go_keeps]: "keeps I (get_ci g)"
  by (simp add: get_ci_def keeps_get)

lemma keeps_set_ci: "(\<And>c. I c \<Longrightarrow> I (u c)) \<Longrightarrow> keeps (\<lambda>s. I (fst s)) (set_ci u)"
  by (auto simp: set_ci_def keeps_def putg_def)

lemma fst_map_world [simp]: "fst (map_world u s) = fst s"
  by (cases s) (simp add: map_world_def)

lemma keeps_deref [go_keeps]: "keeps I (deref p)"
  by (cases p) (simp_all add: deref_def keeps_ret keeps_panic)

lemma keeps_register_device [go_keeps]: "keeps (\<lambda>s. I (fst s)) (register_device sv n ct cv)"
  unfolding register_device_def unregister_current_def register_new_def
  by (intro go_keeps)

lemma keeps_save_run: "keeps (\<lambda>s. I (fst s)) (save_run sv n p ct cv t)"
  unfolding save_run_def update_key_def write_config_def
  by (intro go_keeps)

lemma keeps_Save: "keeps (\<lambda>s. I (fst s)) (Save sv n p ct cv t handle)"
  unfolding Save_def by (intro go_keeps keeps_save_run) simp

lemma keeps_Load:
  assumes "\<And>c. I c \<Longrightarrow> I (c\<lparr>ci_updateUserKey := True\<rparr>)"
  shows "keeps (\<lambda>s. I (fst s)) (LoadDeviceOwnerKey kf url createKey handle)"
  unfolding LoadDeviceOwnerKey_def Let_def
  by (intro go_keeps keeps_set_ci) (auto simp: assms)

lemma ResetDeviceOwner_frame:
  assumes "ResetDeviceOwner env handle (c, dt, w) = (Ret (), (c', dt', w'))"
  shows "(\<exists>b. c' = c\<lparr>ci_newOwnerAPIClient := None, ci_resetConfig := b\<rparr>) \<or>
    (\<exists>new api. c' = c\<lparr>ci_newOwnerAPIClient := Some api, ci_resetConfig := True, ci_appConfig := new\<rparr>)"
proof -
  obtain r c1 dt1 v where run: "reset_owner env (c, dt, w) = (Ret r, (c1, dt1, v))"
    and exit: "(c', dt', w') = reset_exit handle r (c1, dt1, v)"
    using assms by (auto simp: ResetDeviceOwner_def bindg_Ret deferg_Ret base_Ret)
  show ?thesis
    using reset_owner_result [OF run] exit by (cases r) (auto simp: reset_exit_def)
qed

definition init_inv :: "'x ConfigInitializer \<Rightarrow> 'x ConfigInitializer \<Rightarrow> bool" where
  "init_inv c0 c = ((ci_newOwnerAPIClient c \<noteq> None \<longrightarrow> ci_resetConfig c) \<and>
     ci_currOwnerAPIClient c = ci_currOwnerAPIClient c0 \<and> ci_currDeviceID c = ci_currDeviceID c0 \<and>
     ci_currOwnerUserID c = ci_currOwnerUserID c0 \<and> ci_serviceConfig c = ci_serviceConfig c0)"

lemma init_inv_made: "NewConfigInitializer icf tr f sc w = (Ret (Inr c), w') \<Longrightarrow> init_inv c c \<and> ci_serviceConfig c = sc"
  by (auto simp: NewConfigInitializer_def Let_def go_returns bindg_Ret init_inv_def)

text \<open>
  Property C7. In every state of an initializer, after any sequence of its operations, a client of a
  new owner is there only while a reset is wanted, so that it is never used without registering a
  device; and the client of the present owner, the owner and the device are still those the
  initializer was made with, whatever has been saved since.
\<close>
theorem initializer_invariant:
  assumes "init_run InitFileConfig tr sc env kf sv c0 (c, dt, w)"
  shows "(ci_newOwnerAPIClient c \<noteq> None \<longrightarrow> ci_resetConfig c) \<and>
    ci_currOwnerAPIClient c = ci_currOwnerAPIClient c0 \<and> ci_currDeviceID c = ci_currDeviceID c0 \<and>
    ci_currOwnerUserID c = ci_currOwnerUserID c0 \<and> ci_serviceConfig c = sc"
proof -
  have "init_inv c0 (fst (c, dt, w)) \<and> ci_serviceConfig c0 = sc"
    using assms
  proof (induction "(c, dt, w)" arbitrary: c dt w rule: init_run.induct)
    case (made forAppConfig w c w' dt)
    then show ?case using init_inv_made by fastforce
  next
    case (elsewhere c0 c dt w dt' w')
    then show ?case by simp
  next
    case (owner_reset c0 s handle)
    then show ?case
      by (cases s) (auto simp: init_inv_def dest!: ResetDeviceOwner_frame)
  next
    case (key_loaded c0 s url createKey handleKey)
    have "keeps (\<lambda>s. init_inv c0 (fst s)) (LoadDeviceOwnerKey kf url createKey handleKey)"
      by (rule keeps_Load) (simp add: init_inv_def)
    from keepsD [OF this _ key_loaded(3)] show ?case using key_loaded by (cases s) simp
  next
    case (saved c0 s n p ct cv t handleSave)
    from keepsD [OF keeps_Save _ saved(3), of "init_inv c0"] show ?case using saved by (cases s) simp
  qed
  then show ?thesis by (simp add: init_inv_def)
qed

section \<open>Replacing the owner and saving\<close>

lemma Save_returned:
  assumes "Save sv n p ct cv t handle (c, dt, w) = (Ret (), s')"
  shows "\<exists>err dt' v. save_run sv n p ct cv t (c, dt, w) = (Ret err, (c, dt', v)) \<and>
    s' = (c, dt', save_exit handle err v)"
proof -
  obtain err c' dt' v where run: "save_run sv n p ct cv t (c, dt, w) = (Ret err, (c', dt', v))"
    and s': "s' = map_world (save_exit handle err) (c', dt', v)"
    using assms by (auto simp: Save_def bindg_Ret deferg_Ret base_Ret)
  have "c' = c"
    using keepsD [OF keeps_save_run [where I = "\<lambda>x. x = c"] _ run] by simp
  then show ?thesis using run s' by (auto simp: map_world_def)
qed

lemma bind_of_device_type_Ret:
  "bindg (of_device_type m) f (c, dt, w) = (Ret b, s) \<longleftrightarrow>
     (\<exists>a dt'. m dt = (Ret a, dt') \<and> f a (c, dt', w) = (Ret b, s))"
  by (cases "m dt") (auto simp: bindg_def of_device_type_def split: outcome.split)

text \<open>
  The steps of \<open>Save\<close> with a client \<open>api\<close> of a new owner, from one world to the next: the key of the
  owner of the configuration is sent when one was loaded; the removal of the former device is
  requested with the client of the former owner, whatever the answer \<open>r\<close> is; and the device is
  registered under its type, version and key, and its identity set.
\<close>

definition key_sent ::
  "'x save_services \<Rightarrow> 'x ConfigInitializer \<Rightarrow> graphql_client \<Rightarrow> 'x world \<Rightarrow> 'x world \<Rightarrow> bool" where
  "key_sent sv c api w v = (if ci_updateUserKey c
     then \<exists>p. dc_GetOwner (fc_DeviceContext (ci_appConfig c)) w = Some p \<and>
       UpdateUserKey (sv_updateUserKey sv) api p w = (Ret None, v)
     else v = w)"

definition removal_requested ::
  "'x save_services \<Rightarrow> 'x ConfigInitializer \<Rightarrow> 'x world \<Rightarrow> 'x world \<Rightarrow> bool" where
  "removal_requested sv c w v = (case ci_currOwnerAPIClient c of
     None \<Rightarrow> v = w
   | Some old \<Rightarrow> \<exists>r. UnRegisterDevice (sv_deleteDevice sv) old (ci_currDeviceID c) w = (Ret r, v))"

definition registered_as ::
  "'x save_services \<Rightarrow> 'x ConfigInitializer \<Rightarrow> graphql_client \<Rightarrow> string \<Rightarrow> string \<Rightarrow> string \<Rightarrow>
     device_type_state \<Rightarrow> 'x world \<Rightarrow> 'x world \<Rightarrow> bool" where
  "registered_as sv c api n ct cv dt w x = (let dc = fc_DeviceContext (ci_appConfig c) in
     \<exists>deviceType d key i v. fst (GetDeviceType (sv_type_in_time sv) dt) = Ret deviceType \<and>
       dc_GetDevice dc w = Some d \<and>
       RegisterDevice (sv_addDevice sv) api n deviceType (GetDeviceVersion (sv_GOOS sv) (sv_GOARCH sv) ct cv) []
         (d_RSAPublicKey (devices w d)) [] w = (Ret (Inr (key, i)), v) \<and>
       x = dc_SetDeviceID dc key i n v)"

lemma unregister_current_Ret:
  assumes "unregister_current sv (c, dt, w) = (Ret (), s')"
  shows "\<exists>u. s' = (c, dt, u) \<and> removal_requested sv c w u"
  using assms
  by (cases s'; cases "ci_currOwnerAPIClient c")
    (auto simp: unregister_current_def removal_requested_def bind_get_ci bind_in_world_Ret base_Ret)

lemma register_new_None:
  assumes "register_new sv api n ct cv (c, dt, u) = (Ret None, (c', dt', w'))"
  shows "registered_as sv c api n ct cv dt u w'"
proof -
  let ?dc = "fc_DeviceContext (ci_appConfig c)"
  obtain ty dt1 where ty: "fst (GetDeviceType (sv_type_in_time sv) dt) = Ret ty"
    and rest: "bindg (in_world (getg (dc_GetDevice ?dc))) (\<lambda>device.
     bindg (deref device) (\<lambda>d.
     bindg (in_world (getg (\<lambda>w. d_RSAPublicKey (devices w d)))) (\<lambda>publicKey.
     bindg (in_world (RegisterDevice (sv_addDevice sv) api n ty
              (GetDeviceVersion (sv_GOOS sv) (sv_GOARCH sv) ct cv) [] publicKey [])) (\<lambda>r.
     case r of
       Inl err \<Rightarrow> ret (Some err)
     | Inr (deviceIDKey, deviceID) \<Rightarrow>
         bindg (in_world (putg (dc_SetDeviceID ?dc deviceIDKey deviceID n))) (\<lambda>_. ret None)))))
     (c, dt1, u) = (Ret None, (c', dt', w'))"
    using assms
    by (auto simp: register_new_def bind_of_device_type_Ret bind_get_ci)
  obtain d where d: "dc_GetDevice ?dc u = Some d"
    using rest by (cases "dc_GetDevice ?dc u") (auto simp: bind_in_world_pure deref_def base_Ret)
  show ?thesis
    using rest ty unfolding registered_as_def Let_def
    by (auto simp: bind_in_world_pure d deref_def bind_in_world_Ret case_sum_Ret case_prod_Ret base_Ret)
qed

lemma register_device_None:
  assumes "register_device sv n ct cv (c, dt, w) = (Ret None, (c', dt', w'))"
    and "ci_newOwnerAPIClient c = Some api"
  shows "\<exists>v. removal_requested sv c w v \<and> registered_as sv c api n ct cv dt v w'"
proof -
  obtain u where u: "unregister_current sv (c, dt, w) = (Ret (), (c, dt, u))" "removal_requested sv c w u"
    using assms(1) unregister_current_Ret by (fastforce simp: register_device_def bindg_Ret)
  have "register_new sv api n ct cv (c, dt, u) = (Ret None, (c', dt', w'))"
    using assms
    by (simp add: register_device_def bindg_step [where m = "unregister_current sv", OF u(1)] bind_get_ci)
  then show ?thesis using register_new_None u(2) by blast
qed

lemma update_key_None:
  assumes "update_key sv (c, dt, w) = (Ret None, s')" and "ci_newOwnerAPIClient c = Some api"
  shows "\<exists>p v. s' = (c, dt, v) \<and> dc_GetOwner (fc_DeviceContext (ci_appConfig c)) w = Some p \<and>
    UpdateUserKey (sv_updateUserKey sv) api p w = (Ret None, v)"
  using assms
  by (cases s'; cases "dc_GetOwner (fc_DeviceContext (ci_appConfig c)) w")
    (auto simp: update_key_def bind_get_ci bind_in_world_pure deref_def base_Ret bindg_ret bindg_panic)

lemma write_config_Ret:
  assumes "write_config p t (c, dt, w) = (Ret e, (c', dt', w'))"
  defines "fc \<equiv> ci_appConfig c"
  shows "fc_Save fc (fc_SetInitialized fc (fc_SetKeyTimeout fc (minutes t) (fc_SetPassphrase fc p w))) = (e, w')"
  using assms by (auto simp: write_config_def bind_get_ci bind_in_world_pure callg_apply)

lemma save_run_None:
  assumes "save_run sv n p ct cv t (c, dt, w) = (Ret None, (c', dt', w'))" and "ci_resetConfig c"
    and api: "ci_newOwnerAPIClient c = Some api"
  defines "fc \<equiv> ci_appConfig c"
  shows "\<exists>v u x. key_sent sv c api w v \<and> removal_requested sv c v u \<and>
    registered_as sv c api n ct cv dt u x \<and>
    fc_Save fc (fc_SetInitialized fc (fc_SetKeyTimeout fc (minutes t) (fc_SetPassphrase fc p x))) = (None, w')"
proof -
  obtain s0 where start: "(if ci_updateUserKey c then update_key sv else ret None) (c, dt, w) = (Ret None, s0)"
    and rest: "bindg (register_device sv n ct cv) (\<lambda>e.
         case e of Some err \<Rightarrow> ret (Some err) | None \<Rightarrow> write_config p t) s0 = (Ret None, (c', dt', w'))"
    using assms(1,2) by (auto simp: save_run_def bind_get_ci bindg_Ret case_option_Ret base_Ret)
  obtain w0 where s0: "s0 = (c, dt, w0)" and key: "key_sent sv c api w w0"
  proof (cases "ci_updateUserKey c")
    case True
    then have "update_key sv (c, dt, w) = (Ret None, s0)" using start by simp
    from update_key_None [OF this api] True that show thesis by (auto simp: key_sent_def)
  next
    case False
    then show thesis using start that by (simp add: ret_apply key_sent_def)
  qed
  obtain c1 dt1 v where reg: "register_device sv n ct cv (c, dt, w0) = (Ret None, (c1, dt1, v))"
    and stored: "write_config p t (c1, dt1, v) = (Ret None, (c', dt', w'))"
    using rest s0 by (auto simp: bindg_Ret case_option_Ret base_Ret)
  have "c1 = c" using keepsD [OF keeps_register_device [where I = "\<lambda>x. x = c"] _ reg] by simp
  then show ?thesis
    using key register_device_None [OF reg api] write_config_Ret [OF stored] unfolding fc_def by blast
qed


section \<open>Saving after a failed replacement\<close>

text \<open>The world after the request to remove the device that the initializer found.\<close>

definition former_removed :: "'x save_services \<Rightarrow> 'x ConfigInitializer \<Rightarrow> 'x world \<Rightarrow> 'x world" where
  "former_removed sv c w = (case ci_currOwnerAPIClient c of
     None \<Rightarrow> w
   | Some old \<Rightarrow> w\<lparr>ext := snd (sv_deleteDevice sv old (deleteDevice_request (ci_currDeviceID c)) (ext w))\<rparr>)"

lemma unregister_current_apply:
  "unregister_current sv (c, dt, w) = (Ret (), (c, dt, former_removed sv c w))"
proof (cases "ci_currOwnerAPIClient c")
  case (Some old)
  let ?answer = "sv_deleteDevice sv old (deleteDevice_request (ci_currDeviceID c)) (ext w)"
  obtain r where un: "UnRegisterDevice (sv_deleteDevice sv) old (ci_currDeviceID c) w =
      (Ret r, w\<lparr>ext := snd ?answer\<rparr>)"
    by (cases "fst ?answer") (simp_all add: UnRegisterDevice_def go_monad)
  show ?thesis
    by (simp add: unregister_current_def former_removed_def bind_get_ci Some ret_apply
        bind_in_world_step [where m = "UnRegisterDevice (sv_deleteDevice sv) old (ci_currDeviceID c)", OF un])
qed (simp add: unregister_current_def former_removed_def bind_get_ci ret_apply)

lemma Save_apply:
  "save_run sv n p ct cv t (c, dt, w) = (Ret err, (c, dt, v)) \<Longrightarrow>
     Save sv n p ct cv t handle (c, dt, w) = (Ret (), (c, dt, save_exit handle err v))"
  by (simp add: Save_def bindg_def deferg_def ret_apply map_world_def)

abbreviation no_new_owner :: error where
  "no_new_owner \<equiv> ''no new owner API client available to register new device with''"

lemma Save_without_new_owner:
  assumes "ci_resetConfig c" and "ci_newOwnerAPIClient c = None" and "\<not> ci_updateUserKey c"
  shows "Save sv n p ct cv t handle (c, dt, w) =
    (Ret (), (c, dt, save_exit handle (Some no_new_owner) (former_removed sv c w)))"
proof -
  have registered: "register_device sv n ct cv (c, dt, w) = (Ret (Some no_new_owner), (c, dt, former_removed sv c w))"
    using assms(2)
    by (simp add: register_device_def bindg_step [where m = "unregister_current sv", OF unregister_current_apply]
        bind_get_ci ret_apply)
  show ?thesis
    using assms(1,3)
    by (intro Save_apply) (simp add: save_run_def bind_get_ci ret_apply
        bindg_step [where m = "register_device sv n ct cv", OF registered])
qed

text \<open>A configuration is written with a pass phrase and a lock timeout.\<close>

definition written_with :: "'x FileConfig \<Rightarrow> string \<Rightarrow> int64 \<Rightarrow> 'x world \<Rightarrow> error option \<times> 'x world" where
  "written_with fc p t w = fc_Save fc (fc_SetInitialized fc (fc_SetKeyTimeout fc (minutes t) (fc_SetPassphrase fc p w)))"

lemma Save_without_reset:
  assumes "\<not> ci_resetConfig c" and "\<not> ci_updateUserKey c"
    and "written_with (ci_appConfig c) p t w = (e, v)"
  shows "Save sv n p ct cv t handle (c, dt, w) = (Ret (), (c, dt, save_exit handle e v))"
proof (rule Save_apply)
  show "save_run sv n p ct cv t (c, dt, w) = (Ret e, (c, dt, v))"
    using assms
    by (simp add: save_run_def write_config_def written_with_def bind_get_ci bind_in_world_pure ret_apply
        callg_apply)
qed

lemma failed_reset:
  assumes "ResetDeviceOwner env handle (c, dt, w) = (Ret (), (c1, dt1, w1))" and "ci_newOwnerAPIClient c1 = None"
  shows "\<exists>err v. w1 = handle [] [] False (Some err) v \<and>
    c1 = c\<lparr>ci_newOwnerAPIClient := None, ci_resetConfig := \<not> fc_Initialized (ci_appConfig c) v\<rparr>"
proof -
  obtain r c2 dt2 v where run: "reset_owner env (c, dt, w) = (Ret r, (c2, dt2, v))"
    and exit: "(c1, dt1, w1) = reset_exit handle r (c2, dt2, v)"
    using assms(1) by (auto simp: ResetDeviceOwner_def bindg_Ret deferg_Ret base_Ret)
  then show ?thesis
    using reset_owner_result [OF run] assms(2)
    by (cases r) (auto simp: reset_exit_def intro!: exI [of _ v])
qed

lemma successful_reset:
  assumes "ResetDeviceOwner env handle (c, dt, w) = (Ret (), (c1, dt1, w1))" and "ci_newOwnerAPIClient c1 \<noteq> None"
  shows "\<exists>w0. le_InitFileConfig env (fc_GetConfigFile (ci_appConfig c)) (\<lambda>_. []) w = (Inr (ci_appConfig c1), w0)"
proof -
  obtain r c2 dt2 v where run: "reset_owner env (c, dt, w) = (Ret r, (c2, dt2, v))"
    and exit: "(c1, dt1, w1) = reset_exit handle r (c2, dt2, v)"
    using assms(1) by (auto simp: ResetDeviceOwner_def bindg_Ret deferg_Ret base_Ret)
  then show ?thesis
    using reset_owner_result [OF run] assms(2) by (cases r) (auto simp: reset_exit_def)
qed

text \<open>
  Property C29. A first \<open>ResetDeviceOwner\<close> leaves a new owner, a second one fails before the
  configuration of the first has been saved, and no key was loaded. Then the initializer has the
  configuration of the first reset and no client of its owner, and what \<open>Save\<close> does depends on
  whether this configuration counted as initialized when the second one failed. If not, it asks for
  the removal of the device of the former owner, if there was one, and fails: no device is registered
  and nothing is written. If it did, it writes that configuration, and no device is registered either.
\<close>
theorem failed_second_reset_loses_device:
  assumes first: "ResetDeviceOwner env handle (c0, dt0, w0) = (Ret (), (c, dt, w))" "ci_newOwnerAPIClient c \<noteq> None"
    and second: "ResetDeviceOwner env' handle' (c, dt1, w1) = (Ret (), (c1, dt2, w2))" "ci_newOwnerAPIClient c1 = None"
    and key: "\<not> ci_updateUserKey c0"
  shows "\<exists>err v. w2 = handle' [] [] False (Some err) v \<and> ci_appConfig c1 = ci_appConfig c \<and>
    Save sv n p ct cv t handle'' (c1, dt3, w3) = (Ret (), (c1, dt3,
      (if fc_Initialized (ci_appConfig c) v
       then (case written_with (ci_appConfig c) p t w3 of (e, w') \<Rightarrow> save_exit handle'' e w')
       else save_exit handle'' (Some no_new_owner) (former_removed sv c0 w3))))"
proof -
  obtain err v where v: "w2 = handle' [] [] False (Some err) v"
    and c1: "c1 = c\<lparr>ci_newOwnerAPIClient := None, ci_resetConfig := \<not> fc_Initialized (ci_appConfig c) v\<rparr>"
    using failed_reset [OF second] by blast
  obtain new api where c: "c = c0\<lparr>ci_newOwnerAPIClient := Some api, ci_resetConfig := True, ci_appConfig := new\<rparr>"
    using ResetDeviceOwner_frame [OF first(1)] first(2) by auto
  have "former_removed sv (c\<lparr>ci_newOwnerAPIClient := None, ci_resetConfig := b\<rparr>) w3 = former_removed sv c0 w3" for b
    by (simp add: former_removed_def c cong: option.case_cong)
  then show ?thesis
    using v key Save_without_new_owner [of c1 sv n p ct cv t handle'' dt3 w3]
      Save_without_reset [of c1 p t w3 _ _ sv n ct cv handle'' dt3]
    by (cases "written_with new p t w3"; cases "fc_Initialized new v")
      (intro exI [of _ err] exI [of _ v], simp add: c1 c)+
qed

lemma UpdateUserKey_apply:
  "UpdateUserKey svc api p w = (case svc api (updateUserKey_request (users w p)) (ext w) of (answer, x) \<Rightarrow>
     (Ret (case answer of
        Inl err \<Rightarrow> Some err
      | Inr returned \<Rightarrow> if returned \<noteq> u_UserID (users w p)
          then Some ''updateUserKey returned user does not match given user'' else None), w\<lparr>ext := x\<rparr>))"
  by (cases "svc api (updateUserKey_request (users w p)) (ext w)"; cases "fst (svc api (updateUserKey_request (users w p)) (ext w))")
    (auto simp: UpdateUserKey_def go_monad)

lemma key_loaded_frame:
  assumes "LoadDeviceOwnerKey kf url create handle (c, dt, w) = (Ret (), (c', dt', w'))" and "ci_updateUserKey c'"
  shows "c' = c\<lparr>ci_updateUserKey := True\<rparr>"
proof -
  have "keeps (\<lambda>s. fst s = c \<or> fst s = c\<lparr>ci_updateUserKey := True\<rparr>) (LoadDeviceOwnerKey kf url create handle)"
    by (rule keeps_Load [where I = "\<lambda>x. x = c \<or> x = c\<lparr>ci_updateUserKey := True\<rparr>"]) auto
  from keepsD [OF this _ assms(1)] show ?thesis using assms(2) by auto
qed

text \<open>
  Property C30. A first \<open>ResetDeviceOwner\<close> leaves a new owner, \<open>LoadDeviceOwnerKey\<close> sets that user's
  key, and a second reset fails. Then \<open>Save\<close> sends the key of the new owner with the client of the
  former owner, and fails with nothing else done, unless the service takes that request for the new
  owner's; and without a former owner it panics.
\<close>
theorem failed_reset_sends_key_as_former_owner:
  assumes first: "ResetDeviceOwner env handle (c0, dt0, w0) = (Ret (), (c, dt, w))" "ci_newOwnerAPIClient c \<noteq> None"
    and load: "LoadDeviceOwnerKey kf url create handleKey (c, dt1, w1) = (Ret (), (ck, dt2, w2))" "ci_updateUserKey ck"
    and second: "ResetDeviceOwner env' handle' (ck, dt3, w3) = (Ret (), (c1, dt4, w4))" "ci_newOwnerAPIClient c1 = None"
    and owner: "dc_GetOwner (fc_DeviceContext (ci_appConfig c)) w5 = Some p"
  shows "case ci_currOwnerAPIClient c0 of
      None \<Rightarrow> \<exists>e. fst (Save sv n pw ct cv t handle'' (c1, dt5, w5)) = Panic e
    | Some former \<Rightarrow>
        (case sv_updateUserKey sv former (updateUserKey_request (users w5 p)) (ext w5) of (answer, x) \<Rightarrow>
           answer = Inr (u_UserID (users w5 p)) \<or>
           (\<exists>err. Save sv n pw ct cv t handle'' (c1, dt5, w5) =
              (Ret (), (c1, dt5, save_exit handle'' (Some err) (w5\<lparr>ext := x\<rparr>)))))"
proof -
  obtain new api where c: "c = c0\<lparr>ci_newOwnerAPIClient := Some api, ci_resetConfig := True, ci_appConfig := new\<rparr>"
    using ResetDeviceOwner_frame [OF first(1)] first(2) by auto
  have ck: "ck = c\<lparr>ci_updateUserKey := True\<rparr>" using key_loaded_frame [OF load] .
  obtain b where c1: "c1 = ck\<lparr>ci_newOwnerAPIClient := None, ci_resetConfig := b\<rparr>"
    using failed_reset [OF second] by blast
  have start: "ci_updateUserKey c1" "ci_newOwnerAPIClient c1 = None" "ci_currOwnerAPIClient c1 = ci_currOwnerAPIClient c0"
      "dc_GetOwner (fc_DeviceContext (ci_appConfig c1)) w5 = Some p"
    using owner by (simp_all add: c1 ck c)
  show ?thesis
  proof (cases "ci_currOwnerAPIClient c0")
    case None
    then have up: "update_key sv (c1, dt5, w5) = (Panic ''invalid memory address or nil pointer dereference'', (c1, dt5, w5))"
      using start by (simp add: update_key_def bind_get_ci bind_in_world_pure deref_def go_monad)
    have "save_run sv n pw ct cv t (c1, dt5, w5) =
        (Panic ''invalid memory address or nil pointer dereference'', (c1, dt5, w5))"
      using start by (simp add: save_run_def bind_get_ci bindg_step_Panic [where m = "update_key sv", OF up])
    then have "fst (Save sv n pw ct cv t handle'' (c1, dt5, w5)) = Panic ''invalid memory address or nil pointer dereference''"
      by (simp add: Save_def bindg_def deferg_def)
    then show ?thesis using None by simp
  next
    case (Some former)
    obtain answer x where a: "sv_updateUserKey sv former (updateUserKey_request (users w5 p)) (ext w5) = (answer, x)"
      by (metis prod.collapse)
    have "\<exists>err. Save sv n pw ct cv t handle'' (c1, dt5, w5) =
        (Ret (), (c1, dt5, save_exit handle'' (Some err) (w5\<lparr>ext := x\<rparr>)))"
      if mismatch: "answer \<noteq> Inr (u_UserID (users w5 p))"
    proof -
      obtain err where "UpdateUserKey (sv_updateUserKey sv) former p w5 = (Ret (Some err), w5\<lparr>ext := x\<rparr>)"
      proof (cases answer)
        case (Inl e)
        then have "UpdateUserKey (sv_updateUserKey sv) former p w5 = (Ret (Some e), w5\<lparr>ext := x\<rparr>)"
          using a by (simp add: UpdateUserKey_apply)
        then show thesis by (rule that)
      next
        case (Inr i)
        then have "i \<noteq> u_UserID (users w5 p)" using mismatch by simp
        then have "UpdateUserKey (sv_updateUserKey sv) former p w5 =
            (Ret (Some ''updateUserKey returned user does not match given user''), w5\<lparr>ext := x\<rparr>)"
          using a Inr by (simp add: UpdateUserKey_apply)
        then show thesis by (rule that)
      qed
      then have up: "update_key sv (c1, dt5, w5) = (Ret (Some err), (c1, dt5, w5\<lparr>ext := x\<rparr>))"
        using start Some by (simp add: update_key_def bind_get_ci bind_in_world_pure deref_def go_monad)
      have "save_run sv n pw ct cv t (c1, dt5, w5) = (Ret (Some err), (c1, dt5, w5\<lparr>ext := x\<rparr>))"
        using start by (simp add: save_run_def bind_get_ci bindg_step [where m = "update_key sv", OF up] ret_apply)
      then show ?thesis using Save_apply by blast
    qed
    then show ?thesis using Some a by auto
  qed
qed

section \<open>The time until the device is locked\<close>

lemma sdiv_mult_self: "0 < c \<Longrightarrow> (x * c) sdiv (c :: int) = x"
  by (simp add: signed_divide_int_def abs_mult sgn_mult mult_sgn_abs)

lemma sdiv_bound: "0 < c \<Longrightarrow> \<bar>x\<bar> \<le> m \<Longrightarrow> \<bar>x sdiv c\<bar> \<le> m div (c :: int)"
  by (cases "x = 0")
    (simp_all add: signed_divide_int_def abs_mult zdiv_mono1 abs_sgn_eq pos_imp_zdiv_nonneg_iff)

text \<open>
  Property C37. A timeout that was set from \<open>n\<close> minutes is read back as \<open>n\<close> minutes if and only if
  \<open>n\<close> lies between -153722867 and 153722867, about 292 years: beyond that the number of nanoseconds
  wraps around.
\<close>
theorem timeout_roundtrip_bounds:
  assumes "fc_GetKeyTimeout (ci_appConfig ci) w = minutes n"
  shows "UnlockedTimeout ci w = n \<longleftrightarrow> \<bar>sint n\<bar> \<le> 153722867"
proof -
  have m: "sint Minute = 60000000000" by (simp add: Minute_def)
  let ?d = "minutes n" and ?q = "sint (minutes n) sdiv 60000000000"
  have "\<bar>sint ?d\<bar> \<le> 2 ^ 63" using sint64_range [of ?d] by linarith
  then have "\<bar>?q\<bar> \<le> 2 ^ 63 div 60000000000" by (intro sdiv_bound) simp_all
  then have small: "\<bar>?q\<bar> \<le> 153722867" by simp
  then have q: "sint (word_of_int ?q :: int64) = ?q" by (intro sint_of_int64) simp_all
  have read: "UnlockedTimeout ci w = word_of_int ?q"
    using assms by (simp add: UnlockedTimeout_def m)
  have fits: "word_of_int ?q = n" if "\<bar>sint n\<bar> \<le> 153722867"
  proof -
    have "?d = word_of_int (sint n * 60000000000)" by (simp add: minutes_def Minute_def)
    moreover have "sint (word_of_int (sint n * 60000000000) :: int64) = sint n * 60000000000"
      using that by (intro sint_of_int64) (simp_all add: abs_le_iff)
    ultimately have "?q = sint n" by (simp add: sdiv_mult_self)
    then show ?thesis by simp
  qed
  show ?thesis
    using read q small fits by metis
qed

section \<open>Witnesses\<close>

definition test_file_config :: "bool \<Rightarrow> mem_ctx FileConfig" where
  "test_file_config initialized = \<lparr>fc_Config = test_config False, fc_GetConfigFile = ''config.yml'',
     fc_GetPassphrase = (\<lambda>_. []), fc_Initialized = (\<lambda>_. initialized), fc_Load = (\<lambda>w. (None, w)),
     fc_Save = (\<lambda>w. (None, w)), fc_SetPassphrase = (\<lambda>_ w. w),
     fc_GetKeyTimeout = (\<lambda>w. of_nat (m_next (ext w)) * Minute),
     fc_SetKeyTimeout = (\<lambda>_ w. w), fc_SetInitialized = (\<lambda>w. w)\<rparr>"

definition test_login_env :: "(error + mem_ctx FileConfig) \<Rightarrow> (unit, mem_ctx) login_env" where
  "test_login_env created = \<lparr>le_InitFileConfig = (\<lambda>_ _ w. (created, w)), le_transport = gc_transport test_client,
     le_jwt = test_jwt ''5555'' ''bob'' 0, le_cloudProps = (\<lambda>_ _ x. (Inr ([], []), x)),
     le_getUser = (\<lambda>_ _ x. (Inr \<lparr>gu_UserID = ''5555'', gu_PublicKey = [], gu_Certificate = []\<rparr>, x)),
     le_NewAuthenticator = test_authenticator, le_goos = ''linux'', le_run = (\<lambda>_ w. (None, w))\<rparr>"

definition test_initializer :: "bool \<Rightarrow> mem_ctx ConfigInitializer" where
  "test_initializer initialized = \<lparr>ci_appConfig = test_file_config initialized, ci_resetConfig = True,
     ci_currOwnerAPIClient = Some test_client, ci_currOwnerUserID = ''0000'', ci_currDeviceID = ''1234'',
     ci_newOwnerAPIClient = Some test_client, ci_updateUserKey = False, ci_serviceConfig = test_sc\<rparr>"

definition test_type :: device_type_state where
  "test_type = \<lparr>dt_deviceType = ''LinuxPC'', dt_pending = None\<rparr>"

definition test_services :: "mem_ctx save_services" where
  "test_services = \<lparr>sv_updateUserKey = (\<lambda>_ _ x. (Inr [], x)), sv_deleteDevice = (\<lambda>_ _ x. (Inr [], x)),
     sv_addDevice = (\<lambda>_ _ x. (Inl ''offline'', x)), sv_type_in_time = True, sv_GOOS = [], sv_GOARCH = []\<rparr>"

definition test_key_files :: "(unit, mem_ctx) keyfile_ops" where
  "test_key_files = \<lparr>kf_Stat = (\<lambda>_ _. Exists), kf_NewRSAKey = (\<lambda>w. (Inr (), w)),
     kf_GetEncryptedPrivateKeyPEM = (\<lambda>_ _ w. (Inr [], w)), kf_WriteFile = (\<lambda>_ _ w. (None, w)),
     kf_NewRSAKeyFromFile = (\<lambda>_ _ w. (Inr (Some ()), w)), kf_SetKey = (\<lambda>_ _ _ w. (None, w))\<rparr>"

definition show_result :: "mem_ctx auth_handler" where
  "show_result u d k err = log_ui [WriteText (case err of None \<Rightarrow> u @ ''@'' @ d | Some e \<Rightarrow> e)]"

abbreviation test_reset :: "(error + mem_ctx FileConfig) \<Rightarrow> unit outcome \<times> mem_ctx ci_world" where
  "test_reset created \<equiv> ResetDeviceOwner (test_login_env created) show_result
     (test_initializer False, test_type, test_world)"

lemma test_reset_returns:
  "fst (test_reset (Inr (test_file_config False))) = Ret ()"
  "fst (test_reset (Inl ''no disk'')) = Ret ()"
  by (code_simp)+

theorem reset_needs_owner_witness:
  "\<exists>c' w'. test_reset (Inr (test_file_config False)) = (Ret (), (c', test_type, w')) \<and>
     ((\<exists>err v. w' = show_result [] [] False (Some err) v) \<or>
      (\<exists>u. logged_in_as (test_login_env (Inr (test_file_config False))) test_sc (test_file_config False) u \<and>
         u \<noteq> ''owner''))"
proof -
  obtain c' dt' w' where run: "test_reset (Inr (test_file_config False)) = (Ret (), (c', dt', w'))"
    using test_reset_returns(1) by (metis prod_cases3 prod.collapse)
  have owner: "dc_GetOwnerUserName (fc_DeviceContext (ci_appConfig (test_initializer False))) test_world = (''owner'', True)"
    by (simp add: test_initializer_def test_file_config_def test_config_def mem_context_def test_world_def test_user_def)
  have same: "w0 = test_world" if "le_InitFileConfig (test_login_env r) f g test_world = (r', w0)" for r r' f g w0
    using that by (simp add: test_login_env_def)
  show ?thesis
    using run reset_needs_owner [OF run] owner same
    by (fastforce simp: test_initializer_def test_login_env_def)
qed

theorem initializer_invariant_witness:
  "\<exists>c0 c w. init_run (\<lambda>_ _ w. (Inr (test_file_config True), w)) (gc_transport test_client) test_sc
      (test_login_env (Inl ''no disk'')) test_key_files test_services c0 (c, test_type, w) \<and>
     ci_currDeviceID c = ci_currDeviceID c0"
proof -
  let ?icf = "\<lambda>_ _ w. (Inr (test_file_config True), w)"
  let ?new = "NewConfigInitializer ?icf (gc_transport test_client) (test_file_config True) test_sc test_world"
  have "case fst ?new of Ret (Inr _) \<Rightarrow> True | _ \<Rightarrow> False" by code_simp
  then obtain c0 w0 where "?new = (Ret (Inr c0), w0)"
    by (cases ?new; cases "fst ?new") (auto split: outcome.splits sum.splits)
  note run = init_run.made [OF this, where dt = test_type and env = "test_login_env (Inl ''no disk'')"
      and kf = test_key_files and sv = test_services]
  show ?thesis using run initializer_invariant [OF run] by blast
qed

definition working_services :: "mem_ctx save_services" where
  "working_services = test_services\<lparr>sv_addDevice :=
     (\<lambda>_ _ x. (Inr \<lparr>adv_IdKey = ''key'', adv_DeviceID = ''7777''\<rparr>, x))\<rparr>"

definition note_error :: "error option \<Rightarrow> mem_ctx world \<Rightarrow> mem_ctx world" where
  "note_error err w = w\<lparr>yesno_answers := [err = None]\<rparr>"

definition test_save :: "mem_ctx ci_world \<Rightarrow> unit outcome \<times> mem_ctx ci_world" where
  "test_save = Save working_services ''dev'' [] [] [] 0 note_error"

lemma note_error_answers: "yesno_answers (save_exit note_error err w) = [err = None]"
  by (simp add: save_exit_def note_error_def)

text \<open>
  Two resets of a device that is not set up: the first one creates a configuration, the second one
  cannot.
\<close>

definition test_key_loaded :: "mem_ctx ci_world \<Rightarrow> unit outcome \<times> mem_ctx ci_world" where
  "test_key_loaded s = LoadDeviceOwnerKey test_key_files ''file://key'' False (\<lambda>_ _ w. w)
     (map_world (\<lambda>w. w\<lparr>text_answers := [Some ''pass'']\<rparr>) s)"

definition second_reset :: "mem_ctx ci_world \<Rightarrow> unit outcome \<times> mem_ctx ci_world" where
  "second_reset = ResetDeviceOwner (test_login_env (Inl ''no disk'')) show_result"

lemma second_reset_runs:
  defines "s \<equiv> snd (test_reset (Inr (test_file_config False)))"
  shows "ci_newOwnerAPIClient (fst s) \<noteq> None"
    and "fst (second_reset s) = Ret ()" and "ci_newOwnerAPIClient (fst (snd (second_reset s))) = None"
    and "fst (test_key_loaded s) = Ret ()" and "ci_updateUserKey (fst (snd (test_key_loaded s)))"
    and "fst (second_reset (snd (test_key_loaded s))) = Ret ()"
    and "ci_newOwnerAPIClient (fst (snd (second_reset (snd (test_key_loaded s))))) = None"
  unfolding s_def by (code_simp)+

theorem failed_second_reset_loses_device_witness:
  "\<exists>s c1 dt1 w1. test_reset (Inr (test_file_config False)) = (Ret (), s) \<and> second_reset s = (Ret (), (c1, dt1, w1)) \<and>
     Save test_services ''dev'' [] [] [] 0 note_error (c1, dt1, w1) = (Ret (), (c1, dt1,
       save_exit note_error (Some no_new_owner) (former_removed test_services (test_initializer False) w1)))"
proof -
  let ?r1 = "test_reset (Inr (test_file_config False))"
  obtain c dt w where first: "?r1 = (Ret (), (c, dt, w))"
    using test_reset_returns(1) by (metis prod_cases3 prod.collapse)
  obtain c1 dt1 w1 where second: "second_reset (c, dt, w) = (Ret (), (c1, dt1, w1))"
    using second_reset_runs(2) first by (metis prod_cases3 prod.collapse snd_conv)
  have new: "ci_newOwnerAPIClient c \<noteq> None" "ci_newOwnerAPIClient c1 = None"
    using second_reset_runs(1,3) first second by simp_all
  have app: "\<not> fc_Initialized (ci_appConfig c) v" for v
    using successful_reset [OF first new(1)] by (simp add: test_login_env_def test_file_config_def flip: eq_commute)
  have "\<not> ci_updateUserKey (test_initializer False)" by (simp add: test_initializer_def)
  from failed_second_reset_loses_device [OF first new(1) second [unfolded second_reset_def] new(2) this]
  show ?thesis using first second app by auto
qed

theorem timeout_roundtrip_bounds_witness:
  "UnlockedTimeout (test_initializer False) test_world = 4"
  by (subst timeout_roundtrip_bounds [where n = 4])
    (simp_all add: test_initializer_def test_file_config_def test_world_def minutes_def)

theorem failed_reset_sends_key_as_former_owner_witness:
  "\<exists>s s' c1 dt1 w1. test_reset (Inr (test_file_config False)) = (Ret (), s) \<and> test_key_loaded s = (Ret (), s') \<and>
     second_reset s' = (Ret (), (c1, dt1, w1)) \<and>
     (\<exists>err. Save test_services ''dev'' [] [] [] 0 note_error (c1, test_type, test_world) =
        (Ret (), (c1, test_type, save_exit note_error (Some err) test_world)))"
proof -
  let ?r1 = "test_reset (Inr (test_file_config False))"
  obtain c dt w where first: "?r1 = (Ret (), (c, dt, w))"
    using test_reset_returns(1) by (metis prod_cases3 prod.collapse)
  obtain ck dt1 w1 where load: "test_key_loaded (c, dt, w) = (Ret (), (ck, dt1, w1))"
    using second_reset_runs(4) first by (metis prod_cases3 prod.collapse snd_conv)
  obtain c1 dt2 w2 where second: "second_reset (ck, dt1, w1) = (Ret (), (c1, dt2, w2))"
    using second_reset_runs(6) first load by (metis prod_cases3 prod.collapse snd_conv)
  have new: "ci_newOwnerAPIClient c \<noteq> None" "ci_updateUserKey ck" "ci_newOwnerAPIClient c1 = None"
    using second_reset_runs(1,5,7) first load second by simp_all
  have "test_file_config False = ci_appConfig c"
    using successful_reset [OF first new(1)] by (simp add: test_login_env_def)
  then have "ci_appConfig c = test_file_config False" by (rule sym)
  then have owner: "dc_GetOwner (fc_DeviceContext (ci_appConfig c)) test_world = Some 0"
    by (simp add: test_file_config_def test_config_def mem_context_def test_world_def)
  have refused: "ci_currOwnerAPIClient (test_initializer False) = Some test_client"
      "sv_updateUserKey test_services test_client (updateUserKey_request (users test_world 0)) (ext test_world) =
         (Inr [], ext test_world)" "u_UserID (users test_world 0) \<noteq> []" "test_world\<lparr>ext := ext test_world\<rparr> = test_world"
    by (simp_all add: test_initializer_def test_services_def test_world_def test_user_def)
  note sent = failed_reset_sends_key_as_former_owner [OF first new(1) load [unfolded test_key_loaded_def map_world_def prod.case]
      new(2) second [unfolded second_reset_def] new(3) owner, of test_services "''dev''" "[]" "[]" "[]" 0 note_error test_type]
  have "\<exists>err. Save test_services ''dev'' [] [] [] 0 note_error (c1, test_type, test_world) =
      (Ret (), (c1, test_type, save_exit note_error (Some err) test_world))"
    using sent refused(3) by (auto simp: refused(1,2,4))
  then show ?thesis using first load second by blast
qed


end
