(* ===== verification/Go_Net.thy ===== *)
theory Go_Net
  imports Go_Url Go_Strconv
begin

text \<open>
  What the client uses of the packages \<open>net\<close> and \<open>net/netip\<close>: addresses, prefixes, which addresses
  a prefix contains, and whether a text is an IP address.
\<close>

section \<open>Addresses and prefixes\<close>

datatype ip = V4 "32 word" | V6 "128 word"

record prefix =
  px_addr :: ip
  px_bits :: nat

text \<open>\<open>Prefix.Contains\<close>: the same family, and the same leading bits.\<close>

fun prefix_contains :: "prefix \<Rightarrow> ip \<Rightarrow> bool" where
  "prefix_contains p (V4 a) = (case px_addr p of
     V4 b \<Rightarrow> drop_bit (32 - px_bits p) a = drop_bit (32 - px_bits p) b
   | V6 _ \<Rightarrow> False)"
| "prefix_contains p (V6 a) = (case px_addr p of
     V4 _ \<Rightarrow> False
   | V6 b \<Rightarrow> drop_bit (128 - px_bits p) a = drop_bit (128 - px_bits p) b)"

text \<open>
  \<open>netip.ParsePrefix(ip.String() + "/" + bits)\<close>: the address is read back, and the number of bits
  must not pass the width of its family.
\<close>

definition prefix_of :: "ip \<Rightarrow> nat \<Rightarrow> error + prefix" where
  "prefix_of a bits =
     (if bits \<le> (case a of V4 _ \<Rightarrow> 32 | V6 _ \<Rightarrow> 128) then Inr \<lparr>px_addr = a, px_bits = bits\<rparr>
      else Inl ''prefix length out of range'')"

section \<open>ParseIP\<close>

fun split_on :: "char \<Rightarrow> string \<Rightarrow> string list" where
  "split_on sep [] = [[]]"
| "split_on sep (c # s) =
     (if c = sep then [] # split_on sep s
      else case split_on sep s of [] \<Rightarrow> [[c]] | p # ps \<Rightarrow> (c # p) # ps)"

text \<open>A decimal number up to 255 without leading zeros, and one to four hexadecimal digits.\<close>

definition is_octet :: "string \<Rightarrow> bool" where
  "is_octet p = (p \<noteq> [] \<and> list_all is_digit p \<and> dec_value 0 p \<le> 255 \<and>
     (1 < length p \<longrightarrow> hd p \<noteq> CHR ''0''))"

definition is_IPv4 :: "string \<Rightarrow> bool" where
  "is_IPv4 s = (let ps = split_on (CHR ''.'') s in length ps = 4 \<and> list_all is_octet ps)"

definition is_hextet :: "string \<Rightarrow> bool" where
  "is_hextet p = (p \<noteq> [] \<and> length p \<le> 4 \<and> list_all ishex p)"

text \<open>The number of 16-bit groups of the parts of an address; only the last may be an IPv4 address.\<close>

fun hextets :: "bool \<Rightarrow> string list \<Rightarrow> nat option" where
  "hextets v4 [] = Some 0"
| "hextets v4 [p] = (if is_hextet p then Some 1 else if v4 \<and> is_IPv4 p then Some 2 else None)"
| "hextets v4 (p # ps) = (if is_hextet p then map_option Suc (hextets v4 ps) else None)"

definition groups :: "bool \<Rightarrow> string \<Rightarrow> nat option" where
  "groups v4 s = (if s = [] then Some 0 else hextets v4 (split_on (CHR '':'') s))"

definition is_IPv6 :: "string \<Rightarrow> bool" where
  "is_IPv6 s = (case cut_at ''::'' s of
     None \<Rightarrow> groups True s = Some 8
   | Some (a, b) \<Rightarrow> (case (groups False a, groups True (drop 2 b)) of
       (Some m, Some n) \<Rightarrow> m + n \<le> 7
     | _ \<Rightarrow> False))"

definition is_ParseIP :: "string \<Rightarrow> bool" where
  "is_ParseIP s = (case dropWhile (\<lambda>c. c \<noteq> CHR ''.'' \<and> c \<noteq> CHR '':'') s of
     [] \<Rightarrow> False
   | c # _ \<Rightarrow> if c = CHR ''.'' then is_IPv4 s else is_IPv6 s)"

end
