(* ===== verification/Tailscale_Daemon.thy ===== *)
theory Tailscale_Daemon
  imports Space_Nodes Go_Net
begin

text \<open>
  \<open>network/tailscale_daemon.go\<close> and \<open>network/tailscale_daemon_darwin.go\<close>: the daemon of the mesh
  network. Its own state is a pair with the world; the registry of space nodes, which it shares,
  is an argument of the operations that read it. The wrapped daemon, the network tools of Tailscale
  and the counters belong to other packages and are arguments, as is the resolution of a name.
\<close>

section \<open>State\<close>

text \<open>
  \<open>'c\<close> is a counter. A cached mapping has the name and its prefixes; the routes are a Go map.
  \<open>td_metricsTimer\<close> says whether the timer has been made.
\<close>

record 'c TailscaleDaemon =
  td_sent :: 'c
  td_recd :: 'c
  td_metricsTimer :: bool
  td_metricsError :: "error option"
  td_cachedDNSMappings :: "(string \<times> prefix list) list"
  td_tsRoutesToExclude :: "(string \<times> bool) list"

type_synonym ('c, 'x) td_world = "'c TailscaleDaemon \<times> 'x world"

record ('c, 'x) daemon_ops =
  dm_DefaultTailscaledSocket :: string
  dm_Remove :: "string \<Rightarrow> 'x world \<Rightarrow> 'x world"
  dm_NewTailscaleDaemon :: "string \<Rightarrow> 'x world \<Rightarrow> 'x world"
  dm_AddCounters :: "'x world \<Rightarrow> 'x world"
  dm_SetHooks :: "'x world \<Rightarrow> 'x world"
  dm_StartTimer :: "int \<Rightarrow> 'x world \<Rightarrow> error option \<times> 'x world"
  dm_StopTimer :: "'x world \<Rightarrow> 'x world"
  dm_Start :: "'x world \<Rightarrow> error option \<times> 'x world"
  dm_Stop :: "'x world \<Rightarrow> 'x world"
  dm_Logout :: "'x world \<Rightarrow> 'x world"
  dm_WireguardDevice :: "'x world \<Rightarrow> (error + (int64 \<times> int64) list) \<times> 'x world"
  dm_ErrNoDevice :: string
  dm_NewCounter :: "string \<Rightarrow> 'c"
  dm_SetCounter :: "int64 \<Rightarrow> 'c \<Rightarrow> 'c"
  dm_GetCounter :: "'c \<Rightarrow> int64"
  dm_LookupIP :: "string \<Rightarrow> 'x world \<Rightarrow> (error + ip list) \<times> 'x world"
  dm_ip_String :: "ip \<Rightarrow> string"

definition set_td :: "('c TailscaleDaemon \<Rightarrow> 'c TailscaleDaemon) \<Rightarrow> (('c, 'x) td_world, unit) go" where
  "set_td u = putg (\<lambda>(t, w). (u t, w))"

section \<open>The DNS cache\<close>

text \<open>The loop over the addresses of a name: each becomes a prefix of 32 bits.\<close>

fun host_prefixes :: "ip list \<Rightarrow> error + prefix list" where
  "host_prefixes [] = Inr []"
| "host_prefixes (a # as) = (case prefix_of a 32 of
     Inl err \<Rightarrow> Inl err
   | Inr p \<Rightarrow> (case host_prefixes as of Inl err \<Rightarrow> Inl err | Inr ps \<Rightarrow> Inr (p # ps)))"

definition cacheDNSName ::
  "('c, 'x) daemon_ops \<Rightarrow> string \<Rightarrow> (('c, 'x) td_world, error + string list) go" where
  "cacheDNSName dm name =
     bindg (on_snd (callg (dm_LookupIP dm name))) (\<lambda>r.
     case r of
       Inl err \<Rightarrow> ret (Inl err)
     | Inr resolvedIPs \<Rightarrow>
         (case host_prefixes resolvedIPs of
            Inl err \<Rightarrow> ret (Inl err)
          | Inr addrs \<Rightarrow>
              bindg (set_td (\<lambda>t. t\<lparr>td_cachedDNSMappings := td_cachedDNSMappings t @ [(name, addrs)]\<rparr>)) (\<lambda>_.
              ret (Inr (map (dm_ip_String dm) resolvedIPs)))))"

fun CacheDNSNames_loop ::
  "('c, 'x) daemon_ops \<Rightarrow> string list \<Rightarrow> string list \<Rightarrow> (('c, 'x) td_world, error + string list) go" where
  "CacheDNSNames_loop dm [] cachedIPs = ret (Inr cachedIPs)"
| "CacheDNSNames_loop dm (name # names) cachedIPs =
     bindg (cacheDNSName dm name) (\<lambda>r.
     case r of
       Inl err \<Rightarrow> ret (Inl err)
     | Inr ips \<Rightarrow> CacheDNSNames_loop dm names (cachedIPs @ ips))"

definition CacheDNSNames ::
  "('c, 'x) daemon_ops \<Rightarrow> string list \<Rightarrow> (('c, 'x) td_world, error + string list) go" where
  "CacheDNSNames dm dnsNames = CacheDNSNames_loop dm dnsNames []"

definition ResolvedDNSNames :: "'c TailscaleDaemon \<Rightarrow> (string \<times> prefix list) list" where
  "ResolvedDNSNames t = td_cachedDNSMappings t"

section \<open>Routes to exclude\<close>

text \<open>
  The list of interfaces with the prefixes of their addresses, the default interface of the network
  context, and \<open>ForeachInterfaceAddress\<close> as the pairs it visits; the builder of prefix sets gives
  the texts of the prefixes that together cover those it was given.
\<close>

record 'x route_ops =
  ro_GetList :: "'x world \<Rightarrow> (error + nat) \<times> 'x world"
  ro_DefaultInterface :: "'x world \<Rightarrow> (error + string) \<times> 'x world"
  ro_InterfaceAddresses :: "nat \<Rightarrow> 'x world \<Rightarrow> (error + (string \<times> prefix) list) \<times> 'x world"
  ro_IPSet :: "prefix list \<Rightarrow> 'x world \<Rightarrow> (error + string list) \<times> 'x world"

definition getTSRoutesToExclude :: "(string \<times> bool) list" where
  "getTSRoutesToExclude = []"

definition getTSRoutesToExclude_darwin ::
  "'x route_ops \<Rightarrow> ('x world, (string \<times> bool) list) go" where
  "getTSRoutesToExclude_darwin ro =
     (let routes = AList.update ''::/0'' True (AList.update ''0.0.0.0/0'' True []) in
      bindg (callg (ro_GetList ro)) (\<lambda>r.
      case r of
        Inl _ \<Rightarrow> ret routes
      | Inr ifaceList \<Rightarrow>
          bindg (callg (ro_DefaultInterface ro)) (\<lambda>nc.
          case nc of
            Inl _ \<Rightarrow> ret routes
          | Inr defaultIface \<Rightarrow>
              bindg (callg (ro_InterfaceAddresses ro ifaceList)) (\<lambda>addrs.
              case addrs of
                Inl _ \<Rightarrow> ret routes
              | Inr visited \<Rightarrow>
                  bindg (callg (ro_IPSet ro
                    (foldl (\<lambda>b (name, pfx). if name = defaultIface then b @ [pfx] else b) [] visited))) (\<lambda>set.
                  case set of
                    Inl _ \<Rightarrow> ret routes
                  | Inr prefixes \<Rightarrow> ret (foldl (\<lambda>m pfx. AList.update pfx True m) routes prefixes))))))"

definition ExcludeRoute :: "'c TailscaleDaemon \<Rightarrow> string \<Rightarrow> bool" where
  "ExcludeRoute t pfx = (case map_of (td_tsRoutesToExclude t) pfx of
     None \<Rightarrow> False
   | Some exclude \<Rightarrow> exclude)"

section \<open>NewTailscaleDaemon\<close>

text \<open>
  The loop over the nodes: a node whose endpoint is a URL with a host that is no IP address. The
  nodes come from \<open>GetAllSpaces\<close> of the registry.
\<close>

fun cache_endpoints ::
  "('c, 'x) daemon_ops \<Rightarrow> ('h, 'x) node_ops \<Rightarrow> 'h SpaceNode list \<Rightarrow> (('c, 'x) td_world, unit) go" where
  "cache_endpoints dm no [] = ret ()"
| "cache_endpoints dm no (sn # sns) =
     bindg (case no_GetEndpoint no sn of
              Inl _ \<Rightarrow> ret ()
            | Inr spaceEndpoint \<Rightarrow> (case url_Host spaceEndpoint of
                None \<Rightarrow> ret ()
              | Some host \<Rightarrow> if \<not> is_ParseIP host
                  then bindg (cacheDNSName dm host) (\<lambda>_. ret ()) else ret ())) (\<lambda>_.
     cache_endpoints dm no sns)"

definition NewTailscaleDaemon ::
  "('c, 'x) daemon_ops \<Rightarrow> ('h, 'x) node_ops \<Rightarrow> ('x world, (string \<times> bool) list) go \<Rightarrow>
     ('h SpaceNode list \<Rightarrow> 'h SpaceNode list) \<Rightarrow> ('h SpaceNode list \<Rightarrow> 'h SpaceNode list) \<Rightarrow>
     string \<Rightarrow> 'h SpaceNodes \<Rightarrow> bool \<Rightarrow> ('x world, 'c TailscaleDaemon) go" where
  "NewTailscaleDaemon dm no routesToExclude sort_spaces ord statePath spaceNodes hasMonitorService =
     (let socketPath = dm_DefaultTailscaledSocket dm in
      bindg (if 0 < length socketPath then putg (dm_Remove dm socketPath) else ret ()) (\<lambda>_.
      bindg routesToExclude (\<lambda>routes.
      bindg (putg (dm_NewTailscaleDaemon dm statePath)) (\<lambda>_.
      bindg (if hasMonitorService then putg (dm_AddCounters dm) else ret ()) (\<lambda>_.
      bindg (\<lambda>w. case cache_endpoints dm no (GetAllSpaces sort_spaces ord spaceNodes)
                 (\<lparr>td_sent = dm_NewCounter dm ''sent'', td_recd = dm_NewCounter dm ''recd'',
                   td_metricsTimer = False, td_metricsError = None, td_cachedDNSMappings = [],
                   td_tsRoutesToExclude = routes\<rparr>, w) of
               (Ret _, (t, w')) \<Rightarrow> (Ret t, w')
             | (Panic msg, (_, w')) \<Rightarrow> (Panic msg, w')
             | (Hang, (_, w')) \<Rightarrow> (Hang, w')) (\<lambda>tsd.
      bindg (putg (dm_SetHooks dm)) (\<lambda>_. ret tsd)))))))"

section \<open>Start, Stop and the metrics\<close>

definition Start_daemon :: "('c, 'x) daemon_ops \<Rightarrow> (('c, 'x) td_world, error option) go" where
  "Start_daemon dm =
     bindg (set_td (\<lambda>t. t\<lparr>td_metricsTimer := True\<rparr>)) (\<lambda>_.
     bindg (on_snd (callg (dm_StartTimer dm 1000))) (\<lambda>_.
     bindg (on_snd (callg (dm_Start dm))) (\<lambda>e.
     case e of
       Some err \<Rightarrow> ret (Some err)
     | None \<Rightarrow> bindg (on_snd (putg (dm_Logout dm))) (\<lambda>_. ret None))))"

definition Stop_daemon :: "('c, 'x) daemon_ops \<Rightarrow> (('c, 'x) td_world, unit) go" where
  "Stop_daemon dm =
     bindg (getg (\<lambda>s. td_metricsTimer (fst s))) (\<lambda>timer.
     bindg (if timer then on_snd (putg (dm_StopTimer dm)) else ret ()) (\<lambda>_.
     on_snd (putg (dm_Stop dm))))"

text \<open>The sums over the peers are 64-bit sums; the result is when to run again.\<close>

definition recordNetworkMetrics ::
  "('c, 'x) daemon_ops \<Rightarrow> (('c, 'x) td_world, int \<times> error option) go" where
  "recordNetworkMetrics dm =
     bindg (on_snd (callg (dm_WireguardDevice dm))) (\<lambda>device.
     bindg (case device of
              Inl err \<Rightarrow> if err = dm_ErrNoDevice dm then ret ()
                else set_td (\<lambda>t. t\<lparr>td_metricsError := Some err\<rparr>)
            | Inr peers \<Rightarrow>
                (let recd = foldl (\<lambda>a p. a + fst p) 0 peers;
                     sent = foldl (\<lambda>a p. a + snd p) 0 peers in
                 bindg (set_td (\<lambda>t. t\<lparr>td_metricsError := None\<rparr>)) (\<lambda>_.
                 bindg (if 0 < sint recd then set_td (\<lambda>t. t\<lparr>td_recd := dm_SetCounter dm recd (td_recd t)\<rparr>)
                        else ret ()) (\<lambda>_.
                 if 0 < sint sent then set_td (\<lambda>t. t\<lparr>td_sent := dm_SetCounter dm sent (td_sent t)\<rparr>)
                 else ret ())))) (\<lambda>_.
     ret (500, None)))"

definition BytesTransmitted ::
  "('c, 'x) daemon_ops \<Rightarrow> 'c TailscaleDaemon \<Rightarrow> int64 \<times> int64 \<times> error option" where
  "BytesTransmitted dm t =
     (dm_GetCounter dm (td_recd t), dm_GetCounter dm (td_sent t), td_metricsError t)"

section \<open>Hooks\<close>

text \<open>
  \<open>Write\<close> of the log: the text it logs and the result. The index of the last byte of an empty slice
  is -1.
\<close>

definition Write_daemon :: "string \<Rightarrow> ('w, string \<times> nat \<times> error option) go" where
  "Write_daemon p =
     (if p = [] then panic ''runtime error: index out of range [-1]''
      else let lastChar = length p - 1 in
        if p ! lastChar = CHR 0x0A then ret (take lastChar p, lastChar, None)
        else ret (p, length p, None))"

record 'p tls_config =
  tc_RootCAs :: "'p option"
  tc_InsecureSkipVerify :: bool
  tc_VerifyConnection :: bool

text \<open>The certificate pools \<open>'p\<close> of the standard library.\<close>

record ('p, 'x) cert_ops =
  co_SystemCertPool :: "'x world \<Rightarrow> (error + 'p) \<times> 'x world"
  co_NewCertPool :: 'p
  co_AppendCertsFromPEM :: "'p \<Rightarrow> string \<Rightarrow> 'p"

definition ConfigureTLS ::
  "('h, 'x) node_ops \<Rightarrow> ('p, 'x) cert_ops \<Rightarrow> 'h SpaceNodes \<Rightarrow> string \<Rightarrow> 'p tls_config \<Rightarrow>
     ('x world, error option \<times> 'p tls_config) go" where
  "ConfigureTLS no co sn host tc =
     (if Contains host ''tailscale'' then ret (None, tc)
      else case LookupSpaceByEndpoint sn host of
        Some space \<Rightarrow>
          (let localCARoot = no_GetApiCARoot no space in
           if 0 < length localCARoot then
             bindg (callg (co_SystemCertPool co)) (\<lambda>r.
             let certPool = (case r of Inl _ \<Rightarrow> co_NewCertPool co | Inr p \<Rightarrow> p) in
             ret (None, tc\<lparr>tc_RootCAs := Some (co_AppendCertsFromPEM co certPool localCARoot),
                          tc_InsecureSkipVerify := False, tc_VerifyConnection := False\<rparr>))
           else ret (None, tc\<lparr>tc_InsecureSkipVerify := True, tc_VerifyConnection := False\<rparr>))
      | None \<Rightarrow> ret (Some ''unable to match mycs node to host name of know space nodes'', tc))"

definition IgnoreSetsockoptInt :: bool where
  "IgnoreSetsockoptInt = True"

end
