(* ===== verification/Daemon_Props.thy ===== *)
theory Daemon_Props
  imports Tailscale_Daemon Space_Nodes_Props Node_Props
begin

text \<open>
  What the mesh daemon guarantees: which node's certificates it trusts, what it caches of a name
  and of the endpoints of the nodes, and when its counters are exact.
\<close>

section \<open>Certificates\<close>

lemma ConfigureTLS_known:
  assumes "LookupSpaceByEndpoint sn h = Some node"
    and "ConfigureTLS no co sn h tc w = (Ret (err, tc'), w')"
  shows "err = None \<and>
    (if Contains h ''tailscale'' then tc' = tc
     else \<not> tc_VerifyConnection tc' \<and>
       (tc_InsecureSkipVerify tc' \<longleftrightarrow> no_GetApiCARoot no node = []) \<and>
       (no_GetApiCARoot no node \<noteq> [] \<longrightarrow>
          (\<exists>pool. tc_RootCAs tc' = Some (co_AppendCertsFromPEM co pool (no_GetApiCARoot no node)))))"
  using assms by (auto simp: ConfigureTLS_def go_monad Let_def split: if_splits)

text \<open>
  Property C16. From the listing of the cloud service to a TLS connection: once \<open>GetSpaceNodes\<close> has
  merged the targets and the listed spaces, a connection to the host name of the endpoint
  \<open>https://name:port\<close> of a target without error or of a registered listed space, which no node
  registered later shares, is set up for that node. With a CA root of the node, that root is added
  to the pool of the connection, which verifies the peer; without one the peer is not verified. A
  name with \<open>tailscale\<close> in it is the exception: its connections are left alone, node or not.
\<close>
theorem node_connection_trusted:
  assumes "fst (listing tr GetToken conv svc apiUrl w0) = Ret (Inr ss)"
    and "GetSpaceNodes tr GetToken conv svc no to GetTargets apiUrl w0 = (Ret (Inr sn), w)"
    and "endpoint_nodes no to (GetTargets w0) ss = earlier @ node # later"
    and "is_name h" and "is_port p" and "no_GetEndpoint no node = Inr (''https://'' @ h @ CHR '':'' # p)"
    and "\<forall>n \<in> set later. \<not> reaches no h n"
    and "ConfigureTLS no co sn h tc w' = (Ret (err, tc'), w'')"
  shows "err = None \<and>
    (if Contains h ''tailscale'' then tc' = tc
     else \<not> tc_VerifyConnection tc' \<and>
       (tc_InsecureSkipVerify tc' \<longleftrightarrow> no_GetApiCARoot no node = []) \<and>
       (no_GetApiCARoot no node \<noteq> [] \<longrightarrow>
          (\<exists>pool. tc_RootCAs tc' = Some (co_AppendCertsFromPEM co pool (no_GetApiCARoot no node)))))"
proof -
  have "sn = merged no to (GetTargets w0) ss"
    using GetSpaceNodes_apply [of tr GetToken conv svc no to GetTargets apiUrl w0] assms(1,2) by simp
  then have "LookupSpaceByEndpoint sn h = Some node"
    using hosts.lookup_latest [OF reaches_host [OF assms(4-6)] assms(7)]
    by (simp add: merged_registry assms(3))
  from ConfigureTLS_known [OF this assms(8)] show ?thesis .
qed

section \<open>The DNS cache\<close>

lemma host_prefixes_all: "host_prefixes as = Inr (map (\<lambda>a. \<lparr>px_addr = a, px_bits = 32\<rparr>) as)"
  by (induction as) (auto simp: prefix_of_def split: ip.split)

lemma set_td_bind [go_monad]: "bindg (set_td u) f (t, w) = f () (u t, w)"
  by (simp add: set_td_def go_monad)

lemma set_td_apply [go_monad]: "set_td u (t, w) = (Ret (), (u t, w))"
  by (simp add: set_td_def go_monad)

lemma cacheDNSName_apply:
  "cacheDNSName dm name (t, w) = (case dm_LookupIP dm name w of
     (Inl err, w') \<Rightarrow> (Ret (Inl err), (t, w'))
   | (Inr as, w') \<Rightarrow> (Ret (Inr (map (dm_ip_String dm) as)),
       (t\<lparr>td_cachedDNSMappings := td_cachedDNSMappings t @
           [(name, map (\<lambda>a. \<lparr>px_addr = a, px_bits = 32\<rparr>) as)]\<rparr>, w')))"
  by (auto simp: cacheDNSName_def go_monad host_prefixes_all split: prod.split sum.split)

text \<open>
  Property C38. A name that is cached is mapped to one prefix for each of its addresses. The prefix
  of an IPv4 address contains that address alone; the prefix of an IPv6 address contains all the
  addresses with the same first 32 bits, and so always another one.
\<close>
theorem cached_prefixes:
  assumes "cacheDNSName dm name (t, w) = (Ret (Inr ips), (t', w'))"
  shows "\<exists>as. dm_LookupIP dm name w = (Inr as, w') \<and> ips = map (dm_ip_String dm) as \<and>
    td_cachedDNSMappings t' = td_cachedDNSMappings t @ [(name, map (\<lambda>a. \<lparr>px_addr = a, px_bits = 32\<rparr>) as)] \<and>
    list_all (\<lambda>a. case a of
        V4 x \<Rightarrow> (\<forall>b. prefix_contains \<lparr>px_addr = a, px_bits = 32\<rparr> b \<longleftrightarrow> b = a)
      | V6 x \<Rightarrow> (\<exists>b. b \<noteq> a \<and> prefix_contains \<lparr>px_addr = a, px_bits = 32\<rparr> b)) as"
proof -
  obtain as where "dm_LookupIP dm name w = (Inr as, w')" and "ips = map (dm_ip_String dm) as"
    and "td_cachedDNSMappings t' = td_cachedDNSMappings t @
      [(name, map (\<lambda>a. \<lparr>px_addr = a, px_bits = 32\<rparr>) as)]"
    using assms by (auto simp: cacheDNSName_apply split: prod.splits sum.splits)
  moreover have "case a of
      V4 x \<Rightarrow> (\<forall>b. prefix_contains \<lparr>px_addr = a, px_bits = 32\<rparr> b \<longleftrightarrow> b = a)
    | V6 x \<Rightarrow> (\<exists>b. b \<noteq> a \<and> prefix_contains \<lparr>px_addr = a, px_bits = 32\<rparr> b)" for a
  proof (cases a)
    case (V4 x)
    have "prefix_contains \<lparr>px_addr = a, px_bits = 32\<rparr> b \<longleftrightarrow> b = a" for b
      by (cases b) (auto simp: V4)
    then show ?thesis by (simp add: V4)
  next
    case (V6 x)
    have "drop_bit 96 (flip_bit 0 x) = drop_bit 96 x"
      by (rule bit_eqI) (auto simp: bit_simps dest: bit_imp_le_length)
    moreover have "bit (flip_bit 0 x) 0 \<noteq> bit x 0"
      by (simp add: bit_simps)
    ultimately have "V6 (flip_bit 0 x) \<noteq> a \<and> prefix_contains \<lparr>px_addr = a, px_bits = 32\<rparr> (V6 (flip_bit 0 x))"
      by (auto simp: V6)
    then show ?thesis unfolding V6 ip.case by (rule exI)
  qed
  ultimately show ?thesis by (intro exI [of _ as]) (simp add: list_all_iff)
qed

text \<open>
  The host of the endpoint of a node, port and all, is a name without a colon that is no IP address:
  what the daemon can cache of it. And an endpoint with a name and a port, as the cloud service and
  the targets give them.
\<close>

definition names_host :: "('h, 'x) node_ops \<Rightarrow> 'h SpaceNode \<Rightarrow> string \<Rightarrow> bool" where
  "names_host no node name = (case no_GetEndpoint no node of
     Inl _ \<Rightarrow> False
   | Inr endpoint \<Rightarrow> url_Host endpoint = Some name \<and> \<not> is_ParseIP name \<and> CHR '':'' \<notin> set name)"

definition has_port :: "('h, 'x) node_ops \<Rightarrow> 'h SpaceNode \<Rightarrow> bool" where
  "has_port no node = (\<exists>h p. is_name h \<and> is_port p \<and> no_GetEndpoint no node = Inr (''https://'' @ h @ CHR '':'' # p))"

lemma has_port_names_none: "has_port no node \<Longrightarrow> \<not> names_host no node name"
  using url_Host_name_port unfolding has_port_def names_host_def by fastforce

definition no_such_host :: "('c, 'x) daemon_ops \<Rightarrow> bool" where
  "no_such_host dm = (\<forall>name w. CHR '':'' \<in> set name \<and> \<not> is_ParseIP name \<longrightarrow>
     (\<exists>e. fst (dm_LookupIP dm name w) = Inl e))"

text \<open>One turn of the loop caches a name of its node or nothing.\<close>

lemma cacheDNSName_names:
  "\<exists>r t' w'. cacheDNSName dm name (t, w) = (Ret r, (t', w')) \<and>
     (td_cachedDNSMappings t' = td_cachedDNSMappings t \<or>
      (\<exists>ps. td_cachedDNSMappings t' = td_cachedDNSMappings t @ [(name, ps)] \<and>
         (\<exists>as. fst (dm_LookupIP dm name w) = Inr as)))"
  by (cases "dm_LookupIP dm name w"; cases "fst (dm_LookupIP dm name w)") (auto simp: cacheDNSName_apply)

lemma cache_endpoints_names:
  assumes "no_such_host dm"
    and "cache_endpoints dm no nodes (t, w) = (r, (t', w'))"
    and "(name, ps) \<in> set (td_cachedDNSMappings t')"
  shows "(name, ps) \<in> set (td_cachedDNSMappings t) \<or> (\<exists>node \<in> set nodes. names_host no node name)"
  using assms(2,3)
proof (induction nodes arbitrary: t w)
  case Nil
  then show ?case by (simp add: ret_apply)
next
  case (Cons node nodes)
  let ?turn = "case no_GetEndpoint no node of
      Inl _ \<Rightarrow> ret ()
    | Inr spaceEndpoint \<Rightarrow> (case url_Host spaceEndpoint of
        None \<Rightarrow> ret ()
      | Some host \<Rightarrow> if \<not> is_ParseIP host then bindg (cacheDNSName dm host) (\<lambda>_. ret ()) else ret ())"
  obtain t1 w1 where turn: "?turn (t, w) = (Ret (), (t1, w1))"
    and new: "td_cachedDNSMappings t1 = td_cachedDNSMappings t \<or>
      (\<exists>host qs. td_cachedDNSMappings t1 = td_cachedDNSMappings t @ [(host, qs)] \<and> names_host no node host)"
  proof (cases "\<exists>e host. no_GetEndpoint no node = Inr e \<and> url_Host e = Some host \<and> \<not> is_ParseIP host")
    case False
    then have "?turn (t, w) = (Ret (), (t, w))"
      by (auto simp: ret_apply split: sum.split option.split)
    then show thesis using that by blast
  next
    case True
    then obtain e host where e: "no_GetEndpoint no node = Inr e" "url_Host e = Some host" "\<not> is_ParseIP host" by blast
    obtain r1 t1 w1 where run: "cacheDNSName dm host (t, w) = (Ret r1, (t1, w1))"
      and got: "td_cachedDNSMappings t1 = td_cachedDNSMappings t \<or>
        (\<exists>qs. td_cachedDNSMappings t1 = td_cachedDNSMappings t @ [(host, qs)] \<and>
           (\<exists>as. fst (dm_LookupIP dm host w) = Inr as))"
      using cacheDNSName_names by blast
    have "names_host no node host" if "fst (dm_LookupIP dm host w) = Inr as" for as
    proof -
      have "CHR '':'' \<notin> set host"
      proof
        assume "CHR '':'' \<in> set host"
        then obtain er where "fst (dm_LookupIP dm host w) = Inl er"
          using assms(1) e(3) unfolding no_such_host_def by blast
        with that show False by simp
      qed
      then show ?thesis by (simp add: names_host_def e)
    qed
    then have "td_cachedDNSMappings t1 = td_cachedDNSMappings t \<or>
        (\<exists>host qs. td_cachedDNSMappings t1 = td_cachedDNSMappings t @ [(host, qs)] \<and> names_host no node host)"
      using got by blast
    moreover have "?turn (t, w) = (Ret (), (t1, w1))"
      by (simp add: e bindg_step [where m = "cacheDNSName dm host", OF run] ret_apply)
    ultimately show thesis using that by blast
  qed
  have "cache_endpoints dm no nodes (t1, w1) = (r, (t', w'))"
    using Cons.prems(1) by (simp add: bindg_step [where m = ?turn, OF turn])
  from Cons.IH [OF this Cons.prems(2)] show ?case using new by auto
qed


section \<open>Metrics\<close>

text \<open>The sum of the peers as unbounded integers.\<close>

definition total :: "('a \<Rightarrow> int64) \<Rightarrow> 'a list \<Rightarrow> int" where
  "total g ps = sum_list (map (\<lambda>p. sint (g p)) ps)"

lemma foldl_total: "foldl (\<lambda>a p. a + g p) b ps = b + word_of_int (total g ps)"
  by (induction ps arbitrary: b) (simp_all add: total_def algebra_simps)

text \<open>
  The value of a total in a signed 64-bit integer, and what becomes of a counter: it is set to that
  value if it is positive.
\<close>

definition wrapped :: "int \<Rightarrow> int" where
  "wrapped n = (n + 2 ^ 63) mod 2 ^ 64 - 2 ^ 63"

definition recorded :: "('c, 'x) daemon_ops \<Rightarrow> int \<Rightarrow> 'c \<Rightarrow> 'c \<Rightarrow> bool" where
  "recorded dm n c c' = (if 0 < wrapped n then (\<exists>v. sint v = wrapped n \<and> c' = dm_SetCounter dm v c)
     else c' = c)"

lemma sint_wrapped: "sint (word_of_int n :: int64) = wrapped n"
  by (simp add: wrapped_def sint_sbintrunc' signed_take_bit_eq_take_bit_shift take_bit_eq_mod)

lemma wrapped_exact: "- (2 ^ 63) \<le> n \<Longrightarrow> n < 2 ^ 63 \<Longrightarrow> wrapped n = n"
  by (simp add: wrapped_def mod_pos_pos_trivial)

lemma recorded_sum:
  "recorded dm (total g ps) c (if 0 < sint (foldl (\<lambda>a p. a + g p) 0 ps)
    then dm_SetCounter dm (foldl (\<lambda>a p. a + g p) 0 ps) c else c)"
  using sint_wrapped [of "total g ps"] by (auto simp: recorded_def foldl_total)

text \<open>
  Property C36. Recording the metrics never fails and asks to be run again after half a second. When
  the device lists its peers, it clears the error of an earlier run, and sets each counter to the
  total of its peers when this total, reduced to a signed 64-bit integer, is positive, and leaves
  the counter as it is otherwise. So totals of at least 1 and less than 2^63 are recorded exactly, a total
  of zero is not recorded, and larger ones wrap around. Without a device nothing changes, and after any other
  error only the error is kept.
\<close>
theorem metrics_exact_bounds:
  "case dm_WireguardDevice dm w of (device, w') \<Rightarrow>
     \<exists>t'. recordNetworkMetrics dm (t, w) = (Ret (500, None), (t', w')) \<and>
       (case device of
          Inl err \<Rightarrow> t' = (if err = dm_ErrNoDevice dm then t else t\<lparr>td_metricsError := Some err\<rparr>)
        | Inr peers \<Rightarrow> \<exists>recd sent. t' = t\<lparr>td_metricsError := None, td_recd := recd, td_sent := sent\<rparr> \<and>
            recorded dm (total fst peers) (td_recd t) recd \<and> recorded dm (total snd peers) (td_sent t) sent \<and>
            (\<forall>n. - (2 ^ 63) \<le> n \<and> n < 2 ^ 63 \<longrightarrow> wrapped n = n))"
proof (cases "dm_WireguardDevice dm w")
  case (Pair device w')
  show ?thesis
  proof (cases device)
    case (Inl err)
    then show ?thesis by (simp add: Pair recordNetworkMetrics_def go_monad)
  next
    case (Inr peers)
    show ?thesis
      using recorded_sum [of dm fst peers "td_recd t"] recorded_sum [of dm snd peers "td_sent t"] wrapped_exact
      by (cases t) (simp add: Pair Inr recordNetworkMetrics_def go_monad Let_def split: if_splits)
  qed
qed

section \<open>Witnesses\<close>

text \<open>A daemon whose counters are numbers, in a network where only names without a port are found.\<close>

definition test_daemon_ops :: "(int64, 'x) daemon_ops" where
  "test_daemon_ops = \<lparr>dm_DefaultTailscaledSocket = [], dm_Remove = (\<lambda>_ w. w), dm_NewTailscaleDaemon = (\<lambda>_ w. w),
     dm_AddCounters = (\<lambda>w. w), dm_SetHooks = (\<lambda>w. w), dm_StartTimer = (\<lambda>_ w. (None, w)), dm_StopTimer = (\<lambda>w. w),
     dm_Start = (\<lambda>w. (None, w)), dm_Stop = (\<lambda>w. w), dm_Logout = (\<lambda>w. w),
     dm_WireguardDevice = (\<lambda>w. (Inr [(1, 10), (2, 20)], w)), dm_ErrNoDevice = ''no device'',
     dm_NewCounter = (\<lambda>_. 0), dm_SetCounter = (\<lambda>v _. v), dm_GetCounter = (\<lambda>v. v),
     dm_LookupIP = (\<lambda>name w. (if CHR '':'' \<in> set name then Inl ''no such host'' else Inr [V4 1, V6 1], w)),
     dm_ip_String = (\<lambda>_. [])\<rparr>"

definition test_daemon :: "int64 TailscaleDaemon" where
  "test_daemon = \<lparr>td_sent = 0, td_recd = 0, td_metricsTimer = False, td_metricsError = None,
     td_cachedDNSMappings = [], td_tsRoutesToExclude = []\<rparr>"

definition mesh_node :: "unit SpaceNode" where
  "mesh_node = SharedSpace (test_Space ''s1'' ''one'')"

definition mesh_node_ops :: "(unit, unit) node_ops" where
  "mesh_node_ops = test_node_ops\<lparr>no_GetEndpoint := (\<lambda>_. Inr ''https://one.mycs.org:443''),
     no_GetApiCARoot := (\<lambda>_. ''root'')\<rparr>"

definition mesh_registry :: "unit SpaceNodes" where
  "mesh_registry = empty_SpaceNodes\<lparr>sn_spaceNodes := [(''space/s1'', mesh_node)]\<rparr>"

lemma mesh_registry_nodes: "GetAllSpaces id id mesh_registry = [mesh_node]"
  by (simp add: GetAllSpaces_def mesh_registry_def)

lemma mesh_name: "is_name ''one.mycs.org''" "is_port ''443''"
  by (simp_all add: is_name_def is_port_def is_lower_upper_def is_digit_char_def)

abbreviation mesh_listed :: "unit world \<Rightarrow> (error + unit SpaceNodes) outcome \<times> unit world" where
  "mesh_listed \<equiv> GetSpaceNodes test_transport test_token (\<lambda>_. 0) (test_spaces [s1_user])
     mesh_node_ops test_target_ops (\<lambda>_. []) []"

definition test_certs :: "(string list, unit) cert_ops" where
  "test_certs = \<lparr>co_SystemCertPool = (\<lambda>w. (Inl ''none'', w)), co_NewCertPool = [],
     co_AppendCertsFromPEM = (\<lambda>p c. p @ [c])\<rparr>"

abbreviation mesh_connection where
  "mesh_connection sn \<equiv> ConfigureTLS mesh_node_ops test_certs sn ''one.mycs.org''
     \<lparr>tc_RootCAs = None, tc_InsecureSkipVerify = True, tc_VerifyConnection = True\<rparr> (quiet_world ())"

theorem node_connection_trusted_witness:
  "\<exists>sn tc'. fst (mesh_listed (quiet_world ())) = Ret (Inr sn) \<and>
     fst (mesh_connection sn) = Ret (None, tc') \<and> \<not> tc_InsecureSkipVerify tc'"
proof -
  let ?node = "SharedSpace (space_of (\<lambda>_. 0) s1_user) :: unit SpaceNode"
  have listed: "fst (listing test_transport test_token (\<lambda>_. 0) (test_spaces [s1_user]) [] (quiet_world ())) =
      Ret (Inr [space_of (\<lambda>_. 0) s1_user])"
    by (simp add: test_listing test_space_user_def)
  have "case fst (mesh_listed (quiet_world ())) of
      Ret r \<Rightarrow> (case r of Inr sn \<Rightarrow> (case fst (mesh_connection sn) of Ret _ \<Rightarrow> True | _ \<Rightarrow> False) | Inl _ \<Rightarrow> False)
    | _ \<Rightarrow> False" by code_simp
  then obtain sn w where sn: "mesh_listed (quiet_world ()) = (Ret (Inr sn), w)"
    and ok: "case fst (mesh_connection sn) of Ret _ \<Rightarrow> True | _ \<Rightarrow> False"
    by (cases "mesh_listed (quiet_world ())") (simp split: outcome.splits sum.splits)
  from returned [OF ok] obtain r tc' w' where run: "mesh_connection sn = (Ret (r, tc'), w')" by auto
  have nodes: "endpoint_nodes mesh_node_ops test_target_ops [] [space_of (\<lambda>_. 0) s1_user] = [] @ ?node # []"
    by (simp add: endpoint_nodes_def)
  have ends: "no_GetEndpoint mesh_node_ops ?node = Inr (''https://'' @ ''one.mycs.org'' @ CHR '':'' # ''443'')"
    by (simp add: mesh_node_ops_def)
  have "\<not> Contains ''one.mycs.org'' ''tailscale''" by code_simp
  then show ?thesis
    using node_connection_trusted [OF listed sn nodes mesh_name ends _ run] sn run
    by (auto simp: mesh_node_ops_def)
qed

theorem cached_prefixes_witness:
  "\<exists>t' ps. fst (snd (cacheDNSName test_daemon_ops ''one.mycs.org'' (test_daemon, quiet_world ()))) = t' \<and>
     td_cachedDNSMappings t' = [(''one.mycs.org'', ps)] \<and> length ps = 2"
proof -
  obtain ips t' w' where run: "cacheDNSName test_daemon_ops ''one.mycs.org'' (test_daemon, quiet_world ()) =
      (Ret (Inr ips), (t', w'))"
    by (auto simp: cacheDNSName_apply test_daemon_ops_def)
  obtain as where "dm_LookupIP test_daemon_ops ''one.mycs.org'' (quiet_world ()) = (Inr as, w')"
    and "td_cachedDNSMappings t' = td_cachedDNSMappings test_daemon @
      [(''one.mycs.org'', map (\<lambda>a. \<lparr>px_addr = a, px_bits = 32\<rparr>) as)]"
    using cached_prefixes [OF run] by blast
  then show ?thesis using run by (simp add: test_daemon_ops_def test_daemon_def) auto
qed


theorem metrics_exact_bounds_witness:
  "\<exists>t'. recordNetworkMetrics test_daemon_ops (test_daemon, quiet_world ()) = (Ret (500, None), (t', quiet_world ())) \<and>
     recorded (test_daemon_ops :: (int64, unit) daemon_ops) 3 0 (td_recd t') \<and>
     recorded (test_daemon_ops :: (int64, unit) daemon_ops) 30 0 (td_sent t')"
proof -
  let ?w = "quiet_world ()"
  have peers: "dm_WireguardDevice test_daemon_ops ?w = (Inr [(1, 10), (2, 20)], ?w)"
    by (simp add: test_daemon_ops_def)
  have totals: "total fst [(1 :: int64, 10 :: int64), (2, 20)] = 3" "total snd [(1 :: int64, 10 :: int64), (2, 20)] = 30"
    by (simp_all add: total_def)
  obtain t' recd sent where run: "recordNetworkMetrics test_daemon_ops (test_daemon, ?w) = (Ret (500, None), (t', ?w))"
    and t': "t' = test_daemon\<lparr>td_metricsError := None, td_recd := recd, td_sent := sent\<rparr>"
      "recorded (test_daemon_ops :: (int64, unit) daemon_ops) 3 (td_recd test_daemon) recd"
      "recorded (test_daemon_ops :: (int64, unit) daemon_ops) 30 (td_sent test_daemon) sent"
    using metrics_exact_bounds [where dm = test_daemon_ops and w = ?w and t = test_daemon] unfolding peers prod.case sum.case totals by blast
  have "recorded (test_daemon_ops :: (int64, unit) daemon_ops) 3 0 (td_recd t') \<and>
      recorded (test_daemon_ops :: (int64, unit) daemon_ops) 30 0 (td_sent t')"
    using t'(2,3) unfolding t'(1) by (simp add: test_daemon_def)
  with run show ?thesis by blast
qed

end
