(* ===== verification/Spec2Isabelle.thy ===== *)
theory Spec2Isabelle
  imports Go_Strconv Go_Fmt Graphql Userspace Device_API Device_Props Go_Url Node_API Node_Props Space_API Space_Nodes Space_Nodes_Props Client_Pool Space_Nodes_Async Pool_Threads Tailscale_Client Tailscale_Props User_API Cloud_API Auth Authorize Auth_Props Device_Info Config_Init Config_Props Go_Net Tailscale_Daemon Daemon_Props
begin

text \<open>
  A verification development of the My Cloud Space client library: the Go packages under \<open>src/\<close> that
  log a user in, register a device, find the space nodes the user may use, and connect the device
  to the mesh network of a space.

  \<^bold>\<open>The program and how its parts interact.\<close> \<open>config/initializer.go\<close> sets a device up: it logs an owner
  in (\<open>auth/\<close>), loads the owner's key and registers the device (\<open>mycscloud/device.go\<close>,
  \<open>mycscloud/user.go\<close>, \<open>system/\<close>). \<open>auth/auth.go\<close> gets a token from the identity service, checks with
  the cloud service that the user may use the device, and keeps the owner's configuration up to
  date. \<open>mycscloud/space_nodes.go\<close> merges the targets deployed from this machine with the spaces the
  cloud service lists (\<open>mycscloud/space.go\<close>) and shares one API client for each node
  (\<open>mycsnode/\<close>). \<open>network/\<close> takes such a client to join the mesh network of the node, and tells the
  network daemon which certificates to trust. All calls to the cloud service are GraphQL requests
  of a client that carries the user's token (\<open>api/\<close>).

  \<^bold>\<open>How Go is written here.\<close> A function that touches state is \<open>'w \<Rightarrow> 'a outcome \<times> 'w\<close>; an outcome is a
  value, a panic, or \<open>Hang\<close>, a goroutine that waits for ever. A Go \<open>(T, error)\<close> is \<open>error + T\<close>, an
  \<open>error\<close> the text of its message. A pointer to a user or a device is an address in the world
  (\<open>Userspace\<close>), so that an update through one alias is seen through all; a pointer that may be nil
  is an option, and its use a panic where the source does not test it. Go's \<open>int\<close> and \<open>int64\<close> are
  64-bit words, \<open>uint64\<close> is too, and conversions to 32 bits drop bits. A Go map is an association
  list, and the order of a range over one is an argument. A goroutine whose result is received at
  once from a channel is the call itself; a channel without room is modelled where it matters, in
  \<open>ask_yesno\<close>; a goroutine that shares memory with others is a thread of a step relation. Code outside
  the repository (the GraphQL and REST libraries, the configuration store, the OAuth flow, the
  Tailscale commands, the network configuration) is an argument of the definitions that call it, a
  function on the world; what the source relies on is a named hypothesis (\<open>device_context_ok\<close>,
  \<open>matches_ok\<close>, \<open>map_order\<close>), met by the concrete arguments of the witnesses.

  \<^bold>\<open>Theories and what they model.\<close>
  \<^item> \<open>Go_Prelude\<close>, \<open>Go_Strconv\<close>, \<open>Go_Fmt\<close>, \<open>Go_Url\<close>, \<open>Go_Net\<close>: outcomes and the combinators with their
    rules (\<open>go_monad\<close> runs a call, \<open>go_returns\<close> opens an equation about a return into its steps,
    \<open>go_keeps\<close> proves that a call keeps an invariant), and the parts of Go's standard library that
    the source uses: \<open>strconv\<close>, \<open>fmt.Errorf\<close>, \<open>url.Parse\<close>, \<open>net.ParseIP\<close>, prefixes.
  \<^item> \<open>Graphql\<close> (\<open>api/api.go\<close>, \<open>api/graphql_client.go\<close>): the service configuration, the client with the
    token it was built with, and requests.
  \<^item> \<open>Userspace\<close> (\<open>ui/external.go\<close> and the structures of \<open>cloud-builder\<close> the client shares): the world,
    the events and answers of the user interface, the interface of a device context and an
    in-memory one.
  \<^item> \<open>Device_API\<close>, \<open>User_API\<close>, \<open>Space_API\<close>, \<open>Cloud_API\<close> (\<open>mycscloud/device.go\<close>, \<open>user.go\<close>, \<open>space.go\<close>,
    \<open>app.go\<close>, \<open>cloud.go\<close>, \<open>events.go\<close>): one definition for each request and for each operation.
    \<open>Device_Props\<close> says when \<open>UpdateDeviceContext\<close> admits a user, what becomes of guests and of the
    structures of devices, and what a wrong owner leaves behind.
  \<^item> \<open>Node_API\<close>, \<open>Node_Props\<close> (\<open>mycsnode/\<close>): the requests to a space node and their error texts.
  \<^item> \<open>Space_Nodes\<close>, \<open>Space_Nodes_Props\<close>, \<open>Client_Pool\<close> (\<open>mycscloud/space_nodes.go\<close>): the registry, what it
    holds after a merge in terms of the targets and the listing, and the pool of API clients, which
    refines a counter of holders for each key, also over any sequence of takes and releases.
  \<^item> \<open>Space_Nodes_Async\<close>, \<open>Pool_Threads\<close> (the same file as it runs): the goroutine that lists the spaces
    beside the caller that merges the targets, with the wait group between them, and goroutines that
    use the pool at once, with the mutex. Both are step relations over explicit program points; all
    their runs end, and end in what the sequential definitions give; and a client of the pool is not
    stopped under a holder.
  \<^item> \<open>Tailscale_Client\<close>, \<open>Tailscale_Props\<close> (\<open>network/tailscale_client*.go\<close>): the client that joins the
    mesh, on both platform variants; the status it reports over every run (\<open>tsc_reach\<close>), the pings
    that wait for the exit node, the balance of its use of the pool, and what remains of it after
    \<open>Disconnect\<close> (\<open>tsc_later\<close>).
  \<^item> \<open>Tailscale_Daemon\<close>, \<open>Daemon_Props\<close> (\<open>network/tailscale_daemon*.go\<close>): the daemon's DNS cache, routes,
    metrics and TLS settings; whose certificates it trusts, what it caches, when its counters are
    exact.
  \<^item> \<open>Auth\<close>, \<open>Authorize\<close>, \<open>Auth_Props\<close> (\<open>auth/auth.go\<close>, \<open>auth/aws_cognito.go\<close>): the wait for the browser,
    tokens and their claims, login, logout and the authorization of a user on the device; when an
    authorization succeeds, hangs or panics, when the configuration is replaced, and what a failed
    logout leaves.
  \<^item> \<open>Device_Info\<close> (\<open>system/\<close>): the device type, its cache and its search on each platform.
  \<^item> \<open>Config_Init\<close>, \<open>Config_Props\<close> (\<open>config/initializer.go\<close>): the initializer as a state with its three
    operations; who may replace the owner, what a replacement that is saved has done, what \<open>Save\<close>
    does after a failed one, and the range of the lock timeout.

  \<^bold>\<open>Interfaces.\<close> The locale \<open>timestamp_codec\<close> is what a client of the timestamp texts may rely on, \<open>ref_pool\<close>
  what a user of the client pool may, \<open>host_registry\<close> what the daemon may of the registry; each is
  interpreted on the definitions of the model (\<open>decimal\<close>, \<open>pool\<close>, \<open>hosts\<close>), and the properties use
  its facts.

  \<^bold>\<open>Bounds and loops.\<close> There is no fuel. The loop that waits for the browser may run for ever and is a
  partial function, whose result is \<open>None\<close> then; the loop of pings counts down its retries,
  thirty in the code. The reference count of the pool, the sums of the metrics and the lock timeout
  are 64-bit words, and their theorems say below which number they are exact.

  \<^bold>\<open>Not modelled.\<close> Log messages. \<open>auth/assets.go\<close>, the constant texts of the login page. The constructors that
  only store their argument. The interleaving of goroutines beyond that of the registry: in the pool
  each access to the map and each call of a client is one step, and the world changes only by them;
  the operations of the initializer and the daemon are taken one at a time. What a deferred handler
  shows while a panic ends the process. \<open>test/mocks/config.go\<close>.
\<close>

end
